(* ===== verification/Prelude.thy ===== *)
theory Prelude
  imports Main "HOL-Library.Word" "HOL-Library.Multiset"
begin

text \<open>
  What every component shares: the machine integers of the Rust code, results with early exit,
  and the generic facts about lists, sums and words that the component proofs use.

  \<^item> An unsigned integer of width \<open>w\<close> is a \<open>w word\<close>. A signed integer (\<open>i64\<close>, \<open>i32\<close>,
    \<open>i16\<close>) is the \<open>int\<close> it denotes; the wrap-around of its operations is written out with
    \<open>wrap_i64\<close>. The images are built with cargo's release profile
    (\<^verbatim>\<open>docker/*/Dockerfile\<close>), where integer overflow wraps and does not panic.
  \<^item> \<open>as_i64\<close> is \<open>v as i64\<close> on a \<open>u64\<close>, \<open>as_u64\<close> is \<open>v as u64\<close> on an \<open>i64\<close>.
  \<^item> A \<open>Result<T, E>\<close> is a sum \<open>'e + 't\<close>, \<open>Inl\<close> the error. \<open>bind_result\<close> is the \<open>?\<close>
    operator, \<open>collect_result\<close> a loop that pushes one value per element and leaves at the
    first error.
\<close>

named_theorems rust_int_simps \<open>equations of the machine integer operations\<close>
named_theorems result_simps \<open>equations of results with early exit\<close>

section \<open>Machine integers\<close>

type_synonym u8 = "8 word"
type_synonym u16 = "16 word"
type_synonym u64 = "64 word"
type_synonym u128 = "128 word"
type_synonym i64 = int
type_synonym i32 = int
type_synonym i16 = int

definition i64_min :: int where "i64_min = - (2 ^ 63)"
definition i64_max :: int where "i64_max = 2 ^ 63 - 1"

definition in_i64 :: "int \<Rightarrow> bool" where
  "in_i64 x \<longleftrightarrow> i64_min \<le> x \<and> x \<le> i64_max"

definition wrap_i64 :: "int \<Rightarrow> i64" where
  "wrap_i64 x = (x + 2 ^ 63) mod 2 ^ 64 - 2 ^ 63"

definition i64_add :: "i64 \<Rightarrow> i64 \<Rightarrow> i64" where "i64_add x y = wrap_i64 (x + y)"
definition i64_sub :: "i64 \<Rightarrow> i64 \<Rightarrow> i64" where "i64_sub x y = wrap_i64 (x - y)"
definition i64_mul :: "i64 \<Rightarrow> i64 \<Rightarrow> i64" where "i64_mul x y = wrap_i64 (x * y)"

text \<open>Rust's \<open>/\<close> on signed integers rounds towards zero.\<close>

definition trunc_div :: "int \<Rightarrow> int \<Rightarrow> int" where
  "trunc_div a b = sgn a * sgn b * (\<bar>a\<bar> div \<bar>b\<bar>)"

definition as_i64 :: "u64 \<Rightarrow> i64" where "as_i64 w = sint w"
definition as_u64 :: "i64 \<Rightarrow> u64" where "as_u64 x = word_of_int x"

text \<open>\<open>v as i16\<close> on a \<open>u8\<close> never changes the value; \<open>v as u8\<close> on an \<open>i16\<close> keeps the low byte.\<close>

definition u8_as_i16 :: "u8 \<Rightarrow> i16" where "u8_as_i16 w = uint w"
definition i16_as_u8 :: "i16 \<Rightarrow> u8" where "i16_as_u8 x = word_of_int x"

lemma wrap_i64_id: "in_i64 x \<Longrightarrow> wrap_i64 x = x"
  by (simp add: in_i64_def wrap_i64_def i64_min_def i64_max_def)

lemma in_i64_wrap [simp]: "in_i64 (wrap_i64 x)"
proof -
  have "0 \<le> (x + 2 ^ 63) mod 2 ^ 64" "(x + 2 ^ 63) mod 2 ^ 64 < (2::int) ^ 64" by simp_all
  then show ?thesis unfolding in_i64_def wrap_i64_def i64_min_def i64_max_def by simp
qed

lemma wrap_i64_wrap [simp]: "wrap_i64 (wrap_i64 x) = wrap_i64 x"
  by (rule wrap_i64_id) simp

lemma wrap_i64_add_left [simp]: "wrap_i64 (wrap_i64 x + y) = wrap_i64 (x + y)"
  by (simp add: wrap_i64_def mod_simps algebra_simps)

lemma wrap_i64_add_right [simp]: "wrap_i64 (x + wrap_i64 y) = wrap_i64 (x + y)"
  using wrap_i64_add_left [of y x] by (simp add: add.commute)

lemma sint_u64_range: "- (2 ^ 63) \<le> sint (w :: u64)" "sint (w :: u64) < 2 ^ 63"
  using sint_greater_eq [of w] sint_less [of w] by simp_all

lemma in_i64_as_i64 [simp]: "in_i64 (as_i64 w)"
  using sint_u64_range [of w] by (simp add: in_i64_def as_i64_def i64_min_def i64_max_def)

lemma as_u64_as_i64 [simp]: "as_u64 (as_i64 w) = w"
  by (simp add: as_u64_def as_i64_def)

lemma as_i64_inj: "as_i64 v = as_i64 w \<longleftrightarrow> v = w"
  by (metis as_u64_as_i64)

lemma as_i64_wrap: "as_i64 w = wrap_i64 (uint w)"
  by (simp add: as_i64_def wrap_i64_def sint_uint signed_take_bit_eq_take_bit_shift
      take_bit_eq_mod)

lemma as_i64_uint: "uint w < 2 ^ 63 \<Longrightarrow> as_i64 w = uint w"
  by (simp add: as_i64_wrap wrap_i64_def mod_pos_pos_trivial)

lemma as_i64_high: "2 ^ 63 \<le> uint w \<Longrightarrow> as_i64 w = uint w - 2 ^ 64"
proof -
  assume h: "2 ^ 63 \<le> uint w"
  have b: "uint w < 2 ^ 64" using uint_lt2p [of w] by simp
  have "(uint w + 2 ^ 63) mod 2 ^ 64 = (uint w + 2 ^ 63 - 2 ^ 64) mod (2 ^ 64 :: int)"
    using h by (intro mod_pos_geq) simp_all
  also have "\<dots> = uint w + 2 ^ 63 - 2 ^ 64"
    using h b by (intro mod_pos_pos_trivial) simp_all
  finally show ?thesis by (simp add: as_i64_wrap wrap_i64_def)
qed

lemma as_i64_eq: "as_i64 w = (if uint w < 2 ^ 63 then uint w else uint w - 2 ^ 64)"
  using as_i64_uint [of w] as_i64_high [of w] by simp

lemma as_i64_neg: "as_i64 w < 0 \<longleftrightarrow> 2 ^ 63 \<le> uint w"
proof -
  have b: "uint w < 2 ^ 64" "0 \<le> uint w" using uint_lt2p [of w] by simp_all
  then show ?thesis by (simp add: as_i64_eq)
qed

lemma as_i64_as_u64: "in_i64 x \<Longrightarrow> as_i64 (as_u64 x) = x"
  by (simp add: as_i64_wrap as_u64_def uint_word_of_int wrap_i64_def mod_simps in_i64_def
      i64_min_def i64_max_def)

lemma trunc_div_nonneg: "0 \<le> a \<Longrightarrow> 0 < b \<Longrightarrow> trunc_div a b = a div b"
  by (cases "a = 0") (simp_all add: trunc_div_def)

section \<open>Results\<close>

fun bind_result :: "'e + 'a \<Rightarrow> ('a \<Rightarrow> 'e + 'b) \<Rightarrow> 'e + 'b" where
  "bind_result (Inl e) f = Inl e"
| "bind_result (Inr x) f = f x"

fun map_result :: "('a \<Rightarrow> 'b) \<Rightarrow> 'e + 'a \<Rightarrow> 'e + 'b" where
  "map_result f (Inl e) = Inl e"
| "map_result f (Inr x) = Inr (f x)"

fun collect_result :: "('a \<Rightarrow> 'e + 'b list) \<Rightarrow> 'a list \<Rightarrow> 'e + 'b list" where
  "collect_result f [] = Inr []"
| "collect_result f (x # xs) =
     bind_result (f x) (\<lambda>ys. bind_result (collect_result f xs) (\<lambda>zs. Inr (ys @ zs)))"

definition ok_or :: "'e \<Rightarrow> 'a option \<Rightarrow> 'e + 'a" where
  "ok_or e x = (case x of None \<Rightarrow> Inl e | Some v \<Rightarrow> Inr v)"

lemma bind_result_Inr [result_simps]:
  "bind_result r f = Inr y \<longleftrightarrow> (\<exists>x. r = Inr x \<and> f x = Inr y)"
  by (cases r) auto

lemma bind_result_Inl [result_simps]:
  "bind_result r f = Inl e \<longleftrightarrow> r = Inl e \<or> (\<exists>x. r = Inr x \<and> f x = Inl e)"
  by (cases r) auto

lemma bind_result_id [simp]: "bind_result r Inr = r"
  by (cases r) simp_all

lemma map_result_Inr [result_simps]: "map_result f r = Inr y \<longleftrightarrow> (\<exists>x. r = Inr x \<and> y = f x)"
  by (cases r) auto

lemma map_result_Inl [result_simps]: "map_result f r = Inl e \<longleftrightarrow> r = Inl e"
  by (cases r) auto

lemma ok_or_Inr [result_simps]: "ok_or e x = Inr v \<longleftrightarrow> x = Some v"
  by (auto simp: ok_or_def split: option.splits)

lemma collect_result_pure: "(\<And>x. x \<in> set xs \<Longrightarrow> f x = Inr (g x)) \<Longrightarrow>
    collect_result f xs = Inr (concat (map g xs))"
  by (induction xs) auto

lemma collect_result_set:
  "collect_result f xs = Inr ys \<Longrightarrow> set ys = (\<Union>x\<in>set xs. {y. \<exists>zs. f x = Inr zs \<and> y \<in> set zs})"
  by (induction xs arbitrary: ys) (force simp: result_simps)+

lemma collect_result_error:
  "collect_result f xs = Inl e \<Longrightarrow> \<exists>x\<in>set xs. f x = Inl e"
  by (induction xs) (auto simp: result_simps)

lemma collect_result_ok:
  "(\<forall>x\<in>set xs. \<exists>ys. f x = Inr ys) \<Longrightarrow> \<exists>ys. collect_result f xs = Inr ys"
  by (induction xs) auto

lemma collect_result_append:
  "collect_result f (xs @ ys) =
     bind_result (collect_result f xs) (\<lambda>as. bind_result (collect_result f ys) (\<lambda>bs. Inr (as @ bs)))"
proof (induction xs)
  case Nil
  then show ?case by (cases "collect_result f ys") simp_all
next
  case (Cons x xs)
  then show ?case
    by (cases "f x"; cases "collect_result f xs"; cases "collect_result f ys") simp_all
qed

lemma collect_result_filter:
  assumes "\<And>x ys. x \<in> set xs \<Longrightarrow> f x = Inr ys \<Longrightarrow> g x = Inr (filter P ys)"
    and "collect_result f xs = Inr rows"
  shows "collect_result g xs = Inr (filter P rows)"
  using assms
proof (induction xs arbitrary: rows)
  case (Cons x xs)
  then obtain as bs where "f x = Inr as" "collect_result f xs = Inr bs" "rows = as @ bs"
    by (auto simp: result_simps)
  with Cons show ?case by simp
qed simp

section \<open>Lists\<close>

lemma distinct_concat_map:
  assumes "distinct xs"
    and "\<And>x. x \<in> set xs \<Longrightarrow> distinct (f x)"
    and "\<And>x y. x \<in> set xs \<Longrightarrow> y \<in> set xs \<Longrightarrow> x \<noteq> y \<Longrightarrow> set (f x) \<inter> set (f y) = {}"
  shows "distinct (concat (map f xs))"
  using assms by (induction xs) auto

lemma sum_list_filter_split:
  "sum_list (map f (filter P xs)) + sum_list (map f (filter (\<lambda>x. \<not> P x) xs)) =
     (sum_list (map f xs) :: 'a::comm_monoid_add)"
  by (induction xs) (auto simp: algebra_simps)

end
