(* ===== verification/Rust_Strings.thy ===== *)
theory Rust_Strings
  imports Prelude
begin

text \<open>
  The string operations of Rust's standard library that the crates use, on \<open>string\<close> read as
  the bytes of the UTF-8 text: \<open>to_string\<close> of an integer, \<open>str::parse\<close> of the integer types,
  \<open>split\<close>, \<open>trim\<close>, \<open>starts_with\<close>, \<open>strip_prefix\<close>, \<open>trim_start_matches\<close> and
  \<open>contains\<close>. \<open>trim\<close> removes ASCII white space (the code points above 127 that Unicode
  counts as white space are not modelled). The lemmas show that printing and parsing an
  integer round-trip within its range, and that splitting and joining do.
\<close>

section \<open>Decimal numbers\<close>

definition digit_char :: "nat \<Rightarrow> char" where
  "digit_char d = char_of (48 + d)"

definition is_digit :: "char \<Rightarrow> bool" where
  "is_digit c \<longleftrightarrow> 48 \<le> (of_char c :: nat) \<and> (of_char c :: nat) \<le> 57"

definition digit_value :: "char \<Rightarrow> nat" where
  "digit_value c = of_char c - 48"

fun show_nat :: "nat \<Rightarrow> string" where
  "show_nat n = (if n < 10 then [digit_char n] else show_nat (n div 10) @ [digit_char (n mod 10)])"

declare show_nat.simps [simp del]

definition show_int :: "int \<Rightarrow> string" where
  "show_int x = (if x < 0 then CHR ''-'' # show_nat (nat (- x)) else show_nat (nat x))"

definition show_u64 :: "u64 \<Rightarrow> string" where "show_u64 w = show_nat (unat w)"
definition show_u128 :: "u128 \<Rightarrow> string" where "show_u128 w = show_nat (unat w)"

definition decimal_value :: "string \<Rightarrow> nat" where
  "decimal_value s = foldl (\<lambda>acc c. 10 * acc + digit_value c) 0 s"

text \<open>A non-empty run of digits; an empty string or any other character is refused.\<close>

definition parse_digits :: "string \<Rightarrow> nat option" where
  "parse_digits s = (if s \<noteq> [] \<and> list_all is_digit s then Some (decimal_value s) else None)"

text \<open>
  \<open>parse::<u64>()\<close> and \<open>parse::<u128>()\<close> take an optional \<open>+\<close>; \<open>parse::<i64>()\<close> and
  \<open>parse::<i32>()\<close> also a \<open>-\<close>. A value out of range is refused.
\<close>

fun parse_unsigned :: "nat \<Rightarrow> string \<Rightarrow> nat option" where
  "parse_unsigned w s =
     (case parse_digits (case s of c # r \<Rightarrow> (if c = CHR ''+'' then r else s) | [] \<Rightarrow> s) of
        None \<Rightarrow> None
      | Some n \<Rightarrow> if n < 2 ^ w then Some n else None)"

fun parse_signed :: "nat \<Rightarrow> string \<Rightarrow> int option" where
  "parse_signed w [] = None"
| "parse_signed w (c # r) =
     (if c = CHR ''-'' then
        (case parse_digits r of
           None \<Rightarrow> None
         | Some n \<Rightarrow> if n \<le> 2 ^ (w - 1) then Some (- int n) else None)
      else
        (case parse_digits (if c = CHR ''+'' then r else c # r) of
           None \<Rightarrow> None
         | Some n \<Rightarrow> if n < 2 ^ (w - 1) then Some (int n) else None))"

declare parse_unsigned.simps [simp del] parse_signed.simps [simp del]

definition parse_u64 :: "string \<Rightarrow> u64 option" where
  "parse_u64 s = map_option of_nat (parse_unsigned 64 s)"

definition parse_u128 :: "string \<Rightarrow> u128 option" where
  "parse_u128 s = map_option of_nat (parse_unsigned 128 s)"

definition parse_i64 :: "string \<Rightarrow> i64 option" where "parse_i64 = parse_signed 64"
definition parse_i32 :: "string \<Rightarrow> i32 option" where "parse_i32 = parse_signed 32"

definition parse_bool :: "string \<Rightarrow> bool option" where
  "parse_bool s = (if s = ''true'' then Some True else if s = ''false'' then Some False else None)"

lemma of_char_digit_char: "d < 10 \<Longrightarrow> (of_char (digit_char d) :: nat) = 48 + d"
  by (simp add: digit_char_def)

lemma is_digit_digit_char [simp]: "d < 10 \<Longrightarrow> is_digit (digit_char d)"
  by (simp add: is_digit_def of_char_digit_char)

lemma digit_value_digit_char [simp]: "d < 10 \<Longrightarrow> digit_value (digit_char d) = d"
  by (simp add: digit_value_def of_char_digit_char)

lemma show_nat_nonempty [simp]: "show_nat n \<noteq> []"
  by (subst show_nat.simps) simp

lemma show_nat_digits: "list_all is_digit (show_nat n)"
proof (induction n rule: show_nat.induct)
  case (1 n)
  then show ?case by (subst show_nat.simps) auto
qed

lemma decimal_value_snoc: "decimal_value (s @ [c]) = 10 * decimal_value s + digit_value c"
  by (simp add: decimal_value_def)

lemma decimal_value_show_nat [simp]: "decimal_value (show_nat n) = n"
proof (induction n rule: show_nat.induct)
  case (1 n)
  show ?case
  proof (cases "n < 10")
    case True
    then show ?thesis by (subst show_nat.simps) (simp add: decimal_value_def)
  next
    case False
    with "1.IH" have "decimal_value (show_nat (n div 10)) = n div 10" by simp
    with False show ?thesis
      by (subst show_nat.simps) (simp add: decimal_value_snoc)
  qed
qed

lemma parse_digits_show_nat [simp]: "parse_digits (show_nat n) = Some n"
  by (simp add: parse_digits_def show_nat_digits)

lemma show_nat_inj: "show_nat m = show_nat n \<longleftrightarrow> m = n"
  by (metis decimal_value_show_nat)

lemma show_nat_Cons_digit: "show_nat n = c # r \<Longrightarrow> is_digit c"
  using show_nat_digits [of n] by simp

lemma not_digit_sign: "\<not> is_digit (CHR ''+'')" "\<not> is_digit (CHR ''-'')"
  by (simp_all add: is_digit_def)

lemma show_nat_no_sign: "show_nat n = c # r \<Longrightarrow> c \<noteq> CHR ''+'' \<and> c \<noteq> CHR ''-''"
  by (auto dest: show_nat_Cons_digit simp: not_digit_sign)

lemma parse_unsigned_show: "n < 2 ^ w \<Longrightarrow> parse_unsigned w (show_nat n) = Some n"
proof -
  assume "n < 2 ^ w"
  obtain c r where s: "show_nat n = c # r" by (cases "show_nat n") auto
  then have "c \<noteq> CHR ''+''" using show_nat_no_sign by blast
  then have "(case show_nat n of c # r \<Rightarrow> (if c = CHR ''+'' then r else show_nat n) | [] \<Rightarrow> show_nat n)
      = show_nat n" by (simp add: s)
  then show ?thesis using \<open>n < 2 ^ w\<close> by (simp add: parse_unsigned.simps)
qed

lemma parse_unsigned_bound: "parse_unsigned w s = Some n \<Longrightarrow> n < 2 ^ w"
  by (auto simp: parse_unsigned.simps split: option.splits if_splits)

lemma parse_signed_show:
  assumes "- (2 ^ (w - 1)) \<le> x" "x < 2 ^ (w - 1)"
  shows "parse_signed w (show_int x) = Some x"
proof (cases "x < 0")
  case True
  have "nat (- x) \<le> nat (2 ^ (w - 1))" using assms(1) True by (intro nat_mono) simp
  then have "nat (- x) \<le> 2 ^ (w - 1)" by (simp add: nat_power_eq)
  with True show ?thesis by (simp add: show_int_def parse_signed.simps)
next
  case False
  obtain c r where s: "show_nat (nat x) = c # r" by (cases "show_nat (nat x)") auto
  then have c: "c \<noteq> CHR ''+''" "c \<noteq> CHR ''-''" using show_nat_no_sign by blast+
  have "nat x < 2 ^ (w - 1)" using assms(2) False by (simp add: nat_less_iff)
  moreover have "parse_digits (c # r) = Some (nat x)" using s parse_digits_show_nat by metis
  ultimately show ?thesis using c False by (simp add: show_int_def s parse_signed.simps)
qed

lemma parse_signed_range:
  "parse_signed w s = Some x \<Longrightarrow> - (2 ^ (w - 1)) \<le> x \<and> x < 2 ^ (w - 1)"
proof (cases s)
  case (Cons c r)
  assume p: "parse_signed w s = Some x"
  have "(\<exists>n. n \<le> 2 ^ (w - 1) \<and> x = - int n) \<or> (\<exists>n. n < 2 ^ (w - 1) \<and> x = int n)"
    using p Cons by (auto simp: parse_signed.simps split: option.splits if_splits)
  then show ?thesis
  proof (elim disjE exE conjE)
    fix n assume n: "n \<le> 2 ^ (w - 1)" "x = - int n"
    then have "int n \<le> 2 ^ (w - 1)" by (metis of_nat_le_iff of_nat_numeral of_nat_power)
    moreover have "(0::int) < 2 ^ (w - 1)" by simp
    ultimately show ?thesis using n by linarith
  next
    fix n assume n: "n < 2 ^ (w - 1)" "x = int n"
    then have "int n < 2 ^ (w - 1)" by (metis of_nat_less_iff of_nat_numeral of_nat_power)
    then show ?thesis using n by linarith
  qed
qed (simp add: parse_signed.simps)

lemma parse_i64_show: "in_i64 x \<Longrightarrow> parse_i64 (show_int x) = Some x"
  by (simp add: parse_i64_def parse_signed_show in_i64_def i64_min_def i64_max_def)

lemma parse_i64_range: "parse_i64 s = Some x \<Longrightarrow> in_i64 x"
  using parse_signed_range [of 64 s x]
  by (simp add: parse_i64_def in_i64_def i64_min_def i64_max_def)

lemma parse_u128_show: "parse_u128 (show_u128 w) = Some w"
proof -
  have "unat w < 2 ^ 128" using unsigned_less [of w] by simp
  then have "parse_unsigned 128 (show_nat (unat w)) = Some (unat w)" by (rule parse_unsigned_show)
  then show ?thesis by (simp add: parse_u128_def show_u128_def)
qed

lemma parse_u64_show: "parse_u64 (show_u64 w) = Some w"
proof -
  have "unat w < 2 ^ 64" using unsigned_less [of w] by simp
  then have "parse_unsigned 64 (show_nat (unat w)) = Some (unat w)" by (rule parse_unsigned_show)
  then show ?thesis by (simp add: parse_u64_def show_u64_def)
qed

section \<open>Prefixes, splitting and trimming\<close>

fun starts_with :: "string \<Rightarrow> string \<Rightarrow> bool" where
  "starts_with s [] = True"
| "starts_with [] (p # ps) = False"
| "starts_with (c # s) (p # ps) = (c = p \<and> starts_with s ps)"

definition strip_prefix :: "string \<Rightarrow> string \<Rightarrow> string option" where
  "strip_prefix p s = (if starts_with s p then Some (drop (length p) s) else None)"

lemma starts_with_append: "starts_with s p \<longleftrightarrow> (\<exists>r. s = p @ r)"
  by (induction s p rule: starts_with.induct) auto

text \<open>\<open>trim_start_matches\<close> removes the pattern as often as it occurs at the start.\<close>

function trim_start_matches :: "string \<Rightarrow> string \<Rightarrow> string" where
  "trim_start_matches p s =
     (if p \<noteq> [] \<and> starts_with s p then trim_start_matches p (drop (length p) s) else s)"
  by pat_completeness auto

termination trim_start_matches
proof (relation "measure (\<lambda>(p, s). length s)", goal_cases)
  case (2 p s)
  then obtain r where "s = p @ r" by (auto simp: starts_with_append)
  with 2 show ?case by simp
qed simp

declare trim_start_matches.simps [simp del]

fun contains_str :: "string \<Rightarrow> string \<Rightarrow> bool" where
  "contains_str [] p = (p = [])"
| "contains_str (c # s) p = (starts_with (c # s) p \<or> contains_str s p)"

fun split_on :: "char \<Rightarrow> string \<Rightarrow> string list" where
  "split_on d [] = [[]]"
| "split_on d (c # s) =
     (if c = d then [] # split_on d s
      else case split_on d s of [] \<Rightarrow> [[c]] | w # ws \<Rightarrow> (c # w) # ws)"

fun join :: "string \<Rightarrow> string list \<Rightarrow> string" where
  "join sep [] = []"
| "join sep [w] = w"
| "join sep (w # ws) = w @ sep @ join sep ws"

definition is_space :: "char \<Rightarrow> bool" where
  "is_space c \<longleftrightarrow> (let n = (of_char c :: nat) in n = 32 \<or> 9 \<le> n \<and> n \<le> 13)"

definition trim :: "string \<Rightarrow> string" where
  "trim s = rev (dropWhile is_space (rev (dropWhile is_space s)))"

lemma starts_with_refl [simp]: "starts_with (p @ s) p"
  by (auto simp: starts_with_append)

lemma contains_str_append: "contains_str s p \<longleftrightarrow> (\<exists>a b. s = a @ p @ b)"
proof (induction s)
  case (Cons c s)
  note IH = Cons.IH
  show ?case
  proof
    assume "contains_str (c # s) p"
    then consider r where "c # s = p @ r" | a b where "s = a @ p @ b"
      using IH by (auto simp: starts_with_append)
    then show "\<exists>a b. c # s = a @ p @ b"
      by cases (metis append_Nil, metis append_Cons)
  next
    assume "\<exists>a b. c # s = a @ p @ b"
    then obtain a b where ab: "c # s = a @ p @ b" by blast
    show "contains_str (c # s) p"
    proof (cases a)
      case Nil
      with ab have "starts_with (c # s) p" by (simp add: starts_with_append)
      then show ?thesis by simp
    next
      case (Cons a0 a')
      with ab have "s = a' @ p @ b" by simp
      then have "contains_str s p" using IH by blast
      then show ?thesis by simp
    qed
  qed
qed simp

lemma split_on_nonempty [simp]: "split_on d s \<noteq> []"
  by (induction s) (auto split: list.splits)

lemma join_split_on: "join [d] (split_on d s) = s"
proof (induction s)
  case (Cons c s)
  obtain w ws where sp: "split_on d s = w # ws" by (cases "split_on d s") auto
  have "join [d] (w # ws) = s" using Cons sp by simp
  then show ?case by (cases ws) (simp_all add: sp)
qed simp

lemma split_on_no_sep: "w \<in> set (split_on d s) \<Longrightarrow> d \<notin> set w"
proof (induction s arbitrary: w)
  case (Cons c s)
  then show ?case by (auto split: if_splits list.splits)
qed simp

lemma split_on_single: "d \<notin> set w \<Longrightarrow> split_on d w = [w]"
  by (induction w) auto

lemma split_on_Cons_sep: "d \<notin> set w \<Longrightarrow> split_on d (w @ d # s) = w # split_on d s"
  by (induction w) auto

lemma split_on_join:
  "ws \<noteq> [] \<Longrightarrow> \<forall>w\<in>set ws. d \<notin> set w \<Longrightarrow> split_on d (join [d] ws) = ws"
proof (induction ws)
  case (Cons w ws)
  then show ?case by (cases ws) (auto simp: split_on_single split_on_Cons_sep)
qed simp

lemma trim_start_matches_not_prefix:
  "p \<noteq> [] \<Longrightarrow> \<not> starts_with (trim_start_matches p s) p"
proof (induction p s rule: trim_start_matches.induct)
  case (1 p s)
  then show ?case by (subst trim_start_matches.simps) auto
qed

end
