(* ===== verification/Packages.thy ===== *)
theory Packages
  imports Rust_Strings
begin

text \<open>
  \<^verbatim>\<open>crates/indexer/src/lib.rs\<close> and \<^verbatim>\<open>crates/indexer/src/sandbox.rs\<close>: the package
  addresses of each environment, the classification of module names, and the write-once
  override of the addresses in sandbox mode. The \<open>OnceLock\<close> is the value \<open>sandbox_state\<close>,
  passed to every function that reads it. A panic is \<open>None\<close> or the error \<open>Panicked\<close>.
  Parsing of a URL, an object id or an account address is a parameter (url, sui-types and
  move-core-types).
\<close>

section \<open>Constants\<close>

definition NOT_MAINNET_PACKAGE :: string where "NOT_MAINNET_PACKAGE = ''<not on mainnet>''"

definition MAINNET_REMOTE_STORE_URL :: string where
  "MAINNET_REMOTE_STORE_URL = ''https://checkpoints.mainnet.sui.io''"

definition TESTNET_REMOTE_STORE_URL :: string where
  "TESTNET_REMOTE_STORE_URL = ''https://checkpoints.testnet.sui.io''"

definition MAINNET_PACKAGES :: "string list" where
  "MAINNET_PACKAGES = [
     ''0xb29d83c26cdd2a64959263abbcfc4a6937f0c9fccaf98580ca56faded65be244'',
     ''0x2c8d603bc51326b8c13cef9dd07031a408a48dddb541963357661df5d3204809'',
     ''0xcaf6ba059d539a97646d47f0b9ddf843e138d215e2a12ca1f4585d386f7aec3a'',
     ''0x00c1a56ec8c4c623a848b2ed2f03d23a25d17570b670c22106f336eb933785cc'',
     ''0x2d93777cc8b67c064b495e8606f2f8f5fd578450347bbe7b36e0bc03963c1c40'']"

definition TESTNET_PACKAGES :: "string list" where
  "TESTNET_PACKAGES = [
     ''0x467e34e75debeea8b89d03aea15755373afc39a7c96c9959549c7f5f689843cf'',
     ''0x5d520a3e3059b68530b2ef4080126dbb5d234e0afd66561d0d9bd48127a06044'',
     ''0xcd40faffa91c00ce019bfe4a4b46f8d623e20bf331eb28990ee0305e9b9f3e3c'',
     ''0x16c4e050b9b19b25ce1365b96861bc50eb7e58383348a39ea8a8e1d063cfef73'',
     ''0xc483dba510597205749f2e8410c23f19be31a710aef251f353bc1b97755efd4d'',
     ''0x5da5bbf6fb097d108eaf2c2306f88beae4014c90a44b95c7e76a6bfccec5f5ee'',
     ''0xa3886aaa8aa831572dd39549242ca004a438c3a55967af9f0387ad2b01595068'',
     ''0x9592ac923593f37f4fed15ee15f760ebd4c39729f53ee3e8c214de7a17157769'',
     ''0x984757fc7c0e6dd5f15c2c66e881dd6e5aca98b725f3dbd83c445e057ebb790a'',
     ''0xfb28c4cbc6865bd1c897d26aecbe1f8792d1509a20ffec692c800660cbec6982'',
     ''0x926c446869fa175ec3b0dbf6c4f14604d86a415c1fccd8c8f823cfc46a29baed'',
     ''0xa0936c6ea82fbfc0356eedc2e740e260dedaaa9f909a0715b1cc31e9a8283719'',
     ''0x9ae1cbfb7475f6a4c2d4d3273335459f8f9d265874c4d161c1966cdcbd4e9ebc'',
     ''0xb48d47cb5f56d0f489f48f186d06672df59d64bd2f514b2f0ba40cbb8c8fd487'',
     ''0xbc331f09e5c737d45f074ad2d17c3038421b3b9018699e370d88d94938c53d28'',
     ''0x23018638bb4f11ef9ffb0de922519bea52f960e7a5891025ca9aaeeaff7d5034'',
     ''0x22be4cade64bf2d02412c7e8d0e8beea2f78828b948118d46735315409371a3c'']"

definition MAINNET_MARGIN_PACKAGES :: "string list" where
  "MAINNET_MARGIN_PACKAGES = [
     ''0x97d9473771b01f77b0940c589484184b49f6444627ec121314fae6a6d36fb86b'',
     ''0xcb4fc91921494ebe6979e201fdb2d67388ffdf6a1b1eb4952526259074de8d0b'',
     ''0xfbd322126f1452fd4c89aedbaeb9fd0c44df9b5cedbe70d76bf80dc086031377'']"

definition TESTNET_MARGIN_PACKAGES :: "string list" where
  "TESTNET_MARGIN_PACKAGES = [
     ''0xb8620c24c9ea1a4a41e79613d2b3d1d93648d1bb6f6b789a7c8f261c94110e4b'',
     ''0xf978cf2b601c24e40ef82b6e51512b448696b44cb014c0a1162422aa8b9cb811'',
     ''0x16d781c327a919dc55390f5cc60d58c7ec4535bb317e88850961222bbd5d4d9e'',
     ''0xbf9e1b079fa68ffc54a84533b1c3d357019178b19e9901f262fb925454425177'',
     ''0xe673d499eb03f1c31e8079dc73a700f2f085ff7b69c4aff396fad52d07ae6338'',
     ''0x229d3cdbb327082a5c6773e8344b16c4040b360235e3cda75e1f232d4e9184cb'',
     ''0x3d02a90ae1d2eff63ca8ae9bfd89ffa0f7e12d780563259c8271833c270ae842'',
     ''0x3ca7f6ee86b42ebe05ab8de70fbc96832e65615f64f10dbdc1820fa599904c7b'',
     ''0xb284008ea0a6ac0a68c41f50a631207cd8d9c197ba0884e0df29ea204256777e'',
     ''0xc21637e41d3db1c7ca6258fb4de567ba09d4e41610da44a148b26e99b68e11b5'',
     ''0xf0a090340d74ea598d59868378f27d2cc5e46a562ec3a5b26b5117572905d9f3'',
     ''0x32e32dd608c4d83f82c64331a547bcb4bbfb819d4591197f2fe442b1661873d8'',
     ''0xd6a42f4df4db73d68cbeb52be66698d2fe6a9464f45ad113ca52b0c6ebd918b6'']"

definition CORE_MODULES :: "string list" where
  "CORE_MODULES = [
     ''balance_manager'',
     ''order'',
     ''order_info'',
     ''vault'',
     ''deep_price'',
     ''state'',
     ''ewma'',
     ''governance'',
     ''pool'']"

definition MARGIN_MODULES :: "string list" where
  "MARGIN_MODULES = [
     ''margin_manager'',
     ''margin_pool'',
     ''margin_registry'',
     ''protocol_fees'',
     ''tpsl'']"

definition SUI_MODULES :: "string list" where
  "SUI_MODULES = [
     ''sui'']"

datatype ModuleType = Core | Margin | Sui | Unknown

datatype DeepbookEnv = Mainnet | Testnet

section \<open>Classification of modules\<close>

definition is_core_module :: "string \<Rightarrow> bool" where
  "is_core_module m \<longleftrightarrow> m \<in> set CORE_MODULES"

definition is_margin_module :: "string \<Rightarrow> bool" where
  "is_margin_module m \<longleftrightarrow> m \<in> set MARGIN_MODULES"

definition is_sui_module :: "string \<Rightarrow> bool" where
  "is_sui_module m \<longleftrightarrow> m \<in> set SUI_MODULES"

definition get_module_type :: "string \<Rightarrow> ModuleType" where
  "get_module_type m =
     (if is_core_module m then Core
      else if is_margin_module m then Margin
      else if is_sui_module m then Sui
      else Unknown)"

definition get_all_known_modules :: "string list" where
  "get_all_known_modules = CORE_MODULES @ MARGIN_MODULES @ SUI_MODULES"

definition get_core_modules :: "string list" where "get_core_modules = CORE_MODULES"
definition get_margin_modules :: "string list" where "get_margin_modules = MARGIN_MODULES"
definition get_sui_modules :: "string list" where "get_sui_modules = SUI_MODULES"

section \<open>The sandbox override\<close>

record PackageOverride =
  override_core :: "string list"
  override_margin :: "string list"

type_synonym sandbox_state = "PackageOverride option"

datatype panic = Panicked string

definition init_package_override ::
  "string list \<Rightarrow> string list \<Rightarrow> sandbox_state \<Rightarrow> panic + sandbox_state" where
  "init_package_override core margin st =
     (case st of
        None \<Rightarrow> Inr (Some \<lparr>override_core = core, override_margin = margin\<rparr>)
      | Some _ \<Rightarrow> Inl (Panicked ''init_package_override must only be called once''))"

definition core_packages :: "sandbox_state \<Rightarrow> string list option" where
  "core_packages st = map_option override_core st"

definition margin_packages :: "sandbox_state \<Rightarrow> string list option" where
  "margin_packages st = map_option override_margin st"

section \<open>Package addresses of an environment\<close>

definition is_valid_margin_package :: "string \<Rightarrow> bool" where
  "is_valid_margin_package p \<longleftrightarrow> p \<noteq> NOT_MAINNET_PACKAGE"

definition is_valid_margin_packages :: "string list \<Rightarrow> bool" where
  "is_valid_margin_packages ps \<longleftrightarrow> list_ex is_valid_margin_package ps"

definition is_margin_supported :: "sandbox_state \<Rightarrow> DeepbookEnv \<Rightarrow> bool" where
  "is_margin_supported st env =
     (case margin_packages st of
        Some margin \<Rightarrow> margin \<noteq> []
      | None \<Rightarrow>
          (case env of
             Mainnet \<Rightarrow> is_valid_margin_packages MAINNET_MARGIN_PACKAGES
           | Testnet \<Rightarrow> is_valid_margin_packages TESTNET_MARGIN_PACKAGES))"

definition get_margin_package_addresses :: "sandbox_state \<Rightarrow> DeepbookEnv \<Rightarrow> string list" where
  "get_margin_package_addresses st env =
     (case margin_packages st of
        Some margin \<Rightarrow> margin
      | None \<Rightarrow>
          (case env of Mainnet \<Rightarrow> MAINNET_MARGIN_PACKAGES | Testnet \<Rightarrow> TESTNET_MARGIN_PACKAGES))"

fun debug_env :: "DeepbookEnv \<Rightarrow> string" where
  "debug_env Mainnet = ''Mainnet''"
| "debug_env Testnet = ''Testnet''"

definition get_margin_package_address :: "sandbox_state \<Rightarrow> DeepbookEnv \<Rightarrow> string + string" where
  "get_margin_package_address st env =
     (case margin_packages st of
        Some margin \<Rightarrow>
          (case margin of
             [] \<Rightarrow> Inl ''No margin packages configured in sandbox mode''
           | p # _ \<Rightarrow> Inr p)
      | None \<Rightarrow>
          (case find is_valid_margin_package (get_margin_package_addresses st env) of
             Some p \<Rightarrow> Inr p
           | None \<Rightarrow> Inl (''Margin trading is not supported on '' @ debug_env env
               @ ''. The margin package has not been deployed on this network.'')))"

definition get_core_package_addresses :: "sandbox_state \<Rightarrow> DeepbookEnv \<Rightarrow> string list" where
  "get_core_package_addresses st env =
     (case core_packages st of
        Some core \<Rightarrow> core
      | None \<Rightarrow> (case env of Mainnet \<Rightarrow> MAINNET_PACKAGES | Testnet \<Rightarrow> TESTNET_PACKAGES))"

definition remote_store_url :: "(string \<Rightarrow> 'url option) \<Rightarrow> DeepbookEnv \<Rightarrow> 'url option" where
  "remote_store_url url_parse env =
     url_parse (case env of Mainnet \<Rightarrow> MAINNET_REMOTE_STORE_URL | Testnet \<Rightarrow> TESTNET_REMOTE_STORE_URL)"

definition get_all_package_strings :: "sandbox_state \<Rightarrow> DeepbookEnv \<Rightarrow> string list" where
  "get_all_package_strings st env =
     (case (core_packages st, margin_packages st) of
        (Some core, Some margin) \<Rightarrow> core @ margin
      | _ \<Rightarrow>
          (let (packages, margin) =
             (case env of
                Mainnet \<Rightarrow> (MAINNET_PACKAGES, MAINNET_MARGIN_PACKAGES)
              | Testnet \<Rightarrow> (TESTNET_PACKAGES, TESTNET_MARGIN_PACKAGES))
           in packages @ filter (\<lambda>p. p \<noteq> NOT_MAINNET_PACKAGE) margin))"

text \<open>\<open>from_str(pkg).unwrap()\<close> on every string: \<open>None\<close> is the panic of a failed \<open>unwrap\<close>.\<close>

definition package_ids :: "(string \<Rightarrow> 'oid option) \<Rightarrow> sandbox_state \<Rightarrow> DeepbookEnv \<Rightarrow> 'oid list option" where
  "package_ids object_id_from_str st env =
     those (map object_id_from_str (get_all_package_strings st env))"

definition package_addresses ::
  "(string \<Rightarrow> 'addr option) \<Rightarrow> sandbox_state \<Rightarrow> DeepbookEnv \<Rightarrow> 'addr list option" where
  "package_addresses account_address_from_str st env =
     those (map account_address_from_str (get_all_package_strings st env))"

section \<open>Properties\<close>

lemmas package_constants =
  MAINNET_PACKAGES_def TESTNET_PACKAGES_def MAINNET_MARGIN_PACKAGES_def
  TESTNET_MARGIN_PACKAGES_def

lemmas module_constants = CORE_MODULES_def MARGIN_MODULES_def SUI_MODULES_def

lemma known_modules_distinct: "distinct get_all_known_modules"
  by (simp add: get_all_known_modules_def module_constants)

lemma get_module_type_Core: "get_module_type m = Core \<longleftrightarrow> m \<in> set get_core_modules"
  by (auto simp: get_module_type_def is_core_module_def get_core_modules_def)

lemma get_module_type_Margin: "get_module_type m = Margin \<longleftrightarrow> m \<in> set get_margin_modules"
  using known_modules_distinct
  by (auto simp: get_module_type_def is_core_module_def is_margin_module_def
      get_margin_modules_def get_all_known_modules_def)

lemma get_module_type_Sui: "get_module_type m = Sui \<longleftrightarrow> m \<in> set get_sui_modules"
  using known_modules_distinct
  by (auto simp: get_module_type_def is_core_module_def is_margin_module_def is_sui_module_def
      get_sui_modules_def get_all_known_modules_def)

lemma get_module_type_Unknown: "get_module_type m = Unknown \<longleftrightarrow> m \<notin> set get_all_known_modules"
  by (auto simp: get_module_type_def is_core_module_def is_margin_module_def is_sui_module_def
      get_all_known_modules_def)

text \<open>A string that \<^verbatim>\<open>hex::decode\<close> and the id parsers accept: \<open>0x\<close> and 64 hex digits.\<close>

definition is_hex_digit :: "char \<Rightarrow> bool" where
  "is_hex_digit c \<longleftrightarrow> c \<in> set ''0123456789abcdefABCDEF''"

definition full_package_id :: "string \<Rightarrow> bool" where
  "full_package_id s \<longleftrightarrow> starts_with s ''0x'' \<and> length s = 66 \<and> list_all is_hex_digit (drop 2 s)"

lemma is_hex_digit_chars:
  "is_hex_digit (CHR ''0'')"
  "is_hex_digit (CHR ''1'')"
  "is_hex_digit (CHR ''2'')"
  "is_hex_digit (CHR ''3'')"
  "is_hex_digit (CHR ''4'')"
  "is_hex_digit (CHR ''5'')"
  "is_hex_digit (CHR ''6'')"
  "is_hex_digit (CHR ''7'')"
  "is_hex_digit (CHR ''8'')"
  "is_hex_digit (CHR ''9'')"
  "is_hex_digit (CHR ''a'')"
  "is_hex_digit (CHR ''b'')"
  "is_hex_digit (CHR ''c'')"
  "is_hex_digit (CHR ''d'')"
  "is_hex_digit (CHR ''e'')"
  "is_hex_digit (CHR ''f'')"
  "is_hex_digit (CHR ''A'')"
  "is_hex_digit (CHR ''B'')"
  "is_hex_digit (CHR ''C'')"
  "is_hex_digit (CHR ''D'')"
  "is_hex_digit (CHR ''E'')"
  "is_hex_digit (CHR ''F'')"
  by (simp_all add: is_hex_digit_def)

lemma package_constants_full:
  "list_all full_package_id (MAINNET_PACKAGES @ MAINNET_MARGIN_PACKAGES @ TESTNET_PACKAGES
     @ TESTNET_MARGIN_PACKAGES)"
  by (simp add: package_constants full_package_id_def is_hex_digit_chars)

lemma production_packages_full:
  "p \<in> set (get_all_package_strings None env) \<Longrightarrow> full_package_id p"
  using package_constants_full
  by (cases env) (auto simp: get_all_package_strings_def core_packages_def list_all_iff)

lemma those_map_Some: "(\<And>x. x \<in> set xs \<Longrightarrow> \<exists>y. f x = Some y) \<Longrightarrow> \<exists>ys. those (map f xs) = Some ys"
proof (induction xs)
  case (Cons x xs)
  then obtain y ys where "f x = Some y" "those (map f xs) = Some ys"
    by (metis list.set_intros)
  then show ?case by simp
qed simp

lemma those_eq_Some: "those xs = Some ys \<longleftrightarrow> xs = map Some ys"
  by (induction xs arbitrary: ys) (auto split: option.splits)

lemma margin_supported_iff_address:
  "is_margin_supported st env \<longleftrightarrow> (\<exists>p. get_margin_package_address st env = Inr p)"
proof (cases "margin_packages st")
  case None
  have "(\<exists>p\<in>set ps. is_valid_margin_package p) \<longleftrightarrow> find is_valid_margin_package ps \<noteq> None" for ps
    by (auto simp: find_None_iff)
  with None show ?thesis
    by (cases env)
      (simp_all add: is_margin_supported_def get_margin_package_address_def
        is_valid_margin_packages_def get_margin_package_addresses_def list_ex_iff
        split: option.split)
next
  case (Some margin)
  then show ?thesis
    by (auto simp: is_margin_supported_def get_margin_package_address_def split: list.splits)
qed

lemma get_margin_package_address_in:
  "get_margin_package_address st env = Inr p \<Longrightarrow>
     p \<in> set (get_margin_package_addresses st env)"
  by (auto simp: get_margin_package_address_def get_margin_package_addresses_def find_Some_iff
      split: option.splits list.splits)

lemma all_package_strings_set:
  "set (get_all_package_strings st env) =
     set (get_core_package_addresses st env) \<union> set (get_margin_package_addresses st env)"
proof (cases st)
  case None
  have "\<forall>p\<in>set MAINNET_MARGIN_PACKAGES \<union> set TESTNET_MARGIN_PACKAGES. p \<noteq> NOT_MAINNET_PACKAGE"
    by (simp add: package_constants NOT_MAINNET_PACKAGE_def)
  with None show ?thesis
    by (cases env) (auto simp: get_all_package_strings_def get_core_package_addresses_def
        get_margin_package_addresses_def core_packages_def margin_packages_def)
next
  case (Some a)
  then show ?thesis
    by (simp add: get_all_package_strings_def get_core_package_addresses_def
        get_margin_package_addresses_def core_packages_def margin_packages_def)
qed

text \<open>Sandbox mode is entered at most once, and from then on every address query, whatever
  the environment argument, answers from the override alone.\<close>

theorem init_package_override_once:
  "init_package_override core margin None = Inr st \<Longrightarrow>
     (\<forall>env. get_core_package_addresses st env = core \<and>
            get_margin_package_addresses st env = margin \<and>
            get_all_package_strings st env = core @ margin \<and>
            (is_margin_supported st env \<longleftrightarrow> margin \<noteq> [])) \<and>
     (\<forall>core' margin'. \<exists>e. init_package_override core' margin' st = Inl e)"
  by (auto simp: init_package_override_def get_core_package_addresses_def
      get_margin_package_addresses_def get_all_package_strings_def is_margin_supported_def
      core_packages_def margin_packages_def)

theorem init_package_override_once_witness:
  "\<exists>st. init_package_override [''0xa''] [''0xb''] None = Inr st \<and>
     get_all_package_strings st Mainnet = [''0xa'', ''0xb'']"
proof -
  let ?st = "Some \<lparr>override_core = [''0xa''], override_margin = [''0xb'']\<rparr>"
  have h: "init_package_override [''0xa''] [''0xb''] None = Inr ?st"
    by (simp add: init_package_override_def)
  show ?thesis using init_package_override_once [OF h] h by auto
qed

text \<open>The three module lists are disjoint, so a module name has one type, and exactly the
  names outside the lists are unknown.\<close>

theorem get_module_type_partition:
  "distinct get_all_known_modules \<and>
   (get_module_type m = Core \<longleftrightarrow> m \<in> set get_core_modules) \<and>
   (get_module_type m = Margin \<longleftrightarrow> m \<in> set get_margin_modules) \<and>
   (get_module_type m = Sui \<longleftrightarrow> m \<in> set get_sui_modules) \<and>
   (get_module_type m = Unknown \<longleftrightarrow> m \<notin> set get_all_known_modules)"
  by (simp add: known_modules_distinct get_module_type_Core get_module_type_Margin
      get_module_type_Sui get_module_type_Unknown)

end
