(* ===== verification/Sql.thy ===== *)
theory Sql
  imports Prelude Rust_Strings
begin

text \<open>
  The SQL the queries of \<^verbatim>\<open>crates/server/src/reader.rs\<close> are made of, on tables given as lists of
  rows: \<open>between\<close>, \<open>LIKE\<close>, \<open>ORDER BY .. DESC\<close>, \<open>LIMIT\<close>, \<open>DISTINCT\<close>, \<open>DISTINCT ON\<close>, \<open>SUM .. GROUP BY\<close>.
  A table is the list of its rows in the order in which a scan returns them; that order is
  arbitrary, and rows equal in the sort key keep it. A negative \<open>LIMIT\<close> is an error of the
  database. In a \<open>LIKE\<close> pattern \<open>%\<close> stands for any text, \<open>_\<close> for one character, and a backslash
  makes the next character literal; a pattern that ends in a single backslash, on which
  PostgreSQL may raise an error, matches nothing.

  The locale \<open>newest_first\<close> is the contract of a page of events: what the endpoints rely on
  when they ask for the latest rows of a window. The queries by events interpret it.
\<close>

definition between :: "int \<Rightarrow> int \<Rightarrow> int \<Rightarrow> bool" where
  "between t a b \<longleftrightarrow> a \<le> t \<and> t \<le> b"

fun sql_like :: "string \<Rightarrow> string \<Rightarrow> bool" where
  "sql_like [] t = (t = [])"
| "sql_like (p # ps) [] = (p = CHR ''%'' \<and> sql_like ps [])"
| "sql_like (p # ps) (c # t) =
     (if p = CHR ''%'' then sql_like ps (c # t) \<or> sql_like (p # ps) t
      else if p = CHR ''_'' then sql_like ps t
      else if p = CHR 0x5C then
        (case ps of
           [] \<Rightarrow> False
         | q # qs \<Rightarrow> c = q \<and> sql_like qs t)
      else c = p \<and> sql_like ps t)"

text \<open>\<open>to_pattern\<close> of \<^verbatim>\<open>reader.rs\<close>: an empty filter is the pattern that matches everything.\<close>

definition to_pattern :: "string \<Rightarrow> string" where
  "to_pattern s = (if s = [] then ''%'' else s)"

definition order_desc :: "('r \<Rightarrow> int) \<Rightarrow> 'r list \<Rightarrow> 'r list" where
  "order_desc key rows = sort_key (\<lambda>r. - key r) rows"

definition sql_limit :: "int \<Rightarrow> 'r list \<Rightarrow> string + 'r list" where
  "sql_limit n rows = (if n < 0 then Inl ''LIMIT must not be negative'' else Inr (take (nat n) rows))"

fun distinct_on :: "('r \<Rightarrow> 'k) \<Rightarrow> 'r list \<Rightarrow> 'r list" where
  "distinct_on key [] = []"
| "distinct_on key (r # rows) = r # distinct_on key (filter (\<lambda>q. key q \<noteq> key r) rows)"

definition group_sum :: "('r \<Rightarrow> 'k) \<Rightarrow> ('r \<Rightarrow> int) \<Rightarrow> 'r list \<Rightarrow> ('k \<times> int) list" where
  "group_sum key amount rows =
     map (\<lambda>k. (k, sum_list (map amount (filter (\<lambda>r. key r = k) rows)))) (remdups (map key rows))"

section \<open>Patterns\<close>

text \<open>A text without the characters that mean something in a pattern.\<close>

definition plain_pattern :: "string \<Rightarrow> bool" where
  "plain_pattern p \<longleftrightarrow> CHR ''%'' \<notin> set p \<and> CHR ''_'' \<notin> set p \<and> CHR 0x5C \<notin> set p"

lemma sql_like_plain: "plain_pattern p \<Longrightarrow> sql_like p t \<longleftrightarrow> t = p"
proof (induction p arbitrary: t)
  case (Cons c p)
  then have "plain_pattern p" "c \<noteq> CHR ''%''" "c \<noteq> CHR ''_''" "c \<noteq> CHR 0x5C"
    by (auto simp: plain_pattern_def)
  with Cons.IH show ?case by (cases t) auto
qed simp

lemma sql_like_percent: "sql_like ''%'' t"
  by (induction t) simp_all

lemma sql_like_percent_append: "sql_like (CHR ''%'' # p) t \<longleftrightarrow> (\<exists>u v. t = u @ v \<and> sql_like p v)"
proof (induction t)
  case Nil
  then show ?case by simp
next
  case (Cons c t)
  have "sql_like (CHR ''%'' # p) (c # t) \<longleftrightarrow> sql_like p (c # t) \<or> sql_like (CHR ''%'' # p) t"
    by simp
  also have "\<dots> \<longleftrightarrow> (\<exists>u v. c # t = u @ v \<and> sql_like p v)"
    unfolding Cons.IH by (auto simp: Cons_eq_append_conv)
  finally show ?case .
qed

text \<open>A filter of an endpoint that is empty selects every row, and a filter without the
  characters \<open>%\<close>, \<open>_\<close> and backslash selects exactly the rows with that value.\<close>

theorem to_pattern_exact:
  assumes "plain_pattern s"
  shows "sql_like (to_pattern s) t \<longleftrightarrow> s = [] \<or> t = s"
  using assms sql_like_percent [of t] by (simp add: to_pattern_def sql_like_plain del: sql_like.simps)

theorem to_pattern_exact_witness:
  "\<not> sql_like (to_pattern ''0xab'') ''0xabc''"
  using to_pattern_exact [of "''0xab''" "''0xabc''"] by (simp add: plain_pattern_def)

text \<open>A filter with a wildcard is not escaped: it selects rows with other values.\<close>

lemma to_pattern_wildcard: "sql_like (to_pattern ''0x%'') ''0xabc''" "sql_like (to_pattern ''0x_b'') ''0xab''"
  by code_simp+

section \<open>Sorting and limits\<close>

lemma mset_order_desc [simp]: "mset (order_desc key rows) = mset rows"
  by (simp add: order_desc_def)

lemma set_order_desc [simp]: "set (order_desc key rows) = set rows"
  by (simp add: order_desc_def)

lemma length_order_desc [simp]: "length (order_desc key rows) = length rows"
  by (simp add: order_desc_def)

lemma order_desc_sorted: "sorted_wrt (\<lambda>r q. key q \<le> key r) (order_desc key rows)"
proof -
  have "sorted (map (\<lambda>r. - key r) (order_desc key rows))"
    by (simp add: order_desc_def)
  then show ?thesis by (simp add: sorted_map)
qed

lemma order_desc_hd:
  assumes "order_desc key rows = r # rest"
  shows "r \<in> set rows" and "\<And>q. q \<in> set rows \<Longrightarrow> key q \<le> key r"
proof -
  have "sorted_wrt (\<lambda>r q. key q \<le> key r) (r # rest)" using order_desc_sorted [of key rows] assms by simp
  moreover have s: "set (r # rest) = set rows" using assms set_order_desc [of key rows] by metis
  ultimately show "key q \<le> key r" if "q \<in> set rows" for q using that by auto
  show "r \<in> set rows" using s by auto
qed

lemma sql_limit_Inr: "sql_limit n rows = Inr res \<longleftrightarrow> 0 \<le> n \<and> res = take (nat n) rows"
  by (auto simp: sql_limit_def)

section \<open>The contract of a page of events\<close>

text \<open>
  \<open>page n t\<close> are at most \<open>n\<close> of the selected rows of \<open>t\<close>, newest first; a selected row that is
  left out is no newer than any row of the page, and rows are left out only when the page is
  full.
\<close>

locale newest_first =
  fixes time :: "'r \<Rightarrow> int" and sel :: "'r \<Rightarrow> bool" and page :: "nat \<Rightarrow> 'r list \<Rightarrow> 'r list"
  assumes page_sorted: "sorted_wrt (\<lambda>r q. time q \<le> time r) (page n t)"
    and page_part: "\<exists>rest. mset (page n t) + mset rest = mset (filter sel t) \<and>
      (\<forall>r\<in>set (page n t). \<forall>q\<in>set rest. time q \<le> time r) \<and> (rest \<noteq> [] \<longrightarrow> length (page n t) = n)"
    and page_length: "length (page n t) \<le> n"
begin

lemma page_sound: "r \<in> set (page n t) \<Longrightarrow> r \<in> set t \<and> sel r"
proof -
  assume r: "r \<in> set (page n t)"
  obtain rest where "mset (page n t) + mset rest = mset (filter sel t)" using page_part by blast
  then have "set (page n t) \<union> set rest = set (filter sel t)"
    by (metis set_mset_mset set_mset_union)
  with r show ?thesis by auto
qed

lemma page_complete:
  assumes "length (filter sel t) \<le> n"
  shows "mset (page n t) = mset (filter sel t)"
proof -
  obtain rest where r: "mset (page n t) + mset rest = mset (filter sel t)"
    "rest \<noteq> [] \<longrightarrow> length (page n t) = n" using page_part by blast
  then have "length (page n t) + length rest = length (filter sel t)"
    by (metis size_mset size_union)
  with r assms have "rest = []" by (cases rest) auto
  with r show ?thesis by simp
qed

lemma page_newest:
  assumes "r \<in> set (page n t)" and "q \<in> set t" and "sel q" and "q \<notin> set (page n t)"
  shows "time q \<le> time r"
proof -
  obtain rest where r: "mset (page n t) + mset rest = mset (filter sel t)"
    "\<forall>r\<in>set (page n t). \<forall>q\<in>set rest. time q \<le> time r" using page_part by blast
  then have "set (page n t) \<union> set rest = set (filter sel t)"
    by (metis set_mset_mset set_mset_union)
  with assms have "q \<in> set rest" by auto
  with assms r show ?thesis by blast
qed

lemma page_full:
  assumes "q \<in> set t" and "sel q" and "q \<notin> set (page n t)"
  shows "length (page n t) = n"
proof -
  obtain rest where r: "mset (page n t) + mset rest = mset (filter sel t)"
    "rest \<noteq> [] \<longrightarrow> length (page n t) = n" using page_part by blast
  then have "set (page n t) \<union> set rest = set (filter sel t)"
    by (metis set_mset_mset set_mset_union)
  with assms have "rest \<noteq> []" by auto
  with r show ?thesis by simp
qed

end

text \<open>The shape of every event query: filter, newest first, limited.\<close>

definition select_newest :: "('r \<Rightarrow> int) \<Rightarrow> ('r \<Rightarrow> bool) \<Rightarrow> int \<Rightarrow> 'r list \<Rightarrow> string + 'r list" where
  "select_newest time sel limit rows = sql_limit limit (order_desc time (filter sel rows))"

lemma select_newest_Inr:
  "select_newest time sel limit rows = Inr res \<longleftrightarrow>
     0 \<le> limit \<and> res = take (nat limit) (order_desc time (filter sel rows))"
  by (simp add: select_newest_def sql_limit_Inr)

interpretation event_page: newest_first time sel "\<lambda>n t. take n (order_desc time (filter sel t))"
  for time :: "'r \<Rightarrow> int" and sel
proof (unfold_locales, goal_cases)
  case (1 n t)
  show ?case by (intro sorted_wrt_take order_desc_sorted)
next
  case (2 n t)
  let ?s = "order_desc time (filter sel t)"
  have "sorted_wrt (\<lambda>r q. time q \<le> time r) (take n ?s @ drop n ?s)"
    unfolding append_take_drop_id by (rule order_desc_sorted)
  then have "\<forall>r\<in>set (take n ?s). \<forall>q\<in>set (drop n ?s). time q \<le> time r"
    unfolding sorted_wrt_append by blast
  moreover have "mset (take n ?s) + mset (drop n ?s) = mset (filter sel t)"
    by (metis append_take_drop_id mset_append mset_order_desc)
  moreover have "drop n ?s \<noteq> [] \<longrightarrow> length (take n ?s) = n" by auto
  ultimately show ?case by blast
next
  case (3 n t)
  show ?case by simp
qed

text \<open>What an endpoint knows of its page, in one fact.\<close>

lemma select_newest_page:
  assumes "select_newest time sel limit t = Inr page"
  shows "(\<forall>r\<in>set page. r \<in> set t \<and> sel r) \<and> sorted_wrt (\<lambda>r q. time q \<le> time r) page \<and>
    int (length page) \<le> limit \<and>
    (\<forall>q\<in>set t. sel q \<and> q \<notin> set page \<longrightarrow>
       int (length page) = limit \<and> (\<forall>r\<in>set page. time q \<le> time r))"
proof -
  have l: "0 \<le> limit" and p: "page = take (nat limit) (order_desc time (filter sel t))"
    using assms by (simp_all add: select_newest_Inr)
  have "r \<in> set t \<and> sel r" if "r \<in> set page" for r
    using that unfolding p by (rule event_page.page_sound)
  moreover have "sorted_wrt (\<lambda>r q. time q \<le> time r) page" unfolding p by (rule event_page.page_sorted)
  moreover have "int (length page) \<le> limit" unfolding p using l by simp
  moreover have "int (length page) = limit" if "q \<in> set t" "sel q" "q \<notin> set page" for q
    using event_page.page_full [where sel = sel, OF that(1,2) that(3) [unfolded p]] l by (simp add: p)
  moreover have "time q \<le> time r" if "q \<in> set t" "sel q" "q \<notin> set page" "r \<in> set page" for q r
    using that(4) unfolding p by (rule event_page.page_newest) (use that in \<open>simp_all add: p\<close>)
  ultimately show ?thesis by blast
qed

section \<open>Groups\<close>

lemma set_distinct_on: "set (distinct_on key rows) \<subseteq> set rows"
proof (induction key rows rule: distinct_on.induct)
  case (2 key r rows)
  then show ?case by auto
qed simp

lemma distinct_on_keys: "distinct (map key (distinct_on key rows))"
proof (induction key rows rule: distinct_on.induct)
  case (2 key r rows)
  then show ?case using set_distinct_on [of key "filter (\<lambda>q. key q \<noteq> key r) rows"] by auto
qed simp

lemma distinct_on_key_set: "key ` set (distinct_on key rows) = key ` set rows"
proof (induction key rows rule: distinct_on.induct)
  case (2 key r rows)
  then show ?case by auto
qed simp

text \<open>\<open>DISTINCT ON\<close> keeps the first row of each key.\<close>

lemma distinct_on_first:
  "r \<in> set (distinct_on key rows) \<Longrightarrow> find (\<lambda>q. key q = key r) rows = Some r"
proof (induction key rows rule: distinct_on.induct)
  case (2 key a rows)
  show ?case
  proof (cases "r \<in> set (distinct_on key (filter (\<lambda>q. key q \<noteq> key a) rows))")
    case True
    with 2 have f: "find (\<lambda>q. key q = key r) (filter (\<lambda>q. key q \<noteq> key a) rows) = Some r" by simp
    then have "r \<in> set (filter (\<lambda>q. key q \<noteq> key a) rows)"
      unfolding find_Some_iff by (metis nth_mem)
    then have ne: "key r \<noteq> key a" by simp
    have "find (\<lambda>q. key q = key r) (filter (\<lambda>q. key q \<noteq> key a) xs) = find (\<lambda>q. key q = key r) xs" for xs
      using ne by (induction xs) auto
    with f ne show ?thesis by simp
  next
    case False
    with 2 show ?thesis by simp
  qed
qed simp

lemma group_sum_keys: "distinct (map fst (group_sum key amount rows))"
  by (simp add: group_sum_def comp_def)

lemma map_of_group_sum:
  fixes key :: "'r \<Rightarrow> 'b"
  shows "map_of (group_sum key amount rows) k =
     (if k \<in> key ` set rows then Some (sum_list (map amount (filter (\<lambda>r. key r = k) rows))) else None)"
proof -
  have "map_of (map (\<lambda>k. (k, f k)) ks) k = (if k \<in> set ks then Some (f k) else None)"
    for f :: "'b \<Rightarrow> int" and ks
    by (induction ks) auto
  then show ?thesis by (simp add: group_sum_def)
qed

end
