(* ===== verification/Api_Errors.thy ===== *)
theory Api_Errors
  imports Rust_Strings
begin

text \<open>
  \<^verbatim>\<open>crates/server/src/error.rs\<close>: the errors of the API server, their text and the HTTP status each
  is answered with. The errors of other crates are the texts they print.
\<close>

datatype DeepBookError =
    NotFound string
  | Database string
  | BadRequest string
  | Rpc string
  | Deserialization string
  | Internal string
  | Unauthorized

definition not_found :: "string \<Rightarrow> DeepBookError" where "not_found resource = NotFound resource"
definition database_error :: "string \<Rightarrow> DeepBookError" where "database_error msg = Database msg"
definition bad_request :: "string \<Rightarrow> DeepBookError" where "bad_request msg = BadRequest msg"
definition rpc_error :: "string \<Rightarrow> DeepBookError" where "rpc_error msg = Rpc msg"
definition deserialization :: "string \<Rightarrow> DeepBookError" where "deserialization msg = Deserialization msg"
definition internal :: "string \<Rightarrow> DeepBookError" where "internal msg = Internal msg"

fun error_to_string :: "DeepBookError \<Rightarrow> string" where
  "error_to_string (NotFound resource) = ''Resource not found: '' @ resource"
| "error_to_string (Database e) = ''Database error: '' @ e"
| "error_to_string (BadRequest e) = ''Invalid request: '' @ e"
| "error_to_string (Rpc e) = ''RPC error: '' @ e"
| "error_to_string (Deserialization e) = ''Deserialization error: '' @ e"
| "error_to_string (Internal e) = ''Internal error: '' @ e"
| "error_to_string Unauthorized = ''Unauthorized''"

text \<open>The status code and the body of the response.\<close>

definition into_response :: "DeepBookError \<Rightarrow> nat \<times> string" where
  "into_response err =
     (case err of
        NotFound _ \<Rightarrow> (404, error_to_string err)
      | BadRequest _ \<Rightarrow> (400, error_to_string err)
      | Unauthorized \<Rightarrow> (401, error_to_string err)
      | Database _ \<Rightarrow> (500, error_to_string err)
      | Rpc _ \<Rightarrow> (500, error_to_string err)
      | Deserialization _ \<Rightarrow> (500, error_to_string err)
      | Internal _ \<Rightarrow> (500, error_to_string err))"

definition from_diesel :: "string \<Rightarrow> DeepBookError" where "from_diesel err = Database err"
definition from_anyhow :: "string \<Rightarrow> DeepBookError" where "from_anyhow err = Internal err"
definition from_sui_sdk :: "string \<Rightarrow> DeepBookError" where "from_sui_sdk err = Rpc err"
definition from_object_id_parse :: "string \<Rightarrow> DeepBookError" where
  "from_object_id_parse err = BadRequest err"

lemmas error_constructors =
  not_found_def database_error_def bad_request_def rpc_error_def deserialization_def internal_def
  from_diesel_def from_anyhow_def from_sui_sdk_def from_object_id_parse_def

text \<open>No error is answered as a success, the error class can be read off the status (a client
  error exactly for not found, bad request and unauthorized), and two errors with the same response
  are equal: the body identifies the error.\<close>

theorem into_response_faithful:
  "fst (into_response e) \<in> {400, 401, 404, 500} \<and>
   (fst (into_response e) < 500 \<longleftrightarrow> e = Unauthorized \<or> (\<exists>s. e = NotFound s \<or> e = BadRequest s)) \<and>
   (into_response e = into_response e' \<longleftrightarrow> e = e')"
  by (cases e; cases e') (simp_all add: into_response_def)

end
