(* ===== verification/Event_Types.thy ===== *)
theory Event_Types
  imports Packages
begin

text \<open>
  \<^verbatim>\<open>crates/indexer/src/traits.rs\<close>: the \<open>MoveStruct\<close> trait, that is, which on-chain struct
  tags an event type of the indexer accepts in which environment. A \<open>MoveStruct\<close>
  implementation is its three associated constants, the record \<open>MoveStruct\<close>. What the
  code takes from other crates (\<^verbatim>\<open>hex\<close>, \<^verbatim>\<open>sui-types\<close>, \<^verbatim>\<open>move-core-types\<close>) are the fields of
  \<open>sui_lib\<close>, an argument of the functions that use them. An address or object id is its
  list of 32 bytes.
\<close>

type_synonym bytes = "u8 list"
type_synonym address = bytes
type_synonym object_id = bytes

text \<open>The functions of other crates.\<close>

record sui_lib =
  hex_decode :: "string \<Rightarrow> string + bytes"
  account_address_from_str :: "string \<Rightarrow> address option"
  object_id_from_str :: "string \<Rightarrow> object_id option"
  object_id_to_string :: "object_id \<Rightarrow> string"
  object_id_to_hex_uncompressed :: "object_id \<Rightarrow> string"
  address_to_string :: "address \<Rightarrow> string"
  digest_to_string :: "bytes \<Rightarrow> string"

text \<open>
  A struct tag. The trait builds only struct type parameters, and the match ignores them, so
  the type parameters of a tag are tags.
\<close>

datatype struct_tag =
  StructTag (tag_address: address) (tag_module: string) (tag_name: string)
    (tag_type_params: "struct_tag list")

record MoveStruct =
  MODULE :: string
  NAME :: string
  TYPE_PARAMS :: "string list"

section \<open>The package addresses of a module\<close>

definition parse_address_from_hex :: "sui_lib \<Rightarrow> string \<Rightarrow> string + address" where
  "parse_address_from_hex lib s =
     (let h = (if starts_with s ''0x'' then drop 2 s else s)
      in case hex_decode lib h of
           Inl e \<Rightarrow> Inl (''Failed to decode hex: '' @ e)
         | Inr bs \<Rightarrow>
             if length bs \<noteq> 32 then Inl (''Expected 32 bytes, got '' @ show_nat (length bs))
             else Inr bs)"

text \<open>The addresses of the strings that parse; the others are skipped.\<close>

fun parse_addresses :: "sui_lib \<Rightarrow> string list \<Rightarrow> address list" where
  "parse_addresses lib [] = []"
| "parse_addresses lib (s # ss) =
     (case parse_address_from_hex lib s of
        Inl _ \<Rightarrow> parse_addresses lib ss
      | Inr a \<Rightarrow> a # parse_addresses lib ss)"

definition SUI_SYSTEM_ADDRESS :: string where
  "SUI_SYSTEM_ADDRESS = ''0000000000000000000000000000000000000000000000000000000000000002''"

definition get_package_addresses_for_module ::
  "sui_lib \<Rightarrow> sandbox_state \<Rightarrow> string \<Rightarrow> DeepbookEnv \<Rightarrow> string + address list" where
  "get_package_addresses_for_module lib st m env =
     (case get_module_type m of
        Core \<Rightarrow> Inr (parse_addresses lib (get_core_package_addresses st env))
      | Margin \<Rightarrow>
          (let addresses = parse_addresses lib (get_margin_package_addresses st env)
           in if addresses = [] then
                Inl (''Margin trading is not supported on '' @ debug_env env
                  @ ''. The margin package has not been deployed on this network. Requested module: ''
                  @ [CHR 0x27] @ m @ [CHR 0x27])
              else Inr addresses)
      | Sui \<Rightarrow>
          (case parse_address_from_hex lib SUI_SYSTEM_ADDRESS of
             Inr a \<Rightarrow> Inr [a]
           | Inl _ \<Rightarrow> Inl ''Failed to parse SUI system address'')
      | Unknown \<Rightarrow> Inl (''Unknown module: '' @ m))"

section \<open>The trait\<close>

definition acceptable_package_addresses ::
  "sui_lib \<Rightarrow> sandbox_state \<Rightarrow> MoveStruct \<Rightarrow> DeepbookEnv \<Rightarrow> string + address list" where
  "acceptable_package_addresses lib st ms env =
     get_package_addresses_for_module lib st (MODULE ms) env"

definition get_all_struct_types ::
  "sui_lib \<Rightarrow> sandbox_state \<Rightarrow> MoveStruct \<Rightarrow> DeepbookEnv \<Rightarrow> struct_tag list" where
  "get_all_struct_types lib st ms env =
     (case acceptable_package_addresses lib st ms env of
        Inl _ \<Rightarrow> []
      | Inr addresses \<Rightarrow>
          map (\<lambda>a. StructTag a (MODULE ms) (NAME ms)
                     (map (\<lambda>p. StructTag a (MODULE ms) p []) (TYPE_PARAMS ms)))
            addresses)"

definition matches_event_type ::
  "sui_lib \<Rightarrow> sandbox_state \<Rightarrow> MoveStruct \<Rightarrow> struct_tag \<Rightarrow> DeepbookEnv \<Rightarrow> bool" where
  "matches_event_type lib st ms event_type env =
     list_ex (\<lambda>t. tag_address event_type = tag_address t \<and>
                  tag_module event_type = tag_module t \<and>
                  tag_name event_type = tag_name t)
       (get_all_struct_types lib st ms env)"

section \<open>Properties\<close>

lemma set_parse_addresses:
  "set (parse_addresses lib ss) = {a. \<exists>s\<in>set ss. parse_address_from_hex lib s = Inr a}"
  by (induction ss) (auto split: sum.splits)

lemma parse_address_from_hex_length: "parse_address_from_hex lib s = Inr a \<Longrightarrow> length a = 32"
  by (auto simp: parse_address_from_hex_def Let_def split: sum.split_asm if_split_asm)

lemma parse_addresses_length: "a \<in> set (parse_addresses lib ss) \<Longrightarrow> length a = 32"
  by (auto simp: set_parse_addresses dest: parse_address_from_hex_length)

lemma matches_event_type_iff:
  "matches_event_type lib st ms tag env \<longleftrightarrow>
     tag_module tag = MODULE ms \<and> tag_name tag = NAME ms \<and>
     (\<exists>as. acceptable_package_addresses lib st ms env = Inr as \<and> tag_address tag \<in> set as)"
  by (cases "acceptable_package_addresses lib st ms env")
    (auto simp: matches_event_type_def get_all_struct_types_def list_ex_iff)

text \<open>A matching event of a core or margin module comes from a package of the environment.\<close>

lemma matches_event_type_package:
  assumes "matches_event_type lib st ms tag env" and "MODULE ms \<notin> set get_sui_modules"
  shows "\<exists>s\<in>set (get_all_package_strings st env). parse_address_from_hex lib s = Inr (tag_address tag)"
proof -
  have "get_module_type (MODULE ms) \<noteq> Sui" using assms(2) by (simp add: get_module_type_Sui)
  moreover obtain as where as: "get_package_addresses_for_module lib st (MODULE ms) env = Inr as"
    "tag_address tag \<in> set as"
    using assms(1) by (auto simp: matches_event_type_iff acceptable_package_addresses_def)
  ultimately have "\<exists>s\<in>set (get_core_package_addresses st env) \<union>
      set (get_margin_package_addresses st env). parse_address_from_hex lib s = Inr (tag_address tag)"
    by (auto simp: get_package_addresses_for_module_def Let_def set_parse_addresses
        split: ModuleType.splits if_splits)
  then show ?thesis by (simp add: all_package_strings_set)
qed

text \<open>The acceptance of a tag does not depend on its type parameters.\<close>

lemma matches_event_type_params:
  "matches_event_type lib st ms (StructTag a m n ps) env =
   matches_event_type lib st ms (StructTag a m n qs) env"
  by (simp add: matches_event_type_iff)

end
