(* ===== verification/Checkpoints.thy ===== *)
theory Checkpoints
  imports Event_Types
begin

text \<open>
  \<^verbatim>\<open>crates/indexer/src/handlers/mod.rs\<close>: the checkpoint data a handler reads, the filter for
  DeepBook transactions, the metadata shared by the rows of a transaction, and the
  processing and commit that the macro \<^verbatim>\<open>define_handler!\<close> generates for every event type.

  A transaction is what the handlers read of it: the digest of the effects and of the
  transaction data, the sender, the events, the commands and the input objects that
  \<open>tx.input_objects(object_set)\<close> yields. \<open>bcs::from_bytes\<close> is the parameter \<open>decode\<close>. A
  table is the list of its rows, and its primary key is the column \<open>event_digest\<close>.
\<close>

section \<open>Checkpoint data\<close>

record move_event =
  event_type :: struct_tag
  event_contents :: bytes

record chain_object =
  chain_object_id :: object_id
  object_type :: "struct_tag option"

datatype command = MoveCall object_id | OtherCommand

record ExecutedTransaction =
  tx_effects_digest :: bytes
  tx_digest :: bytes
  tx_sender :: address
  tx_events :: "move_event list option"
  tx_commands :: "command list"
  tx_input_objects :: "chain_object list"

record Checkpoint =
  sequence_number :: u64
  timestamp_ms :: u64
  transactions :: "ExecutedTransaction list"

section \<open>Metadata of an event\<close>

definition try_extract_move_call_package :: "sui_lib \<Rightarrow> ExecutedTransaction \<Rightarrow> string option" where
  "try_extract_move_call_package lib tx =
     (case tx_commands tx of
        MoveCall p # _ \<Rightarrow> Some (object_id_to_string lib p)
      | _ \<Rightarrow> None)"

definition unwrap_or :: "'a \<Rightarrow> 'a option \<Rightarrow> 'a" where
  "unwrap_or d x = (case x of None \<Rightarrow> d | Some v \<Rightarrow> v)"

lemma unwrap_or_simps [simp]: "unwrap_or d None = d" "unwrap_or d (Some x) = x"
  by (simp_all add: unwrap_or_def)

record EventMeta =
  meta_digest :: string
  meta_sender :: string
  meta_checkpoint :: i64
  meta_checkpoint_timestamp_ms :: i64
  meta_package :: string
  meta_event_index :: nat

definition from_checkpoint_tx :: "sui_lib \<Rightarrow> Checkpoint \<Rightarrow> ExecutedTransaction \<Rightarrow> EventMeta" where
  "from_checkpoint_tx lib cp tx =
     \<lparr>meta_digest = digest_to_string lib (tx_effects_digest tx),
      meta_sender = address_to_string lib (tx_sender tx),
      meta_checkpoint = as_i64 (sequence_number cp),
      meta_checkpoint_timestamp_ms = as_i64 (timestamp_ms cp),
      meta_package = unwrap_or [] (try_extract_move_call_package lib tx),
      meta_event_index = 0\<rparr>"

definition with_index :: "EventMeta \<Rightarrow> nat \<Rightarrow> EventMeta" where
  "with_index m i = m\<lparr>meta_event_index := i\<rparr>"

text \<open>\<open>format!("{digest}{index}")\<close>, the primary key of every event table.\<close>

definition event_key :: "string \<Rightarrow> nat \<Rightarrow> string" where
  "event_key d i = d @ show_nat i"

definition meta_event_digest :: "EventMeta \<Rightarrow> string" where
  "meta_event_digest m = event_key (meta_digest m) (meta_event_index m)"

text \<open>The columns every event table starts with; the row types extend this record.\<close>

record event_row =
  event_digest :: string
  digest :: string
  sender :: string
  checkpoint :: i64
  checkpoint_timestamp_ms :: i64
  package :: string

section \<open>The transaction filter\<close>

definition is_deepbook_tx :: "sui_lib \<Rightarrow> sandbox_state \<Rightarrow> ExecutedTransaction \<Rightarrow> DeepbookEnv \<Rightarrow> bool option" where
  "is_deepbook_tx lib st tx env =
     (case package_addresses (account_address_from_str lib) st env of
        None \<Rightarrow> None
      | Some deepbook_addresses \<Rightarrow>
     (case package_ids (object_id_from_str lib) st env of
        None \<Rightarrow> None
      | Some deepbook_packages \<Rightarrow> Some
          (if list_ex (\<lambda>obj. case object_type obj of
                 None \<Rightarrow> False
               | Some t \<Rightarrow> tag_address t \<in> set deepbook_addresses) (tx_input_objects tx)
           then True
           else if (case tx_events tx of
                 None \<Rightarrow> False
               | Some events \<Rightarrow>
                   list_ex (\<lambda>ev. tag_address (event_type ev) \<in> set deepbook_addresses) events)
           then True
           else list_ex (\<lambda>cmd. case cmd of
                 MoveCall p \<Rightarrow> p \<in> set deepbook_packages
               | OtherCommand \<Rightarrow> False) (tx_commands tx))))"

section \<open>Processing a checkpoint\<close>

datatype process_error = Panic | BcsError

text \<open>
  The loop of \<open>process\<close>: \<open>continue\<close> for a transaction that is not a DeepBook one or has no
  events, otherwise one value for each event that matches, in order. A decoding error leaves
  the whole checkpoint with that error.
\<close>

definition process_tx ::
  "sui_lib \<Rightarrow> sandbox_state \<Rightarrow> DeepbookEnv \<Rightarrow> (nat \<times> move_event \<Rightarrow> process_error + 'row list) \<Rightarrow>
   ExecutedTransaction \<Rightarrow> process_error + 'row list" where
  "process_tx lib st env per_event tx =
     (case is_deepbook_tx lib st tx env of
        None \<Rightarrow> Inl Panic
      | Some False \<Rightarrow> Inr []
      | Some True \<Rightarrow>
          (case tx_events tx of
             None \<Rightarrow> Inr []
           | Some events \<Rightarrow> collect_result per_event (enumerate 0 events)))"

definition process_event ::
  "sui_lib \<Rightarrow> sandbox_state \<Rightarrow> DeepbookEnv \<Rightarrow> MoveStruct \<Rightarrow> (bytes \<Rightarrow> 'ev option) \<Rightarrow>
   ('ev \<Rightarrow> EventMeta \<Rightarrow> 'row) \<Rightarrow> EventMeta \<Rightarrow> nat \<times> move_event \<Rightarrow> process_error + 'row list" where
  "process_event lib st env ms decode map_event base_meta = (\<lambda>(index, ev).
     if matches_event_type lib st ms (event_type ev) env then
       (case decode (event_contents ev) of
          None \<Rightarrow> Inl BcsError
        | Some e \<Rightarrow> Inr [map_event e (with_index base_meta index)])
     else Inr [])"

definition process_handler ::
  "sui_lib \<Rightarrow> sandbox_state \<Rightarrow> DeepbookEnv \<Rightarrow> MoveStruct \<Rightarrow> (bytes \<Rightarrow> 'ev option) \<Rightarrow>
   ('ev \<Rightarrow> EventMeta \<Rightarrow> 'row) \<Rightarrow> Checkpoint \<Rightarrow> process_error + 'row list" where
  "process_handler lib st env ms decode map_event cp =
     collect_result
       (\<lambda>tx. process_tx lib st env
          (process_event lib st env ms decode map_event (from_checkpoint_tx lib cp tx)) tx)
       (transactions cp)"

section \<open>Committing rows\<close>

text \<open>
  \<open>insert_into(table).values(values).on_conflict_do_nothing()\<close>: a row whose primary key is
  already in the table, from before or from this statement, is skipped. The result is the
  number of rows inserted.
\<close>

definition insert_row :: "'a event_row_scheme \<Rightarrow> 'a event_row_scheme list \<Rightarrow> 'a event_row_scheme list" where
  "insert_row r tbl = (if event_digest r \<in> event_digest ` set tbl then tbl else tbl @ [r])"

definition commit ::
  "'a event_row_scheme list \<Rightarrow> 'a event_row_scheme list \<Rightarrow> 'a event_row_scheme list \<times> nat" where
  "commit vals tbl =
     (let tbl' = fold insert_row vals tbl in (tbl', length tbl' - length tbl))"

end
