(* ===== verification/Float64.thy ===== *)
theory Float64
  imports Complex_Main Prelude
begin

text \<open>
  Rust's \<open>f64\<close>: IEEE 754 binary64 with round to nearest, ties to even. A finite value is the
  rational it denotes, so the two zeros are one value; nothing in the code divides by a
  negative zero or prints one. \<open>round_f64\<close> rounds an exact rational result; the operations are the
  exact ones followed by this rounding. The lemmas give the error of one rounding and the
  integers that are represented exactly.
\<close>

section \<open>Rounding\<close>

datatype f64 = F64_NaN | F64_Inf bool \<comment> \<open>negative\<close> | F64 rat

fun floor_log2 :: "nat \<Rightarrow> nat" where
  "floor_log2 n = (if n < 2 then 0 else Suc (floor_log2 (n div 2)))"

declare floor_log2.simps [simp del]

definition rat_log2 :: "rat \<Rightarrow> int" where
  "rat_log2 x =
     (let (p, q) = quotient_of \<bar>x\<bar>; k = int (floor_log2 (nat p)) - int (floor_log2 (nat q))
      in if \<bar>x\<bar> < 2 powi k then k - 1 else k)"

text \<open>The exponent of the last place: 52 fraction bits, and never below that of the subnormals.\<close>

definition ulp_exp :: "rat \<Rightarrow> int" where
  "ulp_exp x = max (rat_log2 x - 52) (- 1074)"

definition round_half_even :: "rat \<Rightarrow> int" where
  "round_half_even x =
     (let f = \<lfloor>x\<rfloor>; d = x - of_int f
      in if d < 1/2 then f else if 1/2 < d then f + 1 else if even f then f else f + 1)"

definition round_rat :: "rat \<Rightarrow> rat" where
  "round_rat x = (if x = 0 then 0 else
     (let u = 2 powi (ulp_exp x) in of_int (round_half_even (x / u)) * u))"

definition round_f64 :: "rat \<Rightarrow> f64" where
  "round_f64 x =
     (let y = round_rat x in if 2 ^ 1024 \<le> \<bar>y\<bar> then F64_Inf (y < 0) else F64 y)"

section \<open>Operations\<close>

text \<open>\<open>n as f64\<close> on an integer.\<close>

definition f64_of_int :: "int \<Rightarrow> f64" where "f64_of_int n = round_f64 (of_int n)"

fun f64_div :: "f64 \<Rightarrow> f64 \<Rightarrow> f64" where
  "f64_div (F64 x) (F64 y) =
     (if y = 0 then (if x = 0 then F64_NaN else F64_Inf (x < 0)) else round_f64 (x / y))"
| "f64_div (F64_Inf s) (F64 y) = F64_Inf (s \<noteq> (y < 0))"
| "f64_div (F64 x) (F64_Inf s) = F64 0"
| "f64_div _ _ = F64_NaN"

fun f64_mul :: "f64 \<Rightarrow> f64 \<Rightarrow> f64" where
  "f64_mul (F64 x) (F64 y) = round_f64 (x * y)"
| "f64_mul (F64_Inf s) (F64 y) = (if y = 0 then F64_NaN else F64_Inf (s \<noteq> (y < 0)))"
| "f64_mul (F64 x) (F64_Inf s) = (if x = 0 then F64_NaN else F64_Inf (s \<noteq> (x < 0)))"
| "f64_mul (F64_Inf s) (F64_Inf t) = F64_Inf (s \<noteq> t)"
| "f64_mul _ _ = F64_NaN"

fun f64_add :: "f64 \<Rightarrow> f64 \<Rightarrow> f64" where
  "f64_add (F64 x) (F64 y) = round_f64 (x + y)"
| "f64_add (F64_Inf s) (F64 y) = F64_Inf s"
| "f64_add (F64 x) (F64_Inf s) = F64_Inf s"
| "f64_add (F64_Inf s) (F64_Inf t) = (if s = t then F64_Inf s else F64_NaN)"
| "f64_add _ _ = F64_NaN"

fun f64_neg :: "f64 \<Rightarrow> f64" where
  "f64_neg (F64 x) = F64 (- x)"
| "f64_neg (F64_Inf s) = F64_Inf (\<not> s)"
| "f64_neg F64_NaN = F64_NaN"

definition f64_sub :: "f64 \<Rightarrow> f64 \<Rightarrow> f64" where "f64_sub x y = f64_add x (f64_neg y)"

fun is_finite :: "f64 \<Rightarrow> bool" where
  "is_finite (F64 x) = True"
| "is_finite _ = False"

section \<open>The error of one rounding\<close>

lemma floor_log2_bounds: "0 < n \<Longrightarrow> 2 ^ floor_log2 n \<le> n \<and> n < 2 ^ Suc (floor_log2 n)"
proof (induction n rule: floor_log2.induct)
  case (1 n)
  show ?case
  proof (cases "n < 2")
    case True
    with "1.prems" have "n = 1" by simp
    then show ?thesis by (simp add: floor_log2.simps)
  next
    case False
    with "1.IH" have h: "2 ^ floor_log2 (n div 2) \<le> n div 2" "n div 2 < 2 ^ Suc (floor_log2 (n div 2))"
      by auto
    have l: "floor_log2 n = Suc (floor_log2 (n div 2))"
      using False by (subst floor_log2.simps) simp
    have "2 * 2 ^ floor_log2 (n div 2) \<le> n" using h(1) by arith
    moreover have "n < 2 * 2 ^ Suc (floor_log2 (n div 2))" using h(2) by arith
    ultimately show ?thesis by (simp add: l)
  qed
qed

lemma floor_log2_rat:
  assumes "0 < p"
  shows "(2::rat) ^ floor_log2 (nat p) \<le> of_int p" and "of_int p < (2::rat) ^ Suc (floor_log2 (nat p))"
proof -
  have "2 ^ floor_log2 (nat p) \<le> nat p" "nat p < 2 ^ Suc (floor_log2 (nat p))"
    using floor_log2_bounds [of "nat p"] assms by auto
  then have "2 ^ floor_log2 (nat p) \<le> p" "p < 2 ^ Suc (floor_log2 (nat p))"
    using assms by (simp_all add: nat_less_iff le_nat_iff)
  then show "(2::rat) ^ floor_log2 (nat p) \<le> of_int p" "of_int p < (2::rat) ^ Suc (floor_log2 (nat p))"
    by (metis of_int_le_iff of_int_numeral of_int_power, metis of_int_less_iff of_int_numeral of_int_power)
qed

lemma rat_log2_bounds:
  assumes "x \<noteq> 0"
  shows "2 powi rat_log2 x \<le> \<bar>x\<bar> \<and> \<bar>x\<bar> < 2 powi (rat_log2 x + 1)"
proof -
  obtain p q where pq: "quotient_of \<bar>x\<bar> = (p, q)" by (cases "quotient_of \<bar>x\<bar>")
  have q0: "0 < q" using quotient_of_denom_pos [OF pq] .
  have x: "\<bar>x\<bar> = of_int p / of_int q" using quotient_of_div [OF pq] .
  have p0: "0 < p" using assms x q0
    by (metis abs_of_nonneg abs_ge_zero divide_less_0_iff not_less of_int_0_less_iff of_int_less_0_iff
        zero_less_abs_iff zero_less_divide_iff)
  define a where "a = floor_log2 (nat p)"
  define b where "b = floor_log2 (nat q)"
  note pa = floor_log2_rat [OF p0, folded a_def]
  note qb = floor_log2_rat [OF q0, folded b_def]
  let ?k = "int a - int b"
  have k: "(2::rat) powi ?k = 2 ^ a / 2 ^ b" by (simp add: power_int_diff)
  have "\<bar>x\<bar> < 2 ^ Suc a / 2 ^ b"
    unfolding x using pa qb q0 p0 by (intro frac_less) auto
  also have "\<dots> = 2 powi (?k + 1)" by (simp add: k power_int_add)
  finally have up: "\<bar>x\<bar> < 2 powi (?k + 1)" .
  have "2 powi (?k - 1) = (2::rat) ^ a / 2 ^ Suc b" by (simp add: power_int_diff)
  also have "\<dots> \<le> \<bar>x\<bar>" unfolding x using pa qb q0 p0 by (intro frac_le) auto
  finally have lo: "2 powi (?k - 1) \<le> \<bar>x\<bar>" .
  have "rat_log2 x = (if \<bar>x\<bar> < 2 powi ?k then ?k - 1 else ?k)"
    by (simp add: rat_log2_def pq a_def b_def)
  then show ?thesis using up lo by auto
qed

lemma rat_log2_less: "x \<noteq> 0 \<Longrightarrow> \<bar>x\<bar> < 2 powi k \<Longrightarrow> rat_log2 x < k"
  using rat_log2_bounds [of x] power_int_increasing [of k "rat_log2 x" "2::rat"] by (rule_tac ccontr) auto

lemma rat_log2_ge: "x \<noteq> 0 \<Longrightarrow> 2 powi k \<le> \<bar>x\<bar> \<Longrightarrow> k \<le> rat_log2 x"
  using rat_log2_bounds [of x] power_int_increasing [of "rat_log2 x + 1" k "2::rat"] by (rule_tac ccontr) auto

lemma round_half_even_error: "\<bar>of_int (round_half_even x) - x\<bar> \<le> 1/2"
proof -
  define d where "d = x - of_int \<lfloor>x\<rfloor>"
  have d: "0 \<le> d" "d < 1" unfolding d_def by linarith+
  have "of_int (round_half_even x) - x = - d \<or> of_int (round_half_even x) - x = 1 - d"
    by (simp add: round_half_even_def Let_def d_def)
  moreover have "d < 1/2 \<Longrightarrow> of_int (round_half_even x) - x = - d"
    by (simp add: round_half_even_def Let_def d_def)
  moreover have "1/2 < d \<Longrightarrow> of_int (round_half_even x) - x = 1 - d"
    by (simp add: round_half_even_def Let_def d_def)
  ultimately show ?thesis using d by (cases "d < 1/2"; cases "1/2 < d") auto
qed

lemma round_half_even_int [simp]: "round_half_even (of_int n) = n"
  by (simp add: round_half_even_def)

lemma round_rat_error: "\<bar>round_rat x - x\<bar> \<le> 2 powi ulp_exp x / 2"
proof (cases "x = 0")
  case True
  then show ?thesis by (simp add: round_rat_def)
next
  case False
  let ?u = "2 powi ulp_exp x :: rat"
  have u: "0 < ?u" by simp
  have "\<bar>of_int (round_half_even (x / ?u)) - x / ?u\<bar> * ?u \<le> (1/2) * ?u"
    using u by (intro mult_right_mono round_half_even_error) simp
  moreover have "\<bar>of_int (round_half_even (x / ?u)) - x / ?u\<bar> * ?u =
      \<bar>(of_int (round_half_even (x / ?u)) - x / ?u) * ?u\<bar>"
    using u by (simp add: abs_mult)
  moreover have "(of_int (round_half_even (x / ?u)) - x / ?u) * ?u =
      of_int (round_half_even (x / ?u)) * ?u - x"
    using u by (simp add: left_diff_distrib)
  ultimately show ?thesis using False by (simp add: round_rat_def Let_def)
qed

text \<open>In the normal range one rounding changes a value by at most one part in \<open>2 ^ 53\<close>.\<close>

lemma round_rat_relative:
  assumes "2 powi (- 1022) \<le> \<bar>x\<bar>"
  shows "\<bar>round_rat x - x\<bar> \<le> \<bar>x\<bar> / 2 ^ 53"
proof -
  have x0: "x \<noteq> 0"
  proof
    assume "x = 0"
    moreover have "(0::rat) < 2 powi (- 1022)" by (simp only: zero_less_power_int zero_less_numeral)
    ultimately show False using assms by simp
  qed
  have "\<not> rat_log2 x + 1 \<le> - 1022"
  proof
    assume "rat_log2 x + 1 \<le> - 1022"
    then have "(2::rat) powi (rat_log2 x + 1) \<le> 2 powi (- 1022)"
      by (intro power_int_increasing) simp_all
    with rat_log2_bounds [OF x0] assms show False by linarith
  qed
  then have e: "ulp_exp x = rat_log2 x - 52" by (simp add: ulp_exp_def)
  have "2 powi ulp_exp x / 2 = (2::rat) powi rat_log2 x / 2 ^ 53"
    by (simp add: e power_int_diff)
  also have "\<dots> \<le> \<bar>x\<bar> / 2 ^ 53" using rat_log2_bounds [OF x0] by (intro divide_right_mono) simp_all
  finally show ?thesis using round_rat_error [of x] by linarith
qed

text \<open>Integers up to \<open>2 ^ 53\<close> are exact.\<close>

lemma round_rat_int_small:
  assumes "n \<noteq> 0" and "\<bar>n\<bar> < 2 ^ 53"
  shows "round_rat (of_int n) = of_int n"
proof -
  have n0: "of_int n \<noteq> (0::rat)" using assms(1) by simp
  have "(of_int \<bar>n\<bar> :: rat) < of_int (2 ^ 53)" using assms(2) by (simp only: of_int_less_iff)
  then have "rat_log2 (of_int n) < 53" by (intro rat_log2_less n0) simp
  then have "ulp_exp (of_int n) \<le> 0" by (simp add: ulp_exp_def)
  then obtain k where k: "ulp_exp (of_int n) = - int k" by (metis nonpos_int_cases)
  have "of_int n / 2 powi ulp_exp (of_int n) = (of_int (n * 2 ^ k) :: rat)"
    by (simp add: k power_int_minus divide_inverse)
  then have "round_rat (of_int n) = of_int (n * 2 ^ k) * 2 powi ulp_exp (of_int n)"
    using n0 by (simp only: round_rat_def Let_def round_half_even_int if_False)
  then show ?thesis by (simp add: k power_int_minus)
qed

lemma round_rat_int_limit:
  assumes "n = 2 ^ 53 \<or> n = - (2 ^ 53)"
  shows "round_rat (of_int n) = of_int n"
proof -
  have abs: "\<bar>of_int n :: rat\<bar> = 2 powi 53" and n0: "of_int n \<noteq> (0::rat)" using assms by auto
  have "rat_log2 (of_int n) < 54" by (rule rat_log2_less [OF n0]) (simp add: abs)
  moreover have "53 \<le> rat_log2 (of_int n)" by (rule rat_log2_ge [OF n0]) (simp add: abs)
  ultimately have u: "ulp_exp (of_int n) = 1" by (simp add: ulp_exp_def)
  have "of_int n / 2 = (of_int (n div 2) :: rat)" "of_int (n div 2) * 2 = (of_int n :: rat)"
    using assms by auto
  moreover have "round_half_even (of_int n / 2 :: rat) = n div 2"
    by (simp only: calculation(1) round_half_even_int)
  ultimately show ?thesis using n0 by (simp add: round_rat_def Let_def u)
qed

lemma round_rat_int:
  assumes "\<bar>n\<bar> \<le> 2 ^ 53"
  shows "round_rat (of_int n) = of_int n"
proof -
  consider "n = 0" | "n \<noteq> 0" "\<bar>n\<bar> < 2 ^ 53" | "n = 2 ^ 53 \<or> n = - (2 ^ 53)" using assms by linarith
  then show ?thesis
    by cases (simp add: round_rat_def, rule round_rat_int_small, assumption+, rule round_rat_int_limit)
qed

lemma f64_of_int_exact:
  assumes "\<bar>n\<bar> \<le> 2 ^ 53"
  shows "f64_of_int n = F64 (of_int n)"
proof -
  have "(of_int \<bar>n\<bar> :: rat) \<le> of_int (2 ^ 53)" using assms by (simp only: of_int_le_iff)
  then have "\<bar>of_int n :: rat\<bar> < 2 ^ 1024" by simp
  then show ?thesis by (simp add: f64_of_int_def round_f64_def round_rat_int [OF assms])
qed

end
