(* ===== verification/Json.thy ===== *)
theory Json
  imports Float64
begin

text \<open>
  \<open>serde_json::Value\<close>, and the record types of other crates that occur in rows: a \<open>BigDecimal\<close> is
  the rational it denotes (it is exact), a \<open>NaiveDateTime\<close> is an opaque number that the code only
  passes on. An object is the list of its members in insertion order.
\<close>

datatype json =
    JNull
  | JBool bool
  | JInt int
  | JFloat f64
  | JString string
  | JArray "json list"
  | JObject "(string \<times> json) list"

type_synonym bigdecimal = rat
type_synonym naive_datetime = int

definition bigdecimal_from_u64 :: "u64 \<Rightarrow> bigdecimal" where
  "bigdecimal_from_u64 w = of_int (uint w)"

text \<open>\<open>Value::from(f64)\<close>: a number that is not finite becomes \<open>Null\<close>.\<close>

definition json_of_f64 :: "f64 \<Rightarrow> json" where
  "json_of_f64 x = (if is_finite x then JFloat x else JNull)"

definition json_of_option :: "('a \<Rightarrow> json) \<Rightarrow> 'a option \<Rightarrow> json" where
  "json_of_option f x = (case x of None \<Rightarrow> JNull | Some v \<Rightarrow> f v)"

lemma bigdecimal_from_u64_inj: "bigdecimal_from_u64 v = bigdecimal_from_u64 w \<longleftrightarrow> v = w"
  unfolding bigdecimal_from_u64_def of_int_eq_iff by (rule word_uint_eq_iff [symmetric])

end
