(* ===== verification/Rows.thy ===== *)
theory Rows
  imports Checkpoints Json
begin

text \<open>
  \<^verbatim>\<open>crates/schema/src/models.rs\<close>: the rows of the database tables. A row of an event table extends
  \<open>event_row\<close>, whose six columns every such table starts with; the other columns are named
  \<open><table>_<column>\<close>, as \<open>schema::<table>::<column>\<close> in the queries. \<open>naive_datetime\<close> columns
  filled by the database are kept as opaque values.
\<close>

datatype OrderUpdateStatus = Placed | Modified | Canceled | Expired

text \<open>The text of the status column: the name of the variant, and its inverse.\<close>

fun status_to_sql :: "OrderUpdateStatus \<Rightarrow> string" where
  "status_to_sql Placed = ''Placed''"
| "status_to_sql Modified = ''Modified''"
| "status_to_sql Canceled = ''Canceled''"
| "status_to_sql Expired = ''Expired''"

definition status_from_sql :: "string \<Rightarrow> OrderUpdateStatus option" where
  "status_from_sql s =
     (if s = ''Placed'' then Some Placed
      else if s = ''Modified'' then Some Modified
      else if s = ''Canceled'' then Some Canceled
      else if s = ''Expired'' then Some Expired
      else None)"

lemma status_from_to_sql: "status_from_sql (status_to_sql s) = Some s"
  by (cases s) (simp_all add: status_from_sql_def)

record OrderUpdate = event_row +
  order_updates_status :: OrderUpdateStatus
  order_updates_pool_id :: string
  order_updates_order_id :: string
  order_updates_client_order_id :: i64
  order_updates_price :: i64
  order_updates_is_bid :: bool
  order_updates_original_quantity :: i64
  order_updates_quantity :: i64
  order_updates_filled_quantity :: i64
  order_updates_onchain_timestamp :: i64
  order_updates_trader :: string
  order_updates_balance_manager_id :: string

record OrderStatus =
  order_status_order_id :: string
  order_status_balance_manager_id :: string
  order_status_is_bid :: bool
  order_status_current_status :: string
  order_status_price :: i64
  order_status_placed_at :: i64
  order_status_last_updated_at :: i64
  order_status_original_quantity :: i64
  order_status_filled_quantity :: i64
  order_status_remaining_quantity :: i64

record OrderFill = event_row +
  order_fills_pool_id :: string
  order_fills_maker_order_id :: string
  order_fills_taker_order_id :: string
  order_fills_maker_client_order_id :: i64
  order_fills_taker_client_order_id :: i64
  order_fills_price :: i64
  order_fills_taker_fee :: i64
  order_fills_taker_fee_is_deep :: bool
  order_fills_maker_fee :: i64
  order_fills_maker_fee_is_deep :: bool
  order_fills_taker_is_bid :: bool
  order_fills_base_quantity :: i64
  order_fills_quote_quantity :: i64
  order_fills_maker_balance_manager_id :: string
  order_fills_taker_balance_manager_id :: string
  order_fills_onchain_timestamp :: i64

record OrderFillSummary =
  order_fill_summary_pool_id :: string
  order_fill_summary_maker_balance_manager_id :: string
  order_fill_summary_taker_balance_manager_id :: string
  order_fill_summary_quantity :: i64

record BalancesSummary =
  balances_summary_asset :: string
  balances_summary_amount :: i64
  balances_summary_deposit :: bool

record Flashloan = event_row +
  flashloans_pool_id :: string
  flashloans_borrow_quantity :: i64
  flashloans_borrow :: bool
  flashloans_type_name :: string

record PoolPrice = event_row +
  pool_prices_target_pool :: string
  pool_prices_reference_pool :: string
  pool_prices_conversion_rate :: i64

record Balances = event_row +
  balances_balance_manager_id :: string
  balances_asset :: string
  balances_amount :: i64
  balances_deposit :: bool

record DeepBurned = event_row +
  deep_burned_pool_id :: string
  deep_burned_burned_amount :: i64

record PoolCreated = event_row +
  pool_created_pool_id :: string
  pool_created_taker_fee :: i64
  pool_created_maker_fee :: i64
  pool_created_tick_size :: i64
  pool_created_lot_size :: i64
  pool_created_min_size :: i64
  pool_created_whitelisted_pool :: bool
  pool_created_treasury_address :: string

record BookParamsUpdated = event_row +
  book_params_updated_pool_id :: string
  book_params_updated_tick_size :: i64
  book_params_updated_lot_size :: i64
  book_params_updated_min_size :: i64
  book_params_updated_onchain_timestamp :: i64

record Proposals = event_row +
  proposals_pool_id :: string
  proposals_balance_manager_id :: string
  proposals_epoch :: i64
  proposals_taker_fee :: i64
  proposals_maker_fee :: i64
  proposals_stake_required :: i64

record Rebates = event_row +
  rebates_pool_id :: string
  rebates_balance_manager_id :: string
  rebates_epoch :: i64
  rebates_claim_amount :: i64

record ReferralFeeEvent = event_row +
  referral_fee_events_pool_id :: string
  referral_fee_events_referral_id :: string
  referral_fee_events_base_fee :: i64
  referral_fee_events_quote_fee :: i64
  referral_fee_events_deep_fee :: i64

record ReferralClaimed = event_row +
  referral_claimed_pool_id :: string
  referral_claimed_referral_id :: string
  referral_claimed_owner :: string
  referral_claimed_base_amount :: i64
  referral_claimed_quote_amount :: i64
  referral_claimed_deep_amount :: i64

record EwmaUpdate = event_row +
  ewma_updates_pool_id :: string
  ewma_updates_gas_price :: i64
  ewma_updates_mean :: i64
  ewma_updates_variance :: i64
  ewma_updates_onchain_timestamp :: i64

record TakerFeePenaltyApplied = event_row +
  taker_fee_penalty_applied_pool_id :: string
  taker_fee_penalty_applied_balance_manager_id :: string
  taker_fee_penalty_applied_order_id :: string
  taker_fee_penalty_applied_taker_fee_without_penalty :: i64
  taker_fee_penalty_applied_taker_fee :: i64

record Stakes = event_row +
  stakes_pool_id :: string
  stakes_balance_manager_id :: string
  stakes_epoch :: i64
  stakes_amount :: i64
  stakes_stake :: bool

record TradeParamsUpdate = event_row +
  trade_params_update_pool_id :: string
  trade_params_update_taker_fee :: i64
  trade_params_update_maker_fee :: i64
  trade_params_update_stake_required :: i64

record Votes = event_row +
  votes_pool_id :: string
  votes_balance_manager_id :: string
  votes_epoch :: i64
  votes_from_proposal_id :: "string option"
  votes_to_proposal_id :: string
  votes_stake :: i64

record Pools =
  pools_pool_id :: string
  pools_pool_name :: string
  pools_base_asset_id :: string
  pools_base_asset_decimals :: i16
  pools_base_asset_symbol :: string
  pools_base_asset_name :: string
  pools_quote_asset_id :: string
  pools_quote_asset_decimals :: i16
  pools_quote_asset_symbol :: string
  pools_quote_asset_name :: string
  pools_min_size :: i64
  pools_lot_size :: i64
  pools_tick_size :: i64

record SuiErrorTransactions =
  sui_error_transactions_txn_digest :: string
  sui_error_transactions_sender_address :: string
  sui_error_transactions_timestamp_ms :: i64
  sui_error_transactions_failure_status :: string
  sui_error_transactions_package :: string
  sui_error_transactions_cmd_idx :: "i64 option"

record MarginManagerCreated = event_row +
  margin_manager_created_margin_manager_id :: string
  margin_manager_created_balance_manager_id :: string
  margin_manager_created_deepbook_pool_id :: "string option"
  margin_manager_created_owner :: string
  margin_manager_created_onchain_timestamp :: i64

record LoanBorrowed = event_row +
  loan_borrowed_margin_manager_id :: string
  loan_borrowed_margin_pool_id :: string
  loan_borrowed_loan_amount :: i64
  loan_borrowed_loan_shares :: i64
  loan_borrowed_onchain_timestamp :: i64

record LoanRepaid = event_row +
  loan_repaid_margin_manager_id :: string
  loan_repaid_margin_pool_id :: string
  loan_repaid_repay_amount :: i64
  loan_repaid_repay_shares :: i64
  loan_repaid_onchain_timestamp :: i64

record Liquidation = event_row +
  liquidation_margin_manager_id :: string
  liquidation_margin_pool_id :: string
  liquidation_liquidation_amount :: i64
  liquidation_pool_reward :: i64
  liquidation_pool_default :: i64
  liquidation_risk_ratio :: i64
  liquidation_onchain_timestamp :: i64
  liquidation_remaining_base_asset :: bigdecimal
  liquidation_remaining_quote_asset :: bigdecimal
  liquidation_remaining_base_debt :: bigdecimal
  liquidation_remaining_quote_debt :: bigdecimal
  liquidation_base_pyth_price :: i64
  liquidation_base_pyth_decimals :: i16
  liquidation_quote_pyth_price :: i64
  liquidation_quote_pyth_decimals :: i16

record AssetSupplied = event_row +
  asset_supplied_margin_pool_id :: string
  asset_supplied_asset_type :: string
  asset_supplied_supplier :: string
  asset_supplied_amount :: i64
  asset_supplied_shares :: i64
  asset_supplied_onchain_timestamp :: i64

record AssetWithdrawn = event_row +
  asset_withdrawn_margin_pool_id :: string
  asset_withdrawn_asset_type :: string
  asset_withdrawn_supplier :: string
  asset_withdrawn_amount :: i64
  asset_withdrawn_shares :: i64
  asset_withdrawn_onchain_timestamp :: i64

record MarginPoolCreated = event_row +
  margin_pool_created_margin_pool_id :: string
  margin_pool_created_maintainer_cap_id :: string
  margin_pool_created_asset_type :: string
  margin_pool_created_config_json :: json
  margin_pool_created_onchain_timestamp :: i64

record DeepbookPoolUpdated = event_row +
  deepbook_pool_updated_margin_pool_id :: string
  deepbook_pool_updated_deepbook_pool_id :: string
  deepbook_pool_updated_pool_cap_id :: string
  deepbook_pool_updated_enabled :: bool
  deepbook_pool_updated_onchain_timestamp :: i64

record InterestParamsUpdated = event_row +
  interest_params_updated_margin_pool_id :: string
  interest_params_updated_pool_cap_id :: string
  interest_params_updated_config_json :: json
  interest_params_updated_onchain_timestamp :: i64

record MarginPoolConfigUpdated = event_row +
  margin_pool_config_updated_margin_pool_id :: string
  margin_pool_config_updated_pool_cap_id :: string
  margin_pool_config_updated_config_json :: json
  margin_pool_config_updated_onchain_timestamp :: i64

record MaintainerCapUpdated = event_row +
  maintainer_cap_updated_maintainer_cap_id :: string
  maintainer_cap_updated_allowed :: bool
  maintainer_cap_updated_onchain_timestamp :: i64

record DeepbookPoolRegistered = event_row +
  deepbook_pool_registered_pool_id :: string
  deepbook_pool_registered_config_json :: "json option"
  deepbook_pool_registered_onchain_timestamp :: i64

record DeepbookPoolUpdatedRegistry = event_row +
  deepbook_pool_updated_registry_pool_id :: string
  deepbook_pool_updated_registry_enabled :: bool
  deepbook_pool_updated_registry_onchain_timestamp :: i64

record DeepbookPoolConfigUpdated = event_row +
  deepbook_pool_config_updated_pool_id :: string
  deepbook_pool_config_updated_config_json :: json
  deepbook_pool_config_updated_onchain_timestamp :: i64

record MaintainerFeesWithdrawn = event_row +
  maintainer_fees_withdrawn_margin_pool_id :: string
  maintainer_fees_withdrawn_margin_pool_cap_id :: string
  maintainer_fees_withdrawn_maintainer_fees :: i64
  maintainer_fees_withdrawn_onchain_timestamp :: i64

record ProtocolFeesWithdrawn = event_row +
  protocol_fees_withdrawn_margin_pool_id :: string
  protocol_fees_withdrawn_protocol_fees :: i64
  protocol_fees_withdrawn_onchain_timestamp :: i64

record SupplierCapMinted = event_row +
  supplier_cap_minted_supplier_cap_id :: string
  supplier_cap_minted_onchain_timestamp :: i64

record SupplyReferralMinted = event_row +
  supply_referral_minted_margin_pool_id :: string
  supply_referral_minted_supply_referral_id :: string
  supply_referral_minted_owner :: string
  supply_referral_minted_onchain_timestamp :: i64

record PauseCapUpdated = event_row +
  pause_cap_updated_pause_cap_id :: string
  pause_cap_updated_allowed :: bool
  pause_cap_updated_onchain_timestamp :: i64

record ProtocolFeesIncreasedEvent = event_row +
  protocol_fees_increased_margin_pool_id :: string
  protocol_fees_increased_total_shares :: i64
  protocol_fees_increased_referral_fees :: i64
  protocol_fees_increased_maintainer_fees :: i64
  protocol_fees_increased_protocol_fees :: i64
  protocol_fees_increased_onchain_timestamp :: i64

record ReferralFeesClaimedEvent = event_row +
  referral_fees_claimed_referral_id :: string
  referral_fees_claimed_owner :: string
  referral_fees_claimed_fees :: i64
  referral_fees_claimed_onchain_timestamp :: i64

record MarginManagerState =
  margin_manager_state_margin_manager_id :: string
  margin_manager_state_deepbook_pool_id :: string
  margin_manager_state_base_margin_pool_id :: "string option"
  margin_manager_state_quote_margin_pool_id :: "string option"
  margin_manager_state_base_asset_id :: "string option"
  margin_manager_state_base_asset_symbol :: "string option"
  margin_manager_state_quote_asset_id :: "string option"
  margin_manager_state_quote_asset_symbol :: "string option"
  margin_manager_state_risk_ratio :: "bigdecimal option"
  margin_manager_state_base_asset :: "bigdecimal option"
  margin_manager_state_quote_asset :: "bigdecimal option"
  margin_manager_state_base_debt :: "bigdecimal option"
  margin_manager_state_quote_debt :: "bigdecimal option"
  margin_manager_state_base_pyth_price :: "i64 option"
  margin_manager_state_base_pyth_decimals :: "i32 option"
  margin_manager_state_quote_pyth_price :: "i64 option"
  margin_manager_state_quote_pyth_decimals :: "i32 option"
  margin_manager_state_created_at :: naive_datetime
  margin_manager_state_updated_at :: naive_datetime
  margin_manager_state_current_price :: "bigdecimal option"
  margin_manager_state_lowest_trigger_above_price :: "bigdecimal option"
  margin_manager_state_highest_trigger_below_price :: "bigdecimal option"

record MarginPoolSnapshot =
  margin_pool_snapshots_id :: i64
  margin_pool_snapshots_margin_pool_id :: string
  margin_pool_snapshots_asset_type :: string
  margin_pool_snapshots_timestamp :: naive_datetime
  margin_pool_snapshots_total_supply :: i64
  margin_pool_snapshots_total_borrow :: i64
  margin_pool_snapshots_vault_balance :: i64
  margin_pool_snapshots_supply_cap :: i64
  margin_pool_snapshots_interest_rate :: i64
  margin_pool_snapshots_available_withdrawal :: i64
  margin_pool_snapshots_utilization_rate :: f64
  margin_pool_snapshots_solvency_ratio :: "f64 option"
  margin_pool_snapshots_available_liquidity_pct :: "f64 option"

record NewMarginPoolSnapshot =
  new_margin_pool_snapshots_margin_pool_id :: string
  new_margin_pool_snapshots_asset_type :: string
  new_margin_pool_snapshots_total_supply :: i64
  new_margin_pool_snapshots_total_borrow :: i64
  new_margin_pool_snapshots_vault_balance :: i64
  new_margin_pool_snapshots_supply_cap :: i64
  new_margin_pool_snapshots_interest_rate :: i64
  new_margin_pool_snapshots_available_withdrawal :: i64
  new_margin_pool_snapshots_utilization_rate :: f64
  new_margin_pool_snapshots_solvency_ratio :: "f64 option"
  new_margin_pool_snapshots_available_liquidity_pct :: "f64 option"

record CollateralEvent = event_row +
  collateral_events_event_type :: string
  collateral_events_margin_manager_id :: string
  collateral_events_amount :: bigdecimal
  collateral_events_asset_type :: string
  collateral_events_pyth_decimals :: i16
  collateral_events_pyth_price :: bigdecimal
  collateral_events_withdraw_base_asset :: "bool option"
  collateral_events_base_pyth_decimals :: "i16 option"
  collateral_events_base_pyth_price :: "bigdecimal option"
  collateral_events_quote_pyth_decimals :: "i16 option"
  collateral_events_quote_pyth_price :: "bigdecimal option"
  collateral_events_remaining_base_asset :: "bigdecimal option"
  collateral_events_remaining_quote_asset :: "bigdecimal option"
  collateral_events_remaining_base_debt :: "bigdecimal option"
  collateral_events_remaining_quote_debt :: "bigdecimal option"
  collateral_events_onchain_timestamp :: i64

record ConditionalOrderEvent = event_row +
  conditional_order_events_event_type :: string
  conditional_order_events_manager_id :: string
  conditional_order_events_pool_id :: "string option"
  conditional_order_events_conditional_order_id :: i64
  conditional_order_events_trigger_below_price :: bool
  conditional_order_events_trigger_price :: bigdecimal
  conditional_order_events_is_limit_order :: bool
  conditional_order_events_client_order_id :: i64
  conditional_order_events_order_type :: i16
  conditional_order_events_self_matching_option :: i16
  conditional_order_events_price :: bigdecimal
  conditional_order_events_quantity :: bigdecimal
  conditional_order_events_is_bid :: bool
  conditional_order_events_pay_with_deep :: bool
  conditional_order_events_expire_timestamp :: i64
  conditional_order_events_onchain_timestamp :: i64

record BalanceManagerEvent = event_row +
  balance_manager_created_balance_manager_id :: string
  balance_manager_created_owner :: string

record DeepBookReferralCreatedEvent = event_row +
  deepbook_referral_created_referral_id :: string
  deepbook_referral_created_owner :: string

record DeepBookReferralSetEvent = event_row +
  deepbook_referral_set_referral_id :: string
  deepbook_referral_set_balance_manager_id :: string

record Points =
  points_id :: i64
  points_address :: string
  points_amount :: i64
  points_week :: i32
  points_timestamp :: naive_datetime

end
