(* ===== verification/Database.thy ===== *)
theory Database
  imports Sql Api_Errors Rows
begin

text \<open>
  The database as the server sees it (\<^verbatim>\<open>crates/server/src/reader.rs\<close>, \<^verbatim>\<open>crates/server/src/metrics/mod.rs\<close>):
  \<open>database\<close> are the contents of its tables, and \<open>db_env\<close> what each connection meets. Between two
  queries other processes may change the tables and the connection may fail, so the environment
  is indexed by the number of connections made so far: the \<open>n\<close>-th connection fails with
  \<open>connect_error n\<close>, a query on it fails with \<open>query_error n\<close>, and otherwise the query reads
  \<open>contents n\<close>. A refresh of the materialized view on it fails, or sees the balances of \<open>refresh n\<close>, an
  earlier state of the table. A reader operation is a function of the environment from \<open>rpc_state\<close>, the number
  of connections and the two counters of the metrics, to a result and the next state.
\<close>

record watermark_row =
  watermarks_pipeline :: string
  watermarks_epoch_hi_inclusive :: i64
  watermarks_checkpoint_hi_inclusive :: i64
  watermarks_timestamp_ms_hi_inclusive :: i64

record asset_row =
  assets_asset_type :: string
  assets_name :: string
  assets_symbol :: string
  assets_decimals :: i16
  assets_ucid :: "i32 option"
  assets_package_id :: "string option"
  assets_package_address_url :: "string option"

text \<open>A row of the materialized view \<open>net_deposits_hourly\<close>.\<close>

record net_deposits_hourly_row =
  hourly_asset :: string
  hourly_hour_bucket_ms :: i64
  hourly_net_amount_delta :: int

record database =
  tb_pools :: "Pools list"
  tb_order_fills :: "OrderFill list"
  tb_order_updates :: "OrderUpdate list"
  tb_balances :: "Balances list"
  tb_net_deposits_hourly :: "net_deposits_hourly_row list"
  tb_assets :: "asset_row list"
  tb_points :: "Points list"
  tb_watermarks :: "watermark_row list"
  tb_pool_created :: "PoolCreated list"
  tb_book_params_updated :: "BookParamsUpdated list"
  tb_margin_manager_created :: "MarginManagerCreated list"
  tb_margin_manager_state :: "MarginManagerState list"
  tb_loan_borrowed :: "LoanBorrowed list"
  tb_loan_repaid :: "LoanRepaid list"
  tb_liquidation :: "Liquidation list"
  tb_asset_supplied :: "AssetSupplied list"
  tb_asset_withdrawn :: "AssetWithdrawn list"
  tb_margin_pool_created :: "MarginPoolCreated list"
  tb_deepbook_pool_updated :: "DeepbookPoolUpdated list"
  tb_interest_params_updated :: "InterestParamsUpdated list"
  tb_margin_pool_config_updated :: "MarginPoolConfigUpdated list"
  tb_maintainer_cap_updated :: "MaintainerCapUpdated list"
  tb_maintainer_fees_withdrawn :: "MaintainerFeesWithdrawn list"
  tb_protocol_fees_withdrawn :: "ProtocolFeesWithdrawn list"
  tb_supplier_cap_minted :: "SupplierCapMinted list"
  tb_supply_referral_minted :: "SupplyReferralMinted list"
  tb_pause_cap_updated :: "PauseCapUpdated list"
  tb_protocol_fees_increased :: "ProtocolFeesIncreasedEvent list"
  tb_referral_fees_claimed :: "ReferralFeesClaimedEvent list"
  tb_referral_fee_events :: "ReferralFeeEvent list"
  tb_deepbook_pool_registered :: "DeepbookPoolRegistered list"
  tb_deepbook_pool_updated_registry :: "DeepbookPoolUpdatedRegistry list"
  tb_deepbook_pool_config_updated :: "DeepbookPoolConfigUpdated list"
  tb_collateral_events :: "CollateralEvent list"
  tb_margin_pool_snapshots :: "NewMarginPoolSnapshot list"

record db_env =
  connect_error :: "nat \<Rightarrow> string option"
  query_error :: "nat \<Rightarrow> string option"
  contents :: "nat \<Rightarrow> database"
  refresh :: "nat \<Rightarrow> string + Balances list"

record rpc_state =
  connections :: nat
  db_requests_succeeded :: nat
  db_requests_failed :: nat

type_synonym 'a query = "database \<Rightarrow> string + 'a"
type_synonym 'a rpc = "rpc_state \<Rightarrow> (DeepBookError + 'a) \<times> rpc_state"

section \<open>Sequencing of database operations\<close>

text \<open>Computations that may fail on a state of any type; a computation stops at its first error. The
  start-up of the services is sequenced with them too.\<close>

type_synonym ('e, 's, 'a) computation = "'s \<Rightarrow> ('e + 'a) \<times> 's"

definition rpc_return :: "'a \<Rightarrow> ('e, 's, 'a) computation" where "rpc_return x s = (Inr x, s)"
definition rpc_fail :: "'e \<Rightarrow> ('e, 's, 'a) computation" where "rpc_fail e s = (Inl e, s)"

definition rpc_bind ::
  "('e, 's, 'a) computation \<Rightarrow> ('a \<Rightarrow> ('e, 's, 'b) computation) \<Rightarrow> ('e, 's, 'b) computation" where
  "rpc_bind m f s = (case m s of (Inl e, s') \<Rightarrow> (Inl e, s') | (Inr x, s') \<Rightarrow> f x s')"

definition rpc_map :: "('a \<Rightarrow> 'b) \<Rightarrow> ('e, 's, 'a) computation \<Rightarrow> ('e, 's, 'b) computation" where
  "rpc_map f m = rpc_bind m (\<lambda>x. rpc_return (f x))"

definition rpc_lift :: "'e + 'a \<Rightarrow> ('e, 's, 'a) computation" where "rpc_lift r s = (r, s)"

section \<open>One query\<close>

definition run_query :: "db_env \<Rightarrow> nat \<Rightarrow> 'a query \<Rightarrow> string + 'a" where
  "run_query env n q = (case query_error env n of Some e \<Rightarrow> Inl e | None \<Rightarrow> q (contents env n))"

text \<open>Connect, run the query, count its outcome. The two functions are the errors the caller makes
  of a failed connection and of a failed query.\<close>

definition db_request ::
  "(string \<Rightarrow> DeepBookError) \<Rightarrow> (string \<Rightarrow> DeepBookError) \<Rightarrow> db_env \<Rightarrow> 'a query \<Rightarrow> 'a rpc" where
  "db_request on_connect on_query env q s =
     (let n = connections s; s1 = s\<lparr>connections := n + 1\<rparr>
      in case connect_error env n of
           Some e \<Rightarrow> (Inl (on_connect e), s1)
         | None \<Rightarrow>
             (case run_query env n q of
                Inl e \<Rightarrow> (Inl (on_query e), s1\<lparr>db_requests_failed := db_requests_failed s1 + 1\<rparr>)
              | Inr x \<Rightarrow> (Inr x, s1\<lparr>db_requests_succeeded := db_requests_succeeded s1 + 1\<rparr>)))"

text \<open>
  \<open>Reader::results\<close> followed by \<open>?\<close> in a function that returns a \<open>DeepBookError\<close>: both errors are
  \<open>anyhow\<close> errors, which become internal errors. \<open>Reader::first\<close> is the same with \<open>LIMIT 1\<close>; no
  row is the error \<open>NotFound\<close> of diesel, which is counted as a failed request.
\<close>

definition results :: "db_env \<Rightarrow> 'a list query \<Rightarrow> 'a list rpc" where
  "results env q = db_request from_anyhow from_anyhow env q"

definition first_row :: "'a list query \<Rightarrow> 'a query" where
  "first_row q db =
     bind_result (q db) (\<lambda>rows. case rows of [] \<Rightarrow> Inl ''Record not found'' | r # _ \<Rightarrow> Inr r)"

definition first :: "db_env \<Rightarrow> 'a list query \<Rightarrow> 'a rpc" where
  "first env q = db_request from_anyhow from_anyhow env (first_row q)"

section \<open>Properties\<close>

definition counted :: "rpc_state \<Rightarrow> nat" where
  "counted s = db_requests_succeeded s + db_requests_failed s"

lemma rpc_bind_Inr:
  "rpc_bind m f s = (Inr y, s'') \<longleftrightarrow> (\<exists>x s'. m s = (Inr x, s') \<and> f x s' = (Inr y, s''))"
  by (auto simp: rpc_bind_def split: prod.split sum.split)

lemma rpc_bind_Inl:
  "rpc_bind m f s = (Inl e, s'') \<longleftrightarrow>
     m s = (Inl e, s'') \<or> (\<exists>x s'. m s = (Inr x, s') \<and> f x s' = (Inl e, s''))"
  by (auto simp: rpc_bind_def split: prod.split sum.split)

lemma rpc_map_Inr: "rpc_map f m s = (Inr y, s') \<longleftrightarrow> (\<exists>x. m s = (Inr x, s') \<and> y = f x)"
  by (auto simp: rpc_map_def rpc_bind_Inr rpc_return_def)

lemma rpc_return_Inr: "rpc_return x s = (Inr y, s') \<longleftrightarrow> y = x \<and> s' = s"
  by (auto simp: rpc_return_def)

lemma rpc_fail_Inr: "rpc_fail e s \<noteq> (Inr y, s')"
  by (simp add: rpc_fail_def)

lemma rpc_lift_Inr: "rpc_lift r s = (Inr y, s') \<longleftrightarrow> r = Inr y \<and> s' = s"
  by (auto simp: rpc_lift_def)

lemma db_request_Inr:
  "db_request f g env q s = (Inr x, s') \<longleftrightarrow>
     connect_error env (connections s) = None \<and> query_error env (connections s) = None \<and>
     q (contents env (connections s)) = Inr x \<and>
     s' = s\<lparr>connections := connections s + 1,
            db_requests_succeeded := db_requests_succeeded s + 1\<rparr>"
  by (auto simp: db_request_def run_query_def Let_def split: option.split sum.split)

lemma results_Inr:
  "results env q s = (Inr x, s') \<longleftrightarrow>
     connect_error env (connections s) = None \<and> query_error env (connections s) = None \<and>
     q (contents env (connections s)) = Inr x \<and>
     s' = s\<lparr>connections := connections s + 1,
            db_requests_succeeded := db_requests_succeeded s + 1\<rparr>"
  by (simp add: results_def db_request_Inr)

lemma first_row_Inr: "first_row q db = Inr x \<longleftrightarrow> (\<exists>rest. q db = Inr (x # rest))"
  by (cases "q db") (auto simp: first_row_def split: list.split)

lemma first_Inr:
  "first env q s = (Inr x, s') \<longleftrightarrow>
     connect_error env (connections s) = None \<and> query_error env (connections s) = None \<and>
     (\<exists>rest. q (contents env (connections s)) = Inr (x # rest)) \<and>
     s' = s\<lparr>connections := connections s + 1,
            db_requests_succeeded := db_requests_succeeded s + 1\<rparr>"
  by (simp add: first_def db_request_Inr first_row_Inr)

lemmas rpc_simps = rpc_bind_Inr rpc_bind_Inl rpc_map_Inr rpc_return_Inr rpc_fail_Inr rpc_lift_Inr
  db_request_Inr results_Inr first_Inr

text \<open>A database request makes one connection, and counts one outcome exactly when the
  connection is made: a success if and only if it returns a result.\<close>

theorem db_request_counts:
  "connections (snd (db_request f g env q s)) = connections s + 1 \<and>
   (counted (snd (db_request f g env q s)) =
      (if connect_error env (connections s) = None then counted s + 1 else counted s)) \<and>
   (db_requests_succeeded (snd (db_request f g env q s)) = db_requests_succeeded s + 1 \<longleftrightarrow>
      (\<exists>x. fst (db_request f g env q s) = Inr x))"
  by (simp add: db_request_def Let_def counted_def split: option.split sum.split)

section \<open>A steady environment\<close>

text \<open>An empty database, and an environment whose connections all succeed on the same contents.\<close>

definition empty_database :: database where
  "empty_database = \<lparr>tb_pools = [],
     tb_order_fills = [],
     tb_order_updates = [],
     tb_balances = [],
     tb_net_deposits_hourly = [],
     tb_assets = [],
     tb_points = [],
     tb_watermarks = [],
     tb_pool_created = [],
     tb_book_params_updated = [],
     tb_margin_manager_created = [],
     tb_margin_manager_state = [],
     tb_loan_borrowed = [],
     tb_loan_repaid = [],
     tb_liquidation = [],
     tb_asset_supplied = [],
     tb_asset_withdrawn = [],
     tb_margin_pool_created = [],
     tb_deepbook_pool_updated = [],
     tb_interest_params_updated = [],
     tb_margin_pool_config_updated = [],
     tb_maintainer_cap_updated = [],
     tb_maintainer_fees_withdrawn = [],
     tb_protocol_fees_withdrawn = [],
     tb_supplier_cap_minted = [],
     tb_supply_referral_minted = [],
     tb_pause_cap_updated = [],
     tb_protocol_fees_increased = [],
     tb_referral_fees_claimed = [],
     tb_referral_fee_events = [],
     tb_deepbook_pool_registered = [],
     tb_deepbook_pool_updated_registry = [],
     tb_deepbook_pool_config_updated = [],
     tb_collateral_events = [],
     tb_margin_pool_snapshots = []\<rparr>"

definition steady_env :: "database \<Rightarrow> db_env" where
  "steady_env db = \<lparr>connect_error = (\<lambda>_. None), query_error = (\<lambda>_. None), contents = (\<lambda>_. db),
     refresh = (\<lambda>_. Inr (tb_balances db))\<rparr>"

definition fresh_state :: rpc_state where
  "fresh_state = \<lparr>connections = 0, db_requests_succeeded = 0, db_requests_failed = 0\<rparr>"

lemma steady_env_simps [simp]:
  "connect_error (steady_env db) n = None" "query_error (steady_env db) n = None"
  "contents (steady_env db) n = db" "refresh (steady_env db) n = Inr (tb_balances db)"
  by (simp_all add: steady_env_def)

end
