(* ===== verification/Metrics.thy ===== *)
theory Metrics
  imports Packages Database
begin

text \<open>
  The registration of the metrics: \<open>RpcMetrics::new\<close> (\<^verbatim>\<open>crates/server/src/metrics/mod.rs\<close>) and
  \<open>MarginMetrics::new\<close> (\<^verbatim>\<open>margin_metrics/metrics.rs\<close>). The registry (crate \<^verbatim>\<open>prometheus\<close>) is a parameter:
  \<open>register\<close> adds a metric to it or refuses it, and the code unwraps the result. \<open>registry_law\<close> is what
  the crate documents: a metric is accepted when its description is well formed and its name is new.
  The buckets of the histograms are the decimals of the code.
\<close>

section \<open>Metrics\<close>

datatype metric_kind =
    IntCounter
  | IntCounterVec "string list"
  | GaugeVec "string list"
  | Histogram "rat list"
  | HistogramVec "string list" "rat list"

record metric =
  metric_name :: string
  metric_help :: string
  metric_kind :: metric_kind

type_synonym 'r register = "metric \<Rightarrow> 'r \<Rightarrow> string + 'r"

text \<open>\<open>register_.._with_registry!(..).unwrap()\<close>, in the order of the fields.\<close>

definition unwrap_panic :: "string \<Rightarrow> panic" where
  "unwrap_panic e = Panicked (''called `Result::unwrap()` on an `Err` value: '' @ e)"

fun register_all :: "'r register \<Rightarrow> metric list \<Rightarrow> 'r \<Rightarrow> panic + 'r" where
  "register_all register [] r = Inr r"
| "register_all register (m # ms) r =
     (case register m r of Inl e \<Rightarrow> Inl (unwrap_panic e) | Inr r' \<Rightarrow> register_all register ms r')"

definition LATENCY_SEC_BUCKETS :: "rat list" where
  "LATENCY_SEC_BUCKETS = [1 / 1000, 1 / 500, 1 / 200, 1 / 100, 1 / 50, 1 / 20, 1 / 10, 1 / 5, 1 / 2, 1, 2, 5, 10, 20, 50, 100, 200, 500, 1000]"

definition rpc_metrics :: "metric list" where
  "rpc_metrics =
     [\<lparr>metric_name = ''db_latency'',
        metric_help = ''Time taken by the database to respond to queries'',
        metric_kind = Histogram LATENCY_SEC_BUCKETS\<rparr>,
      \<lparr>metric_name = ''db_requests_succeeded'',
        metric_help = ''Number of database requests that completed successfully'',
        metric_kind = IntCounter\<rparr>,
      \<lparr>metric_name = ''db_requests_failed'',
        metric_help = ''Number of database requests that completed with an error'',
        metric_kind = IntCounter\<rparr>,
      \<lparr>metric_name = ''deepbook_api_request_latency'',
        metric_help = ''Time taken to respond to Deepbook API requests, by method'',
        metric_kind = HistogramVec [''method''] LATENCY_SEC_BUCKETS\<rparr>,
      \<lparr>metric_name = ''deepbook_api_requests_received'',
        metric_help = ''Number of requests initiated for each Deepbook API method'',
        metric_kind = IntCounterVec [''method'']\<rparr>,
      \<lparr>metric_name = ''deepbook_api_requests_succeeded'',
        metric_help = ''Number of requests that completed successfully for each Deepbook API method'',
        metric_kind = IntCounterVec [''method'']\<rparr>,
      \<lparr>metric_name = ''deepbook_api_requests_failed'',
        metric_help = ''Number of requests that completed with an error for each Deepbook API method, by error code'',
        metric_kind = IntCounterVec [''method'', ''code'']\<rparr>]"

definition RpcMetrics_new :: "'r register \<Rightarrow> 'r \<Rightarrow> panic + 'r" where
  "RpcMetrics_new register = register_all register rpc_metrics"

definition POLL_LATENCY_SEC_BUCKETS :: "rat list" where
  "POLL_LATENCY_SEC_BUCKETS = [1 / 100, 1 / 20, 1 / 10, 1 / 4, 1 / 2, 1, 5 / 2, 5, 10, 30]"

definition margin_metrics :: "metric list" where
  "margin_metrics =
     [\<lparr>metric_name = ''margin_pool_total_supply'',
        metric_help = ''Total assets supplied to the margin pool (normalized by asset decimals)'',
        metric_kind = GaugeVec [''pool_id'', ''asset_type'']\<rparr>,
      \<lparr>metric_name = ''margin_pool_total_borrow'',
        metric_help = ''Total assets borrowed from the margin pool (normalized by asset decimals)'',
        metric_kind = GaugeVec [''pool_id'', ''asset_type'']\<rparr>,
      \<lparr>metric_name = ''margin_pool_vault_balance'',
        metric_help = ''Available liquidity in the margin pool vault (normalized by asset decimals)'',
        metric_kind = GaugeVec [''pool_id'', ''asset_type'']\<rparr>,
      \<lparr>metric_name = ''margin_pool_supply_cap'',
        metric_help = ''Maximum allowed supply for the margin pool (normalized by asset decimals)'',
        metric_kind = GaugeVec [''pool_id'', ''asset_type'']\<rparr>,
      \<lparr>metric_name = ''margin_pool_interest_rate'',
        metric_help = ''Current interest rate for the margin pool (normalized, 1.0 = 100%)'',
        metric_kind = GaugeVec [''pool_id'', ''asset_type'']\<rparr>,
      \<lparr>metric_name = ''margin_pool_available_withdrawal'',
        metric_help = ''Maximum amount withdrawable without hitting rate limits (normalized by asset decimals)'',
        metric_kind = GaugeVec [''pool_id'', ''asset_type'']\<rparr>,
      \<lparr>metric_name = ''margin_pool_utilization_rate'',
        metric_help = ''Pool utilization rate (total_borrow / total_supply)'',
        metric_kind = GaugeVec [''pool_id'', ''asset_type'']\<rparr>,
      \<lparr>metric_name = ''margin_pool_solvency_ratio'',
        metric_help = ''Pool solvency ratio (vault_balance / total_borrow, >1 = healthy)'',
        metric_kind = GaugeVec [''pool_id'', ''asset_type'']\<rparr>,
      \<lparr>metric_name = ''margin_pool_available_liquidity_pct'',
        metric_help = ''Percentage of total supply available in vault'',
        metric_kind = GaugeVec [''pool_id'', ''asset_type'']\<rparr>,
      \<lparr>metric_name = ''margin_rpc_poll_duration_seconds'',
        metric_help = ''Time taken to poll margin pool metrics via RPC'',
        metric_kind = Histogram POLL_LATENCY_SEC_BUCKETS\<rparr>,
      \<lparr>metric_name = ''margin_rpc_poll_errors_total'',
        metric_help = ''Number of failed margin pool metric polls'',
        metric_kind = IntCounter\<rparr>,
      \<lparr>metric_name = ''margin_rpc_poll_success_total'',
        metric_help = ''Number of successful margin pool metric polls'',
        metric_kind = IntCounter\<rparr>]"

definition MarginMetrics_new :: "'r register \<Rightarrow> 'r \<Rightarrow> panic + 'r" where
  "MarginMetrics_new register = register_all register margin_metrics"

section \<open>The registry\<close>

definition letter_or_underscore :: "char \<Rightarrow> bool" where
  "letter_or_underscore c \<longleftrightarrow> (let n = (of_char c :: nat)
     in (65 \<le> n \<and> n \<le> 90) \<or> (97 \<le> n \<and> n \<le> 122) \<or> n = 95)"

definition is_digit_char :: "char \<Rightarrow> bool" where
  "is_digit_char c \<longleftrightarrow> (let n = (of_char c :: nat) in 48 \<le> n \<and> n \<le> 57)"

text \<open>Names are \<^verbatim>\<open>[a-zA-Z_:][a-zA-Z0-9_:]*\<close>, names of labels have no colon.\<close>

definition valid_name :: "bool \<Rightarrow> string \<Rightarrow> bool" where
  "valid_name colon s \<longleftrightarrow> s \<noteq> [] \<and> \<not> is_digit_char (hd s) \<and>
     list_all (\<lambda>c. letter_or_underscore c \<or> is_digit_char c \<or> (colon \<and> c = CHR '':'')) s"

definition valid_labels :: "string list \<Rightarrow> bool" where
  "valid_labels ls \<longleftrightarrow> distinct ls \<and> list_all (valid_name False) ls"

definition valid_buckets :: "rat list \<Rightarrow> bool" where
  "valid_buckets bs \<longleftrightarrow> bs \<noteq> [] \<and> sorted_wrt (<) bs"

fun valid_kind :: "metric_kind \<Rightarrow> bool" where
  "valid_kind IntCounter \<longleftrightarrow> True"
| "valid_kind (IntCounterVec ls) \<longleftrightarrow> valid_labels ls"
| "valid_kind (GaugeVec ls) \<longleftrightarrow> valid_labels ls"
| "valid_kind (Histogram bs) \<longleftrightarrow> valid_buckets bs"
| "valid_kind (HistogramVec ls bs) \<longleftrightarrow> valid_labels ls \<and> ''le'' \<notin> set ls \<and> valid_buckets bs"

definition metric_wf :: "metric \<Rightarrow> bool" where
  "metric_wf m \<longleftrightarrow> valid_name True (metric_name m) \<and> metric_help m \<noteq> [] \<and> valid_kind (metric_kind m)"

definition registry_law :: "'r register \<Rightarrow> ('r \<Rightarrow> string set) \<Rightarrow> bool" where
  "registry_law register names \<longleftrightarrow>
     (\<forall>m r. metric_wf m \<and> metric_name m \<notin> names r \<longrightarrow>
        (\<exists>r'. register m r = Inr r' \<and> names r' = insert (metric_name m) (names r)))"

lemma register_all_ok:
  assumes "registry_law register names"
    and "list_all metric_wf ms" and "distinct (map metric_name ms)"
    and "metric_name ` set ms \<inter> names r = {}"
  shows "\<exists>r'. register_all register ms r = Inr r' \<and> names r' = metric_name ` set ms \<union> names r"
  using assms(2-4)
proof (induction ms arbitrary: r)
  case (Cons m ms)
  obtain r1 where r1: "register m r = Inr r1" "names r1 = insert (metric_name m) (names r)"
    using assms(1)[unfolded registry_law_def, rule_format, of m r] Cons.prems by auto
  then have "metric_name ` set ms \<inter> names r1 = {}" using Cons.prems by auto
  with Cons.IH [of r1] Cons.prems r1 show ?case by auto
qed simp

lemmas metric_wf_defs = metric_wf_def valid_name_def valid_labels_def valid_buckets_def
  letter_or_underscore_def is_digit_char_def Let_def

lemma rpc_metrics_wf: "list_all metric_wf rpc_metrics"
  by (simp add: rpc_metrics_def LATENCY_SEC_BUCKETS_def metric_wf_defs)

lemma margin_metrics_wf: "list_all metric_wf margin_metrics"
  by (simp add: margin_metrics_def POLL_LATENCY_SEC_BUCKETS_def metric_wf_defs)

lemma metric_names_distinct: "distinct (map metric_name (rpc_metrics @ margin_metrics))"
  by (simp add: rpc_metrics_def margin_metrics_def)

end
