(* ===== verification/Process.thy ===== *)
theory Process
  imports Metrics "HOL-Library.Sublist"
begin

text \<open>
  The start of a process: a computation on \<open>process_state\<close>, the metrics registry and the log of what the
  process has done so far. It stops at its first error; an error is a returned one or a panic. Two
  contracts are stated for such computations: \<open>follows\<close>, that the log is a prefix of a plan, and \<open>calm\<close>, that
  nothing panics.
\<close>

section \<open>Processes\<close>

datatype start_error = StartPanic panic | StartError string

record ('r, 'e) process_state =
  registry :: 'r
  start_events :: "'e list"

type_synonym ('r, 'e, 'a) start = "(start_error, ('r, 'e) process_state, 'a) computation"

definition happens :: "'e \<Rightarrow> ('r, 'e, unit) start" where
  "happens e st = (Inr (), st\<lparr>start_events := start_events st @ [e]\<rparr>)"

text \<open>A call that may fail, followed by \<open>?\<close>.\<close>

definition may_fail :: "string option \<Rightarrow> 'e \<Rightarrow> ('r, 'e, unit) start" where
  "may_fail err e = (case err of Some msg \<Rightarrow> rpc_fail (StartError msg) | None \<Rightarrow> happens e)"

definition on_registry :: "('r \<Rightarrow> start_error + 'r) \<Rightarrow> ('r, 'e, unit) start" where
  "on_registry f st =
     (case f (registry st) of Inl e \<Rightarrow> (Inl e, st) | Inr r \<Rightarrow> (Inr (), st\<lparr>registry := r\<rparr>))"

definition panics :: "panic + 'a \<Rightarrow> start_error + 'a" where
  "panics r = (case r of Inl p \<Rightarrow> Inl (StartPanic p) | Inr x \<Rightarrow> Inr x)"

definition fails :: "string + 'a \<Rightarrow> start_error + 'a" where
  "fails r = (case r of Inl e \<Rightarrow> Inl (StartError e) | Inr x \<Rightarrow> Inr x)"

section \<open>Plans\<close>

text \<open>\<open>follows strict m es\<close>: \<open>m\<close> appends the events \<open>es\<close> when it succeeds and a prefix of them when it
  fails, a proper one if \<open>strict\<close>.\<close>

definition follows :: "bool \<Rightarrow> ('r, 'e, 'a) start \<Rightarrow> 'e list \<Rightarrow> bool" where
  "follows strict m es \<longleftrightarrow> (\<forall>st. case m st of
     (Inr _, st') \<Rightarrow> start_events st' = start_events st @ es
   | (Inl _, st') \<Rightarrow> \<exists>ds. start_events st' = start_events st @ ds \<and> prefix ds es \<and> (strict \<longrightarrow> ds \<noteq> es))"

lemma followsI:
  assumes "\<And>st x st'. m st = (Inr x, st') \<Longrightarrow> start_events st' = start_events st @ es"
    and "\<And>st e st'. m st = (Inl e, st') \<Longrightarrow>
      \<exists>ds. start_events st' = start_events st @ ds \<and> prefix ds es \<and> (strict \<longrightarrow> ds \<noteq> es)"
  shows "follows strict m es"
  using assms by (force simp: follows_def split: prod.split sum.split)

lemma follows_Inr: "follows strict m es \<Longrightarrow> m st = (Inr x, st') \<Longrightarrow> start_events st' = start_events st @ es"
  by (fastforce simp: follows_def split: prod.splits sum.splits)

lemma follows_Inl: "follows strict m es \<Longrightarrow> m st = (Inl e, st') \<Longrightarrow>
   \<exists>ds. start_events st' = start_events st @ ds \<and> prefix ds es \<and> (strict \<longrightarrow> ds \<noteq> es)"
  by (fastforce simp: follows_def split: prod.splits sum.splits)

lemma follows_bind:
  assumes m: "follows False m es" and f: "\<And>x. follows strict (f x) fs" and "strict \<longrightarrow> fs \<noteq> []"
  shows "follows strict (rpc_bind m f) (es @ fs)"
proof (rule followsI)
  show "start_events st' = start_events st @ es @ fs" if "rpc_bind m f st = (Inr x, st')" for st x st'
    using that by (auto simp: rpc_bind_Inr dest!: follows_Inr [OF m] follows_Inr [OF f])
next
  fix st e st'
  assume "rpc_bind m f st = (Inl e, st')"
  then consider "m st = (Inl e, st')" | y st1 where "m st = (Inr y, st1)" "f y st1 = (Inl e, st')"
    by (auto simp: rpc_bind_Inl)
  then show "\<exists>ds. start_events st' = start_events st @ ds \<and> prefix ds (es @ fs) \<and> (strict \<longrightarrow> ds \<noteq> es @ fs)"
  proof cases
    case 1
    from follows_Inl [OF m this] show ?thesis using assms(3) by (auto simp: prefix_def)
  next
    case 2
    from follows_Inl [OF f 2(2)] obtain ds where
      "start_events st' = start_events st1 @ ds" "prefix ds fs" "strict \<longrightarrow> ds \<noteq> fs" by blast
    with follows_Inr [OF m 2(1)] show ?thesis by (intro exI [of _ "es @ ds"]) simp
  qed
qed

lemma follows_return: "follows False (rpc_return x) []"
  by (auto simp: follows_def rpc_return_def)

lemma follows_happens: "follows strict (happens e) [e]"
  by (auto simp: follows_def happens_def)

lemma follows_may_fail: "follows strict (may_fail err e) [e]"
  by (cases err) (auto simp: follows_def happens_def may_fail_def rpc_fail_def)

lemma follows_registry: "follows False (on_registry f) []"
  by (auto simp: follows_def on_registry_def split: sum.split)

text \<open>A last step without events keeps a computation strict.\<close>

lemma follows_end: "follows True m es \<Longrightarrow> follows True (rpc_bind m (\<lambda>_. rpc_return x)) es"
  by (rule followsI) (auto simp: rpc_bind_Inr rpc_bind_Inl rpc_return_def dest: follows_Inr follows_Inl)

lemmas follows_bind_happens = follows_bind [OF follows_happens, simplified]
lemmas follows_bind_may_fail = follows_bind [OF follows_may_fail, simplified]
lemmas follows_bind_registry = follows_bind [OF follows_registry, simplified]

lemmas follows_steps [simp] = follows_return follows_happens follows_may_fail follows_registry
  follows_bind_happens follows_bind_may_fail follows_bind_registry

text \<open>What a strict computation did, when it starts with an empty log.\<close>

lemma follows_plan:
  assumes "follows True m es" and "m st = (res, st')" and "start_events st = []"
  shows "prefix (start_events st') es" and "start_events st' = es \<longleftrightarrow> (\<exists>x. res = Inr x)"
proof -
  have "prefix (start_events st') es \<and> (start_events st' = es \<longleftrightarrow> (\<exists>x. res = Inr x))"
  proof (cases res)
    case (Inl e)
    with follows_Inl [OF assms(1), of st e st'] assms(2,3) show ?thesis by auto
  next
    case (Inr x)
    with follows_Inr [OF assms(1), of st x st'] assms(2,3) show ?thesis by simp
  qed
  then show "prefix (start_events st') es" "start_events st' = es \<longleftrightarrow> (\<exists>x. res = Inr x)" by simp_all
qed

section \<open>Panics\<close>

text \<open>\<open>calm P m Q\<close>: from a registry with \<open>P\<close>, \<open>m\<close> does not panic, and leaves one with \<open>Q\<close>.\<close>

definition calm :: "('r \<Rightarrow> bool) \<Rightarrow> ('r, 'e, 'a) start \<Rightarrow> ('r \<Rightarrow> bool) \<Rightarrow> bool" where
  "calm P m Q \<longleftrightarrow> (\<forall>st. P (registry st) \<longrightarrow>
     (case m st of (Inl e, _) \<Rightarrow> (\<forall>p. e \<noteq> StartPanic p) | (Inr _, st') \<Rightarrow> Q (registry st')))"

lemma calm_bind: "calm P m Q \<Longrightarrow> (\<And>x. calm Q (f x) R) \<Longrightarrow> calm P (rpc_bind m f) R"
  unfolding calm_def rpc_bind_def by (fastforce split: prod.splits sum.splits)

lemma calm_simple [simp]:
  "calm P (rpc_return x) P" "calm P (happens e) P" "calm P (may_fail err e) P"
  by (auto simp: calm_def rpc_return_def happens_def may_fail_def rpc_fail_def split: option.split)

lemma calm_registry:
  assumes "\<And>r. P r \<Longrightarrow> case f r of Inl e \<Rightarrow> (\<forall>p. e \<noteq> StartPanic p) | Inr r' \<Rightarrow> Q r'"
  shows "calm P (on_registry f) Q"
  using assms by (fastforce simp: calm_def on_registry_def split: sum.splits)


end
