(* ===== verification/Events.thy ===== *)
theory Events
  imports Checkpoints
begin

text \<open>
  \<^verbatim>\<open>crates/indexer/src/models.rs\<close>: the Move event structs the indexer decodes, one record per
  struct, with its fields in the order of the source (the phantom fields are skipped by serde and
  carry no data), and the constants of its \<open>MoveStruct\<close> implementation. A record \<open>X_ev\<close> is the
  Rust struct \<open>X\<close>; its fields carry the prefix \<open>ev_\<close> and the name of the struct. The registry's
  \<open>DeepbookPoolUpdated\<close> is \<open>DeepbookPoolUpdatedRegistry_ev\<close>, apart from the struct of the same
  name in \<open>margin_pool\<close>.
\<close>

section \<open>Module balance_manager\<close>

record BalanceEvent_ev =
  ev_balance_event_balance_manager_id :: object_id
  ev_balance_event_asset :: string
  ev_balance_event_amount :: u64
  ev_balance_event_deposit :: bool

definition BalanceEvent_struct :: MoveStruct where
  "BalanceEvent_struct = \<lparr>MODULE = ''balance_manager'', NAME = ''BalanceEvent'', TYPE_PARAMS = []\<rparr>"

record BalanceManagerEvent_ev =
  ev_balance_manager_event_balance_manager_id :: object_id
  ev_balance_manager_event_owner :: address

definition BalanceManagerEvent_struct :: MoveStruct where
  "BalanceManagerEvent_struct = \<lparr>MODULE = ''balance_manager'', NAME = ''BalanceManagerEvent'', TYPE_PARAMS = []\<rparr>"

record DeepBookReferralCreatedEvent_ev =
  ev_deep_book_referral_created_event_referral_id :: object_id
  ev_deep_book_referral_created_event_owner :: address

definition DeepBookReferralCreatedEvent_struct :: MoveStruct where
  "DeepBookReferralCreatedEvent_struct = \<lparr>MODULE = ''balance_manager'', NAME = ''DeepBookReferralCreatedEvent'', TYPE_PARAMS = []\<rparr>"

record DeepBookReferralSetEvent_ev =
  ev_deep_book_referral_set_event_referral_id :: object_id
  ev_deep_book_referral_set_event_balance_manager_id :: object_id

definition DeepBookReferralSetEvent_struct :: MoveStruct where
  "DeepBookReferralSetEvent_struct = \<lparr>MODULE = ''balance_manager'', NAME = ''DeepBookReferralSetEvent'', TYPE_PARAMS = []\<rparr>"

section \<open>Module order\<close>

record OrderCanceled_ev =
  ev_order_canceled_balance_manager_id :: object_id
  ev_order_canceled_pool_id :: object_id
  ev_order_canceled_order_id :: u128
  ev_order_canceled_client_order_id :: u64
  ev_order_canceled_trader :: address
  ev_order_canceled_price :: u64
  ev_order_canceled_is_bid :: bool
  ev_order_canceled_original_quantity :: u64
  ev_order_canceled_base_asset_quantity_canceled :: u64
  ev_order_canceled_timestamp :: u64

definition OrderCanceled_struct :: MoveStruct where
  "OrderCanceled_struct = \<lparr>MODULE = ''order'', NAME = ''OrderCanceled'', TYPE_PARAMS = []\<rparr>"

record OrderModified_ev =
  ev_order_modified_balance_manager_id :: object_id
  ev_order_modified_pool_id :: object_id
  ev_order_modified_order_id :: u128
  ev_order_modified_client_order_id :: u64
  ev_order_modified_trader :: address
  ev_order_modified_price :: u64
  ev_order_modified_is_bid :: bool
  ev_order_modified_previous_quantity :: u64
  ev_order_modified_filled_quantity :: u64
  ev_order_modified_new_quantity :: u64
  ev_order_modified_timestamp :: u64

definition OrderModified_struct :: MoveStruct where
  "OrderModified_struct = \<lparr>MODULE = ''order'', NAME = ''OrderModified'', TYPE_PARAMS = []\<rparr>"

section \<open>Module order_info\<close>

record OrderFilled_ev =
  ev_order_filled_pool_id :: object_id
  ev_order_filled_maker_order_id :: u128
  ev_order_filled_taker_order_id :: u128
  ev_order_filled_maker_client_order_id :: u64
  ev_order_filled_taker_client_order_id :: u64
  ev_order_filled_price :: u64
  ev_order_filled_taker_is_bid :: bool
  ev_order_filled_taker_fee :: u64
  ev_order_filled_taker_fee_is_deep :: bool
  ev_order_filled_maker_fee :: u64
  ev_order_filled_maker_fee_is_deep :: bool
  ev_order_filled_base_quantity :: u64
  ev_order_filled_quote_quantity :: u64
  ev_order_filled_maker_balance_manager_id :: object_id
  ev_order_filled_taker_balance_manager_id :: object_id
  ev_order_filled_timestamp :: u64

definition OrderFilled_struct :: MoveStruct where
  "OrderFilled_struct = \<lparr>MODULE = ''order_info'', NAME = ''OrderFilled'', TYPE_PARAMS = []\<rparr>"

record OrderPlaced_ev =
  ev_order_placed_balance_manager_id :: object_id
  ev_order_placed_pool_id :: object_id
  ev_order_placed_order_id :: u128
  ev_order_placed_client_order_id :: u64
  ev_order_placed_trader :: address
  ev_order_placed_price :: u64
  ev_order_placed_is_bid :: bool
  ev_order_placed_placed_quantity :: u64
  ev_order_placed_expire_timestamp :: u64
  ev_order_placed_timestamp :: u64

definition OrderPlaced_struct :: MoveStruct where
  "OrderPlaced_struct = \<lparr>MODULE = ''order_info'', NAME = ''OrderPlaced'', TYPE_PARAMS = []\<rparr>"

record OrderExpired_ev =
  ev_order_expired_balance_manager_id :: object_id
  ev_order_expired_pool_id :: object_id
  ev_order_expired_order_id :: u128
  ev_order_expired_client_order_id :: u64
  ev_order_expired_trader :: address
  ev_order_expired_price :: u64
  ev_order_expired_is_bid :: bool
  ev_order_expired_original_quantity :: u64
  ev_order_expired_base_asset_quantity_canceled :: u64
  ev_order_expired_timestamp :: u64

definition OrderExpired_struct :: MoveStruct where
  "OrderExpired_struct = \<lparr>MODULE = ''order_info'', NAME = ''OrderExpired'', TYPE_PARAMS = []\<rparr>"

section \<open>Module vault\<close>

record FlashLoanBorrowed_ev =
  ev_flash_loan_borrowed_pool_id :: object_id
  ev_flash_loan_borrowed_borrow_quantity :: u64
  ev_flash_loan_borrowed_type_name :: string

definition FlashLoanBorrowed_struct :: MoveStruct where
  "FlashLoanBorrowed_struct = \<lparr>MODULE = ''vault'', NAME = ''FlashLoanBorrowed'', TYPE_PARAMS = []\<rparr>"

section \<open>Module deep_price\<close>

record PriceAdded_ev =
  ev_price_added_conversion_rate :: u64
  ev_price_added_timestamp :: u64
  ev_price_added_is_base_conversion :: bool
  ev_price_added_reference_pool :: object_id
  ev_price_added_target_pool :: object_id

definition PriceAdded_struct :: MoveStruct where
  "PriceAdded_struct = \<lparr>MODULE = ''deep_price'', NAME = ''PriceAdded'', TYPE_PARAMS = []\<rparr>"

section \<open>Module state\<close>

record VoteEvent_ev =
  ev_vote_event_pool_id :: object_id
  ev_vote_event_balance_manager_id :: object_id
  ev_vote_event_epoch :: u64
  ev_vote_event_from_proposal_id :: "object_id option"
  ev_vote_event_to_proposal_id :: object_id
  ev_vote_event_stake :: u64

definition VoteEvent_struct :: MoveStruct where
  "VoteEvent_struct = \<lparr>MODULE = ''state'', NAME = ''VoteEvent'', TYPE_PARAMS = []\<rparr>"

record StakeEvent_ev =
  ev_stake_event_pool_id :: object_id
  ev_stake_event_balance_manager_id :: object_id
  ev_stake_event_epoch :: u64
  ev_stake_event_amount :: u64
  ev_stake_event_stake :: bool

definition StakeEvent_struct :: MoveStruct where
  "StakeEvent_struct = \<lparr>MODULE = ''state'', NAME = ''StakeEvent'', TYPE_PARAMS = []\<rparr>"

record RebateEvent_ev =
  ev_rebate_event_pool_id :: object_id
  ev_rebate_event_balance_manager_id :: object_id
  ev_rebate_event_epoch :: u64
  ev_rebate_event_claim_amount :: u64

definition RebateEvent_struct :: MoveStruct where
  "RebateEvent_struct = \<lparr>MODULE = ''state'', NAME = ''RebateEvent'', TYPE_PARAMS = []\<rparr>"

record ProposalEvent_ev =
  ev_proposal_event_pool_id :: object_id
  ev_proposal_event_balance_manager_id :: object_id
  ev_proposal_event_epoch :: u64
  ev_proposal_event_taker_fee :: u64
  ev_proposal_event_maker_fee :: u64
  ev_proposal_event_stake_required :: u64

definition ProposalEvent_struct :: MoveStruct where
  "ProposalEvent_struct = \<lparr>MODULE = ''state'', NAME = ''ProposalEvent'', TYPE_PARAMS = []\<rparr>"

record TakerFeePenaltyApplied_ev =
  ev_taker_fee_penalty_applied_pool_id :: object_id
  ev_taker_fee_penalty_applied_balance_manager_id :: object_id
  ev_taker_fee_penalty_applied_order_id :: u128
  ev_taker_fee_penalty_applied_taker_fee_without_penalty :: u64
  ev_taker_fee_penalty_applied_taker_fee :: u64

definition TakerFeePenaltyApplied_struct :: MoveStruct where
  "TakerFeePenaltyApplied_struct = \<lparr>MODULE = ''state'', NAME = ''TakerFeePenaltyApplied'', TYPE_PARAMS = []\<rparr>"

section \<open>Module ewma\<close>

record EWMAUpdate_ev =
  ev_ewma_update_pool_id :: object_id
  ev_ewma_update_gas_price :: u64
  ev_ewma_update_mean :: u64
  ev_ewma_update_variance :: u64
  ev_ewma_update_timestamp :: u64

definition EWMAUpdate_struct :: MoveStruct where
  "EWMAUpdate_struct = \<lparr>MODULE = ''ewma'', NAME = ''EWMAUpdate'', TYPE_PARAMS = []\<rparr>"

section \<open>Module governance\<close>

record TradeParamsUpdateEvent_ev =
  ev_trade_params_update_event_taker_fee :: u64
  ev_trade_params_update_event_maker_fee :: u64
  ev_trade_params_update_event_stake_required :: u64

definition TradeParamsUpdateEvent_struct :: MoveStruct where
  "TradeParamsUpdateEvent_struct = \<lparr>MODULE = ''governance'', NAME = ''TradeParamsUpdateEvent'', TYPE_PARAMS = []\<rparr>"

section \<open>Module pool\<close>

record PoolCreated_ev =
  ev_pool_created_pool_id :: object_id
  ev_pool_created_taker_fee :: u64
  ev_pool_created_maker_fee :: u64
  ev_pool_created_tick_size :: u64
  ev_pool_created_lot_size :: u64
  ev_pool_created_min_size :: u64
  ev_pool_created_whitelisted_pool :: bool
  ev_pool_created_treasury_address :: address

definition PoolCreated_struct :: MoveStruct where
  "PoolCreated_struct = \<lparr>MODULE = ''pool'', NAME = ''PoolCreated'', TYPE_PARAMS = []\<rparr>"

record BookParamsUpdated_ev =
  ev_book_params_updated_pool_id :: object_id
  ev_book_params_updated_tick_size :: u64
  ev_book_params_updated_lot_size :: u64
  ev_book_params_updated_min_size :: u64
  ev_book_params_updated_timestamp :: u64

definition BookParamsUpdated_struct :: MoveStruct where
  "BookParamsUpdated_struct = \<lparr>MODULE = ''pool'', NAME = ''BookParamsUpdated'', TYPE_PARAMS = []\<rparr>"

record DeepBurned_ev =
  ev_deep_burned_pool_id :: object_id
  ev_deep_burned_deep_burned :: u64

definition DeepBurned_struct :: MoveStruct where
  "DeepBurned_struct = \<lparr>MODULE = ''pool'', NAME = ''DeepBurned'', TYPE_PARAMS = []\<rparr>"

record ReferralFeeEvent_ev =
  ev_referral_fee_event_pool_id :: object_id
  ev_referral_fee_event_referral_id :: object_id
  ev_referral_fee_event_base_fee :: u64
  ev_referral_fee_event_quote_fee :: u64
  ev_referral_fee_event_deep_fee :: u64

definition ReferralFeeEvent_struct :: MoveStruct where
  "ReferralFeeEvent_struct = \<lparr>MODULE = ''pool'', NAME = ''ReferralFeeEvent'', TYPE_PARAMS = []\<rparr>"

record ReferralClaimed_ev =
  ev_referral_claimed_pool_id :: object_id
  ev_referral_claimed_referral_id :: object_id
  ev_referral_claimed_owner :: address
  ev_referral_claimed_base_amount :: u64
  ev_referral_claimed_quote_amount :: u64
  ev_referral_claimed_deep_amount :: u64

definition ReferralClaimed_struct :: MoveStruct where
  "ReferralClaimed_struct = \<lparr>MODULE = ''pool'', NAME = ''ReferralClaimed'', TYPE_PARAMS = []\<rparr>"

section \<open>Module shared\<close>

record TypeName_ev =
  ev_type_name_name :: string

section \<open>Module margin_manager\<close>

record MarginManagerCreatedEvent_ev =
  ev_margin_manager_created_event_margin_manager_id :: object_id
  ev_margin_manager_created_event_balance_manager_id :: object_id
  ev_margin_manager_created_event_deepbook_pool_id :: object_id
  ev_margin_manager_created_event_owner :: address
  ev_margin_manager_created_event_timestamp :: u64

definition MarginManagerCreatedEvent_struct :: MoveStruct where
  "MarginManagerCreatedEvent_struct = \<lparr>MODULE = ''margin_manager'', NAME = ''MarginManagerCreatedEvent'', TYPE_PARAMS = []\<rparr>"

record LoanBorrowedEvent_ev =
  ev_loan_borrowed_event_margin_manager_id :: object_id
  ev_loan_borrowed_event_margin_pool_id :: object_id
  ev_loan_borrowed_event_loan_amount :: u64
  ev_loan_borrowed_event_loan_shares :: u64
  ev_loan_borrowed_event_timestamp :: u64

definition LoanBorrowedEvent_struct :: MoveStruct where
  "LoanBorrowedEvent_struct = \<lparr>MODULE = ''margin_manager'', NAME = ''LoanBorrowedEvent'', TYPE_PARAMS = []\<rparr>"

record LoanRepaidEvent_ev =
  ev_loan_repaid_event_margin_manager_id :: object_id
  ev_loan_repaid_event_margin_pool_id :: object_id
  ev_loan_repaid_event_repay_amount :: u64
  ev_loan_repaid_event_repay_shares :: u64
  ev_loan_repaid_event_timestamp :: u64

definition LoanRepaidEvent_struct :: MoveStruct where
  "LoanRepaidEvent_struct = \<lparr>MODULE = ''margin_manager'', NAME = ''LoanRepaidEvent'', TYPE_PARAMS = []\<rparr>"

record LiquidationEvent_ev =
  ev_liquidation_event_margin_manager_id :: object_id
  ev_liquidation_event_margin_pool_id :: object_id
  ev_liquidation_event_liquidation_amount :: u64
  ev_liquidation_event_pool_reward :: u64
  ev_liquidation_event_pool_default :: u64
  ev_liquidation_event_risk_ratio :: u64
  ev_liquidation_event_remaining_base_asset :: u64
  ev_liquidation_event_remaining_quote_asset :: u64
  ev_liquidation_event_remaining_base_debt :: u64
  ev_liquidation_event_remaining_quote_debt :: u64
  ev_liquidation_event_base_pyth_price :: u64
  ev_liquidation_event_base_pyth_decimals :: u8
  ev_liquidation_event_quote_pyth_price :: u64
  ev_liquidation_event_quote_pyth_decimals :: u8
  ev_liquidation_event_timestamp :: u64

definition LiquidationEvent_struct :: MoveStruct where
  "LiquidationEvent_struct = \<lparr>MODULE = ''margin_manager'', NAME = ''LiquidationEvent'', TYPE_PARAMS = []\<rparr>"

record DepositCollateralEvent_ev =
  ev_deposit_collateral_event_margin_manager_id :: object_id
  ev_deposit_collateral_event_amount :: u64
  ev_deposit_collateral_event_asset :: TypeName_ev
  ev_deposit_collateral_event_pyth_price :: u64
  ev_deposit_collateral_event_pyth_decimals :: u8
  ev_deposit_collateral_event_timestamp :: u64

definition DepositCollateralEvent_struct :: MoveStruct where
  "DepositCollateralEvent_struct = \<lparr>MODULE = ''margin_manager'', NAME = ''DepositCollateralEvent'', TYPE_PARAMS = []\<rparr>"

record WithdrawCollateralEvent_ev =
  ev_withdraw_collateral_event_margin_manager_id :: object_id
  ev_withdraw_collateral_event_amount :: u64
  ev_withdraw_collateral_event_asset :: TypeName_ev
  ev_withdraw_collateral_event_withdraw_base_asset :: bool
  ev_withdraw_collateral_event_remaining_base_asset :: u64
  ev_withdraw_collateral_event_remaining_quote_asset :: u64
  ev_withdraw_collateral_event_remaining_base_debt :: u64
  ev_withdraw_collateral_event_remaining_quote_debt :: u64
  ev_withdraw_collateral_event_base_pyth_price :: u64
  ev_withdraw_collateral_event_base_pyth_decimals :: u8
  ev_withdraw_collateral_event_quote_pyth_price :: u64
  ev_withdraw_collateral_event_quote_pyth_decimals :: u8
  ev_withdraw_collateral_event_timestamp :: u64

definition WithdrawCollateralEvent_struct :: MoveStruct where
  "WithdrawCollateralEvent_struct = \<lparr>MODULE = ''margin_manager'', NAME = ''WithdrawCollateralEvent'', TYPE_PARAMS = []\<rparr>"

section \<open>Module margin_pool\<close>

record MarginPoolConfig_ev =
  ev_margin_pool_config_supply_cap :: u64
  ev_margin_pool_config_max_utilization_rate :: u64
  ev_margin_pool_config_protocol_spread :: u64
  ev_margin_pool_config_min_borrow :: u64
  ev_margin_pool_config_rate_limit_capacity :: u64
  ev_margin_pool_config_rate_limit_refill_rate_per_ms :: u64
  ev_margin_pool_config_rate_limit_enabled :: bool

record InterestConfig_ev =
  ev_interest_config_base_rate :: u64
  ev_interest_config_base_slope :: u64
  ev_interest_config_optimal_utilization :: u64
  ev_interest_config_excess_slope :: u64

record ProtocolConfig_ev =
  ev_protocol_config_margin_pool_config :: MarginPoolConfig_ev
  ev_protocol_config_interest_config :: InterestConfig_ev
  ev_protocol_config_extra_fields :: "(string \<times> u64) list"

record MarginPoolCreated_ev =
  ev_margin_pool_created_margin_pool_id :: object_id
  ev_margin_pool_created_maintainer_cap_id :: object_id
  ev_margin_pool_created_asset_type :: string
  ev_margin_pool_created_config :: ProtocolConfig_ev
  ev_margin_pool_created_timestamp :: u64

definition MarginPoolCreated_struct :: MoveStruct where
  "MarginPoolCreated_struct = \<lparr>MODULE = ''margin_pool'', NAME = ''MarginPoolCreated'', TYPE_PARAMS = []\<rparr>"

record DeepbookPoolUpdated_ev =
  ev_deepbook_pool_updated_margin_pool_id :: object_id
  ev_deepbook_pool_updated_deepbook_pool_id :: object_id
  ev_deepbook_pool_updated_pool_cap_id :: object_id
  ev_deepbook_pool_updated_enabled :: bool
  ev_deepbook_pool_updated_timestamp :: u64

definition DeepbookPoolUpdated_struct :: MoveStruct where
  "DeepbookPoolUpdated_struct = \<lparr>MODULE = ''margin_pool'', NAME = ''DeepbookPoolUpdated'', TYPE_PARAMS = []\<rparr>"

record InterestParamsUpdated_ev =
  ev_interest_params_updated_margin_pool_id :: object_id
  ev_interest_params_updated_pool_cap_id :: object_id
  ev_interest_params_updated_interest_config :: InterestConfig_ev
  ev_interest_params_updated_timestamp :: u64

definition InterestParamsUpdated_struct :: MoveStruct where
  "InterestParamsUpdated_struct = \<lparr>MODULE = ''margin_pool'', NAME = ''InterestParamsUpdated'', TYPE_PARAMS = []\<rparr>"

record MarginPoolConfigUpdated_ev =
  ev_margin_pool_config_updated_margin_pool_id :: object_id
  ev_margin_pool_config_updated_pool_cap_id :: object_id
  ev_margin_pool_config_updated_margin_pool_config :: MarginPoolConfig_ev
  ev_margin_pool_config_updated_timestamp :: u64

definition MarginPoolConfigUpdated_struct :: MoveStruct where
  "MarginPoolConfigUpdated_struct = \<lparr>MODULE = ''margin_pool'', NAME = ''MarginPoolConfigUpdated'', TYPE_PARAMS = []\<rparr>"

record AssetSupplied_ev =
  ev_asset_supplied_margin_pool_id :: object_id
  ev_asset_supplied_asset_type :: string
  ev_asset_supplied_supplier :: address
  ev_asset_supplied_supply_amount :: u64
  ev_asset_supplied_supply_shares :: u64
  ev_asset_supplied_timestamp :: u64

definition AssetSupplied_struct :: MoveStruct where
  "AssetSupplied_struct = \<lparr>MODULE = ''margin_pool'', NAME = ''AssetSupplied'', TYPE_PARAMS = []\<rparr>"

record AssetWithdrawn_ev =
  ev_asset_withdrawn_margin_pool_id :: object_id
  ev_asset_withdrawn_asset_type :: string
  ev_asset_withdrawn_supplier :: address
  ev_asset_withdrawn_withdraw_amount :: u64
  ev_asset_withdrawn_withdraw_shares :: u64
  ev_asset_withdrawn_timestamp :: u64

definition AssetWithdrawn_struct :: MoveStruct where
  "AssetWithdrawn_struct = \<lparr>MODULE = ''margin_pool'', NAME = ''AssetWithdrawn'', TYPE_PARAMS = []\<rparr>"

record MaintainerFeesWithdrawn_ev =
  ev_maintainer_fees_withdrawn_margin_pool_id :: object_id
  ev_maintainer_fees_withdrawn_margin_pool_cap_id :: object_id
  ev_maintainer_fees_withdrawn_maintainer_fees :: u64
  ev_maintainer_fees_withdrawn_timestamp :: u64

definition MaintainerFeesWithdrawn_struct :: MoveStruct where
  "MaintainerFeesWithdrawn_struct = \<lparr>MODULE = ''margin_pool'', NAME = ''MaintainerFeesWithdrawn'', TYPE_PARAMS = []\<rparr>"

record ProtocolFeesWithdrawn_ev =
  ev_protocol_fees_withdrawn_margin_pool_id :: object_id
  ev_protocol_fees_withdrawn_protocol_fees :: u64
  ev_protocol_fees_withdrawn_timestamp :: u64

definition ProtocolFeesWithdrawn_struct :: MoveStruct where
  "ProtocolFeesWithdrawn_struct = \<lparr>MODULE = ''margin_pool'', NAME = ''ProtocolFeesWithdrawn'', TYPE_PARAMS = []\<rparr>"

record SupplierCapMinted_ev =
  ev_supplier_cap_minted_supplier_cap_id :: object_id
  ev_supplier_cap_minted_timestamp :: u64

definition SupplierCapMinted_struct :: MoveStruct where
  "SupplierCapMinted_struct = \<lparr>MODULE = ''margin_pool'', NAME = ''SupplierCapMinted'', TYPE_PARAMS = []\<rparr>"

record SupplyReferralMinted_ev =
  ev_supply_referral_minted_margin_pool_id :: object_id
  ev_supply_referral_minted_supply_referral_id :: object_id
  ev_supply_referral_minted_owner :: address
  ev_supply_referral_minted_timestamp :: u64

definition SupplyReferralMinted_struct :: MoveStruct where
  "SupplyReferralMinted_struct = \<lparr>MODULE = ''margin_pool'', NAME = ''SupplyReferralMinted'', TYPE_PARAMS = []\<rparr>"

section \<open>Module margin_registry\<close>

record RiskRatios_ev =
  ev_risk_ratios_min_withdraw_risk_ratio :: u64
  ev_risk_ratios_min_borrow_risk_ratio :: u64
  ev_risk_ratios_liquidation_risk_ratio :: u64
  ev_risk_ratios_target_liquidation_risk_ratio :: u64

definition RiskRatios_struct :: MoveStruct where
  "RiskRatios_struct = \<lparr>MODULE = ''margin_registry'', NAME = ''RiskRatios'', TYPE_PARAMS = []\<rparr>"

record PoolConfig_ev =
  ev_pool_config_base_margin_pool_id :: object_id
  ev_pool_config_quote_margin_pool_id :: object_id
  ev_pool_config_risk_ratios :: RiskRatios_ev
  ev_pool_config_user_liquidation_reward :: u64
  ev_pool_config_pool_liquidation_reward :: u64
  ev_pool_config_enabled :: bool
  ev_pool_config_extra_fields :: "(string \<times> u64) list"

definition PoolConfig_struct :: MoveStruct where
  "PoolConfig_struct = \<lparr>MODULE = ''margin_registry'', NAME = ''PoolConfig'', TYPE_PARAMS = []\<rparr>"

record MaintainerCapUpdated_ev =
  ev_maintainer_cap_updated_maintainer_cap_id :: object_id
  ev_maintainer_cap_updated_allowed :: bool
  ev_maintainer_cap_updated_timestamp :: u64

definition MaintainerCapUpdated_struct :: MoveStruct where
  "MaintainerCapUpdated_struct = \<lparr>MODULE = ''margin_registry'', NAME = ''MaintainerCapUpdated'', TYPE_PARAMS = []\<rparr>"

record DeepbookPoolRegistered_ev =
  ev_deepbook_pool_registered_pool_id :: object_id
  ev_deepbook_pool_registered_config :: PoolConfig_ev
  ev_deepbook_pool_registered_timestamp :: u64

definition DeepbookPoolRegistered_struct :: MoveStruct where
  "DeepbookPoolRegistered_struct = \<lparr>MODULE = ''margin_registry'', NAME = ''DeepbookPoolRegistered'', TYPE_PARAMS = []\<rparr>"

record DeepbookPoolUpdatedRegistry_ev =
  ev_deepbook_pool_updated_registry_pool_id :: object_id
  ev_deepbook_pool_updated_registry_enabled :: bool
  ev_deepbook_pool_updated_registry_timestamp :: u64

definition DeepbookPoolUpdatedRegistry_struct :: MoveStruct where
  "DeepbookPoolUpdatedRegistry_struct = \<lparr>MODULE = ''margin_registry'', NAME = ''DeepbookPoolUpdated'', TYPE_PARAMS = []\<rparr>"

record DeepbookPoolConfigUpdated_ev =
  ev_deepbook_pool_config_updated_pool_id :: object_id
  ev_deepbook_pool_config_updated_config :: PoolConfig_ev
  ev_deepbook_pool_config_updated_timestamp :: u64

definition DeepbookPoolConfigUpdated_struct :: MoveStruct where
  "DeepbookPoolConfigUpdated_struct = \<lparr>MODULE = ''margin_registry'', NAME = ''DeepbookPoolConfigUpdated'', TYPE_PARAMS = []\<rparr>"

record PauseCapUpdated_ev =
  ev_pause_cap_updated_pause_cap_id :: object_id
  ev_pause_cap_updated_allowed :: bool
  ev_pause_cap_updated_timestamp :: u64

definition PauseCapUpdated_struct :: MoveStruct where
  "PauseCapUpdated_struct = \<lparr>MODULE = ''margin_registry'', NAME = ''PauseCapUpdated'', TYPE_PARAMS = []\<rparr>"

section \<open>Module protocol_fees\<close>

record ProtocolFeesIncreasedEvent_ev =
  ev_protocol_fees_increased_event_margin_pool_id :: object_id
  ev_protocol_fees_increased_event_total_shares :: u64
  ev_protocol_fees_increased_event_referral_fees :: u64
  ev_protocol_fees_increased_event_maintainer_fees :: u64
  ev_protocol_fees_increased_event_protocol_fees :: u64

definition ProtocolFeesIncreasedEvent_struct :: MoveStruct where
  "ProtocolFeesIncreasedEvent_struct = \<lparr>MODULE = ''protocol_fees'', NAME = ''ProtocolFeesIncreasedEvent'', TYPE_PARAMS = []\<rparr>"

record ReferralFeesClaimedEvent_ev =
  ev_referral_fees_claimed_event_referral_id :: object_id
  ev_referral_fees_claimed_event_owner :: address
  ev_referral_fees_claimed_event_fees :: u64

definition ReferralFeesClaimedEvent_struct :: MoveStruct where
  "ReferralFeesClaimedEvent_struct = \<lparr>MODULE = ''protocol_fees'', NAME = ''ReferralFeesClaimedEvent'', TYPE_PARAMS = []\<rparr>"

section \<open>Module tpsl\<close>

record Condition_ev =
  ev_condition_trigger_below_price :: bool
  ev_condition_trigger_price :: u64

record PendingOrder_ev =
  ev_pending_order_is_limit_order :: bool
  ev_pending_order_client_order_id :: u64
  ev_pending_order_order_type :: "u8 option"
  ev_pending_order_self_matching_option :: u8
  ev_pending_order_price :: "u64 option"
  ev_pending_order_quantity :: u64
  ev_pending_order_is_bid :: bool
  ev_pending_order_pay_with_deep :: bool
  ev_pending_order_expire_timestamp :: "u64 option"

record ConditionalOrder_ev =
  ev_conditional_order_conditional_order_id :: u64
  ev_conditional_order_condition :: Condition_ev
  ev_conditional_order_pending_order :: PendingOrder_ev

record ConditionalOrderAdded_ev =
  ev_conditional_order_added_manager_id :: object_id
  ev_conditional_order_added_conditional_order_id :: u64
  ev_conditional_order_added_conditional_order :: ConditionalOrder_ev
  ev_conditional_order_added_timestamp :: u64

definition ConditionalOrderAdded_struct :: MoveStruct where
  "ConditionalOrderAdded_struct = \<lparr>MODULE = ''tpsl'', NAME = ''ConditionalOrderAdded'', TYPE_PARAMS = []\<rparr>"

record ConditionalOrderCancelled_ev =
  ev_conditional_order_cancelled_manager_id :: object_id
  ev_conditional_order_cancelled_conditional_order_id :: u64
  ev_conditional_order_cancelled_conditional_order :: ConditionalOrder_ev
  ev_conditional_order_cancelled_timestamp :: u64

definition ConditionalOrderCancelled_struct :: MoveStruct where
  "ConditionalOrderCancelled_struct = \<lparr>MODULE = ''tpsl'', NAME = ''ConditionalOrderCancelled'', TYPE_PARAMS = []\<rparr>"

record ConditionalOrderExecuted_ev =
  ev_conditional_order_executed_manager_id :: object_id
  ev_conditional_order_executed_pool_id :: object_id
  ev_conditional_order_executed_conditional_order_id :: u64
  ev_conditional_order_executed_conditional_order :: ConditionalOrder_ev
  ev_conditional_order_executed_timestamp :: u64

definition ConditionalOrderExecuted_struct :: MoveStruct where
  "ConditionalOrderExecuted_struct = \<lparr>MODULE = ''tpsl'', NAME = ''ConditionalOrderExecuted'', TYPE_PARAMS = []\<rparr>"

record ConditionalOrderInsufficientFunds_ev =
  ev_conditional_order_insufficient_funds_manager_id :: object_id
  ev_conditional_order_insufficient_funds_conditional_order_id :: u64
  ev_conditional_order_insufficient_funds_conditional_order :: ConditionalOrder_ev
  ev_conditional_order_insufficient_funds_timestamp :: u64

definition ConditionalOrderInsufficientFunds_struct :: MoveStruct where
  "ConditionalOrderInsufficientFunds_struct = \<lparr>MODULE = ''tpsl'', NAME = ''ConditionalOrderInsufficientFunds'', TYPE_PARAMS = []\<rparr>"

section \<open>Module sui\<close>

record SUI_ev =
  ev_sui_id :: address

definition SUI_struct :: MoveStruct where
  "SUI_struct = \<lparr>MODULE = ''sui'', NAME = ''SUI'', TYPE_PARAMS = []\<rparr>"

section \<open>All implementations\<close>

lemmas move_struct_defs =
  BalanceEvent_struct_def BalanceManagerEvent_struct_def
  DeepBookReferralCreatedEvent_struct_def DeepBookReferralSetEvent_struct_def
  OrderCanceled_struct_def OrderModified_struct_def
  OrderFilled_struct_def OrderPlaced_struct_def
  OrderExpired_struct_def FlashLoanBorrowed_struct_def
  PriceAdded_struct_def VoteEvent_struct_def
  StakeEvent_struct_def RebateEvent_struct_def
  ProposalEvent_struct_def TakerFeePenaltyApplied_struct_def
  EWMAUpdate_struct_def TradeParamsUpdateEvent_struct_def
  PoolCreated_struct_def BookParamsUpdated_struct_def
  DeepBurned_struct_def ReferralFeeEvent_struct_def
  ReferralClaimed_struct_def MarginManagerCreatedEvent_struct_def
  LoanBorrowedEvent_struct_def LoanRepaidEvent_struct_def
  LiquidationEvent_struct_def DepositCollateralEvent_struct_def
  WithdrawCollateralEvent_struct_def MarginPoolCreated_struct_def
  DeepbookPoolUpdated_struct_def InterestParamsUpdated_struct_def
  MarginPoolConfigUpdated_struct_def AssetSupplied_struct_def
  AssetWithdrawn_struct_def MaintainerFeesWithdrawn_struct_def
  ProtocolFeesWithdrawn_struct_def SupplierCapMinted_struct_def
  SupplyReferralMinted_struct_def RiskRatios_struct_def
  PoolConfig_struct_def MaintainerCapUpdated_struct_def
  DeepbookPoolRegistered_struct_def DeepbookPoolUpdatedRegistry_struct_def
  DeepbookPoolConfigUpdated_struct_def PauseCapUpdated_struct_def
  ProtocolFeesIncreasedEvent_struct_def ReferralFeesClaimedEvent_struct_def
  ConditionalOrderAdded_struct_def ConditionalOrderCancelled_struct_def
  ConditionalOrderExecuted_struct_def ConditionalOrderInsufficientFunds_struct_def
  SUI_struct_def

definition move_structs :: "MoveStruct list" where
  "move_structs =
    [BalanceEvent_struct,
     BalanceManagerEvent_struct,
     DeepBookReferralCreatedEvent_struct,
     DeepBookReferralSetEvent_struct,
     OrderCanceled_struct,
     OrderModified_struct,
     OrderFilled_struct,
     OrderPlaced_struct,
     OrderExpired_struct,
     FlashLoanBorrowed_struct,
     PriceAdded_struct,
     VoteEvent_struct,
     StakeEvent_struct,
     RebateEvent_struct,
     ProposalEvent_struct,
     TakerFeePenaltyApplied_struct,
     EWMAUpdate_struct,
     TradeParamsUpdateEvent_struct,
     PoolCreated_struct,
     BookParamsUpdated_struct,
     DeepBurned_struct,
     ReferralFeeEvent_struct,
     ReferralClaimed_struct,
     MarginManagerCreatedEvent_struct,
     LoanBorrowedEvent_struct,
     LoanRepaidEvent_struct,
     LiquidationEvent_struct,
     DepositCollateralEvent_struct,
     WithdrawCollateralEvent_struct,
     MarginPoolCreated_struct,
     DeepbookPoolUpdated_struct,
     InterestParamsUpdated_struct,
     MarginPoolConfigUpdated_struct,
     AssetSupplied_struct,
     AssetWithdrawn_struct,
     MaintainerFeesWithdrawn_struct,
     ProtocolFeesWithdrawn_struct,
     SupplierCapMinted_struct,
     SupplyReferralMinted_struct,
     RiskRatios_struct,
     PoolConfig_struct,
     MaintainerCapUpdated_struct,
     DeepbookPoolRegistered_struct,
     DeepbookPoolUpdatedRegistry_struct,
     DeepbookPoolConfigUpdated_struct,
     PauseCapUpdated_struct,
     ProtocolFeesIncreasedEvent_struct,
     ReferralFeesClaimedEvent_struct,
     ConditionalOrderAdded_struct,
     ConditionalOrderCancelled_struct,
     ConditionalOrderExecuted_struct,
     ConditionalOrderInsufficientFunds_struct,
     SUI_struct]"

text \<open>
  Every event struct but \<open>SUI\<close> belongs to a core or margin module, and no two structs share both
  module and name: an event type matches at most one of them.
\<close>

lemma move_structs_modules:
  "list_all (\<lambda>ms. MODULE ms \<notin> set get_sui_modules \<and> get_module_type (MODULE ms) \<noteq> Unknown)
     (filter (\<lambda>ms. NAME ms \<noteq> ''SUI'') move_structs)"
  by (simp add: move_structs_def move_struct_defs get_sui_modules_def get_module_type_def
      is_core_module_def is_margin_module_def is_sui_module_def module_constants)

lemma move_structs_distinct: "distinct (map (\<lambda>ms. (MODULE ms, NAME ms)) move_structs)"
  by (simp add: move_structs_def move_struct_defs)

end
