(* ===== verification/Indexing.thy ===== *)
theory Indexing
  imports Checkpoints
begin

text \<open>
  Properties of the generated handlers, for any event type:
  \<^item> the key \<open>{digest}{index}\<close>: injective on digests of one length, not in general;
  \<^item> the locale \<open>keyed_store\<close>, the contract of a table with \<^verbatim>\<open>ON CONFLICT DO NOTHING\<close>, with the
    interpretation \<open>event_table\<close> on \<open>commit\<close>;
  \<^item> the concurrent pipeline as a step relation: batches are committed in any order and may be
    committed again after a restart;
  \<^item> the locale \<open>event_handler\<close>, the contract of a \<open>map_event\<close> body, under which the result of
    \<open>process\<close> is characterised. Every handler of the indexer interprets it.
\<close>

section \<open>The primary key of an event\<close>

lemma event_key_inj:
  "length d = length d' \<Longrightarrow> event_key d i = event_key d' j \<longleftrightarrow> d = d' \<and> i = j"
  by (simp add: event_key_def show_nat_inj)

lemma event_key_inj_index: "event_key d i = event_key d j \<longleftrightarrow> i = j"
  by (simp add: event_key_inj)

lemma event_key_collision: "event_key ''AB1'' 2 = event_key ''AB'' 12"
  by code_simp

section \<open>A table with a primary key\<close>

locale keyed_store =
  fixes key :: "'r \<Rightarrow> 'k" and put :: "'r list \<Rightarrow> 't \<Rightarrow> 't" and rows :: "'t \<Rightarrow> 'r set"
    and invar :: "'t \<Rightarrow> bool"
  assumes invar_put: "invar t \<Longrightarrow> invar (put vs t)"
    and rows_kept: "rows t \<subseteq> rows (put vs t)"
    and rows_from: "rows (put vs t) \<subseteq> rows t \<union> set vs"
    and keys_present: "v \<in> set vs \<Longrightarrow> key v \<in> key ` rows (put vs t)"
    and keys_unique: "invar t \<Longrightarrow> inj_on key (rows t)"
begin

lemma put_rows:
  assumes "inj_on key (rows t \<union> set vs)"
  shows "rows (put vs t) = rows t \<union> set vs"
proof
  show "rows t \<union> set vs \<subseteq> rows (put vs t)"
  proof
    fix r assume r: "r \<in> rows t \<union> set vs"
    show "r \<in> rows (put vs t)"
    proof (cases "r \<in> rows t")
      case True
      then show ?thesis using rows_kept by blast
    next
      case False
      with r have "key r \<in> key ` rows (put vs t)" by (simp add: keys_present)
      then obtain q where q: "q \<in> rows (put vs t)" "key q = key r" by auto
      then have "q = r" using assms r rows_from by (meson inj_onD subsetD)
      with q show ?thesis by simp
    qed
  qed
qed (rule rows_from)

lemma put_again:
  assumes "invar t" and "set vs \<subseteq> rows t"
  shows "rows (put vs t) = rows t"
  using assms put_rows [of t vs] keys_unique [of t] by (simp add: Un_absorb2)

lemma put_keys: "key ` rows (put vs t) = key ` rows t \<union> key ` set vs"
  using rows_kept [of t vs] rows_from [of vs t] keys_present [of _ vs t] by blast

lemma invar_fold: "invar t \<Longrightarrow> invar (fold put bs t)"
  by (induction bs arbitrary: t) (simp_all add: invar_put)

lemma fold_keys: "key ` rows (fold put bs t) = key ` rows t \<union> key ` (\<Union>b\<in>set bs. set b)"
  by (induction bs arbitrary: t) (auto simp: put_keys image_Un)

lemma fold_rows:
  "inj_on key (rows t \<union> (\<Union>b\<in>set bs. set b)) \<Longrightarrow>
     rows (fold put bs t) = rows t \<union> (\<Union>b\<in>set bs. set b)"
proof (induction bs arbitrary: t)
  case (Cons b bs)
  then have "rows (put b t) = rows t \<union> set b"
    by (intro put_rows) (auto elim: inj_on_subset)
  with Cons show ?case by (simp add: Un_assoc)
qed simp

end

lemma insert_row_keys:
  "distinct (map event_digest t) \<Longrightarrow> distinct (map event_digest (insert_row r t))"
  by (auto simp: insert_row_def)

lemma commit_fst: "fst (commit vs t) = fold insert_row vs t"
  by (simp add: commit_def Let_def)

lemma fold_insert_row_prefix: "\<exists>us. fold insert_row vs t = t @ us"
proof (induction vs arbitrary: t)
  case (Cons v vs)
  obtain us where us: "fold insert_row vs (insert_row v t) = insert_row v t @ us"
    using Cons.IH by blast
  have "\<exists>ws. insert_row v t = t @ ws" by (simp add: insert_row_def)
  then obtain ws where "insert_row v t = t @ ws" by blast
  with us show ?case by simp
qed simp

lemma fold_insert_row_from: "set (fold insert_row vs t) \<subseteq> set t \<union> set vs"
proof (induction vs arbitrary: t)
  case (Cons v vs)
  have "set (fold insert_row vs (insert_row v t)) \<subseteq> set (insert_row v t) \<union> set vs"
    by (rule Cons.IH)
  also have "set (insert_row v t) \<subseteq> insert v (set t)" by (auto simp: insert_row_def)
  finally show ?case by auto
qed simp

lemma fold_insert_row_present:
  "v \<in> set vs \<Longrightarrow> event_digest v \<in> event_digest ` set (fold insert_row vs t)"
proof (induction vs arbitrary: t)
  case (Cons w vs)
  show ?case
  proof (cases "v \<in> set vs")
    case True
    with Cons.IH show ?thesis by simp
  next
    case False
    with Cons.prems have "v = w" by simp
    moreover have "event_digest w \<in> event_digest ` set (insert_row w t)"
      by (auto simp: insert_row_def)
    moreover obtain us where "fold insert_row vs (insert_row w t) = insert_row w t @ us"
      using fold_insert_row_prefix by blast
    ultimately show ?thesis by auto
  qed
qed simp

interpretation event_table: keyed_store event_digest "\<lambda>vs t. fst (commit vs t)" set
  "\<lambda>t. distinct (map event_digest t)"
proof (unfold_locales, goal_cases)
  case (1 t vs)
  then show ?case unfolding commit_fst
    by (induction vs arbitrary: t) (simp_all add: insert_row_keys)
next
  case (2 t vs)
  obtain us where "fold insert_row vs t = t @ us" using fold_insert_row_prefix by blast
  then show ?case by (simp add: commit_fst)
next
  case (3 vs t)
  show ?case by (simp add: commit_fst fold_insert_row_from)
next
  case (4 v vs t)
  then show ?case by (simp add: commit_fst fold_insert_row_present)
next
  case (5 t)
  then show ?case by (simp add: distinct_map)
qed

text \<open>C2: committing rows never removes or changes a row of the table (the old table is a prefix
  of the new one), adds only rows of the statement, leaves every key of the statement present and
  keys unique, and reports the number of rows added.\<close>

theorem commit_keyed:
  assumes "distinct (map event_digest tbl)"
  shows "(\<exists>us. fst (commit vals tbl) = tbl @ us \<and> set us \<subseteq> set vals \<and>
             snd (commit vals tbl) = length us) \<and>
         distinct (map event_digest (fst (commit vals tbl))) \<and>
         event_digest ` set (fst (commit vals tbl)) =
           event_digest ` set tbl \<union> event_digest ` set vals"
proof -
  obtain us where us: "fst (commit vals tbl) = tbl @ us"
    using fold_insert_row_prefix [of vals tbl] by (auto simp: commit_fst)
  have d: "distinct (map event_digest (fst (commit vals tbl)))"
    using assms by (rule event_table.invar_put)
  have "set us \<subseteq> set vals"
  proof
    fix r assume "r \<in> set us"
    with us d have "r \<notin> set tbl" "r \<in> set (fst (commit vals tbl))" by auto
    then show "r \<in> set vals" using event_table.rows_from [of vals tbl] by blast
  qed
  moreover have "snd (commit vals tbl) = length us"
    using us by (simp add: commit_def Let_def)
  moreover have "event_digest ` set (fst (commit vals tbl)) =
      event_digest ` set tbl \<union> event_digest ` set vals"
    by (rule event_table.put_keys)
  ultimately show ?thesis using us d by blast
qed

theorem commit_keyed_witness:
  "let a = \<lparr>event_digest = ''d0'', digest = ''d'', sender = ''s'', checkpoint = 1,
            checkpoint_timestamp_ms = 2, package = ''p''\<rparr> :: event_row;
       b = a\<lparr>event_digest := ''d1''\<rparr>
   in distinct (map event_digest (fst (commit [a, b, b] [a])))"
proof -
  define a :: event_row where "a = \<lparr>event_digest = ''d0'', digest = ''d'', sender = ''s'',
    checkpoint = 1, checkpoint_timestamp_ms = 2, package = ''p''\<rparr>"
  have "distinct (map event_digest [a])" by simp
  from commit_keyed [OF this, of "[a, a\<lparr>event_digest := ''d1''\<rparr>, a\<lparr>event_digest := ''d1''\<rparr>]"]
  show ?thesis by (simp add: a_def)
qed

section \<open>The concurrent pipeline\<close>

text \<open>
  The indexer framework processes checkpoints concurrently: the batches of rows of one handler are
  committed in any order, and a batch whose watermark was not yet advanced is committed again
  after a restart. \<open>waiting\<close> are the batches not yet committed, \<open>done\<close> those committed at least
  once.
\<close>

record 'a pipeline =
  waiting :: "'a event_row_scheme list list"
  committed :: "'a event_row_scheme list list"
  stored :: "'a event_row_scheme list"

inductive pipeline_step :: "'a pipeline \<Rightarrow> 'a pipeline \<Rightarrow> bool" where
  commit_batch: "waiting s = bs @ b # bs' \<Longrightarrow>
     pipeline_step s (s\<lparr>waiting := bs @ bs', committed := b # committed s,
                        stored := fst (commit b (stored s))\<rparr>)"
| commit_again: "b \<in> set (committed s) \<Longrightarrow>
     pipeline_step s (s\<lparr>stored := fst (commit b (stored s))\<rparr>)"

inductive pipeline_reach :: "'a event_row_scheme list list \<Rightarrow> 'a pipeline \<Rightarrow> bool" for batches where
  start: "pipeline_reach batches \<lparr>waiting = batches, committed = [], stored = []\<rparr>"
| step: "pipeline_reach batches s \<Longrightarrow> pipeline_step s t \<Longrightarrow> pipeline_reach batches t"

inductive_cases pipeline_stepE: "pipeline_step s t"

definition batch_rows :: "'a event_row_scheme list list \<Rightarrow> 'a event_row_scheme set" where
  "batch_rows bs = (\<Union>b\<in>set bs. set b)"

text \<open>No two different rows of the batches have the same key.\<close>

definition consistent_batches :: "'a event_row_scheme list list \<Rightarrow> bool" where
  "consistent_batches bs \<longleftrightarrow> inj_on event_digest (batch_rows bs)"

definition pipeline_inv :: "'a event_row_scheme list list \<Rightarrow> 'a pipeline \<Rightarrow> bool" where
  "pipeline_inv batches s \<longleftrightarrow>
     mset (waiting s) + mset (committed s) = mset batches \<and>
     distinct (map event_digest (stored s)) \<and>
     set (stored s) \<subseteq> batch_rows (committed s) \<and>
     event_digest ` set (stored s) = event_digest ` batch_rows (committed s)"

lemma batch_rows_Cons [simp]: "batch_rows (b # bs) = set b \<union> batch_rows bs"
  by (simp add: batch_rows_def)

lemma batch_rows_mset: "mset bs = mset cs \<Longrightarrow> batch_rows bs = batch_rows cs"
proof -
  assume "mset bs = mset cs"
  then have "set bs = set cs" by (rule mset_eq_setD)
  then show ?thesis by (simp add: batch_rows_def)
qed

lemma pipeline_step_inv: "pipeline_step s t \<Longrightarrow> pipeline_inv batches s \<Longrightarrow> pipeline_inv batches t"
proof (elim pipeline_stepE)
  fix bs b bs'
  assume t: "t = s\<lparr>waiting := bs @ bs', committed := b # committed s,
      stored := fst (commit b (stored s))\<rparr>"
    and w: "waiting s = bs @ b # bs'" and inv: "pipeline_inv batches s"
  have "set (fst (commit b (stored s))) \<subseteq> set (stored s) \<union> set b"
    by (rule event_table.rows_from)
  moreover have "distinct (map event_digest (fst (commit b (stored s))))"
    using inv by (intro event_table.invar_put) (simp add: pipeline_inv_def)
  ultimately show "pipeline_inv batches t" using inv w t
    by (auto simp: pipeline_inv_def event_table.put_keys image_Un)
next
  fix b
  assume t: "t = s\<lparr>stored := fst (commit b (stored s))\<rparr>"
    and b: "b \<in> set (committed s)" and inv: "pipeline_inv batches s"
  have sub: "set b \<subseteq> batch_rows (committed s)" using b by (auto simp: batch_rows_def)
  then have "event_digest ` set b \<subseteq> event_digest ` batch_rows (committed s)" by (rule image_mono)
  moreover have "set (fst (commit b (stored s))) \<subseteq> set (stored s) \<union> set b"
    by (rule event_table.rows_from)
  moreover have "distinct (map event_digest (fst (commit b (stored s))))"
    using inv by (intro event_table.invar_put) (simp add: pipeline_inv_def)
  ultimately show "pipeline_inv batches t" using inv t sub
    by (simp add: pipeline_inv_def event_table.put_keys sup_absorb1) blast
qed

lemma pipeline_reach_inv: "pipeline_reach batches s \<Longrightarrow> pipeline_inv batches s"
proof (induction rule: pipeline_reach.induct)
  case start
  show ?case by (simp add: pipeline_inv_def batch_rows_def)
next
  case (step s t)
  then show ?case by (blast intro: pipeline_step_inv)
qed

lemma drained_inv:
  assumes "pipeline_inv batches s" and "waiting s = []"
  shows "distinct (map event_digest (stored s)) \<and> set (stored s) \<subseteq> batch_rows batches \<and>
    event_digest ` set (stored s) = event_digest ` batch_rows batches"
proof -
  have "batch_rows (committed s) = batch_rows batches"
    using assms by (intro batch_rows_mset) (simp add: pipeline_inv_def)
  with assms(1) show ?thesis by (simp add: pipeline_inv_def)
qed

lemma drained_rows:
  assumes inv: "pipeline_inv batches s" and w: "waiting s = []" and "consistent_batches batches"
  shows "set (stored s) = batch_rows batches \<and> distinct (map event_digest (stored s))"
proof -
  note all = drained_inv [OF inv w]
  have "batch_rows batches \<subseteq> set (stored s)"
  proof
    fix r assume r: "r \<in> batch_rows batches"
    then have "event_digest r \<in> event_digest ` set (stored s)"
      using all by simp
    then obtain q where q: "q \<in> set (stored s)" "event_digest q = event_digest r" by auto
    moreover have "q \<in> batch_rows batches" using q all by auto
    ultimately have "q = r" using assms(3) r by (auto simp: consistent_batches_def inj_on_def)
    with q show "r \<in> set (stored s)" by simp
  qed
  with all show ?thesis by auto
qed

text \<open>C3: whatever the order of the commits and however often a batch is committed again, once no
  batch is waiting the table holds exactly one row for every key of the batches' rows, and only rows of
  the batches: its keys do not depend on the schedule. The table holds all rows of the batches, the
  same in every schedule, exactly when no two different rows of the batches share a key; when two do (the
  key concatenates digest and index without a separator), one of them is lost, whatever the schedule.\<close>

theorem pipeline_confluent:
  assumes "pipeline_reach batches s" and "waiting s = []"
  shows "distinct (map event_digest (stored s)) \<and> set (stored s) \<subseteq> batch_rows batches \<and>
    event_digest ` set (stored s) = event_digest ` batch_rows batches \<and>
    (set (stored s) = batch_rows batches \<longleftrightarrow> consistent_batches batches)"
  using drained_inv [OF pipeline_reach_inv [OF assms(1)] assms(2)]
    drained_rows [OF pipeline_reach_inv [OF assms(1)] assms(2)]
  by (metis consistent_batches_def distinct_map)

theorem pipeline_confluent_witness:
  "let a = \<lparr>event_digest = ''d0'', digest = ''d'', sender = ''s'', checkpoint = 1,
            checkpoint_timestamp_ms = 2, package = ''p''\<rparr> :: event_row;
       b = a\<lparr>event_digest := ''d1''\<rparr>
   in \<exists>s. pipeline_reach [[a], [b]] s \<and> waiting s = [] \<and> set (stored s) = {a, b}"
proof -
  define a :: event_row where "a = \<lparr>event_digest = ''d0'', digest = ''d'', sender = ''s'',
    checkpoint = 1, checkpoint_timestamp_ms = 2, package = ''p''\<rparr>"
  define b where "b = a\<lparr>event_digest := ''d1''\<rparr>"
  let ?s0 = "\<lparr>waiting = [[a], [b]], committed = [], stored = []\<rparr> :: unit pipeline"
  let ?s1 = "?s0\<lparr>waiting := [[a]] @ [], committed := [b] # committed ?s0,
    stored := fst (commit [b] (stored ?s0))\<rparr>"
  let ?s2 = "?s1\<lparr>waiting := [] @ [], committed := [a] # committed ?s1,
    stored := fst (commit [a] (stored ?s1))\<rparr>"
  have "pipeline_step ?s0 ?s1" by (rule commit_batch) simp
  then have "pipeline_reach [[a], [b]] ?s1" by (rule step [OF start])
  moreover have "pipeline_step ?s1 ?s2" by (rule commit_batch) simp
  ultimately have r: "pipeline_reach [[a], [b]] ?s2" by (rule step)
  have w: "waiting ?s2 = []" by simp
  have "consistent_batches [[a], [b]]"
    by (auto simp: consistent_batches_def batch_rows_def a_def b_def inj_on_def)
  with pipeline_confluent [OF r w] have "set (stored ?s2) = {a, b}"
    by (auto simp: batch_rows_def)
  with r w have "\<exists>s. pipeline_reach [[a], [b]] s \<and> waiting s = [] \<and> set (stored s) = {a, b}"
    by blast
  then show ?thesis by (simp add: a_def b_def)
qed

section \<open>What a handler extracts from a checkpoint\<close>

text \<open>The events of a checkpoint that match a struct, with their transaction and index, in order.\<close>

definition tx_matches ::
  "sui_lib \<Rightarrow> sandbox_state \<Rightarrow> DeepbookEnv \<Rightarrow> MoveStruct \<Rightarrow> ExecutedTransaction \<Rightarrow> (nat \<times> move_event) list" where
  "tx_matches lib st env ms tx =
     (case tx_events tx of
        None \<Rightarrow> []
      | Some evs \<Rightarrow> filter (\<lambda>(i, ev). matches_event_type lib st ms (event_type ev) env) (enumerate 0 evs))"

definition decode_event ::
  "(bytes \<Rightarrow> 'ev option) \<Rightarrow> ('ev \<Rightarrow> EventMeta \<Rightarrow> 'row) \<Rightarrow> EventMeta \<Rightarrow> nat \<times> move_event \<Rightarrow>
   process_error + 'row list" where
  "decode_event decode map_event base = (\<lambda>(i, ev).
     case decode (event_contents ev) of
       None \<Rightarrow> Inl BcsError
     | Some e \<Rightarrow> Inr [map_event e (with_index base i)])"

lemma collect_process_event:
  "collect_result (process_event lib st env ms decode map_event base) evs =
   collect_result (decode_event decode map_event base)
     (filter (\<lambda>(i, ev). matches_event_type lib st ms (event_type ev) env) evs)"
proof (induction evs)
  case (Cons x evs)
  then show ?case
    by (cases x)
      (simp add: process_event_def decode_event_def bind_result_id split: option.split)
qed simp

text \<open>
  The parsers of the other crates agree on full addresses (\<open>0x\<close> and 64 hex digits): \<^verbatim>\<open>hex::decode\<close>
  gives 32 bytes, and \<open>AccountAddress::from_str\<close> and \<open>ObjectID::from_str\<close> give the same ones.
\<close>

definition parsers_agree :: "sui_lib \<Rightarrow> bool" where
  "parsers_agree lib \<longleftrightarrow> (\<forall>s. full_package_id s \<longrightarrow>
     (\<exists>a. hex_decode lib (drop 2 s) = Inr a \<and> length a = 32 \<and>
          account_address_from_str lib s = Some a \<and> object_id_from_str lib s = Some a))"

definition full_packages :: "sandbox_state \<Rightarrow> DeepbookEnv \<Rightarrow> bool" where
  "full_packages st env \<longleftrightarrow> list_all full_package_id (get_all_package_strings st env)"

lemma full_packages_production: "full_packages None env"
  by (simp add: full_packages_def list_all_iff production_packages_full)

lemma parse_full_package:
  assumes "parsers_agree lib" and "full_package_id s"
  obtains a where "parse_address_from_hex lib s = Inr a"
    "account_address_from_str lib s = Some a" "object_id_from_str lib s = Some a"
  using assms by (fastforce simp: parsers_agree_def parse_address_from_hex_def full_package_id_def)

lemma package_addresses_full:
  assumes "parsers_agree lib" and "full_packages st env"
  obtains as ids where "package_addresses (account_address_from_str lib) st env = Some as"
    "package_ids (object_id_from_str lib) st env = Some ids"
    "\<And>s a. s \<in> set (get_all_package_strings st env) \<Longrightarrow>
       parse_address_from_hex lib s = Inr a \<Longrightarrow> a \<in> set as"
proof -
  let ?ss = "get_all_package_strings st env"
  have full: "full_package_id s" if "s \<in> set ?ss" for s
    using that assms(2) by (simp add: full_packages_def list_all_iff)
  obtain as where as: "those (map (account_address_from_str lib) ?ss) = Some as"
    using those_map_Some [of ?ss "account_address_from_str lib"] full
      parse_full_package [OF assms(1)] by metis
  obtain ids where ids: "those (map (object_id_from_str lib) ?ss) = Some ids"
    using those_map_Some [of ?ss "object_id_from_str lib"] full
      parse_full_package [OF assms(1)] by metis
  have "a \<in> set as" if s: "s \<in> set ?ss" and p: "parse_address_from_hex lib s = Inr a" for s a
  proof -
    have "account_address_from_str lib s = Some a"
      using parse_full_package [OF assms(1) full [OF s]] p by (metis sum.inject(2))
    then have "Some a \<in> set (map (account_address_from_str lib) ?ss)" using s by force
    moreover have "map (account_address_from_str lib) ?ss = map Some as"
      using as by (simp add: those_eq_Some)
    ultimately have "Some a \<in> set (map Some as)" by metis
    then show ?thesis by auto
  qed
  then show ?thesis using as ids that by (simp add: package_addresses_def package_ids_def)
qed

lemma is_deepbook_tx_matches:
  assumes "parsers_agree lib" and "full_packages st env" and "MODULE ms \<notin> set get_sui_modules"
    and "tx_matches lib st env ms tx \<noteq> []"
  shows "is_deepbook_tx lib st tx env = Some True"
proof -
  obtain as ids where as: "package_addresses (account_address_from_str lib) st env = Some as"
    and ids: "package_ids (object_id_from_str lib) st env = Some ids"
    and mem: "\<And>s a. s \<in> set (get_all_package_strings st env) \<Longrightarrow>
       parse_address_from_hex lib s = Inr a \<Longrightarrow> a \<in> set as"
    using package_addresses_full [OF assms(1,2)] by blast
  obtain evs i ev where evs: "tx_events tx = Some evs" "(i, ev) \<in> set (enumerate 0 evs)"
    "matches_event_type lib st ms (event_type ev) env"
    using assms(4) by (auto simp: tx_matches_def filter_empty_conv split: option.splits)
  from evs(2) have "ev \<in> set evs" by (auto simp: in_set_enumerate_eq)
  moreover have "tag_address (event_type ev) \<in> set as"
    using matches_event_type_package [OF evs(3) assms(3)] mem by blast
  ultimately show ?thesis using as ids evs(1) by (auto simp: is_deepbook_tx_def list_ex_iff)
qed

lemma is_deepbook_tx_defined:
  assumes "parsers_agree lib" and "full_packages st env"
  shows "\<exists>b. is_deepbook_tx lib st tx env = Some b"
proof -
  obtain as ids where "package_addresses (account_address_from_str lib) st env = Some as"
    "package_ids (object_id_from_str lib) st env = Some ids"
    by (rule package_addresses_full [OF assms])
  then show ?thesis by (simp add: is_deepbook_tx_def)
qed

text \<open>
  A concrete instance of the functions of other crates, for the witnesses: a hex decoder and
  parsers for full addresses.
\<close>

definition hex_value :: "char \<Rightarrow> nat" where
  "hex_value c = (let n = of_char c in if n < 58 then n - 48 else if n < 71 then n - 55 else n - 87)"

fun hex_decode_ref :: "string \<Rightarrow> string + bytes" where
  "hex_decode_ref [] = Inr []"
| "hex_decode_ref [c] = Inl ''Odd number of digits''"
| "hex_decode_ref (a # b # r) =
     (if is_hex_digit a \<and> is_hex_digit b
      then map_result (\<lambda>bs. word_of_nat (16 * hex_value a + hex_value b) # bs) (hex_decode_ref r)
      else Inl ''Invalid character'')"

definition full_address :: "string \<Rightarrow> bytes option" where
  "full_address s =
     (if full_package_id s then (case hex_decode_ref (drop 2 s) of Inl _ \<Rightarrow> None | Inr a \<Rightarrow> Some a)
      else None)"

definition ref_lib :: sui_lib where
  "ref_lib = \<lparr>hex_decode = hex_decode_ref, account_address_from_str = full_address,
     object_id_from_str = full_address, object_id_to_string = (\<lambda>_. ''id''),
     object_id_to_hex_uncompressed = (\<lambda>_. ''0xid''), address_to_string = (\<lambda>_. ''addr''),
     digest_to_string = map (\<lambda>b. digit_char (unat b))\<rparr>"

lemma hex_decode_ref_ok:
  "list_all is_hex_digit s \<Longrightarrow> even (length s) \<Longrightarrow>
     \<exists>bs. hex_decode_ref s = Inr bs \<and> length bs = length s div 2"
  by (induction s rule: hex_decode_ref.induct) auto

lemma parsers_agree_ref_lib: "parsers_agree ref_lib"
  unfolding parsers_agree_def
proof (intro allI impI)
  fix s assume s: "full_package_id s"
  then obtain a where a: "hex_decode_ref (drop 2 s) = Inr a" "length a = length (drop 2 s) div 2"
    using hex_decode_ref_ok [of "drop 2 s"] by (auto simp: full_package_id_def)
  with s show "\<exists>a. hex_decode ref_lib (drop 2 s) = Inr a \<and> length a = 32 \<and>
      account_address_from_str ref_lib s = Some a \<and> object_id_from_str ref_lib s = Some a"
    by (simp add: ref_lib_def full_address_def full_package_id_def)
qed

lemma process_tx_complete:
  assumes "parsers_agree lib" and "full_packages st env" and "MODULE ms \<notin> set get_sui_modules"
  shows "process_tx lib st env (process_event lib st env ms decode map_event base) tx =
      collect_result (decode_event decode map_event base) (tx_matches lib st env ms tx)"
proof (cases "tx_matches lib st env ms tx = []")
  case True
  obtain b where "is_deepbook_tx lib st tx env = Some b"
    using is_deepbook_tx_defined [OF assms(1,2)] by blast
  with True show ?thesis
    by (cases b; cases "tx_events tx")
      (simp_all add: process_tx_def tx_matches_def collect_process_event)
next
  case False
  then have "is_deepbook_tx lib st tx env = Some True"
    using is_deepbook_tx_matches [OF assms] by blast
  then show ?thesis
    by (cases "tx_events tx")
      (simp_all add: process_tx_def tx_matches_def collect_process_event)
qed

text \<open>C1: the filter for DeepBook transactions loses nothing: when the package ids are full
  addresses, a handler of a core or margin event yields exactly one row for each event of the
  checkpoint whose type matches, in the order of the transactions and events, whatever
  transaction they are in; it fails exactly when such an event does not decode.\<close>

theorem process_handler_complete:
  assumes "parsers_agree lib" and "full_packages st env" and "MODULE ms \<notin> set get_sui_modules"
  shows "process_handler lib st env ms decode map_event cp =
     collect_result
       (\<lambda>tx. collect_result (decode_event decode map_event (from_checkpoint_tx lib cp tx))
                (tx_matches lib st env ms tx))
       (transactions cp)"
  by (simp add: process_handler_def process_tx_complete [OF assms])

definition example_sandbox :: sandbox_state where
  "example_sandbox = Some \<lparr>override_core = [''0x'' @ replicate 64 (CHR ''0'')], override_margin = []\<rparr>"

definition example_struct :: MoveStruct where
  "example_struct = \<lparr>MODULE = ''vault'', NAME = ''FlashLoanBorrowed'', TYPE_PARAMS = []\<rparr>"

definition example_checkpoint :: Checkpoint where
  "example_checkpoint = \<lparr>sequence_number = 7, timestamp_ms = 9, transactions =
     [\<lparr>tx_effects_digest = [1], tx_digest = [1], tx_sender = [], tx_events = Some
        [\<lparr>event_type = StructTag (replicate 32 0) ''vault'' ''FlashLoanBorrowed'' [], event_contents = [5]\<rparr>,
         \<lparr>event_type = StructTag (replicate 32 0) ''vault'' ''Other'' [], event_contents = [6]\<rparr>],
        tx_commands = [], tx_input_objects = []\<rparr>]\<rparr>"

lemma example_packages: "full_packages example_sandbox Testnet"
  by (simp add: full_packages_def get_all_package_strings_def example_sandbox_def core_packages_def
      margin_packages_def full_package_id_def list_all_iff is_hex_digit_chars)

lemma example_matches:
  "list_all (\<lambda>tx. map fst (tx_matches ref_lib example_sandbox Testnet example_struct tx) = [0])
     (transactions example_checkpoint)"
  by code_simp

theorem process_handler_complete_witness:
  "process_handler ref_lib example_sandbox Testnet example_struct Some (\<lambda>e m. (e, meta_event_index m))
     example_checkpoint = Inr [([5], 0)]"
proof -
  have m: "MODULE example_struct \<notin> set get_sui_modules"
    by (simp add: example_struct_def get_sui_modules_def SUI_MODULES_def)
  show ?thesis
    unfolding process_handler_complete [OF parsers_agree_ref_lib example_packages m]
    by code_simp
qed

section \<open>The contract of an event mapping\<close>

definition meta_columns :: "EventMeta \<Rightarrow> event_row" where
  "meta_columns m =
     \<lparr>event_digest = meta_event_digest m, digest = meta_digest m, sender = meta_sender m,
      checkpoint = meta_checkpoint m, checkpoint_timestamp_ms = meta_checkpoint_timestamp_ms m,
      package = meta_package m\<rparr>"

text \<open>A loop that pushes values with distinct keys, from sets of keys that do not meet, has distinct keys.\<close>

lemma collect_distinct_keys:
  assumes "\<And>t as. f t = Inr as \<Longrightarrow> distinct (map key as) \<and> set (map key as) \<subseteq> K t"
    and "\<And>t u. t \<in> set ts \<Longrightarrow> u \<in> set ts \<Longrightarrow> t \<noteq> u \<Longrightarrow> K t \<inter> K u = {}"
    and "distinct ts" and "collect_result f ts = Inr rows"
  shows "distinct (map key rows)"
proof -
  have "distinct (map key rows) \<and> set (map key rows) \<subseteq> (\<Union>t\<in>set ts. K t)"
    using assms(2-4)
  proof (induction ts arbitrary: rows)
    case (Cons t ts)
    from Cons.prems(3) obtain as bs where ab: "f t = Inr as" "collect_result f ts = Inr bs" "rows = as @ bs"
      by (auto simp: result_simps)
    have bs: "distinct (map key bs)" "set (map key bs) \<subseteq> (\<Union>t\<in>set ts. K t)"
      using Cons.IH [OF _ _ ab(2)] Cons.prems(1,2) by simp_all
    have as: "distinct (map key as)" "set (map key as) \<subseteq> K t" using assms(1) [OF ab(1)] by simp_all
    have "K t \<inter> (\<Union>u\<in>set ts. K u) = {}" using Cons.prems(1) [of t] Cons.prems(2) by fastforce
    with as(2) bs(2) have "set (map key as) \<inter> set (map key bs) = {}" by blast
    moreover have "set (map key rows) = set (map key as) \<union> set (map key bs)" by (simp add: ab(3) image_Un)
    ultimately show ?case using as bs by (simp add: ab(3) le_supI1 le_supI2)
  qed simp
  then show ?thesis ..
qed

text \<open>
  What the rows of every event table share: their first columns are the metadata of the event.
  From this alone, the rows of a checkpoint have distinct keys and a commit stores all of them.
\<close>

locale event_handler =
  fixes map_event :: "'ev \<Rightarrow> EventMeta \<Rightarrow> 'a event_row_scheme"
  assumes meta_row: "event_row.truncate (map_event e m) = meta_columns m"
begin

lemma key: "event_digest (map_event e m) = meta_event_digest m"
proof -
  have "event_digest (event_row.truncate (map_event e m)) = event_digest (meta_columns m)"
    by (simp only: meta_row)
  then show ?thesis by (simp add: event_row.truncate_def meta_columns_def)
qed

lemma decode_keys:
  "collect_result (decode_event decode map_event base) evs = Inr rows \<Longrightarrow>
     map event_digest rows = map (\<lambda>(i, ev). event_key (meta_digest base) i) evs"
  by (induction evs arbitrary: rows)
    (auto simp: result_simps decode_event_def key meta_event_digest_def with_index_def
      split: option.split_asm)

lemma process_tx_keys:
  assumes "process_tx lib st env (process_event lib st env ms decode map_event base) tx = Inr rows"
  shows "\<exists>js. distinct js \<and> map event_digest rows = map (event_key (meta_digest base)) js"
proof (cases "rows = []")
  case True
  then show ?thesis by (intro exI [of _ "[]"]) simp
next
  case False
  with assms obtain evs where
    "collect_result (process_event lib st env ms decode map_event base) (enumerate 0 evs) = Inr rows"
    by (auto simp: process_tx_def split: option.split_asm bool.split_asm)
  then have "map event_digest rows = map (\<lambda>(i, ev). event_key (meta_digest base) i)
      (filter (\<lambda>(i, ev). matches_event_type lib st ms (event_type ev) env) (enumerate 0 evs))"
    unfolding collect_process_event by (rule decode_keys)
  also have "\<dots> = map (event_key (meta_digest base)) (map fst
      (filter (\<lambda>(i, ev). matches_event_type lib st ms (event_type ev) env) (enumerate 0 evs)))"
    by (simp add: split_def)
  finally have "map event_digest rows = map (event_key (meta_digest base)) (map fst
      (filter (\<lambda>(i, ev). matches_event_type lib st ms (event_type ev) env) (enumerate 0 evs)))" .
  moreover have "distinct (map fst
      (filter (\<lambda>(i, ev). matches_event_type lib st ms (event_type ev) env) (enumerate 0 evs)))"
    by (rule distinct_map_filter) simp
  ultimately show ?thesis by blast
qed

lemma process_keys:
  assumes "process_handler lib st env ms decode map_event cp = Inr rows"
    and "distinct (map (\<lambda>tx. digest_to_string lib (tx_effects_digest tx)) (transactions cp))"
    and "\<And>tx. tx \<in> set (transactions cp) \<Longrightarrow> length (digest_to_string lib (tx_effects_digest tx)) = n"
  shows "distinct (map event_digest rows)"
proof -
  let ?d = "\<lambda>tx. digest_to_string lib (tx_effects_digest tx)"
  let ?K = "\<lambda>tx. range (event_key (?d tx))"
  have "distinct (map event_digest as) \<and> set (map event_digest as) \<subseteq> ?K tx"
    if "process_tx lib st env (process_event lib st env ms decode map_event (from_checkpoint_tx lib cp tx)) tx = Inr as"
    for tx as
  proof -
    from process_tx_keys [OF that] obtain js where
      "distinct js" "map event_digest as = map (event_key (?d tx)) js"
      by (auto simp: from_checkpoint_tx_def)
    then show ?thesis by (auto simp: distinct_map inj_on_def event_key_inj_index)
  qed
  moreover have "?K t \<inter> ?K u = {}" if "t \<in> set (transactions cp)" "u \<in> set (transactions cp)" "t \<noteq> u" for t u
  proof -
    have "?d t \<noteq> ?d u" using assms(2) that by (auto simp: distinct_map dest: inj_onD)
    moreover have "length (?d t) = length (?d u)" using assms(3) [OF that(1)] assms(3) [OF that(2)] by simp
    ultimately show ?thesis by (auto simp: event_key_inj)
  qed
  moreover have "distinct (transactions cp)" using assms(2) by (simp add: distinct_map)
  ultimately show ?thesis
    using assms(1) unfolding process_handler_def by (rule collect_distinct_keys)
qed

end

end
