(* ===== verification/Handlers_Core.thy ===== *)
theory Handlers_Core
  imports Events Rows Indexing
begin

text \<open>
  The handlers that \<^verbatim>\<open>define_handler!\<close> generates for the core events
  (\<^verbatim>\<open>crates/indexer/src/handlers/*_handler.rs\<close>). For each, \<open>X_map_event\<close> is the \<open>map_event\<close> body,
  field by field, and \<open>X_process\<close> the generated \<open>process\<close>; its interpretation of \<open>event_handler\<close>
  gives the distinctness of the keys of a checkpoint. \<open>serde_json::to_value\<close> of a configuration
  struct is the parameter \<open>to_value\<close>.
\<close>

section \<open>balance manager event handler\<close>

definition BalanceManagerEventHandler_map_event :: "sui_lib \<Rightarrow> BalanceManagerEvent_ev \<Rightarrow> EventMeta \<Rightarrow> BalanceManagerEvent" where
  "BalanceManagerEventHandler_map_event lib e m =
     \<lparr>event_digest = meta_event_digest m,
      digest = meta_digest m,
      sender = meta_sender m,
      checkpoint = meta_checkpoint m,
      checkpoint_timestamp_ms = meta_checkpoint_timestamp_ms m,
      package = meta_package m,
      balance_manager_created_balance_manager_id = object_id_to_string lib (ev_balance_manager_event_balance_manager_id e),
      balance_manager_created_owner = address_to_string lib (ev_balance_manager_event_owner e)\<rparr>"

definition BalanceManagerEventHandler_process ::
  "sui_lib \<Rightarrow> sandbox_state \<Rightarrow> DeepbookEnv \<Rightarrow> (bytes \<Rightarrow> BalanceManagerEvent_ev option) \<Rightarrow> Checkpoint \<Rightarrow>
   process_error + BalanceManagerEvent list" where
  "BalanceManagerEventHandler_process lib st env decode =
     process_handler lib st env BalanceManagerEvent_struct decode (BalanceManagerEventHandler_map_event lib)"

interpretation balance_manager_event_handler: event_handler "BalanceManagerEventHandler_map_event lib"
  by unfold_locales (simp add: BalanceManagerEventHandler_map_event_def meta_columns_def event_row.truncate_def)

section \<open>balances handler\<close>

definition BalancesHandler_map_event :: "sui_lib \<Rightarrow> BalanceEvent_ev \<Rightarrow> EventMeta \<Rightarrow> Balances" where
  "BalancesHandler_map_event lib e m =
     \<lparr>event_digest = meta_event_digest m,
      digest = meta_digest m,
      sender = meta_sender m,
      checkpoint = meta_checkpoint m,
      checkpoint_timestamp_ms = meta_checkpoint_timestamp_ms m,
      package = meta_package m,
      balances_balance_manager_id = object_id_to_string lib (ev_balance_event_balance_manager_id e),
      balances_asset = ev_balance_event_asset e,
      balances_amount = as_i64 (ev_balance_event_amount e),
      balances_deposit = ev_balance_event_deposit e\<rparr>"

definition BalancesHandler_process ::
  "sui_lib \<Rightarrow> sandbox_state \<Rightarrow> DeepbookEnv \<Rightarrow> (bytes \<Rightarrow> BalanceEvent_ev option) \<Rightarrow> Checkpoint \<Rightarrow>
   process_error + Balances list" where
  "BalancesHandler_process lib st env decode =
     process_handler lib st env BalanceEvent_struct decode (BalancesHandler_map_event lib)"

interpretation balances_handler: event_handler "BalancesHandler_map_event lib"
  by unfold_locales (simp add: BalancesHandler_map_event_def meta_columns_def event_row.truncate_def)

section \<open>book params updated handler\<close>

definition BookParamsUpdatedHandler_map_event :: "sui_lib \<Rightarrow> BookParamsUpdated_ev \<Rightarrow> EventMeta \<Rightarrow> BookParamsUpdated" where
  "BookParamsUpdatedHandler_map_event lib e m =
     \<lparr>event_digest = meta_event_digest m,
      digest = meta_digest m,
      sender = meta_sender m,
      checkpoint = meta_checkpoint m,
      checkpoint_timestamp_ms = meta_checkpoint_timestamp_ms m,
      package = meta_package m,
      book_params_updated_pool_id = object_id_to_string lib (ev_book_params_updated_pool_id e),
      book_params_updated_tick_size = as_i64 (ev_book_params_updated_tick_size e),
      book_params_updated_lot_size = as_i64 (ev_book_params_updated_lot_size e),
      book_params_updated_min_size = as_i64 (ev_book_params_updated_min_size e),
      book_params_updated_onchain_timestamp = as_i64 (ev_book_params_updated_timestamp e)\<rparr>"

definition BookParamsUpdatedHandler_process ::
  "sui_lib \<Rightarrow> sandbox_state \<Rightarrow> DeepbookEnv \<Rightarrow> (bytes \<Rightarrow> BookParamsUpdated_ev option) \<Rightarrow> Checkpoint \<Rightarrow>
   process_error + BookParamsUpdated list" where
  "BookParamsUpdatedHandler_process lib st env decode =
     process_handler lib st env BookParamsUpdated_struct decode (BookParamsUpdatedHandler_map_event lib)"

interpretation book_params_updated_handler: event_handler "BookParamsUpdatedHandler_map_event lib"
  by unfold_locales (simp add: BookParamsUpdatedHandler_map_event_def meta_columns_def event_row.truncate_def)

section \<open>deepbook referral created event handler\<close>

definition DeepBookReferralCreatedEventHandler_map_event :: "sui_lib \<Rightarrow> DeepBookReferralCreatedEvent_ev \<Rightarrow> EventMeta \<Rightarrow> DeepBookReferralCreatedEvent" where
  "DeepBookReferralCreatedEventHandler_map_event lib e m =
     \<lparr>event_digest = meta_event_digest m,
      digest = meta_digest m,
      sender = meta_sender m,
      checkpoint = meta_checkpoint m,
      checkpoint_timestamp_ms = meta_checkpoint_timestamp_ms m,
      package = meta_package m,
      deepbook_referral_created_referral_id = object_id_to_string lib (ev_deep_book_referral_created_event_referral_id e),
      deepbook_referral_created_owner = address_to_string lib (ev_deep_book_referral_created_event_owner e)\<rparr>"

definition DeepBookReferralCreatedEventHandler_process ::
  "sui_lib \<Rightarrow> sandbox_state \<Rightarrow> DeepbookEnv \<Rightarrow> (bytes \<Rightarrow> DeepBookReferralCreatedEvent_ev option) \<Rightarrow> Checkpoint \<Rightarrow>
   process_error + DeepBookReferralCreatedEvent list" where
  "DeepBookReferralCreatedEventHandler_process lib st env decode =
     process_handler lib st env DeepBookReferralCreatedEvent_struct decode (DeepBookReferralCreatedEventHandler_map_event lib)"

interpretation deep_book_referral_created_event_handler: event_handler "DeepBookReferralCreatedEventHandler_map_event lib"
  by unfold_locales (simp add: DeepBookReferralCreatedEventHandler_map_event_def meta_columns_def event_row.truncate_def)

section \<open>deepbook referral set event handler\<close>

definition DeepBookReferralSetEventHandler_map_event :: "sui_lib \<Rightarrow> DeepBookReferralSetEvent_ev \<Rightarrow> EventMeta \<Rightarrow> DeepBookReferralSetEvent" where
  "DeepBookReferralSetEventHandler_map_event lib e m =
     \<lparr>event_digest = meta_event_digest m,
      digest = meta_digest m,
      sender = meta_sender m,
      checkpoint = meta_checkpoint m,
      checkpoint_timestamp_ms = meta_checkpoint_timestamp_ms m,
      package = meta_package m,
      deepbook_referral_set_referral_id = object_id_to_string lib (ev_deep_book_referral_set_event_referral_id e),
      deepbook_referral_set_balance_manager_id = object_id_to_string lib (ev_deep_book_referral_set_event_balance_manager_id e)\<rparr>"

definition DeepBookReferralSetEventHandler_process ::
  "sui_lib \<Rightarrow> sandbox_state \<Rightarrow> DeepbookEnv \<Rightarrow> (bytes \<Rightarrow> DeepBookReferralSetEvent_ev option) \<Rightarrow> Checkpoint \<Rightarrow>
   process_error + DeepBookReferralSetEvent list" where
  "DeepBookReferralSetEventHandler_process lib st env decode =
     process_handler lib st env DeepBookReferralSetEvent_struct decode (DeepBookReferralSetEventHandler_map_event lib)"

interpretation deep_book_referral_set_event_handler: event_handler "DeepBookReferralSetEventHandler_map_event lib"
  by unfold_locales (simp add: DeepBookReferralSetEventHandler_map_event_def meta_columns_def event_row.truncate_def)

section \<open>ewma update handler\<close>

definition EwmaUpdateHandler_map_event :: "sui_lib \<Rightarrow> EWMAUpdate_ev \<Rightarrow> EventMeta \<Rightarrow> EwmaUpdate" where
  "EwmaUpdateHandler_map_event lib e m =
     \<lparr>event_digest = meta_event_digest m,
      digest = meta_digest m,
      sender = meta_sender m,
      checkpoint = meta_checkpoint m,
      checkpoint_timestamp_ms = meta_checkpoint_timestamp_ms m,
      package = meta_package m,
      ewma_updates_pool_id = object_id_to_string lib (ev_ewma_update_pool_id e),
      ewma_updates_gas_price = as_i64 (ev_ewma_update_gas_price e),
      ewma_updates_mean = as_i64 (ev_ewma_update_mean e),
      ewma_updates_variance = as_i64 (ev_ewma_update_variance e),
      ewma_updates_onchain_timestamp = as_i64 (ev_ewma_update_timestamp e)\<rparr>"

definition EwmaUpdateHandler_process ::
  "sui_lib \<Rightarrow> sandbox_state \<Rightarrow> DeepbookEnv \<Rightarrow> (bytes \<Rightarrow> EWMAUpdate_ev option) \<Rightarrow> Checkpoint \<Rightarrow>
   process_error + EwmaUpdate list" where
  "EwmaUpdateHandler_process lib st env decode =
     process_handler lib st env EWMAUpdate_struct decode (EwmaUpdateHandler_map_event lib)"

interpretation ewma_update_handler: event_handler "EwmaUpdateHandler_map_event lib"
  by unfold_locales (simp add: EwmaUpdateHandler_map_event_def meta_columns_def event_row.truncate_def)

section \<open>flash loan handler\<close>

definition FlashLoanHandler_map_event :: "sui_lib \<Rightarrow> FlashLoanBorrowed_ev \<Rightarrow> EventMeta \<Rightarrow> Flashloan" where
  "FlashLoanHandler_map_event lib e m =
     \<lparr>event_digest = meta_event_digest m,
      digest = meta_digest m,
      sender = meta_sender m,
      checkpoint = meta_checkpoint m,
      checkpoint_timestamp_ms = meta_checkpoint_timestamp_ms m,
      package = meta_package m,
      flashloans_pool_id = object_id_to_string lib (ev_flash_loan_borrowed_pool_id e),
      flashloans_borrow_quantity = as_i64 (ev_flash_loan_borrowed_borrow_quantity e),
      flashloans_borrow = True,
      flashloans_type_name = ev_flash_loan_borrowed_type_name e\<rparr>"

definition FlashLoanHandler_process ::
  "sui_lib \<Rightarrow> sandbox_state \<Rightarrow> DeepbookEnv \<Rightarrow> (bytes \<Rightarrow> FlashLoanBorrowed_ev option) \<Rightarrow> Checkpoint \<Rightarrow>
   process_error + Flashloan list" where
  "FlashLoanHandler_process lib st env decode =
     process_handler lib st env FlashLoanBorrowed_struct decode (FlashLoanHandler_map_event lib)"

interpretation flash_loan_handler: event_handler "FlashLoanHandler_map_event lib"
  by unfold_locales (simp add: FlashLoanHandler_map_event_def meta_columns_def event_row.truncate_def)

section \<open>order fill handler\<close>

definition OrderFillHandler_map_event :: "sui_lib \<Rightarrow> OrderFilled_ev \<Rightarrow> EventMeta \<Rightarrow> OrderFill" where
  "OrderFillHandler_map_event lib e m =
     \<lparr>event_digest = meta_event_digest m,
      digest = meta_digest m,
      sender = meta_sender m,
      checkpoint = meta_checkpoint m,
      checkpoint_timestamp_ms = meta_checkpoint_timestamp_ms m,
      package = meta_package m,
      order_fills_pool_id = object_id_to_string lib (ev_order_filled_pool_id e),
      order_fills_maker_order_id = show_u128 (ev_order_filled_maker_order_id e),
      order_fills_taker_order_id = show_u128 (ev_order_filled_taker_order_id e),
      order_fills_maker_client_order_id = as_i64 (ev_order_filled_maker_client_order_id e),
      order_fills_taker_client_order_id = as_i64 (ev_order_filled_taker_client_order_id e),
      order_fills_price = as_i64 (ev_order_filled_price e),
      order_fills_taker_fee = as_i64 (ev_order_filled_taker_fee e),
      order_fills_taker_fee_is_deep = ev_order_filled_taker_fee_is_deep e,
      order_fills_maker_fee = as_i64 (ev_order_filled_maker_fee e),
      order_fills_maker_fee_is_deep = ev_order_filled_maker_fee_is_deep e,
      order_fills_taker_is_bid = ev_order_filled_taker_is_bid e,
      order_fills_base_quantity = as_i64 (ev_order_filled_base_quantity e),
      order_fills_quote_quantity = as_i64 (ev_order_filled_quote_quantity e),
      order_fills_maker_balance_manager_id = object_id_to_string lib (ev_order_filled_maker_balance_manager_id e),
      order_fills_taker_balance_manager_id = object_id_to_string lib (ev_order_filled_taker_balance_manager_id e),
      order_fills_onchain_timestamp = as_i64 (ev_order_filled_timestamp e)\<rparr>"

definition OrderFillHandler_process ::
  "sui_lib \<Rightarrow> sandbox_state \<Rightarrow> DeepbookEnv \<Rightarrow> (bytes \<Rightarrow> OrderFilled_ev option) \<Rightarrow> Checkpoint \<Rightarrow>
   process_error + OrderFill list" where
  "OrderFillHandler_process lib st env decode =
     process_handler lib st env OrderFilled_struct decode (OrderFillHandler_map_event lib)"

interpretation order_fill_handler: event_handler "OrderFillHandler_map_event lib"
  by unfold_locales (simp add: OrderFillHandler_map_event_def meta_columns_def event_row.truncate_def)

section \<open>pool price handler\<close>

definition PoolPriceHandler_map_event :: "sui_lib \<Rightarrow> PriceAdded_ev \<Rightarrow> EventMeta \<Rightarrow> PoolPrice" where
  "PoolPriceHandler_map_event lib e m =
     \<lparr>event_digest = meta_event_digest m,
      digest = meta_digest m,
      sender = meta_sender m,
      checkpoint = meta_checkpoint m,
      checkpoint_timestamp_ms = meta_checkpoint_timestamp_ms m,
      package = meta_package m,
      pool_prices_target_pool = object_id_to_string lib (ev_price_added_target_pool e),
      pool_prices_reference_pool = object_id_to_string lib (ev_price_added_reference_pool e),
      pool_prices_conversion_rate = as_i64 (ev_price_added_conversion_rate e)\<rparr>"

definition PoolPriceHandler_process ::
  "sui_lib \<Rightarrow> sandbox_state \<Rightarrow> DeepbookEnv \<Rightarrow> (bytes \<Rightarrow> PriceAdded_ev option) \<Rightarrow> Checkpoint \<Rightarrow>
   process_error + PoolPrice list" where
  "PoolPriceHandler_process lib st env decode =
     process_handler lib st env PriceAdded_struct decode (PoolPriceHandler_map_event lib)"

interpretation pool_price_handler: event_handler "PoolPriceHandler_map_event lib"
  by unfold_locales (simp add: PoolPriceHandler_map_event_def meta_columns_def event_row.truncate_def)

section \<open>proposals handler\<close>

definition ProposalsHandler_map_event :: "sui_lib \<Rightarrow> ProposalEvent_ev \<Rightarrow> EventMeta \<Rightarrow> Proposals" where
  "ProposalsHandler_map_event lib e m =
     \<lparr>event_digest = meta_event_digest m,
      digest = meta_digest m,
      sender = meta_sender m,
      checkpoint = meta_checkpoint m,
      checkpoint_timestamp_ms = meta_checkpoint_timestamp_ms m,
      package = meta_package m,
      proposals_pool_id = object_id_to_string lib (ev_proposal_event_pool_id e),
      proposals_balance_manager_id = object_id_to_string lib (ev_proposal_event_balance_manager_id e),
      proposals_epoch = as_i64 (ev_proposal_event_epoch e),
      proposals_taker_fee = as_i64 (ev_proposal_event_taker_fee e),
      proposals_maker_fee = as_i64 (ev_proposal_event_maker_fee e),
      proposals_stake_required = as_i64 (ev_proposal_event_stake_required e)\<rparr>"

definition ProposalsHandler_process ::
  "sui_lib \<Rightarrow> sandbox_state \<Rightarrow> DeepbookEnv \<Rightarrow> (bytes \<Rightarrow> ProposalEvent_ev option) \<Rightarrow> Checkpoint \<Rightarrow>
   process_error + Proposals list" where
  "ProposalsHandler_process lib st env decode =
     process_handler lib st env ProposalEvent_struct decode (ProposalsHandler_map_event lib)"

interpretation proposals_handler: event_handler "ProposalsHandler_map_event lib"
  by unfold_locales (simp add: ProposalsHandler_map_event_def meta_columns_def event_row.truncate_def)

section \<open>rebates handler\<close>

definition RebatesHandler_map_event :: "sui_lib \<Rightarrow> RebateEvent_ev \<Rightarrow> EventMeta \<Rightarrow> Rebates" where
  "RebatesHandler_map_event lib e m =
     \<lparr>event_digest = meta_event_digest m,
      digest = meta_digest m,
      sender = meta_sender m,
      checkpoint = meta_checkpoint m,
      checkpoint_timestamp_ms = meta_checkpoint_timestamp_ms m,
      package = meta_package m,
      rebates_pool_id = object_id_to_string lib (ev_rebate_event_pool_id e),
      rebates_balance_manager_id = object_id_to_string lib (ev_rebate_event_balance_manager_id e),
      rebates_epoch = as_i64 (ev_rebate_event_epoch e),
      rebates_claim_amount = as_i64 (ev_rebate_event_claim_amount e)\<rparr>"

definition RebatesHandler_process ::
  "sui_lib \<Rightarrow> sandbox_state \<Rightarrow> DeepbookEnv \<Rightarrow> (bytes \<Rightarrow> RebateEvent_ev option) \<Rightarrow> Checkpoint \<Rightarrow>
   process_error + Rebates list" where
  "RebatesHandler_process lib st env decode =
     process_handler lib st env RebateEvent_struct decode (RebatesHandler_map_event lib)"

interpretation rebates_handler: event_handler "RebatesHandler_map_event lib"
  by unfold_locales (simp add: RebatesHandler_map_event_def meta_columns_def event_row.truncate_def)

section \<open>referral claimed handler\<close>

definition ReferralClaimedHandler_map_event :: "sui_lib \<Rightarrow> ReferralClaimed_ev \<Rightarrow> EventMeta \<Rightarrow> ReferralClaimed" where
  "ReferralClaimedHandler_map_event lib e m =
     \<lparr>event_digest = meta_event_digest m,
      digest = meta_digest m,
      sender = meta_sender m,
      checkpoint = meta_checkpoint m,
      checkpoint_timestamp_ms = meta_checkpoint_timestamp_ms m,
      package = meta_package m,
      referral_claimed_pool_id = object_id_to_string lib (ev_referral_claimed_pool_id e),
      referral_claimed_referral_id = object_id_to_string lib (ev_referral_claimed_referral_id e),
      referral_claimed_owner = address_to_string lib (ev_referral_claimed_owner e),
      referral_claimed_base_amount = as_i64 (ev_referral_claimed_base_amount e),
      referral_claimed_quote_amount = as_i64 (ev_referral_claimed_quote_amount e),
      referral_claimed_deep_amount = as_i64 (ev_referral_claimed_deep_amount e)\<rparr>"

definition ReferralClaimedHandler_process ::
  "sui_lib \<Rightarrow> sandbox_state \<Rightarrow> DeepbookEnv \<Rightarrow> (bytes \<Rightarrow> ReferralClaimed_ev option) \<Rightarrow> Checkpoint \<Rightarrow>
   process_error + ReferralClaimed list" where
  "ReferralClaimedHandler_process lib st env decode =
     process_handler lib st env ReferralClaimed_struct decode (ReferralClaimedHandler_map_event lib)"

interpretation referral_claimed_handler: event_handler "ReferralClaimedHandler_map_event lib"
  by unfold_locales (simp add: ReferralClaimedHandler_map_event_def meta_columns_def event_row.truncate_def)

section \<open>referral fee event handler\<close>

definition ReferralFeeEventHandler_map_event :: "sui_lib \<Rightarrow> ReferralFeeEvent_ev \<Rightarrow> EventMeta \<Rightarrow> ReferralFeeEvent" where
  "ReferralFeeEventHandler_map_event lib e m =
     \<lparr>event_digest = meta_event_digest m,
      digest = meta_digest m,
      sender = meta_sender m,
      checkpoint = meta_checkpoint m,
      checkpoint_timestamp_ms = meta_checkpoint_timestamp_ms m,
      package = meta_package m,
      referral_fee_events_pool_id = object_id_to_string lib (ev_referral_fee_event_pool_id e),
      referral_fee_events_referral_id = object_id_to_string lib (ev_referral_fee_event_referral_id e),
      referral_fee_events_base_fee = as_i64 (ev_referral_fee_event_base_fee e),
      referral_fee_events_quote_fee = as_i64 (ev_referral_fee_event_quote_fee e),
      referral_fee_events_deep_fee = as_i64 (ev_referral_fee_event_deep_fee e)\<rparr>"

definition ReferralFeeEventHandler_process ::
  "sui_lib \<Rightarrow> sandbox_state \<Rightarrow> DeepbookEnv \<Rightarrow> (bytes \<Rightarrow> ReferralFeeEvent_ev option) \<Rightarrow> Checkpoint \<Rightarrow>
   process_error + ReferralFeeEvent list" where
  "ReferralFeeEventHandler_process lib st env decode =
     process_handler lib st env ReferralFeeEvent_struct decode (ReferralFeeEventHandler_map_event lib)"

interpretation referral_fee_event_handler: event_handler "ReferralFeeEventHandler_map_event lib"
  by unfold_locales (simp add: ReferralFeeEventHandler_map_event_def meta_columns_def event_row.truncate_def)

section \<open>stakes handler\<close>

definition StakesHandler_map_event :: "sui_lib \<Rightarrow> StakeEvent_ev \<Rightarrow> EventMeta \<Rightarrow> Stakes" where
  "StakesHandler_map_event lib e m =
     \<lparr>event_digest = meta_event_digest m,
      digest = meta_digest m,
      sender = meta_sender m,
      checkpoint = meta_checkpoint m,
      checkpoint_timestamp_ms = meta_checkpoint_timestamp_ms m,
      package = meta_package m,
      stakes_pool_id = object_id_to_string lib (ev_stake_event_pool_id e),
      stakes_balance_manager_id = object_id_to_string lib (ev_stake_event_balance_manager_id e),
      stakes_epoch = as_i64 (ev_stake_event_epoch e),
      stakes_amount = as_i64 (ev_stake_event_amount e),
      stakes_stake = ev_stake_event_stake e\<rparr>"

definition StakesHandler_process ::
  "sui_lib \<Rightarrow> sandbox_state \<Rightarrow> DeepbookEnv \<Rightarrow> (bytes \<Rightarrow> StakeEvent_ev option) \<Rightarrow> Checkpoint \<Rightarrow>
   process_error + Stakes list" where
  "StakesHandler_process lib st env decode =
     process_handler lib st env StakeEvent_struct decode (StakesHandler_map_event lib)"

interpretation stakes_handler: event_handler "StakesHandler_map_event lib"
  by unfold_locales (simp add: StakesHandler_map_event_def meta_columns_def event_row.truncate_def)

section \<open>taker fee penalty handler\<close>

definition TakerFeePenaltyHandler_map_event :: "sui_lib \<Rightarrow> TakerFeePenaltyApplied_ev \<Rightarrow> EventMeta \<Rightarrow> TakerFeePenaltyApplied" where
  "TakerFeePenaltyHandler_map_event lib e m =
     \<lparr>event_digest = meta_event_digest m,
      digest = meta_digest m,
      sender = meta_sender m,
      checkpoint = meta_checkpoint m,
      checkpoint_timestamp_ms = meta_checkpoint_timestamp_ms m,
      package = meta_package m,
      taker_fee_penalty_applied_pool_id = object_id_to_string lib (ev_taker_fee_penalty_applied_pool_id e),
      taker_fee_penalty_applied_balance_manager_id = object_id_to_string lib (ev_taker_fee_penalty_applied_balance_manager_id e),
      taker_fee_penalty_applied_order_id = show_u128 (ev_taker_fee_penalty_applied_order_id e),
      taker_fee_penalty_applied_taker_fee_without_penalty = as_i64 (ev_taker_fee_penalty_applied_taker_fee_without_penalty e),
      taker_fee_penalty_applied_taker_fee = as_i64 (ev_taker_fee_penalty_applied_taker_fee e)\<rparr>"

definition TakerFeePenaltyHandler_process ::
  "sui_lib \<Rightarrow> sandbox_state \<Rightarrow> DeepbookEnv \<Rightarrow> (bytes \<Rightarrow> TakerFeePenaltyApplied_ev option) \<Rightarrow> Checkpoint \<Rightarrow>
   process_error + TakerFeePenaltyApplied list" where
  "TakerFeePenaltyHandler_process lib st env decode =
     process_handler lib st env TakerFeePenaltyApplied_struct decode (TakerFeePenaltyHandler_map_event lib)"

interpretation taker_fee_penalty_handler: event_handler "TakerFeePenaltyHandler_map_event lib"
  by unfold_locales (simp add: TakerFeePenaltyHandler_map_event_def meta_columns_def event_row.truncate_def)

section \<open>vote handler\<close>

definition VotesHandler_map_event :: "sui_lib \<Rightarrow> VoteEvent_ev \<Rightarrow> EventMeta \<Rightarrow> Votes" where
  "VotesHandler_map_event lib e m =
     \<lparr>event_digest = meta_event_digest m,
      digest = meta_digest m,
      sender = meta_sender m,
      checkpoint = meta_checkpoint m,
      checkpoint_timestamp_ms = meta_checkpoint_timestamp_ms m,
      package = meta_package m,
      votes_pool_id = object_id_to_string lib (ev_vote_event_pool_id e),
      votes_balance_manager_id = object_id_to_string lib (ev_vote_event_balance_manager_id e),
      votes_epoch = as_i64 (ev_vote_event_epoch e),
      votes_from_proposal_id = map_option (object_id_to_string lib) (ev_vote_event_from_proposal_id e),
      votes_to_proposal_id = object_id_to_string lib (ev_vote_event_to_proposal_id e),
      votes_stake = as_i64 (ev_vote_event_stake e)\<rparr>"

definition VotesHandler_process ::
  "sui_lib \<Rightarrow> sandbox_state \<Rightarrow> DeepbookEnv \<Rightarrow> (bytes \<Rightarrow> VoteEvent_ev option) \<Rightarrow> Checkpoint \<Rightarrow>
   process_error + Votes list" where
  "VotesHandler_process lib st env decode =
     process_handler lib st env VoteEvent_struct decode (VotesHandler_map_event lib)"

interpretation votes_handler: event_handler "VotesHandler_map_event lib"
  by unfold_locales (simp add: VotesHandler_map_event_def meta_columns_def event_row.truncate_def)

lemmas core_map_event_defs =
  BalanceManagerEventHandler_map_event_def
  BalancesHandler_map_event_def
  BookParamsUpdatedHandler_map_event_def
  DeepBookReferralCreatedEventHandler_map_event_def
  DeepBookReferralSetEventHandler_map_event_def
  EwmaUpdateHandler_map_event_def
  FlashLoanHandler_map_event_def
  OrderFillHandler_map_event_def
  PoolPriceHandler_map_event_def
  ProposalsHandler_map_event_def
  RebatesHandler_map_event_def
  ReferralClaimedHandler_map_event_def
  ReferralFeeEventHandler_map_event_def
  StakesHandler_map_event_def
  TakerFeePenaltyHandler_map_event_def
  VotesHandler_map_event_def

end
