(* ===== verification/Handlers_Margin.thy ===== *)
theory Handlers_Margin
  imports Events Rows Indexing
begin

text \<open>
  The handlers that \<^verbatim>\<open>define_handler!\<close> generates for the margin events
  (\<^verbatim>\<open>crates/indexer/src/handlers/*_handler.rs\<close>). For each, \<open>X_map_event\<close> is the \<open>map_event\<close> body,
  field by field, and \<open>X_process\<close> the generated \<open>process\<close>; its interpretation of \<open>event_handler\<close>
  gives the distinctness of the keys of a checkpoint. \<open>serde_json::to_value\<close> of a configuration
  struct is the parameter \<open>to_value\<close>.
\<close>

section \<open>asset supplied handler\<close>

definition AssetSuppliedHandler_map_event :: "sui_lib \<Rightarrow> AssetSupplied_ev \<Rightarrow> EventMeta \<Rightarrow> AssetSupplied" where
  "AssetSuppliedHandler_map_event lib e m =
     \<lparr>event_digest = meta_event_digest m,
      digest = meta_digest m,
      sender = meta_sender m,
      checkpoint = meta_checkpoint m,
      checkpoint_timestamp_ms = meta_checkpoint_timestamp_ms m,
      package = meta_package m,
      asset_supplied_margin_pool_id = object_id_to_string lib (ev_asset_supplied_margin_pool_id e),
      asset_supplied_asset_type = ev_asset_supplied_asset_type e,
      asset_supplied_supplier = address_to_string lib (ev_asset_supplied_supplier e),
      asset_supplied_amount = as_i64 (ev_asset_supplied_supply_amount e),
      asset_supplied_shares = as_i64 (ev_asset_supplied_supply_shares e),
      asset_supplied_onchain_timestamp = as_i64 (ev_asset_supplied_timestamp e)\<rparr>"

definition AssetSuppliedHandler_process ::
  "sui_lib \<Rightarrow> sandbox_state \<Rightarrow> DeepbookEnv \<Rightarrow> (bytes \<Rightarrow> AssetSupplied_ev option) \<Rightarrow> Checkpoint \<Rightarrow>
   process_error + AssetSupplied list" where
  "AssetSuppliedHandler_process lib st env decode =
     process_handler lib st env AssetSupplied_struct decode (AssetSuppliedHandler_map_event lib)"

interpretation asset_supplied_handler: event_handler "AssetSuppliedHandler_map_event lib"
  by unfold_locales (simp add: AssetSuppliedHandler_map_event_def meta_columns_def event_row.truncate_def)

section \<open>asset withdrawn handler\<close>

definition AssetWithdrawnHandler_map_event :: "sui_lib \<Rightarrow> AssetWithdrawn_ev \<Rightarrow> EventMeta \<Rightarrow> AssetWithdrawn" where
  "AssetWithdrawnHandler_map_event lib e m =
     \<lparr>event_digest = meta_event_digest m,
      digest = meta_digest m,
      sender = meta_sender m,
      checkpoint = meta_checkpoint m,
      checkpoint_timestamp_ms = meta_checkpoint_timestamp_ms m,
      package = meta_package m,
      asset_withdrawn_margin_pool_id = object_id_to_string lib (ev_asset_withdrawn_margin_pool_id e),
      asset_withdrawn_asset_type = ev_asset_withdrawn_asset_type e,
      asset_withdrawn_supplier = address_to_string lib (ev_asset_withdrawn_supplier e),
      asset_withdrawn_amount = as_i64 (ev_asset_withdrawn_withdraw_amount e),
      asset_withdrawn_shares = as_i64 (ev_asset_withdrawn_withdraw_shares e),
      asset_withdrawn_onchain_timestamp = as_i64 (ev_asset_withdrawn_timestamp e)\<rparr>"

definition AssetWithdrawnHandler_process ::
  "sui_lib \<Rightarrow> sandbox_state \<Rightarrow> DeepbookEnv \<Rightarrow> (bytes \<Rightarrow> AssetWithdrawn_ev option) \<Rightarrow> Checkpoint \<Rightarrow>
   process_error + AssetWithdrawn list" where
  "AssetWithdrawnHandler_process lib st env decode =
     process_handler lib st env AssetWithdrawn_struct decode (AssetWithdrawnHandler_map_event lib)"

interpretation asset_withdrawn_handler: event_handler "AssetWithdrawnHandler_map_event lib"
  by unfold_locales (simp add: AssetWithdrawnHandler_map_event_def meta_columns_def event_row.truncate_def)

section \<open>conditional order added handler\<close>

definition ConditionalOrderAddedHandler_map_event :: "sui_lib \<Rightarrow> ConditionalOrderAdded_ev \<Rightarrow> EventMeta \<Rightarrow> ConditionalOrderEvent" where
  "ConditionalOrderAddedHandler_map_event lib e m =
     \<lparr>event_digest = meta_event_digest m,
      digest = meta_digest m,
      sender = meta_sender m,
      checkpoint = meta_checkpoint m,
      checkpoint_timestamp_ms = meta_checkpoint_timestamp_ms m,
      package = meta_package m,
      conditional_order_events_event_type = ''added'',
      conditional_order_events_manager_id = object_id_to_string lib (ev_conditional_order_added_manager_id e),
      conditional_order_events_pool_id = None,
      conditional_order_events_conditional_order_id = as_i64 (ev_conditional_order_added_conditional_order_id e),
      conditional_order_events_trigger_below_price = ev_condition_trigger_below_price (ev_conditional_order_condition (ev_conditional_order_added_conditional_order e)),
      conditional_order_events_trigger_price = bigdecimal_from_u64 (ev_condition_trigger_price (ev_conditional_order_condition (ev_conditional_order_added_conditional_order e))),
      conditional_order_events_is_limit_order = ev_pending_order_is_limit_order (ev_conditional_order_pending_order (ev_conditional_order_added_conditional_order e)),
      conditional_order_events_client_order_id = as_i64 (ev_pending_order_client_order_id (ev_conditional_order_pending_order (ev_conditional_order_added_conditional_order e))),
      conditional_order_events_order_type = u8_as_i16 (unwrap_or 0 (ev_pending_order_order_type (ev_conditional_order_pending_order (ev_conditional_order_added_conditional_order e)))),
      conditional_order_events_self_matching_option = u8_as_i16 (ev_pending_order_self_matching_option (ev_conditional_order_pending_order (ev_conditional_order_added_conditional_order e))),
      conditional_order_events_price = bigdecimal_from_u64 (unwrap_or 0 (ev_pending_order_price (ev_conditional_order_pending_order (ev_conditional_order_added_conditional_order e)))),
      conditional_order_events_quantity = bigdecimal_from_u64 (ev_pending_order_quantity (ev_conditional_order_pending_order (ev_conditional_order_added_conditional_order e))),
      conditional_order_events_is_bid = ev_pending_order_is_bid (ev_conditional_order_pending_order (ev_conditional_order_added_conditional_order e)),
      conditional_order_events_pay_with_deep = ev_pending_order_pay_with_deep (ev_conditional_order_pending_order (ev_conditional_order_added_conditional_order e)),
      conditional_order_events_expire_timestamp = as_i64 (unwrap_or 0 (ev_pending_order_expire_timestamp (ev_conditional_order_pending_order (ev_conditional_order_added_conditional_order e)))),
      conditional_order_events_onchain_timestamp = as_i64 (ev_conditional_order_added_timestamp e)\<rparr>"

definition ConditionalOrderAddedHandler_process ::
  "sui_lib \<Rightarrow> sandbox_state \<Rightarrow> DeepbookEnv \<Rightarrow> (bytes \<Rightarrow> ConditionalOrderAdded_ev option) \<Rightarrow> Checkpoint \<Rightarrow>
   process_error + ConditionalOrderEvent list" where
  "ConditionalOrderAddedHandler_process lib st env decode =
     process_handler lib st env ConditionalOrderAdded_struct decode (ConditionalOrderAddedHandler_map_event lib)"

interpretation conditional_order_added_handler: event_handler "ConditionalOrderAddedHandler_map_event lib"
  by unfold_locales (simp add: ConditionalOrderAddedHandler_map_event_def meta_columns_def event_row.truncate_def)

section \<open>conditional order cancelled handler\<close>

definition ConditionalOrderCancelledHandler_map_event :: "sui_lib \<Rightarrow> ConditionalOrderCancelled_ev \<Rightarrow> EventMeta \<Rightarrow> ConditionalOrderEvent" where
  "ConditionalOrderCancelledHandler_map_event lib e m =
     \<lparr>event_digest = meta_event_digest m,
      digest = meta_digest m,
      sender = meta_sender m,
      checkpoint = meta_checkpoint m,
      checkpoint_timestamp_ms = meta_checkpoint_timestamp_ms m,
      package = meta_package m,
      conditional_order_events_event_type = ''cancelled'',
      conditional_order_events_manager_id = object_id_to_string lib (ev_conditional_order_cancelled_manager_id e),
      conditional_order_events_pool_id = None,
      conditional_order_events_conditional_order_id = as_i64 (ev_conditional_order_cancelled_conditional_order_id e),
      conditional_order_events_trigger_below_price = ev_condition_trigger_below_price (ev_conditional_order_condition (ev_conditional_order_cancelled_conditional_order e)),
      conditional_order_events_trigger_price = bigdecimal_from_u64 (ev_condition_trigger_price (ev_conditional_order_condition (ev_conditional_order_cancelled_conditional_order e))),
      conditional_order_events_is_limit_order = ev_pending_order_is_limit_order (ev_conditional_order_pending_order (ev_conditional_order_cancelled_conditional_order e)),
      conditional_order_events_client_order_id = as_i64 (ev_pending_order_client_order_id (ev_conditional_order_pending_order (ev_conditional_order_cancelled_conditional_order e))),
      conditional_order_events_order_type = u8_as_i16 (unwrap_or 0 (ev_pending_order_order_type (ev_conditional_order_pending_order (ev_conditional_order_cancelled_conditional_order e)))),
      conditional_order_events_self_matching_option = u8_as_i16 (ev_pending_order_self_matching_option (ev_conditional_order_pending_order (ev_conditional_order_cancelled_conditional_order e))),
      conditional_order_events_price = bigdecimal_from_u64 (unwrap_or 0 (ev_pending_order_price (ev_conditional_order_pending_order (ev_conditional_order_cancelled_conditional_order e)))),
      conditional_order_events_quantity = bigdecimal_from_u64 (ev_pending_order_quantity (ev_conditional_order_pending_order (ev_conditional_order_cancelled_conditional_order e))),
      conditional_order_events_is_bid = ev_pending_order_is_bid (ev_conditional_order_pending_order (ev_conditional_order_cancelled_conditional_order e)),
      conditional_order_events_pay_with_deep = ev_pending_order_pay_with_deep (ev_conditional_order_pending_order (ev_conditional_order_cancelled_conditional_order e)),
      conditional_order_events_expire_timestamp = as_i64 (unwrap_or 0 (ev_pending_order_expire_timestamp (ev_conditional_order_pending_order (ev_conditional_order_cancelled_conditional_order e)))),
      conditional_order_events_onchain_timestamp = as_i64 (ev_conditional_order_cancelled_timestamp e)\<rparr>"

definition ConditionalOrderCancelledHandler_process ::
  "sui_lib \<Rightarrow> sandbox_state \<Rightarrow> DeepbookEnv \<Rightarrow> (bytes \<Rightarrow> ConditionalOrderCancelled_ev option) \<Rightarrow> Checkpoint \<Rightarrow>
   process_error + ConditionalOrderEvent list" where
  "ConditionalOrderCancelledHandler_process lib st env decode =
     process_handler lib st env ConditionalOrderCancelled_struct decode (ConditionalOrderCancelledHandler_map_event lib)"

interpretation conditional_order_cancelled_handler: event_handler "ConditionalOrderCancelledHandler_map_event lib"
  by unfold_locales (simp add: ConditionalOrderCancelledHandler_map_event_def meta_columns_def event_row.truncate_def)

section \<open>conditional order executed handler\<close>

definition ConditionalOrderExecutedHandler_map_event :: "sui_lib \<Rightarrow> ConditionalOrderExecuted_ev \<Rightarrow> EventMeta \<Rightarrow> ConditionalOrderEvent" where
  "ConditionalOrderExecutedHandler_map_event lib e m =
     \<lparr>event_digest = meta_event_digest m,
      digest = meta_digest m,
      sender = meta_sender m,
      checkpoint = meta_checkpoint m,
      checkpoint_timestamp_ms = meta_checkpoint_timestamp_ms m,
      package = meta_package m,
      conditional_order_events_event_type = ''executed'',
      conditional_order_events_manager_id = object_id_to_string lib (ev_conditional_order_executed_manager_id e),
      conditional_order_events_pool_id = Some (object_id_to_string lib (ev_conditional_order_executed_pool_id e)),
      conditional_order_events_conditional_order_id = as_i64 (ev_conditional_order_executed_conditional_order_id e),
      conditional_order_events_trigger_below_price = ev_condition_trigger_below_price (ev_conditional_order_condition (ev_conditional_order_executed_conditional_order e)),
      conditional_order_events_trigger_price = bigdecimal_from_u64 (ev_condition_trigger_price (ev_conditional_order_condition (ev_conditional_order_executed_conditional_order e))),
      conditional_order_events_is_limit_order = ev_pending_order_is_limit_order (ev_conditional_order_pending_order (ev_conditional_order_executed_conditional_order e)),
      conditional_order_events_client_order_id = as_i64 (ev_pending_order_client_order_id (ev_conditional_order_pending_order (ev_conditional_order_executed_conditional_order e))),
      conditional_order_events_order_type = u8_as_i16 (unwrap_or 0 (ev_pending_order_order_type (ev_conditional_order_pending_order (ev_conditional_order_executed_conditional_order e)))),
      conditional_order_events_self_matching_option = u8_as_i16 (ev_pending_order_self_matching_option (ev_conditional_order_pending_order (ev_conditional_order_executed_conditional_order e))),
      conditional_order_events_price = bigdecimal_from_u64 (unwrap_or 0 (ev_pending_order_price (ev_conditional_order_pending_order (ev_conditional_order_executed_conditional_order e)))),
      conditional_order_events_quantity = bigdecimal_from_u64 (ev_pending_order_quantity (ev_conditional_order_pending_order (ev_conditional_order_executed_conditional_order e))),
      conditional_order_events_is_bid = ev_pending_order_is_bid (ev_conditional_order_pending_order (ev_conditional_order_executed_conditional_order e)),
      conditional_order_events_pay_with_deep = ev_pending_order_pay_with_deep (ev_conditional_order_pending_order (ev_conditional_order_executed_conditional_order e)),
      conditional_order_events_expire_timestamp = as_i64 (unwrap_or 0 (ev_pending_order_expire_timestamp (ev_conditional_order_pending_order (ev_conditional_order_executed_conditional_order e)))),
      conditional_order_events_onchain_timestamp = as_i64 (ev_conditional_order_executed_timestamp e)\<rparr>"

definition ConditionalOrderExecutedHandler_process ::
  "sui_lib \<Rightarrow> sandbox_state \<Rightarrow> DeepbookEnv \<Rightarrow> (bytes \<Rightarrow> ConditionalOrderExecuted_ev option) \<Rightarrow> Checkpoint \<Rightarrow>
   process_error + ConditionalOrderEvent list" where
  "ConditionalOrderExecutedHandler_process lib st env decode =
     process_handler lib st env ConditionalOrderExecuted_struct decode (ConditionalOrderExecutedHandler_map_event lib)"

interpretation conditional_order_executed_handler: event_handler "ConditionalOrderExecutedHandler_map_event lib"
  by unfold_locales (simp add: ConditionalOrderExecutedHandler_map_event_def meta_columns_def event_row.truncate_def)

section \<open>conditional order insufficient funds handler\<close>

definition ConditionalOrderInsufficientFundsHandler_map_event :: "sui_lib \<Rightarrow> ConditionalOrderInsufficientFunds_ev \<Rightarrow> EventMeta \<Rightarrow> ConditionalOrderEvent" where
  "ConditionalOrderInsufficientFundsHandler_map_event lib e m =
     \<lparr>event_digest = meta_event_digest m,
      digest = meta_digest m,
      sender = meta_sender m,
      checkpoint = meta_checkpoint m,
      checkpoint_timestamp_ms = meta_checkpoint_timestamp_ms m,
      package = meta_package m,
      conditional_order_events_event_type = ''insufficient_funds'',
      conditional_order_events_manager_id = object_id_to_string lib (ev_conditional_order_insufficient_funds_manager_id e),
      conditional_order_events_pool_id = None,
      conditional_order_events_conditional_order_id = as_i64 (ev_conditional_order_insufficient_funds_conditional_order_id e),
      conditional_order_events_trigger_below_price = ev_condition_trigger_below_price (ev_conditional_order_condition (ev_conditional_order_insufficient_funds_conditional_order e)),
      conditional_order_events_trigger_price = bigdecimal_from_u64 (ev_condition_trigger_price (ev_conditional_order_condition (ev_conditional_order_insufficient_funds_conditional_order e))),
      conditional_order_events_is_limit_order = ev_pending_order_is_limit_order (ev_conditional_order_pending_order (ev_conditional_order_insufficient_funds_conditional_order e)),
      conditional_order_events_client_order_id = as_i64 (ev_pending_order_client_order_id (ev_conditional_order_pending_order (ev_conditional_order_insufficient_funds_conditional_order e))),
      conditional_order_events_order_type = u8_as_i16 (unwrap_or 0 (ev_pending_order_order_type (ev_conditional_order_pending_order (ev_conditional_order_insufficient_funds_conditional_order e)))),
      conditional_order_events_self_matching_option = u8_as_i16 (ev_pending_order_self_matching_option (ev_conditional_order_pending_order (ev_conditional_order_insufficient_funds_conditional_order e))),
      conditional_order_events_price = bigdecimal_from_u64 (unwrap_or 0 (ev_pending_order_price (ev_conditional_order_pending_order (ev_conditional_order_insufficient_funds_conditional_order e)))),
      conditional_order_events_quantity = bigdecimal_from_u64 (ev_pending_order_quantity (ev_conditional_order_pending_order (ev_conditional_order_insufficient_funds_conditional_order e))),
      conditional_order_events_is_bid = ev_pending_order_is_bid (ev_conditional_order_pending_order (ev_conditional_order_insufficient_funds_conditional_order e)),
      conditional_order_events_pay_with_deep = ev_pending_order_pay_with_deep (ev_conditional_order_pending_order (ev_conditional_order_insufficient_funds_conditional_order e)),
      conditional_order_events_expire_timestamp = as_i64 (unwrap_or 0 (ev_pending_order_expire_timestamp (ev_conditional_order_pending_order (ev_conditional_order_insufficient_funds_conditional_order e)))),
      conditional_order_events_onchain_timestamp = as_i64 (ev_conditional_order_insufficient_funds_timestamp e)\<rparr>"

definition ConditionalOrderInsufficientFundsHandler_process ::
  "sui_lib \<Rightarrow> sandbox_state \<Rightarrow> DeepbookEnv \<Rightarrow> (bytes \<Rightarrow> ConditionalOrderInsufficientFunds_ev option) \<Rightarrow> Checkpoint \<Rightarrow>
   process_error + ConditionalOrderEvent list" where
  "ConditionalOrderInsufficientFundsHandler_process lib st env decode =
     process_handler lib st env ConditionalOrderInsufficientFunds_struct decode (ConditionalOrderInsufficientFundsHandler_map_event lib)"

interpretation conditional_order_insufficient_funds_handler: event_handler "ConditionalOrderInsufficientFundsHandler_map_event lib"
  by unfold_locales (simp add: ConditionalOrderInsufficientFundsHandler_map_event_def meta_columns_def event_row.truncate_def)

section \<open>deepbook pool config updated handler\<close>

definition DeepbookPoolConfigUpdatedHandler_map_event :: "sui_lib \<Rightarrow> (PoolConfig_ev \<Rightarrow> json) \<Rightarrow> DeepbookPoolConfigUpdated_ev \<Rightarrow> EventMeta \<Rightarrow> DeepbookPoolConfigUpdated" where
  "DeepbookPoolConfigUpdatedHandler_map_event lib to_value e m =
     \<lparr>event_digest = meta_event_digest m,
      digest = meta_digest m,
      sender = meta_sender m,
      checkpoint = meta_checkpoint m,
      checkpoint_timestamp_ms = meta_checkpoint_timestamp_ms m,
      package = meta_package m,
      deepbook_pool_config_updated_pool_id = object_id_to_string lib (ev_deepbook_pool_config_updated_pool_id e),
      deepbook_pool_config_updated_config_json = to_value (ev_deepbook_pool_config_updated_config e),
      deepbook_pool_config_updated_onchain_timestamp = as_i64 (ev_deepbook_pool_config_updated_timestamp e)\<rparr>"

definition DeepbookPoolConfigUpdatedHandler_process ::
  "sui_lib \<Rightarrow> sandbox_state \<Rightarrow> DeepbookEnv \<Rightarrow> (PoolConfig_ev \<Rightarrow> json) \<Rightarrow> (bytes \<Rightarrow> DeepbookPoolConfigUpdated_ev option) \<Rightarrow> Checkpoint \<Rightarrow>
   process_error + DeepbookPoolConfigUpdated list" where
  "DeepbookPoolConfigUpdatedHandler_process lib st env to_value decode =
     process_handler lib st env DeepbookPoolConfigUpdated_struct decode (DeepbookPoolConfigUpdatedHandler_map_event lib to_value)"

interpretation deepbook_pool_config_updated_handler: event_handler "DeepbookPoolConfigUpdatedHandler_map_event lib to_value"
  by unfold_locales (simp add: DeepbookPoolConfigUpdatedHandler_map_event_def meta_columns_def event_row.truncate_def)

section \<open>deepbook pool registered handler\<close>

definition DeepbookPoolRegisteredHandler_map_event :: "sui_lib \<Rightarrow> (PoolConfig_ev \<Rightarrow> json) \<Rightarrow> DeepbookPoolRegistered_ev \<Rightarrow> EventMeta \<Rightarrow> DeepbookPoolRegistered" where
  "DeepbookPoolRegisteredHandler_map_event lib to_value e m =
     \<lparr>event_digest = meta_event_digest m,
      digest = meta_digest m,
      sender = meta_sender m,
      checkpoint = meta_checkpoint m,
      checkpoint_timestamp_ms = meta_checkpoint_timestamp_ms m,
      package = meta_package m,
      deepbook_pool_registered_pool_id = object_id_to_string lib (ev_deepbook_pool_registered_pool_id e),
      deepbook_pool_registered_config_json = Some (to_value (ev_deepbook_pool_registered_config e)),
      deepbook_pool_registered_onchain_timestamp = as_i64 (ev_deepbook_pool_registered_timestamp e)\<rparr>"

definition DeepbookPoolRegisteredHandler_process ::
  "sui_lib \<Rightarrow> sandbox_state \<Rightarrow> DeepbookEnv \<Rightarrow> (PoolConfig_ev \<Rightarrow> json) \<Rightarrow> (bytes \<Rightarrow> DeepbookPoolRegistered_ev option) \<Rightarrow> Checkpoint \<Rightarrow>
   process_error + DeepbookPoolRegistered list" where
  "DeepbookPoolRegisteredHandler_process lib st env to_value decode =
     process_handler lib st env DeepbookPoolRegistered_struct decode (DeepbookPoolRegisteredHandler_map_event lib to_value)"

interpretation deepbook_pool_registered_handler: event_handler "DeepbookPoolRegisteredHandler_map_event lib to_value"
  by unfold_locales (simp add: DeepbookPoolRegisteredHandler_map_event_def meta_columns_def event_row.truncate_def)

section \<open>deepbook pool updated handler\<close>

definition DeepbookPoolUpdatedHandler_map_event :: "sui_lib \<Rightarrow> DeepbookPoolUpdated_ev \<Rightarrow> EventMeta \<Rightarrow> DeepbookPoolUpdated" where
  "DeepbookPoolUpdatedHandler_map_event lib e m =
     \<lparr>event_digest = meta_event_digest m,
      digest = meta_digest m,
      sender = meta_sender m,
      checkpoint = meta_checkpoint m,
      checkpoint_timestamp_ms = meta_checkpoint_timestamp_ms m,
      package = meta_package m,
      deepbook_pool_updated_margin_pool_id = object_id_to_string lib (ev_deepbook_pool_updated_margin_pool_id e),
      deepbook_pool_updated_deepbook_pool_id = object_id_to_string lib (ev_deepbook_pool_updated_deepbook_pool_id e),
      deepbook_pool_updated_pool_cap_id = object_id_to_string lib (ev_deepbook_pool_updated_pool_cap_id e),
      deepbook_pool_updated_enabled = ev_deepbook_pool_updated_enabled e,
      deepbook_pool_updated_onchain_timestamp = as_i64 (ev_deepbook_pool_updated_timestamp e)\<rparr>"

definition DeepbookPoolUpdatedHandler_process ::
  "sui_lib \<Rightarrow> sandbox_state \<Rightarrow> DeepbookEnv \<Rightarrow> (bytes \<Rightarrow> DeepbookPoolUpdated_ev option) \<Rightarrow> Checkpoint \<Rightarrow>
   process_error + DeepbookPoolUpdated list" where
  "DeepbookPoolUpdatedHandler_process lib st env decode =
     process_handler lib st env DeepbookPoolUpdated_struct decode (DeepbookPoolUpdatedHandler_map_event lib)"

interpretation deepbook_pool_updated_handler: event_handler "DeepbookPoolUpdatedHandler_map_event lib"
  by unfold_locales (simp add: DeepbookPoolUpdatedHandler_map_event_def meta_columns_def event_row.truncate_def)

section \<open>deepbook pool updated registry handler\<close>

definition DeepbookPoolUpdatedRegistryHandler_map_event :: "sui_lib \<Rightarrow> DeepbookPoolUpdatedRegistry_ev \<Rightarrow> EventMeta \<Rightarrow> DeepbookPoolUpdatedRegistry" where
  "DeepbookPoolUpdatedRegistryHandler_map_event lib e m =
     \<lparr>event_digest = meta_event_digest m,
      digest = meta_digest m,
      sender = meta_sender m,
      checkpoint = meta_checkpoint m,
      checkpoint_timestamp_ms = meta_checkpoint_timestamp_ms m,
      package = meta_package m,
      deepbook_pool_updated_registry_pool_id = object_id_to_string lib (ev_deepbook_pool_updated_registry_pool_id e),
      deepbook_pool_updated_registry_enabled = ev_deepbook_pool_updated_registry_enabled e,
      deepbook_pool_updated_registry_onchain_timestamp = as_i64 (ev_deepbook_pool_updated_registry_timestamp e)\<rparr>"

definition DeepbookPoolUpdatedRegistryHandler_process ::
  "sui_lib \<Rightarrow> sandbox_state \<Rightarrow> DeepbookEnv \<Rightarrow> (bytes \<Rightarrow> DeepbookPoolUpdatedRegistry_ev option) \<Rightarrow> Checkpoint \<Rightarrow>
   process_error + DeepbookPoolUpdatedRegistry list" where
  "DeepbookPoolUpdatedRegistryHandler_process lib st env decode =
     process_handler lib st env DeepbookPoolUpdatedRegistry_struct decode (DeepbookPoolUpdatedRegistryHandler_map_event lib)"

interpretation deepbook_pool_updated_registry_handler: event_handler "DeepbookPoolUpdatedRegistryHandler_map_event lib"
  by unfold_locales (simp add: DeepbookPoolUpdatedRegistryHandler_map_event_def meta_columns_def event_row.truncate_def)

section \<open>deposit collateral handler\<close>

definition DepositCollateralHandler_map_event :: "sui_lib \<Rightarrow> DepositCollateralEvent_ev \<Rightarrow> EventMeta \<Rightarrow> CollateralEvent" where
  "DepositCollateralHandler_map_event lib e m =
     \<lparr>event_digest = meta_event_digest m,
      digest = meta_digest m,
      sender = meta_sender m,
      checkpoint = meta_checkpoint m,
      checkpoint_timestamp_ms = meta_checkpoint_timestamp_ms m,
      package = meta_package m,
      collateral_events_event_type = ''deposit'',
      collateral_events_margin_manager_id = object_id_to_string lib (ev_deposit_collateral_event_margin_manager_id e),
      collateral_events_amount = bigdecimal_from_u64 (ev_deposit_collateral_event_amount e),
      collateral_events_asset_type = ev_type_name_name (ev_deposit_collateral_event_asset e),
      collateral_events_pyth_decimals = u8_as_i16 (ev_deposit_collateral_event_pyth_decimals e),
      collateral_events_pyth_price = bigdecimal_from_u64 (ev_deposit_collateral_event_pyth_price e),
      collateral_events_withdraw_base_asset = None,
      collateral_events_base_pyth_decimals = None,
      collateral_events_base_pyth_price = None,
      collateral_events_quote_pyth_decimals = None,
      collateral_events_quote_pyth_price = None,
      collateral_events_remaining_base_asset = None,
      collateral_events_remaining_quote_asset = None,
      collateral_events_remaining_base_debt = None,
      collateral_events_remaining_quote_debt = None,
      collateral_events_onchain_timestamp = as_i64 (ev_deposit_collateral_event_timestamp e)\<rparr>"

definition DepositCollateralHandler_process ::
  "sui_lib \<Rightarrow> sandbox_state \<Rightarrow> DeepbookEnv \<Rightarrow> (bytes \<Rightarrow> DepositCollateralEvent_ev option) \<Rightarrow> Checkpoint \<Rightarrow>
   process_error + CollateralEvent list" where
  "DepositCollateralHandler_process lib st env decode =
     process_handler lib st env DepositCollateralEvent_struct decode (DepositCollateralHandler_map_event lib)"

interpretation deposit_collateral_handler: event_handler "DepositCollateralHandler_map_event lib"
  by unfold_locales (simp add: DepositCollateralHandler_map_event_def meta_columns_def event_row.truncate_def)

section \<open>interest params updated handler\<close>

definition InterestParamsUpdatedHandler_map_event :: "sui_lib \<Rightarrow> (InterestConfig_ev \<Rightarrow> json) \<Rightarrow> InterestParamsUpdated_ev \<Rightarrow> EventMeta \<Rightarrow> InterestParamsUpdated" where
  "InterestParamsUpdatedHandler_map_event lib to_value e m =
     \<lparr>event_digest = meta_event_digest m,
      digest = meta_digest m,
      sender = meta_sender m,
      checkpoint = meta_checkpoint m,
      checkpoint_timestamp_ms = meta_checkpoint_timestamp_ms m,
      package = meta_package m,
      interest_params_updated_margin_pool_id = object_id_to_string lib (ev_interest_params_updated_margin_pool_id e),
      interest_params_updated_pool_cap_id = object_id_to_string lib (ev_interest_params_updated_pool_cap_id e),
      interest_params_updated_config_json = to_value (ev_interest_params_updated_interest_config e),
      interest_params_updated_onchain_timestamp = as_i64 (ev_interest_params_updated_timestamp e)\<rparr>"

definition InterestParamsUpdatedHandler_process ::
  "sui_lib \<Rightarrow> sandbox_state \<Rightarrow> DeepbookEnv \<Rightarrow> (InterestConfig_ev \<Rightarrow> json) \<Rightarrow> (bytes \<Rightarrow> InterestParamsUpdated_ev option) \<Rightarrow> Checkpoint \<Rightarrow>
   process_error + InterestParamsUpdated list" where
  "InterestParamsUpdatedHandler_process lib st env to_value decode =
     process_handler lib st env InterestParamsUpdated_struct decode (InterestParamsUpdatedHandler_map_event lib to_value)"

interpretation interest_params_updated_handler: event_handler "InterestParamsUpdatedHandler_map_event lib to_value"
  by unfold_locales (simp add: InterestParamsUpdatedHandler_map_event_def meta_columns_def event_row.truncate_def)

section \<open>liquidation handler\<close>

definition LiquidationHandler_map_event :: "sui_lib \<Rightarrow> LiquidationEvent_ev \<Rightarrow> EventMeta \<Rightarrow> Liquidation" where
  "LiquidationHandler_map_event lib e m =
     \<lparr>event_digest = meta_event_digest m,
      digest = meta_digest m,
      sender = meta_sender m,
      checkpoint = meta_checkpoint m,
      checkpoint_timestamp_ms = meta_checkpoint_timestamp_ms m,
      package = meta_package m,
      liquidation_margin_manager_id = object_id_to_string lib (ev_liquidation_event_margin_manager_id e),
      liquidation_margin_pool_id = object_id_to_string lib (ev_liquidation_event_margin_pool_id e),
      liquidation_liquidation_amount = as_i64 (ev_liquidation_event_liquidation_amount e),
      liquidation_pool_reward = as_i64 (ev_liquidation_event_pool_reward e),
      liquidation_pool_default = as_i64 (ev_liquidation_event_pool_default e),
      liquidation_risk_ratio = as_i64 (ev_liquidation_event_risk_ratio e),
      liquidation_onchain_timestamp = as_i64 (ev_liquidation_event_timestamp e),
      liquidation_remaining_base_asset = bigdecimal_from_u64 (ev_liquidation_event_remaining_base_asset e),
      liquidation_remaining_quote_asset = bigdecimal_from_u64 (ev_liquidation_event_remaining_quote_asset e),
      liquidation_remaining_base_debt = bigdecimal_from_u64 (ev_liquidation_event_remaining_base_debt e),
      liquidation_remaining_quote_debt = bigdecimal_from_u64 (ev_liquidation_event_remaining_quote_debt e),
      liquidation_base_pyth_price = as_i64 (ev_liquidation_event_base_pyth_price e),
      liquidation_base_pyth_decimals = u8_as_i16 (ev_liquidation_event_base_pyth_decimals e),
      liquidation_quote_pyth_price = as_i64 (ev_liquidation_event_quote_pyth_price e),
      liquidation_quote_pyth_decimals = u8_as_i16 (ev_liquidation_event_quote_pyth_decimals e)\<rparr>"

definition LiquidationHandler_process ::
  "sui_lib \<Rightarrow> sandbox_state \<Rightarrow> DeepbookEnv \<Rightarrow> (bytes \<Rightarrow> LiquidationEvent_ev option) \<Rightarrow> Checkpoint \<Rightarrow>
   process_error + Liquidation list" where
  "LiquidationHandler_process lib st env decode =
     process_handler lib st env LiquidationEvent_struct decode (LiquidationHandler_map_event lib)"

interpretation liquidation_handler: event_handler "LiquidationHandler_map_event lib"
  by unfold_locales (simp add: LiquidationHandler_map_event_def meta_columns_def event_row.truncate_def)

section \<open>loan borrowed handler\<close>

definition LoanBorrowedHandler_map_event :: "sui_lib \<Rightarrow> LoanBorrowedEvent_ev \<Rightarrow> EventMeta \<Rightarrow> LoanBorrowed" where
  "LoanBorrowedHandler_map_event lib e m =
     \<lparr>event_digest = meta_event_digest m,
      digest = meta_digest m,
      sender = meta_sender m,
      checkpoint = meta_checkpoint m,
      checkpoint_timestamp_ms = meta_checkpoint_timestamp_ms m,
      package = meta_package m,
      loan_borrowed_margin_manager_id = object_id_to_string lib (ev_loan_borrowed_event_margin_manager_id e),
      loan_borrowed_margin_pool_id = object_id_to_string lib (ev_loan_borrowed_event_margin_pool_id e),
      loan_borrowed_loan_amount = as_i64 (ev_loan_borrowed_event_loan_amount e),
      loan_borrowed_loan_shares = as_i64 (ev_loan_borrowed_event_loan_shares e),
      loan_borrowed_onchain_timestamp = as_i64 (ev_loan_borrowed_event_timestamp e)\<rparr>"

definition LoanBorrowedHandler_process ::
  "sui_lib \<Rightarrow> sandbox_state \<Rightarrow> DeepbookEnv \<Rightarrow> (bytes \<Rightarrow> LoanBorrowedEvent_ev option) \<Rightarrow> Checkpoint \<Rightarrow>
   process_error + LoanBorrowed list" where
  "LoanBorrowedHandler_process lib st env decode =
     process_handler lib st env LoanBorrowedEvent_struct decode (LoanBorrowedHandler_map_event lib)"

interpretation loan_borrowed_handler: event_handler "LoanBorrowedHandler_map_event lib"
  by unfold_locales (simp add: LoanBorrowedHandler_map_event_def meta_columns_def event_row.truncate_def)

section \<open>loan repaid handler\<close>

definition LoanRepaidHandler_map_event :: "sui_lib \<Rightarrow> LoanRepaidEvent_ev \<Rightarrow> EventMeta \<Rightarrow> LoanRepaid" where
  "LoanRepaidHandler_map_event lib e m =
     \<lparr>event_digest = meta_event_digest m,
      digest = meta_digest m,
      sender = meta_sender m,
      checkpoint = meta_checkpoint m,
      checkpoint_timestamp_ms = meta_checkpoint_timestamp_ms m,
      package = meta_package m,
      loan_repaid_margin_manager_id = object_id_to_string lib (ev_loan_repaid_event_margin_manager_id e),
      loan_repaid_margin_pool_id = object_id_to_string lib (ev_loan_repaid_event_margin_pool_id e),
      loan_repaid_repay_amount = as_i64 (ev_loan_repaid_event_repay_amount e),
      loan_repaid_repay_shares = as_i64 (ev_loan_repaid_event_repay_shares e),
      loan_repaid_onchain_timestamp = as_i64 (ev_loan_repaid_event_timestamp e)\<rparr>"

definition LoanRepaidHandler_process ::
  "sui_lib \<Rightarrow> sandbox_state \<Rightarrow> DeepbookEnv \<Rightarrow> (bytes \<Rightarrow> LoanRepaidEvent_ev option) \<Rightarrow> Checkpoint \<Rightarrow>
   process_error + LoanRepaid list" where
  "LoanRepaidHandler_process lib st env decode =
     process_handler lib st env LoanRepaidEvent_struct decode (LoanRepaidHandler_map_event lib)"

interpretation loan_repaid_handler: event_handler "LoanRepaidHandler_map_event lib"
  by unfold_locales (simp add: LoanRepaidHandler_map_event_def meta_columns_def event_row.truncate_def)

section \<open>maintainer cap updated handler\<close>

definition MaintainerCapUpdatedHandler_map_event :: "sui_lib \<Rightarrow> MaintainerCapUpdated_ev \<Rightarrow> EventMeta \<Rightarrow> MaintainerCapUpdated" where
  "MaintainerCapUpdatedHandler_map_event lib e m =
     \<lparr>event_digest = meta_event_digest m,
      digest = meta_digest m,
      sender = meta_sender m,
      checkpoint = meta_checkpoint m,
      checkpoint_timestamp_ms = meta_checkpoint_timestamp_ms m,
      package = meta_package m,
      maintainer_cap_updated_maintainer_cap_id = object_id_to_string lib (ev_maintainer_cap_updated_maintainer_cap_id e),
      maintainer_cap_updated_allowed = ev_maintainer_cap_updated_allowed e,
      maintainer_cap_updated_onchain_timestamp = as_i64 (ev_maintainer_cap_updated_timestamp e)\<rparr>"

definition MaintainerCapUpdatedHandler_process ::
  "sui_lib \<Rightarrow> sandbox_state \<Rightarrow> DeepbookEnv \<Rightarrow> (bytes \<Rightarrow> MaintainerCapUpdated_ev option) \<Rightarrow> Checkpoint \<Rightarrow>
   process_error + MaintainerCapUpdated list" where
  "MaintainerCapUpdatedHandler_process lib st env decode =
     process_handler lib st env MaintainerCapUpdated_struct decode (MaintainerCapUpdatedHandler_map_event lib)"

interpretation maintainer_cap_updated_handler: event_handler "MaintainerCapUpdatedHandler_map_event lib"
  by unfold_locales (simp add: MaintainerCapUpdatedHandler_map_event_def meta_columns_def event_row.truncate_def)

section \<open>maintainer fees withdrawn handler\<close>

definition MaintainerFeesWithdrawnHandler_map_event :: "sui_lib \<Rightarrow> MaintainerFeesWithdrawn_ev \<Rightarrow> EventMeta \<Rightarrow> MaintainerFeesWithdrawn" where
  "MaintainerFeesWithdrawnHandler_map_event lib e m =
     \<lparr>event_digest = meta_event_digest m,
      digest = meta_digest m,
      sender = meta_sender m,
      checkpoint = meta_checkpoint m,
      checkpoint_timestamp_ms = meta_checkpoint_timestamp_ms m,
      package = meta_package m,
      maintainer_fees_withdrawn_margin_pool_id = object_id_to_string lib (ev_maintainer_fees_withdrawn_margin_pool_id e),
      maintainer_fees_withdrawn_margin_pool_cap_id = object_id_to_string lib (ev_maintainer_fees_withdrawn_margin_pool_cap_id e),
      maintainer_fees_withdrawn_maintainer_fees = as_i64 (ev_maintainer_fees_withdrawn_maintainer_fees e),
      maintainer_fees_withdrawn_onchain_timestamp = as_i64 (ev_maintainer_fees_withdrawn_timestamp e)\<rparr>"

definition MaintainerFeesWithdrawnHandler_process ::
  "sui_lib \<Rightarrow> sandbox_state \<Rightarrow> DeepbookEnv \<Rightarrow> (bytes \<Rightarrow> MaintainerFeesWithdrawn_ev option) \<Rightarrow> Checkpoint \<Rightarrow>
   process_error + MaintainerFeesWithdrawn list" where
  "MaintainerFeesWithdrawnHandler_process lib st env decode =
     process_handler lib st env MaintainerFeesWithdrawn_struct decode (MaintainerFeesWithdrawnHandler_map_event lib)"

interpretation maintainer_fees_withdrawn_handler: event_handler "MaintainerFeesWithdrawnHandler_map_event lib"
  by unfold_locales (simp add: MaintainerFeesWithdrawnHandler_map_event_def meta_columns_def event_row.truncate_def)

section \<open>margin manager created handler\<close>

definition MarginManagerCreatedHandler_map_event :: "sui_lib \<Rightarrow> MarginManagerCreatedEvent_ev \<Rightarrow> EventMeta \<Rightarrow> MarginManagerCreated" where
  "MarginManagerCreatedHandler_map_event lib e m =
     \<lparr>event_digest = meta_event_digest m,
      digest = meta_digest m,
      sender = meta_sender m,
      checkpoint = meta_checkpoint m,
      checkpoint_timestamp_ms = meta_checkpoint_timestamp_ms m,
      package = meta_package m,
      margin_manager_created_margin_manager_id = object_id_to_string lib (ev_margin_manager_created_event_margin_manager_id e),
      margin_manager_created_balance_manager_id = object_id_to_string lib (ev_margin_manager_created_event_balance_manager_id e),
      margin_manager_created_deepbook_pool_id = Some (object_id_to_string lib (ev_margin_manager_created_event_deepbook_pool_id e)),
      margin_manager_created_owner = address_to_string lib (ev_margin_manager_created_event_owner e),
      margin_manager_created_onchain_timestamp = as_i64 (ev_margin_manager_created_event_timestamp e)\<rparr>"

definition MarginManagerCreatedHandler_process ::
  "sui_lib \<Rightarrow> sandbox_state \<Rightarrow> DeepbookEnv \<Rightarrow> (bytes \<Rightarrow> MarginManagerCreatedEvent_ev option) \<Rightarrow> Checkpoint \<Rightarrow>
   process_error + MarginManagerCreated list" where
  "MarginManagerCreatedHandler_process lib st env decode =
     process_handler lib st env MarginManagerCreatedEvent_struct decode (MarginManagerCreatedHandler_map_event lib)"

interpretation margin_manager_created_handler: event_handler "MarginManagerCreatedHandler_map_event lib"
  by unfold_locales (simp add: MarginManagerCreatedHandler_map_event_def meta_columns_def event_row.truncate_def)

section \<open>margin pool config updated handler\<close>

definition MarginPoolConfigUpdatedHandler_map_event :: "sui_lib \<Rightarrow> (MarginPoolConfig_ev \<Rightarrow> json) \<Rightarrow> MarginPoolConfigUpdated_ev \<Rightarrow> EventMeta \<Rightarrow> MarginPoolConfigUpdated" where
  "MarginPoolConfigUpdatedHandler_map_event lib to_value e m =
     \<lparr>event_digest = meta_event_digest m,
      digest = meta_digest m,
      sender = meta_sender m,
      checkpoint = meta_checkpoint m,
      checkpoint_timestamp_ms = meta_checkpoint_timestamp_ms m,
      package = meta_package m,
      margin_pool_config_updated_margin_pool_id = object_id_to_string lib (ev_margin_pool_config_updated_margin_pool_id e),
      margin_pool_config_updated_pool_cap_id = object_id_to_string lib (ev_margin_pool_config_updated_pool_cap_id e),
      margin_pool_config_updated_config_json = to_value (ev_margin_pool_config_updated_margin_pool_config e),
      margin_pool_config_updated_onchain_timestamp = as_i64 (ev_margin_pool_config_updated_timestamp e)\<rparr>"

definition MarginPoolConfigUpdatedHandler_process ::
  "sui_lib \<Rightarrow> sandbox_state \<Rightarrow> DeepbookEnv \<Rightarrow> (MarginPoolConfig_ev \<Rightarrow> json) \<Rightarrow> (bytes \<Rightarrow> MarginPoolConfigUpdated_ev option) \<Rightarrow> Checkpoint \<Rightarrow>
   process_error + MarginPoolConfigUpdated list" where
  "MarginPoolConfigUpdatedHandler_process lib st env to_value decode =
     process_handler lib st env MarginPoolConfigUpdated_struct decode (MarginPoolConfigUpdatedHandler_map_event lib to_value)"

interpretation margin_pool_config_updated_handler: event_handler "MarginPoolConfigUpdatedHandler_map_event lib to_value"
  by unfold_locales (simp add: MarginPoolConfigUpdatedHandler_map_event_def meta_columns_def event_row.truncate_def)

section \<open>margin pool created handler\<close>

definition MarginPoolCreatedHandler_map_event :: "sui_lib \<Rightarrow> (ProtocolConfig_ev \<Rightarrow> json) \<Rightarrow> MarginPoolCreated_ev \<Rightarrow> EventMeta \<Rightarrow> MarginPoolCreated" where
  "MarginPoolCreatedHandler_map_event lib to_value e m =
     \<lparr>event_digest = meta_event_digest m,
      digest = meta_digest m,
      sender = meta_sender m,
      checkpoint = meta_checkpoint m,
      checkpoint_timestamp_ms = meta_checkpoint_timestamp_ms m,
      package = meta_package m,
      margin_pool_created_margin_pool_id = object_id_to_string lib (ev_margin_pool_created_margin_pool_id e),
      margin_pool_created_maintainer_cap_id = object_id_to_string lib (ev_margin_pool_created_maintainer_cap_id e),
      margin_pool_created_asset_type = ev_margin_pool_created_asset_type e,
      margin_pool_created_config_json = to_value (ev_margin_pool_created_config e),
      margin_pool_created_onchain_timestamp = as_i64 (ev_margin_pool_created_timestamp e)\<rparr>"

definition MarginPoolCreatedHandler_process ::
  "sui_lib \<Rightarrow> sandbox_state \<Rightarrow> DeepbookEnv \<Rightarrow> (ProtocolConfig_ev \<Rightarrow> json) \<Rightarrow> (bytes \<Rightarrow> MarginPoolCreated_ev option) \<Rightarrow> Checkpoint \<Rightarrow>
   process_error + MarginPoolCreated list" where
  "MarginPoolCreatedHandler_process lib st env to_value decode =
     process_handler lib st env MarginPoolCreated_struct decode (MarginPoolCreatedHandler_map_event lib to_value)"

interpretation margin_pool_created_handler: event_handler "MarginPoolCreatedHandler_map_event lib to_value"
  by unfold_locales (simp add: MarginPoolCreatedHandler_map_event_def meta_columns_def event_row.truncate_def)

section \<open>pause cap updated handler\<close>

definition PauseCapUpdatedHandler_map_event :: "sui_lib \<Rightarrow> PauseCapUpdated_ev \<Rightarrow> EventMeta \<Rightarrow> PauseCapUpdated" where
  "PauseCapUpdatedHandler_map_event lib e m =
     \<lparr>event_digest = meta_event_digest m,
      digest = meta_digest m,
      sender = meta_sender m,
      checkpoint = meta_checkpoint m,
      checkpoint_timestamp_ms = meta_checkpoint_timestamp_ms m,
      package = meta_package m,
      pause_cap_updated_pause_cap_id = object_id_to_string lib (ev_pause_cap_updated_pause_cap_id e),
      pause_cap_updated_allowed = ev_pause_cap_updated_allowed e,
      pause_cap_updated_onchain_timestamp = as_i64 (ev_pause_cap_updated_timestamp e)\<rparr>"

definition PauseCapUpdatedHandler_process ::
  "sui_lib \<Rightarrow> sandbox_state \<Rightarrow> DeepbookEnv \<Rightarrow> (bytes \<Rightarrow> PauseCapUpdated_ev option) \<Rightarrow> Checkpoint \<Rightarrow>
   process_error + PauseCapUpdated list" where
  "PauseCapUpdatedHandler_process lib st env decode =
     process_handler lib st env PauseCapUpdated_struct decode (PauseCapUpdatedHandler_map_event lib)"

interpretation pause_cap_updated_handler: event_handler "PauseCapUpdatedHandler_map_event lib"
  by unfold_locales (simp add: PauseCapUpdatedHandler_map_event_def meta_columns_def event_row.truncate_def)

section \<open>protocol fees increased handler\<close>

definition ProtocolFeesIncreasedHandler_map_event :: "sui_lib \<Rightarrow> ProtocolFeesIncreasedEvent_ev \<Rightarrow> EventMeta \<Rightarrow> ProtocolFeesIncreasedEvent" where
  "ProtocolFeesIncreasedHandler_map_event lib e m =
     \<lparr>event_digest = meta_event_digest m,
      digest = meta_digest m,
      sender = meta_sender m,
      checkpoint = meta_checkpoint m,
      checkpoint_timestamp_ms = meta_checkpoint_timestamp_ms m,
      package = meta_package m,
      protocol_fees_increased_margin_pool_id = object_id_to_string lib (ev_protocol_fees_increased_event_margin_pool_id e),
      protocol_fees_increased_total_shares = as_i64 (ev_protocol_fees_increased_event_total_shares e),
      protocol_fees_increased_referral_fees = as_i64 (ev_protocol_fees_increased_event_referral_fees e),
      protocol_fees_increased_maintainer_fees = as_i64 (ev_protocol_fees_increased_event_maintainer_fees e),
      protocol_fees_increased_protocol_fees = as_i64 (ev_protocol_fees_increased_event_protocol_fees e),
      protocol_fees_increased_onchain_timestamp = meta_checkpoint_timestamp_ms m\<rparr>"

definition ProtocolFeesIncreasedHandler_process ::
  "sui_lib \<Rightarrow> sandbox_state \<Rightarrow> DeepbookEnv \<Rightarrow> (bytes \<Rightarrow> ProtocolFeesIncreasedEvent_ev option) \<Rightarrow> Checkpoint \<Rightarrow>
   process_error + ProtocolFeesIncreasedEvent list" where
  "ProtocolFeesIncreasedHandler_process lib st env decode =
     process_handler lib st env ProtocolFeesIncreasedEvent_struct decode (ProtocolFeesIncreasedHandler_map_event lib)"

interpretation protocol_fees_increased_handler: event_handler "ProtocolFeesIncreasedHandler_map_event lib"
  by unfold_locales (simp add: ProtocolFeesIncreasedHandler_map_event_def meta_columns_def event_row.truncate_def)

section \<open>protocol fees withdrawn handler\<close>

definition ProtocolFeesWithdrawnHandler_map_event :: "sui_lib \<Rightarrow> ProtocolFeesWithdrawn_ev \<Rightarrow> EventMeta \<Rightarrow> ProtocolFeesWithdrawn" where
  "ProtocolFeesWithdrawnHandler_map_event lib e m =
     \<lparr>event_digest = meta_event_digest m,
      digest = meta_digest m,
      sender = meta_sender m,
      checkpoint = meta_checkpoint m,
      checkpoint_timestamp_ms = meta_checkpoint_timestamp_ms m,
      package = meta_package m,
      protocol_fees_withdrawn_margin_pool_id = object_id_to_string lib (ev_protocol_fees_withdrawn_margin_pool_id e),
      protocol_fees_withdrawn_protocol_fees = as_i64 (ev_protocol_fees_withdrawn_protocol_fees e),
      protocol_fees_withdrawn_onchain_timestamp = as_i64 (ev_protocol_fees_withdrawn_timestamp e)\<rparr>"

definition ProtocolFeesWithdrawnHandler_process ::
  "sui_lib \<Rightarrow> sandbox_state \<Rightarrow> DeepbookEnv \<Rightarrow> (bytes \<Rightarrow> ProtocolFeesWithdrawn_ev option) \<Rightarrow> Checkpoint \<Rightarrow>
   process_error + ProtocolFeesWithdrawn list" where
  "ProtocolFeesWithdrawnHandler_process lib st env decode =
     process_handler lib st env ProtocolFeesWithdrawn_struct decode (ProtocolFeesWithdrawnHandler_map_event lib)"

interpretation protocol_fees_withdrawn_handler: event_handler "ProtocolFeesWithdrawnHandler_map_event lib"
  by unfold_locales (simp add: ProtocolFeesWithdrawnHandler_map_event_def meta_columns_def event_row.truncate_def)

section \<open>referral fees claimed handler\<close>

definition ReferralFeesClaimedHandler_map_event :: "sui_lib \<Rightarrow> ReferralFeesClaimedEvent_ev \<Rightarrow> EventMeta \<Rightarrow> ReferralFeesClaimedEvent" where
  "ReferralFeesClaimedHandler_map_event lib e m =
     \<lparr>event_digest = meta_event_digest m,
      digest = meta_digest m,
      sender = meta_sender m,
      checkpoint = meta_checkpoint m,
      checkpoint_timestamp_ms = meta_checkpoint_timestamp_ms m,
      package = meta_package m,
      referral_fees_claimed_referral_id = object_id_to_string lib (ev_referral_fees_claimed_event_referral_id e),
      referral_fees_claimed_owner = address_to_string lib (ev_referral_fees_claimed_event_owner e),
      referral_fees_claimed_fees = as_i64 (ev_referral_fees_claimed_event_fees e),
      referral_fees_claimed_onchain_timestamp = meta_checkpoint_timestamp_ms m\<rparr>"

definition ReferralFeesClaimedHandler_process ::
  "sui_lib \<Rightarrow> sandbox_state \<Rightarrow> DeepbookEnv \<Rightarrow> (bytes \<Rightarrow> ReferralFeesClaimedEvent_ev option) \<Rightarrow> Checkpoint \<Rightarrow>
   process_error + ReferralFeesClaimedEvent list" where
  "ReferralFeesClaimedHandler_process lib st env decode =
     process_handler lib st env ReferralFeesClaimedEvent_struct decode (ReferralFeesClaimedHandler_map_event lib)"

interpretation referral_fees_claimed_handler: event_handler "ReferralFeesClaimedHandler_map_event lib"
  by unfold_locales (simp add: ReferralFeesClaimedHandler_map_event_def meta_columns_def event_row.truncate_def)

section \<open>supplier cap minted handler\<close>

definition SupplierCapMintedHandler_map_event :: "sui_lib \<Rightarrow> SupplierCapMinted_ev \<Rightarrow> EventMeta \<Rightarrow> SupplierCapMinted" where
  "SupplierCapMintedHandler_map_event lib e m =
     \<lparr>event_digest = meta_event_digest m,
      digest = meta_digest m,
      sender = meta_sender m,
      checkpoint = meta_checkpoint m,
      checkpoint_timestamp_ms = meta_checkpoint_timestamp_ms m,
      package = meta_package m,
      supplier_cap_minted_supplier_cap_id = object_id_to_string lib (ev_supplier_cap_minted_supplier_cap_id e),
      supplier_cap_minted_onchain_timestamp = as_i64 (ev_supplier_cap_minted_timestamp e)\<rparr>"

definition SupplierCapMintedHandler_process ::
  "sui_lib \<Rightarrow> sandbox_state \<Rightarrow> DeepbookEnv \<Rightarrow> (bytes \<Rightarrow> SupplierCapMinted_ev option) \<Rightarrow> Checkpoint \<Rightarrow>
   process_error + SupplierCapMinted list" where
  "SupplierCapMintedHandler_process lib st env decode =
     process_handler lib st env SupplierCapMinted_struct decode (SupplierCapMintedHandler_map_event lib)"

interpretation supplier_cap_minted_handler: event_handler "SupplierCapMintedHandler_map_event lib"
  by unfold_locales (simp add: SupplierCapMintedHandler_map_event_def meta_columns_def event_row.truncate_def)

section \<open>supply referral minted handler\<close>

definition SupplyReferralMintedHandler_map_event :: "sui_lib \<Rightarrow> SupplyReferralMinted_ev \<Rightarrow> EventMeta \<Rightarrow> SupplyReferralMinted" where
  "SupplyReferralMintedHandler_map_event lib e m =
     \<lparr>event_digest = meta_event_digest m,
      digest = meta_digest m,
      sender = meta_sender m,
      checkpoint = meta_checkpoint m,
      checkpoint_timestamp_ms = meta_checkpoint_timestamp_ms m,
      package = meta_package m,
      supply_referral_minted_margin_pool_id = object_id_to_string lib (ev_supply_referral_minted_margin_pool_id e),
      supply_referral_minted_supply_referral_id = object_id_to_string lib (ev_supply_referral_minted_supply_referral_id e),
      supply_referral_minted_owner = address_to_string lib (ev_supply_referral_minted_owner e),
      supply_referral_minted_onchain_timestamp = as_i64 (ev_supply_referral_minted_timestamp e)\<rparr>"

definition SupplyReferralMintedHandler_process ::
  "sui_lib \<Rightarrow> sandbox_state \<Rightarrow> DeepbookEnv \<Rightarrow> (bytes \<Rightarrow> SupplyReferralMinted_ev option) \<Rightarrow> Checkpoint \<Rightarrow>
   process_error + SupplyReferralMinted list" where
  "SupplyReferralMintedHandler_process lib st env decode =
     process_handler lib st env SupplyReferralMinted_struct decode (SupplyReferralMintedHandler_map_event lib)"

interpretation supply_referral_minted_handler: event_handler "SupplyReferralMintedHandler_map_event lib"
  by unfold_locales (simp add: SupplyReferralMintedHandler_map_event_def meta_columns_def event_row.truncate_def)

section \<open>withdraw collateral handler\<close>

definition WithdrawCollateralHandler_map_event :: "sui_lib \<Rightarrow> WithdrawCollateralEvent_ev \<Rightarrow> EventMeta \<Rightarrow> CollateralEvent" where
  "WithdrawCollateralHandler_map_event lib e m =
     \<lparr>event_digest = meta_event_digest m,
      digest = meta_digest m,
      sender = meta_sender m,
      checkpoint = meta_checkpoint m,
      checkpoint_timestamp_ms = meta_checkpoint_timestamp_ms m,
      package = meta_package m,
      collateral_events_event_type = ''withdraw'',
      collateral_events_margin_manager_id = object_id_to_string lib (ev_withdraw_collateral_event_margin_manager_id e),
      collateral_events_amount = bigdecimal_from_u64 (ev_withdraw_collateral_event_amount e),
      collateral_events_asset_type = ev_type_name_name (ev_withdraw_collateral_event_asset e),
      collateral_events_pyth_decimals = u8_as_i16 (ev_withdraw_collateral_event_base_pyth_decimals e),
      collateral_events_pyth_price = bigdecimal_from_u64 (ev_withdraw_collateral_event_base_pyth_price e),
      collateral_events_withdraw_base_asset = Some (ev_withdraw_collateral_event_withdraw_base_asset e),
      collateral_events_base_pyth_decimals = Some (u8_as_i16 (ev_withdraw_collateral_event_base_pyth_decimals e)),
      collateral_events_base_pyth_price = Some (bigdecimal_from_u64 (ev_withdraw_collateral_event_base_pyth_price e)),
      collateral_events_quote_pyth_decimals = Some (u8_as_i16 (ev_withdraw_collateral_event_quote_pyth_decimals e)),
      collateral_events_quote_pyth_price = Some (bigdecimal_from_u64 (ev_withdraw_collateral_event_quote_pyth_price e)),
      collateral_events_remaining_base_asset = Some (bigdecimal_from_u64 (ev_withdraw_collateral_event_remaining_base_asset e)),
      collateral_events_remaining_quote_asset = Some (bigdecimal_from_u64 (ev_withdraw_collateral_event_remaining_quote_asset e)),
      collateral_events_remaining_base_debt = Some (bigdecimal_from_u64 (ev_withdraw_collateral_event_remaining_base_debt e)),
      collateral_events_remaining_quote_debt = Some (bigdecimal_from_u64 (ev_withdraw_collateral_event_remaining_quote_debt e)),
      collateral_events_onchain_timestamp = as_i64 (ev_withdraw_collateral_event_timestamp e)\<rparr>"

definition WithdrawCollateralHandler_process ::
  "sui_lib \<Rightarrow> sandbox_state \<Rightarrow> DeepbookEnv \<Rightarrow> (bytes \<Rightarrow> WithdrawCollateralEvent_ev option) \<Rightarrow> Checkpoint \<Rightarrow>
   process_error + CollateralEvent list" where
  "WithdrawCollateralHandler_process lib st env decode =
     process_handler lib st env WithdrawCollateralEvent_struct decode (WithdrawCollateralHandler_map_event lib)"

interpretation withdraw_collateral_handler: event_handler "WithdrawCollateralHandler_map_event lib"
  by unfold_locales (simp add: WithdrawCollateralHandler_map_event_def meta_columns_def event_row.truncate_def)

lemmas margin_map_event_defs =
  AssetSuppliedHandler_map_event_def
  AssetWithdrawnHandler_map_event_def
  ConditionalOrderAddedHandler_map_event_def
  ConditionalOrderCancelledHandler_map_event_def
  ConditionalOrderExecutedHandler_map_event_def
  ConditionalOrderInsufficientFundsHandler_map_event_def
  DeepbookPoolConfigUpdatedHandler_map_event_def
  DeepbookPoolRegisteredHandler_map_event_def
  DeepbookPoolUpdatedHandler_map_event_def
  DeepbookPoolUpdatedRegistryHandler_map_event_def
  DepositCollateralHandler_map_event_def
  InterestParamsUpdatedHandler_map_event_def
  LiquidationHandler_map_event_def
  LoanBorrowedHandler_map_event_def
  LoanRepaidHandler_map_event_def
  MaintainerCapUpdatedHandler_map_event_def
  MaintainerFeesWithdrawnHandler_map_event_def
  MarginManagerCreatedHandler_map_event_def
  MarginPoolConfigUpdatedHandler_map_event_def
  MarginPoolCreatedHandler_map_event_def
  PauseCapUpdatedHandler_map_event_def
  ProtocolFeesIncreasedHandler_map_event_def
  ProtocolFeesWithdrawnHandler_map_event_def
  ReferralFeesClaimedHandler_map_event_def
  SupplierCapMintedHandler_map_event_def
  SupplyReferralMintedHandler_map_event_def
  WithdrawCollateralHandler_map_event_def

end
