(* ===== verification/Handlers_Orders.thy ===== *)
theory Handlers_Orders
  imports Events Rows Indexing
begin

text \<open>
  The four handlers written by hand: \<^verbatim>\<open>order_update_handler.rs\<close>, \<^verbatim>\<open>deep_burned_handler.rs\<close>,
  \<^verbatim>\<open>pool_created_handler.rs\<close> and \<^verbatim>\<open>trade_params_update_handler.rs\<close>. They take the digest of the
  transaction data, where the generated handlers take the one in the effects; the rest of the loop
  is \<open>process_tx\<close>. The properties: the four kinds of order events never shadow each other, and the
  pool of a trade parameter update.
\<close>

section \<open>Order updates\<close>

record TransactionMetadata =
  om_sender :: string
  om_checkpoint :: u64
  om_checkpoint_timestamp_ms :: u64
  om_digest :: string
  om_package :: string

definition order_metadata :: "sui_lib \<Rightarrow> Checkpoint \<Rightarrow> ExecutedTransaction \<Rightarrow> TransactionMetadata" where
  "order_metadata lib cp tx =
     \<lparr>om_sender = address_to_string lib (tx_sender tx),
      om_checkpoint = sequence_number cp,
      om_checkpoint_timestamp_ms = timestamp_ms cp,
      om_digest = digest_to_string lib (tx_digest tx),
      om_package = unwrap_or [] (try_extract_move_call_package lib tx)\<rparr>"

definition process_order_placed :: "sui_lib \<Rightarrow> OrderPlaced_ev \<Rightarrow> TransactionMetadata \<Rightarrow> nat \<Rightarrow> OrderUpdate" where
  "process_order_placed lib e md event_index =
     \<lparr>event_digest = event_key (om_digest md) event_index,
      digest = om_digest md,
      sender = om_sender md,
      checkpoint = as_i64 (om_checkpoint md),
      checkpoint_timestamp_ms = as_i64 (om_checkpoint_timestamp_ms md),
      package = om_package md,
      order_updates_status = Placed,
      order_updates_pool_id = object_id_to_string lib (ev_order_placed_pool_id e),
      order_updates_order_id = show_u128 (ev_order_placed_order_id e),
      order_updates_client_order_id = as_i64 (ev_order_placed_client_order_id e),
      order_updates_price = as_i64 (ev_order_placed_price e),
      order_updates_is_bid = ev_order_placed_is_bid e,
      order_updates_original_quantity = as_i64 (ev_order_placed_placed_quantity e),
      order_updates_quantity = as_i64 (ev_order_placed_placed_quantity e),
      order_updates_filled_quantity = 0,
      order_updates_onchain_timestamp = as_i64 (ev_order_placed_timestamp e),
      order_updates_trader = address_to_string lib (ev_order_placed_trader e),
      order_updates_balance_manager_id = object_id_to_string lib (ev_order_placed_balance_manager_id e)\<rparr>"

definition process_order_modified :: "sui_lib \<Rightarrow> OrderModified_ev \<Rightarrow> TransactionMetadata \<Rightarrow> nat \<Rightarrow> OrderUpdate" where
  "process_order_modified lib e md event_index =
     \<lparr>event_digest = event_key (om_digest md) event_index,
      digest = om_digest md,
      sender = om_sender md,
      checkpoint = as_i64 (om_checkpoint md),
      checkpoint_timestamp_ms = as_i64 (om_checkpoint_timestamp_ms md),
      package = om_package md,
      order_updates_status = Modified,
      order_updates_pool_id = object_id_to_string lib (ev_order_modified_pool_id e),
      order_updates_order_id = show_u128 (ev_order_modified_order_id e),
      order_updates_client_order_id = as_i64 (ev_order_modified_client_order_id e),
      order_updates_price = as_i64 (ev_order_modified_price e),
      order_updates_is_bid = ev_order_modified_is_bid e,
      order_updates_original_quantity = as_i64 (ev_order_modified_previous_quantity e),
      order_updates_quantity = as_i64 (ev_order_modified_new_quantity e),
      order_updates_filled_quantity = as_i64 (ev_order_modified_filled_quantity e),
      order_updates_onchain_timestamp = as_i64 (ev_order_modified_timestamp e),
      order_updates_trader = address_to_string lib (ev_order_modified_trader e),
      order_updates_balance_manager_id = object_id_to_string lib (ev_order_modified_balance_manager_id e)\<rparr>"

text \<open>The subtraction of the filled quantity is on \<open>u64\<close>, before the cast.\<close>

definition process_order_canceled :: "sui_lib \<Rightarrow> OrderCanceled_ev \<Rightarrow> TransactionMetadata \<Rightarrow> nat \<Rightarrow> OrderUpdate" where
  "process_order_canceled lib e md event_index =
     \<lparr>event_digest = event_key (om_digest md) event_index,
      digest = om_digest md,
      sender = om_sender md,
      checkpoint = as_i64 (om_checkpoint md),
      checkpoint_timestamp_ms = as_i64 (om_checkpoint_timestamp_ms md),
      package = om_package md,
      order_updates_status = Canceled,
      order_updates_pool_id = object_id_to_string lib (ev_order_canceled_pool_id e),
      order_updates_order_id = show_u128 (ev_order_canceled_order_id e),
      order_updates_client_order_id = as_i64 (ev_order_canceled_client_order_id e),
      order_updates_price = as_i64 (ev_order_canceled_price e),
      order_updates_is_bid = ev_order_canceled_is_bid e,
      order_updates_original_quantity = as_i64 (ev_order_canceled_original_quantity e),
      order_updates_quantity = as_i64 (ev_order_canceled_base_asset_quantity_canceled e),
      order_updates_filled_quantity = as_i64 (ev_order_canceled_original_quantity e - ev_order_canceled_base_asset_quantity_canceled e),
      order_updates_onchain_timestamp = as_i64 (ev_order_canceled_timestamp e),
      order_updates_trader = address_to_string lib (ev_order_canceled_trader e),
      order_updates_balance_manager_id = object_id_to_string lib (ev_order_canceled_balance_manager_id e)\<rparr>"

definition process_order_expired :: "sui_lib \<Rightarrow> OrderExpired_ev \<Rightarrow> TransactionMetadata \<Rightarrow> nat \<Rightarrow> OrderUpdate" where
  "process_order_expired lib e md event_index =
     \<lparr>event_digest = event_key (om_digest md) event_index,
      digest = om_digest md,
      sender = om_sender md,
      checkpoint = as_i64 (om_checkpoint md),
      checkpoint_timestamp_ms = as_i64 (om_checkpoint_timestamp_ms md),
      package = om_package md,
      order_updates_status = Expired,
      order_updates_pool_id = object_id_to_string lib (ev_order_expired_pool_id e),
      order_updates_order_id = show_u128 (ev_order_expired_order_id e),
      order_updates_client_order_id = as_i64 (ev_order_expired_client_order_id e),
      order_updates_price = as_i64 (ev_order_expired_price e),
      order_updates_is_bid = ev_order_expired_is_bid e,
      order_updates_original_quantity = as_i64 (ev_order_expired_original_quantity e),
      order_updates_quantity = as_i64 (ev_order_expired_base_asset_quantity_canceled e),
      order_updates_filled_quantity = as_i64 (ev_order_expired_original_quantity e - ev_order_expired_base_asset_quantity_canceled e),
      order_updates_onchain_timestamp = as_i64 (ev_order_expired_timestamp e),
      order_updates_trader = address_to_string lib (ev_order_expired_trader e),
      order_updates_balance_manager_id = object_id_to_string lib (ev_order_expired_balance_manager_id e)\<rparr>"

text \<open>\<open>bcs::from_bytes\<close> at the four event types.\<close>

record order_decoders =
  decode_placed :: "bytes \<Rightarrow> OrderPlaced_ev option"
  decode_modified :: "bytes \<Rightarrow> OrderModified_ev option"
  decode_canceled :: "bytes \<Rightarrow> OrderCanceled_ev option"
  decode_expired :: "bytes \<Rightarrow> OrderExpired_ev option"

definition push_event :: "'ev option \<Rightarrow> ('ev \<Rightarrow> 'row) \<Rightarrow> process_error + 'row list" where
  "push_event decoded f = (case decoded of None \<Rightarrow> Inl BcsError | Some e \<Rightarrow> Inr [f e])"

definition process_order_event ::
  "sui_lib \<Rightarrow> sandbox_state \<Rightarrow> DeepbookEnv \<Rightarrow> order_decoders \<Rightarrow> TransactionMetadata \<Rightarrow>
   nat \<times> move_event \<Rightarrow> process_error + OrderUpdate list" where
  "process_order_event lib st env dec md = (\<lambda>(index, ev).
     if matches_event_type lib st OrderPlaced_struct (event_type ev) env then
       push_event (decode_placed dec (event_contents ev)) (\<lambda>e. process_order_placed lib e md index)
     else if matches_event_type lib st OrderModified_struct (event_type ev) env then
       push_event (decode_modified dec (event_contents ev)) (\<lambda>e. process_order_modified lib e md index)
     else if matches_event_type lib st OrderCanceled_struct (event_type ev) env then
       push_event (decode_canceled dec (event_contents ev)) (\<lambda>e. process_order_canceled lib e md index)
     else if matches_event_type lib st OrderExpired_struct (event_type ev) env then
       push_event (decode_expired dec (event_contents ev)) (\<lambda>e. process_order_expired lib e md index)
     else Inr [])"

definition OrderUpdateHandler_process ::
  "sui_lib \<Rightarrow> sandbox_state \<Rightarrow> DeepbookEnv \<Rightarrow> order_decoders \<Rightarrow> Checkpoint \<Rightarrow>
   process_error + OrderUpdate list" where
  "OrderUpdateHandler_process lib st env dec cp =
     collect_result
       (\<lambda>tx. process_tx lib st env (process_order_event lib st env dec (order_metadata lib cp tx)) tx)
       (transactions cp)"

section \<open>Burned DEEP\<close>

definition DeepBurnedHandler_row ::
  "sui_lib \<Rightarrow> Checkpoint \<Rightarrow> ExecutedTransaction \<Rightarrow> nat \<Rightarrow> DeepBurned_ev \<Rightarrow> DeepBurned" where
  "DeepBurnedHandler_row lib cp tx index e =
     \<lparr>event_digest = event_key (digest_to_string lib (tx_digest tx)) index,
      digest = digest_to_string lib (tx_digest tx),
      sender = address_to_string lib (tx_sender tx),
      checkpoint = as_i64 (sequence_number cp),
      checkpoint_timestamp_ms = as_i64 (timestamp_ms cp),
      package = unwrap_or [] (try_extract_move_call_package lib tx),
      deep_burned_pool_id = object_id_to_string lib (ev_deep_burned_pool_id e),
      deep_burned_burned_amount = as_i64 (ev_deep_burned_deep_burned e)\<rparr>"

definition DeepBurnedHandler_process ::
  "sui_lib \<Rightarrow> sandbox_state \<Rightarrow> DeepbookEnv \<Rightarrow> (bytes \<Rightarrow> DeepBurned_ev option) \<Rightarrow> Checkpoint \<Rightarrow>
   process_error + DeepBurned list" where
  "DeepBurnedHandler_process lib st env decode cp =
     collect_result
       (\<lambda>tx. process_tx lib st env
          (\<lambda>(index, ev).
             if \<not> matches_event_type lib st DeepBurned_struct (event_type ev) env then Inr []
             else push_event (decode (event_contents ev)) (DeepBurnedHandler_row lib cp tx index)) tx)
       (transactions cp)"

section \<open>Created pools\<close>

definition PoolCreatedHandler_row ::
  "sui_lib \<Rightarrow> Checkpoint \<Rightarrow> ExecutedTransaction \<Rightarrow> nat \<Rightarrow> PoolCreated_ev \<Rightarrow> PoolCreated" where
  "PoolCreatedHandler_row lib cp tx index e =
     \<lparr>event_digest = event_key (digest_to_string lib (tx_digest tx)) index,
      digest = digest_to_string lib (tx_digest tx),
      sender = address_to_string lib (tx_sender tx),
      checkpoint = as_i64 (sequence_number cp),
      checkpoint_timestamp_ms = as_i64 (timestamp_ms cp),
      package = unwrap_or [] (try_extract_move_call_package lib tx),
      pool_created_pool_id = object_id_to_string lib (ev_pool_created_pool_id e),
      pool_created_taker_fee = as_i64 (ev_pool_created_taker_fee e),
      pool_created_maker_fee = as_i64 (ev_pool_created_maker_fee e),
      pool_created_tick_size = as_i64 (ev_pool_created_tick_size e),
      pool_created_lot_size = as_i64 (ev_pool_created_lot_size e),
      pool_created_min_size = as_i64 (ev_pool_created_min_size e),
      pool_created_whitelisted_pool = ev_pool_created_whitelisted_pool e,
      pool_created_treasury_address = address_to_string lib (ev_pool_created_treasury_address e)\<rparr>"

definition PoolCreatedHandler_process ::
  "sui_lib \<Rightarrow> sandbox_state \<Rightarrow> DeepbookEnv \<Rightarrow> (bytes \<Rightarrow> PoolCreated_ev option) \<Rightarrow> Checkpoint \<Rightarrow>
   process_error + PoolCreated list" where
  "PoolCreatedHandler_process lib st env decode cp =
     collect_result
       (\<lambda>tx. process_tx lib st env
          (\<lambda>(index, ev).
             if \<not> matches_event_type lib st PoolCreated_struct (event_type ev) env then Inr []
             else push_event (decode (event_contents ev)) (PoolCreatedHandler_row lib cp tx index)) tx)
       (transactions cp)"

section \<open>Trade parameter updates\<close>

text \<open>The pool of the transaction: the first input object that is a \<open>Pool\<close> of a core package.\<close>

definition trade_params_pool :: "address list \<Rightarrow> ExecutedTransaction \<Rightarrow> chain_object option" where
  "trade_params_pool deepbook_addresses tx =
     find (\<lambda>obj. case object_type obj of
              None \<Rightarrow> False
            | Some t \<Rightarrow> tag_address t \<in> set deepbook_addresses \<and> tag_name t = ''Pool'')
       (tx_input_objects tx)"

definition trade_params_pool_id :: "sui_lib \<Rightarrow> address list \<Rightarrow> ExecutedTransaction \<Rightarrow> string" where
  "trade_params_pool_id lib deepbook_addresses tx =
     (case trade_params_pool deepbook_addresses tx of
        None \<Rightarrow> ''0x0''
      | Some obj \<Rightarrow> object_id_to_hex_uncompressed lib (chain_object_id obj))"

definition TradeParamsUpdateHandler_row ::
  "sui_lib \<Rightarrow> string \<Rightarrow> Checkpoint \<Rightarrow> ExecutedTransaction \<Rightarrow> nat \<Rightarrow> TradeParamsUpdateEvent_ev \<Rightarrow>
   TradeParamsUpdate" where
  "TradeParamsUpdateHandler_row lib pool_id cp tx index e =
     \<lparr>event_digest = event_key (digest_to_string lib (tx_digest tx)) index,
      digest = digest_to_string lib (tx_digest tx),
      sender = address_to_string lib (tx_sender tx),
      checkpoint = as_i64 (sequence_number cp),
      checkpoint_timestamp_ms = as_i64 (timestamp_ms cp),
      package = unwrap_or [] (try_extract_move_call_package lib tx),
      trade_params_update_pool_id = pool_id,
      trade_params_update_taker_fee = as_i64 (ev_trade_params_update_event_taker_fee e),
      trade_params_update_maker_fee = as_i64 (ev_trade_params_update_event_maker_fee e),
      trade_params_update_stake_required = as_i64 (ev_trade_params_update_event_stake_required e)\<rparr>"

definition TradeParamsUpdateHandler_process ::
  "sui_lib \<Rightarrow> sandbox_state \<Rightarrow> DeepbookEnv \<Rightarrow> (bytes \<Rightarrow> TradeParamsUpdateEvent_ev option) \<Rightarrow> Checkpoint \<Rightarrow>
   process_error + TradeParamsUpdate list" where
  "TradeParamsUpdateHandler_process lib st env decode cp =
     collect_result
       (\<lambda>tx. process_tx lib st env
          (\<lambda>(index, ev).
             case package_addresses (account_address_from_str lib) st env of
               None \<Rightarrow> Inl Panic
             | Some deepbook_addresses \<Rightarrow>
                 if \<not> matches_event_type lib st TradeParamsUpdateEvent_struct (event_type ev) env
                 then Inr []
                 else push_event (decode (event_contents ev))
                   (TradeParamsUpdateHandler_row lib
                      (trade_params_pool_id lib deepbook_addresses tx) cp tx index)) tx)
       (transactions cp)"

section \<open>The kinds of order events\<close>

text \<open>A handler for one event type alone, with the metadata of the order updates.\<close>

definition single_order_events ::
  "sui_lib \<Rightarrow> sandbox_state \<Rightarrow> DeepbookEnv \<Rightarrow> MoveStruct \<Rightarrow> (bytes \<Rightarrow> 'ev option) \<Rightarrow>
   (sui_lib \<Rightarrow> 'ev \<Rightarrow> TransactionMetadata \<Rightarrow> nat \<Rightarrow> OrderUpdate) \<Rightarrow> Checkpoint \<Rightarrow>
   process_error + OrderUpdate list" where
  "single_order_events lib st env ms decode to_row cp =
     collect_result
       (\<lambda>tx. process_tx lib st env
          (\<lambda>(index, ev).
             if matches_event_type lib st ms (event_type ev) env
             then push_event (decode (event_contents ev))
               (\<lambda>e. to_row lib e (order_metadata lib cp tx) index)
             else Inr []) tx)
       (transactions cp)"

lemma process_tx_filter:
  assumes "\<And>x ys. f x = Inr ys \<Longrightarrow> g x = Inr (filter P ys)"
    and "process_tx lib st env f tx = Inr rows"
  shows "process_tx lib st env g tx = Inr (filter P rows)"
  using assms(2) collect_result_filter [of _ f g P, OF assms(1)]
  by (auto simp: process_tx_def split: option.splits bool.splits)

lemma matches_one_struct:
  "matches_event_type lib st ms tag env \<Longrightarrow> NAME ms \<noteq> NAME ms' \<Longrightarrow>
     \<not> matches_event_type lib st ms' tag env"
  by (simp add: matches_event_type_iff)

lemma order_struct_names:
  "NAME OrderPlaced_struct = ''OrderPlaced''" "NAME OrderModified_struct = ''OrderModified''"
  "NAME OrderCanceled_struct = ''OrderCanceled''" "NAME OrderExpired_struct = ''OrderExpired''"
  by (simp_all add: move_struct_defs)

lemma push_event_Inr: "push_event d f = Inr ys \<longleftrightarrow> (\<exists>e. d = Some e \<and> ys = [f e])"
  by (auto simp: push_event_def split: option.splits)

lemma order_row_status:
  "order_updates_status (process_order_placed lib ep md i) = Placed"
  "order_updates_status (process_order_modified lib em md i) = Modified"
  "order_updates_status (process_order_canceled lib ec md i) = Canceled"
  "order_updates_status (process_order_expired lib ex md i) = Expired"
  by (simp_all add: process_order_placed_def process_order_modified_def
      process_order_canceled_def process_order_expired_def)

lemma order_events_of_kind:
  assumes "\<And>md x ys. process_order_event lib st env dec md x = Inr ys \<Longrightarrow>
      (case x of (i, ev) \<Rightarrow>
        if matches_event_type lib st ms (event_type ev) env
        then push_event (decode (event_contents ev)) (\<lambda>e. to_row lib e md i) else Inr []) =
      Inr (filter (\<lambda>r. order_updates_status r = k) ys)"
    and "OrderUpdateHandler_process lib st env dec cp = Inr rows"
  shows "single_order_events lib st env ms decode to_row cp =
      Inr (filter (\<lambda>r. order_updates_status r = k) rows)"
  unfolding single_order_events_def
proof (rule collect_result_filter [OF _ assms(2) [unfolded OrderUpdateHandler_process_def]])
  fix tx ys
  assume "process_tx lib st env (process_order_event lib st env dec (order_metadata lib cp tx)) tx =
      Inr ys"
  then show "process_tx lib st env (\<lambda>(i, ev).
        if matches_event_type lib st ms (event_type ev) env
        then push_event (decode (event_contents ev))
          (\<lambda>e. to_row lib e (order_metadata lib cp tx) i) else Inr []) tx =
      Inr (filter (\<lambda>r. order_updates_status r = k) ys)"
    by (rule process_tx_filter [rotated]) (rule assms(1))
qed

text \<open>C19: the cascade of tests in the order handler shadows nothing: the rows of each status are,
  in order, the rows that a handler for that event type alone would produce from the checkpoint.\<close>

theorem order_update_kinds:
  assumes "OrderUpdateHandler_process lib st env dec cp = Inr rows"
  shows "single_order_events lib st env OrderPlaced_struct (decode_placed dec) process_order_placed cp =
      Inr (filter (\<lambda>r. order_updates_status r = Placed) rows) \<and>
    single_order_events lib st env OrderModified_struct (decode_modified dec) process_order_modified cp =
      Inr (filter (\<lambda>r. order_updates_status r = Modified) rows) \<and>
    single_order_events lib st env OrderCanceled_struct (decode_canceled dec) process_order_canceled cp =
      Inr (filter (\<lambda>r. order_updates_status r = Canceled) rows) \<and>
    single_order_events lib st env OrderExpired_struct (decode_expired dec) process_order_expired cp =
      Inr (filter (\<lambda>r. order_updates_status r = Expired) rows)"
  by (intro conjI; rule order_events_of_kind [OF _ assms])
    (auto simp: process_order_event_def push_event_Inr order_row_status matches_event_type_iff
      order_struct_names split: if_splits)

definition example_placed :: OrderPlaced_ev where
  "example_placed = \<lparr>ev_order_placed_balance_manager_id = [], ev_order_placed_pool_id = [],
     ev_order_placed_order_id = 1, ev_order_placed_client_order_id = 2, ev_order_placed_trader = [],
     ev_order_placed_price = 3, ev_order_placed_is_bid = True, ev_order_placed_placed_quantity = 4,
     ev_order_placed_expire_timestamp = 5, ev_order_placed_timestamp = 6\<rparr>"

definition example_canceled :: OrderCanceled_ev where
  "example_canceled = \<lparr>ev_order_canceled_balance_manager_id = [], ev_order_canceled_pool_id = [],
     ev_order_canceled_order_id = 1, ev_order_canceled_client_order_id = 2,
     ev_order_canceled_trader = [], ev_order_canceled_price = 3, ev_order_canceled_is_bid = True,
     ev_order_canceled_original_quantity = 4, ev_order_canceled_base_asset_quantity_canceled = 3,
     ev_order_canceled_timestamp = 6\<rparr>"

definition example_order_decoders :: order_decoders where
  "example_order_decoders = \<lparr>decode_placed = (\<lambda>_. Some example_placed), decode_modified = (\<lambda>_. None),
     decode_canceled = (\<lambda>_. Some example_canceled), decode_expired = (\<lambda>_. None)\<rparr>"

definition example_order_checkpoint :: Checkpoint where
  "example_order_checkpoint = \<lparr>sequence_number = 7, timestamp_ms = 9, transactions =
     [\<lparr>tx_effects_digest = [1], tx_digest = [1], tx_sender = [], tx_events = Some
        [\<lparr>event_type = StructTag (replicate 32 0) ''order_info'' ''OrderPlaced'' [], event_contents = []\<rparr>,
         \<lparr>event_type = StructTag (replicate 32 0) ''order'' ''OrderCanceled'' [], event_contents = []\<rparr>],
        tx_commands = [], tx_input_objects = []\<rparr>]\<rparr>"

theorem order_update_kinds_witness:
  "\<exists>rows. OrderUpdateHandler_process ref_lib example_sandbox Testnet example_order_decoders
       example_order_checkpoint = Inr rows \<and> length rows = 2 \<and>
     single_order_events ref_lib example_sandbox Testnet OrderCanceled_struct
       (decode_canceled example_order_decoders) process_order_canceled example_order_checkpoint =
     Inr [rows ! 1]"
proof -
  let ?rows = "[process_order_placed ref_lib example_placed (order_metadata ref_lib
      example_order_checkpoint (hd (transactions example_order_checkpoint))) 0,
    process_order_canceled ref_lib example_canceled (order_metadata ref_lib
      example_order_checkpoint (hd (transactions example_order_checkpoint))) 1]"
  have h: "OrderUpdateHandler_process ref_lib example_sandbox Testnet example_order_decoders
      example_order_checkpoint = Inr ?rows"
    by code_simp
  from order_update_kinds [OF h] h show ?thesis by (simp add: order_row_status)
qed

section \<open>The pool of a trade parameter update\<close>

lemma trade_params_pool_found:
  "trade_params_pool as tx = Some obj \<Longrightarrow>
     obj \<in> set (tx_input_objects tx) \<and>
     (\<exists>t. object_type obj = Some t \<and> tag_address t \<in> set as \<and> tag_name t = ''Pool'')"
  by (auto simp: trade_params_pool_def find_Some_iff split: option.splits)

text \<open>Every row of a transaction names the first pool of a core package among its input
  objects, or \<open>0x0\<close> when there is none, whichever pool emitted the event.\<close>

theorem trade_params_one_pool:
  assumes "package_addresses (account_address_from_str lib) st env = Some as"
    and "TradeParamsUpdateHandler_process lib st env decode \<lparr>sequence_number = n, timestamp_ms = t,
      transactions = [tx]\<rparr> = Inr rows"
    and "r \<in> set rows"
  shows "trade_params_update_pool_id r =
    (case find (\<lambda>obj. \<exists>tag. object_type obj = Some tag \<and> tag_address tag \<in> set as \<and>
         tag_name tag = ''Pool'') (tx_input_objects tx) of
       None \<Rightarrow> ''0x0'' | Some obj \<Rightarrow> object_id_to_hex_uncompressed lib (chain_object_id obj))"
proof -
  have eq: "(\<lambda>obj. case object_type obj of None \<Rightarrow> False
        | Some t \<Rightarrow> tag_address t \<in> set as \<and> tag_name t = ''Pool'') =
      (\<lambda>obj. \<exists>tag. object_type obj = Some tag \<and> tag_address tag \<in> set as \<and>
         tag_name tag = ''Pool'')"
    by (auto split: option.splits)
  have "trade_params_update_pool_id r = trade_params_pool_id lib as tx"
    using assms
    by (auto simp: TradeParamsUpdateHandler_process_def process_tx_def result_simps push_event_Inr
        TradeParamsUpdateHandler_row_def dest!: collect_result_set split: option.splits bool.splits if_splits)
  then show ?thesis by (simp add: trade_params_pool_id_def trade_params_pool_def eq)
qed

definition example_pool :: "u8 \<Rightarrow> chain_object" where
  "example_pool b = \<lparr>chain_object_id = [b], object_type = Some (StructTag (replicate 32 0) ''pool'' ''Pool'' [])\<rparr>"

definition example_trade_params_tx :: ExecutedTransaction where
  "example_trade_params_tx = \<lparr>tx_effects_digest = [1], tx_digest = [1], tx_sender = [], tx_events = Some
     [\<lparr>event_type = StructTag (replicate 32 0) ''governance'' ''TradeParamsUpdateEvent'' [],
       event_contents = []\<rparr>],
     tx_commands = [], tx_input_objects = [example_pool 4, example_pool 5]\<rparr>"

theorem trade_params_one_pool_witness:
  "let lib = ref_lib\<lparr>object_id_to_hex_uncompressed := map (\<lambda>b. digit_char (unat b))\<rparr>;
       dec = (\<lambda>_. Some \<lparr>ev_trade_params_update_event_taker_fee = 1,
         ev_trade_params_update_event_maker_fee = 2, ev_trade_params_update_event_stake_required = 3\<rparr>)
   in \<exists>r. TradeParamsUpdateHandler_process lib example_sandbox Testnet dec
        \<lparr>sequence_number = 7, timestamp_ms = 9, transactions = [example_trade_params_tx]\<rparr> = Inr [r] \<and>
      trade_params_update_pool_id r = ''4''"
proof -
  define lib where "lib = ref_lib\<lparr>object_id_to_hex_uncompressed := map (\<lambda>b. digit_char (unat b))\<rparr>"
  define dec :: "bytes \<Rightarrow> TradeParamsUpdateEvent_ev option" where
    "dec = (\<lambda>_. Some \<lparr>ev_trade_params_update_event_taker_fee = 1,
       ev_trade_params_update_event_maker_fee = 2, ev_trade_params_update_event_stake_required = 3\<rparr>)"
  let ?cp = "\<lparr>sequence_number = 7, timestamp_ms = 9, transactions = [example_trade_params_tx]\<rparr>"
  have a: "package_addresses (account_address_from_str lib) example_sandbox Testnet =
      Some [replicate 32 0]"
    unfolding lib_def by code_simp
  have "\<exists>r. TradeParamsUpdateHandler_process lib example_sandbox Testnet dec ?cp = Inr [r]"
    by (rule exI [of _ "TradeParamsUpdateHandler_row lib ''4'' ?cp example_trade_params_tx 0
      (the (dec []))"]) (unfold lib_def dec_def, code_simp)
  then obtain r where r: "TradeParamsUpdateHandler_process lib example_sandbox Testnet dec ?cp = Inr [r]"
    by blast
  have "trade_params_update_pool_id r = ''4''"
    by (subst trade_params_one_pool [OF a r])
      (simp_all add: example_trade_params_tx_def example_pool_def lib_def digit_char_def, code_simp)
  with r show ?thesis by (simp add: lib_def dec_def)
qed

end
