(* ===== verification/Registration.thy ===== *)
theory Registration
  imports Handlers_Core Handlers_Margin Handlers_Orders
begin

text \<open>
  \<^verbatim>\<open>crates/indexer/src/main.rs\<close>: how the indexer resolves its mode and which handlers it
  registers. A pipeline is its name and the \<open>process\<close> of its handler, which turns a checkpoint into
  rows; of the rows only the columns that all event tables share are looked at here. The decoders of the
  event structs (\<^verbatim>\<open>bcs\<close>) and the printing of configurations (\<^verbatim>\<open>serde_json\<close>) are the fields of \<open>decoders\<close>.
  The parsing of the command line, the connections and the run of the framework are not modelled.
\<close>

datatype Package = Deepbook | DeepbookMargin

datatype SandboxEnv = SandboxTestnet | SandboxLocalnet

record SandboxArgs =
  sandbox_env :: SandboxEnv
  sandbox_deepbook_package_id :: "string list"
  sandbox_margin_packages :: "string list"
  sandbox_local_ingestion_path :: "string option"

record 'url IngestionClientArgs =
  remote_store_url_arg :: "'url option"
  local_ingestion_path_arg :: "string option"

datatype config_error = ConfigContext string | ConfigPanic panic

text \<open>
  The resolution of \<open>main\<close>: the environment, the ingestion source, the packages, and the state of
  the override. \<open>url_parse\<close> is the URL parser.
\<close>

definition resolve_config ::
  "(string \<Rightarrow> 'url option) \<Rightarrow> DeepbookEnv option \<Rightarrow> Package list \<Rightarrow> SandboxArgs option \<Rightarrow>
   sandbox_state \<Rightarrow> config_error + DeepbookEnv \<times> 'url IngestionClientArgs \<times> Package list \<times> sandbox_state" where
  "resolve_config url_parse env_opt packages sandbox st =
     (case sandbox of
        None \<Rightarrow>
          bind_result (ok_or (ConfigContext ''--env is required when not using a subcommand'') env_opt)
            (\<lambda>env. bind_result
               (ok_or (ConfigPanic (Panicked ''invalid remote store URL'')) (remote_store_url url_parse env))
               (\<lambda>url. Inr (env,
                  \<lparr>remote_store_url_arg = Some url, local_ingestion_path_arg = None\<rparr>, packages, st)))
      | Some sb \<Rightarrow>
          (case init_package_override (sandbox_deepbook_package_id sb) (sandbox_margin_packages sb) st of
             Inl p \<Rightarrow> Inl (ConfigPanic p)
           | Inr st' \<Rightarrow>
               bind_result
                 (case sandbox_env sb of
                    SandboxLocalnet \<Rightarrow>
                      map_result (\<lambda>p. \<lparr>remote_store_url_arg = None, local_ingestion_path_arg = Some p\<rparr>)
                        (ok_or (ConfigContext ''--local-ingestion-path is required for localnet'')
                          (sandbox_local_ingestion_path sb))
                  | SandboxTestnet \<Rightarrow>
                      map_result (\<lambda>u. \<lparr>remote_store_url_arg = Some u, local_ingestion_path_arg = None\<rparr>)
                        (ok_or (ConfigPanic (Panicked ''invalid testnet remote store URL''))
                          (url_parse TESTNET_REMOTE_STORE_URL)))
                 (\<lambda>ingestion.
                    (let has_margin = sandbox_margin_packages sb \<noteq> [];
                         packages' = (if \<not> has_margin then filter (\<lambda>p. p = Deepbook) packages else packages)
                     in Inr (Testnet, ingestion, packages', st')))))"

section \<open>The decoders\<close>

text \<open>\<open>bcs::from_bytes\<close> at the event structs, and \<open>serde_json::to_value\<close> at the configurations.\<close>

record core_decoders =
  bcs_BalanceManagerEvent :: "bytes \<Rightarrow> BalanceManagerEvent_ev option"
  bcs_BalanceEvent :: "bytes \<Rightarrow> BalanceEvent_ev option"
  bcs_DeepBurned :: "bytes \<Rightarrow> DeepBurned_ev option"
  bcs_DeepBookReferralCreatedEvent :: "bytes \<Rightarrow> DeepBookReferralCreatedEvent_ev option"
  bcs_DeepBookReferralSetEvent :: "bytes \<Rightarrow> DeepBookReferralSetEvent_ev option"
  bcs_FlashLoanBorrowed :: "bytes \<Rightarrow> FlashLoanBorrowed_ev option"
  bcs_OrderFilled :: "bytes \<Rightarrow> OrderFilled_ev option"
  bcs_order_update :: order_decoders
  bcs_PriceAdded :: "bytes \<Rightarrow> PriceAdded_ev option"
  bcs_ProposalEvent :: "bytes \<Rightarrow> ProposalEvent_ev option"
  bcs_RebateEvent :: "bytes \<Rightarrow> RebateEvent_ev option"
  bcs_ReferralFeeEvent :: "bytes \<Rightarrow> ReferralFeeEvent_ev option"
  bcs_StakeEvent :: "bytes \<Rightarrow> StakeEvent_ev option"
  bcs_TradeParamsUpdateEvent :: "bytes \<Rightarrow> TradeParamsUpdateEvent_ev option"
  bcs_VoteEvent :: "bytes \<Rightarrow> VoteEvent_ev option"
  bcs_PoolCreated :: "bytes \<Rightarrow> PoolCreated_ev option"
  bcs_BookParamsUpdated :: "bytes \<Rightarrow> BookParamsUpdated_ev option"
  bcs_ReferralClaimed :: "bytes \<Rightarrow> ReferralClaimed_ev option"
  bcs_EWMAUpdate :: "bytes \<Rightarrow> EWMAUpdate_ev option"
  bcs_TakerFeePenaltyApplied :: "bytes \<Rightarrow> TakerFeePenaltyApplied_ev option"

record decoders = core_decoders +
  bcs_MarginManagerCreatedEvent :: "bytes \<Rightarrow> MarginManagerCreatedEvent_ev option"
  bcs_LoanBorrowedEvent :: "bytes \<Rightarrow> LoanBorrowedEvent_ev option"
  bcs_LoanRepaidEvent :: "bytes \<Rightarrow> LoanRepaidEvent_ev option"
  bcs_LiquidationEvent :: "bytes \<Rightarrow> LiquidationEvent_ev option"
  bcs_AssetSupplied :: "bytes \<Rightarrow> AssetSupplied_ev option"
  bcs_AssetWithdrawn :: "bytes \<Rightarrow> AssetWithdrawn_ev option"
  bcs_MarginPoolCreated :: "bytes \<Rightarrow> MarginPoolCreated_ev option"
  bcs_DeepbookPoolUpdated :: "bytes \<Rightarrow> DeepbookPoolUpdated_ev option"
  bcs_InterestParamsUpdated :: "bytes \<Rightarrow> InterestParamsUpdated_ev option"
  bcs_MarginPoolConfigUpdated :: "bytes \<Rightarrow> MarginPoolConfigUpdated_ev option"
  bcs_MaintainerCapUpdated :: "bytes \<Rightarrow> MaintainerCapUpdated_ev option"
  bcs_DeepbookPoolRegistered :: "bytes \<Rightarrow> DeepbookPoolRegistered_ev option"
  bcs_DeepbookPoolUpdatedRegistry :: "bytes \<Rightarrow> DeepbookPoolUpdatedRegistry_ev option"
  bcs_DeepbookPoolConfigUpdated :: "bytes \<Rightarrow> DeepbookPoolConfigUpdated_ev option"
  bcs_MaintainerFeesWithdrawn :: "bytes \<Rightarrow> MaintainerFeesWithdrawn_ev option"
  bcs_ProtocolFeesWithdrawn :: "bytes \<Rightarrow> ProtocolFeesWithdrawn_ev option"
  bcs_SupplierCapMinted :: "bytes \<Rightarrow> SupplierCapMinted_ev option"
  bcs_SupplyReferralMinted :: "bytes \<Rightarrow> SupplyReferralMinted_ev option"
  bcs_PauseCapUpdated :: "bytes \<Rightarrow> PauseCapUpdated_ev option"
  bcs_ProtocolFeesIncreasedEvent :: "bytes \<Rightarrow> ProtocolFeesIncreasedEvent_ev option"
  bcs_ReferralFeesClaimedEvent :: "bytes \<Rightarrow> ReferralFeesClaimedEvent_ev option"
  bcs_DepositCollateralEvent :: "bytes \<Rightarrow> DepositCollateralEvent_ev option"
  bcs_WithdrawCollateralEvent :: "bytes \<Rightarrow> WithdrawCollateralEvent_ev option"
  bcs_ConditionalOrderAdded :: "bytes \<Rightarrow> ConditionalOrderAdded_ev option"
  bcs_ConditionalOrderCancelled :: "bytes \<Rightarrow> ConditionalOrderCancelled_ev option"
  bcs_ConditionalOrderExecuted :: "bytes \<Rightarrow> ConditionalOrderExecuted_ev option"
  bcs_ConditionalOrderInsufficientFunds :: "bytes \<Rightarrow> ConditionalOrderInsufficientFunds_ev option"
  json_InterestConfig :: "InterestConfig_ev \<Rightarrow> json"
  json_MarginPoolConfig :: "MarginPoolConfig_ev \<Rightarrow> json"
  json_PoolConfig :: "PoolConfig_ev \<Rightarrow> json"
  json_ProtocolConfig :: "ProtocolConfig_ev \<Rightarrow> json"

section \<open>The pipelines\<close>

type_synonym handler =
  "sui_lib \<Rightarrow> sandbox_state \<Rightarrow> DeepbookEnv \<Rightarrow> decoders \<Rightarrow> Checkpoint \<Rightarrow> process_error + event_row list"

definition as_event_rows :: "process_error + 'a event_row_scheme list \<Rightarrow> process_error + event_row list" where
  "as_event_rows r = map_result (map event_row.truncate) r"

text \<open>The pipelines each package registers, in the order of the code.\<close>

definition core_pipelines :: "(string \<times> handler) list" where
  "core_pipelines =
    [(''balance_manager_event'', \<lambda>lib st env d cp.
        as_event_rows (BalanceManagerEventHandler_process lib st env (bcs_BalanceManagerEvent d) cp)),
     (''balances'', \<lambda>lib st env d cp.
        as_event_rows (BalancesHandler_process lib st env (bcs_BalanceEvent d) cp)),
     (''deep_burned'', \<lambda>lib st env d cp.
        as_event_rows (DeepBurnedHandler_process lib st env (bcs_DeepBurned d) cp)),
     (''deepbook_referral_created_event'', \<lambda>lib st env d cp.
        as_event_rows (DeepBookReferralCreatedEventHandler_process lib st env (bcs_DeepBookReferralCreatedEvent d) cp)),
     (''deepbook_referral_set_event'', \<lambda>lib st env d cp.
        as_event_rows (DeepBookReferralSetEventHandler_process lib st env (bcs_DeepBookReferralSetEvent d) cp)),
     (''flash_loan'', \<lambda>lib st env d cp.
        as_event_rows (FlashLoanHandler_process lib st env (bcs_FlashLoanBorrowed d) cp)),
     (''order_fill'', \<lambda>lib st env d cp.
        as_event_rows (OrderFillHandler_process lib st env (bcs_OrderFilled d) cp)),
     (''order_update'', \<lambda>lib st env d cp.
        as_event_rows (OrderUpdateHandler_process lib st env (bcs_order_update d) cp)),
     (''pool_price'', \<lambda>lib st env d cp.
        as_event_rows (PoolPriceHandler_process lib st env (bcs_PriceAdded d) cp)),
     (''proposals'', \<lambda>lib st env d cp.
        as_event_rows (ProposalsHandler_process lib st env (bcs_ProposalEvent d) cp)),
     (''rebates'', \<lambda>lib st env d cp.
        as_event_rows (RebatesHandler_process lib st env (bcs_RebateEvent d) cp)),
     (''referral_fee_events'', \<lambda>lib st env d cp.
        as_event_rows (ReferralFeeEventHandler_process lib st env (bcs_ReferralFeeEvent d) cp)),
     (''stakes'', \<lambda>lib st env d cp.
        as_event_rows (StakesHandler_process lib st env (bcs_StakeEvent d) cp)),
     (''trade_params_update'', \<lambda>lib st env d cp.
        as_event_rows (TradeParamsUpdateHandler_process lib st env (bcs_TradeParamsUpdateEvent d) cp)),
     (''votes'', \<lambda>lib st env d cp.
        as_event_rows (VotesHandler_process lib st env (bcs_VoteEvent d) cp)),
     (''pool_created'', \<lambda>lib st env d cp.
        as_event_rows (PoolCreatedHandler_process lib st env (bcs_PoolCreated d) cp)),
     (''book_params_updated'', \<lambda>lib st env d cp.
        as_event_rows (BookParamsUpdatedHandler_process lib st env (bcs_BookParamsUpdated d) cp)),
     (''referral_claimed'', \<lambda>lib st env d cp.
        as_event_rows (ReferralClaimedHandler_process lib st env (bcs_ReferralClaimed d) cp)),
     (''ewma_updates'', \<lambda>lib st env d cp.
        as_event_rows (EwmaUpdateHandler_process lib st env (bcs_EWMAUpdate d) cp)),
     (''taker_fee_penalty_applied'', \<lambda>lib st env d cp.
        as_event_rows (TakerFeePenaltyHandler_process lib st env (bcs_TakerFeePenaltyApplied d) cp))]"

definition margin_pipelines :: "(string \<times> handler) list" where
  "margin_pipelines =
    [(''margin_manager_created'', \<lambda>lib st env d cp.
        as_event_rows (MarginManagerCreatedHandler_process lib st env (bcs_MarginManagerCreatedEvent d) cp)),
     (''loan_borrowed'', \<lambda>lib st env d cp.
        as_event_rows (LoanBorrowedHandler_process lib st env (bcs_LoanBorrowedEvent d) cp)),
     (''loan_repaid'', \<lambda>lib st env d cp.
        as_event_rows (LoanRepaidHandler_process lib st env (bcs_LoanRepaidEvent d) cp)),
     (''liquidation'', \<lambda>lib st env d cp.
        as_event_rows (LiquidationHandler_process lib st env (bcs_LiquidationEvent d) cp)),
     (''asset_supplied'', \<lambda>lib st env d cp.
        as_event_rows (AssetSuppliedHandler_process lib st env (bcs_AssetSupplied d) cp)),
     (''asset_withdrawn'', \<lambda>lib st env d cp.
        as_event_rows (AssetWithdrawnHandler_process lib st env (bcs_AssetWithdrawn d) cp)),
     (''margin_pool_created'', \<lambda>lib st env d cp.
        as_event_rows (MarginPoolCreatedHandler_process lib st env (json_ProtocolConfig d) (bcs_MarginPoolCreated d) cp)),
     (''deepbook_pool_updated'', \<lambda>lib st env d cp.
        as_event_rows (DeepbookPoolUpdatedHandler_process lib st env (bcs_DeepbookPoolUpdated d) cp)),
     (''interest_params_updated'', \<lambda>lib st env d cp.
        as_event_rows (InterestParamsUpdatedHandler_process lib st env (json_InterestConfig d) (bcs_InterestParamsUpdated d) cp)),
     (''margin_pool_config_updated'', \<lambda>lib st env d cp.
        as_event_rows (MarginPoolConfigUpdatedHandler_process lib st env (json_MarginPoolConfig d) (bcs_MarginPoolConfigUpdated d) cp)),
     (''maintainer_cap_updated'', \<lambda>lib st env d cp.
        as_event_rows (MaintainerCapUpdatedHandler_process lib st env (bcs_MaintainerCapUpdated d) cp)),
     (''deepbook_pool_registered'', \<lambda>lib st env d cp.
        as_event_rows (DeepbookPoolRegisteredHandler_process lib st env (json_PoolConfig d) (bcs_DeepbookPoolRegistered d) cp)),
     (''deepbook_pool_updated_registry'', \<lambda>lib st env d cp.
        as_event_rows (DeepbookPoolUpdatedRegistryHandler_process lib st env (bcs_DeepbookPoolUpdatedRegistry d) cp)),
     (''deepbook_pool_config_updated'', \<lambda>lib st env d cp.
        as_event_rows (DeepbookPoolConfigUpdatedHandler_process lib st env (json_PoolConfig d) (bcs_DeepbookPoolConfigUpdated d) cp)),
     (''maintainer_fees_withdrawn'', \<lambda>lib st env d cp.
        as_event_rows (MaintainerFeesWithdrawnHandler_process lib st env (bcs_MaintainerFeesWithdrawn d) cp)),
     (''protocol_fees_withdrawn'', \<lambda>lib st env d cp.
        as_event_rows (ProtocolFeesWithdrawnHandler_process lib st env (bcs_ProtocolFeesWithdrawn d) cp)),
     (''supplier_cap_minted'', \<lambda>lib st env d cp.
        as_event_rows (SupplierCapMintedHandler_process lib st env (bcs_SupplierCapMinted d) cp)),
     (''supply_referral_minted'', \<lambda>lib st env d cp.
        as_event_rows (SupplyReferralMintedHandler_process lib st env (bcs_SupplyReferralMinted d) cp)),
     (''pause_cap_updated'', \<lambda>lib st env d cp.
        as_event_rows (PauseCapUpdatedHandler_process lib st env (bcs_PauseCapUpdated d) cp)),
     (''protocol_fees_increased'', \<lambda>lib st env d cp.
        as_event_rows (ProtocolFeesIncreasedHandler_process lib st env (bcs_ProtocolFeesIncreasedEvent d) cp)),
     (''referral_fees_claimed'', \<lambda>lib st env d cp.
        as_event_rows (ReferralFeesClaimedHandler_process lib st env (bcs_ReferralFeesClaimedEvent d) cp)),
     (''deposit_collateral'', \<lambda>lib st env d cp.
        as_event_rows (DepositCollateralHandler_process lib st env (bcs_DepositCollateralEvent d) cp)),
     (''withdraw_collateral'', \<lambda>lib st env d cp.
        as_event_rows (WithdrawCollateralHandler_process lib st env (bcs_WithdrawCollateralEvent d) cp)),
     (''conditional_order_added'', \<lambda>lib st env d cp.
        as_event_rows (ConditionalOrderAddedHandler_process lib st env (bcs_ConditionalOrderAdded d) cp)),
     (''conditional_order_cancelled'', \<lambda>lib st env d cp.
        as_event_rows (ConditionalOrderCancelledHandler_process lib st env (bcs_ConditionalOrderCancelled d) cp)),
     (''conditional_order_executed'', \<lambda>lib st env d cp.
        as_event_rows (ConditionalOrderExecutedHandler_process lib st env (bcs_ConditionalOrderExecuted d) cp)),
     (''conditional_order_insufficient_funds'', \<lambda>lib st env d cp.
        as_event_rows (ConditionalOrderInsufficientFundsHandler_process lib st env (bcs_ConditionalOrderInsufficientFunds d) cp))]"

fun package_pipelines :: "Package \<Rightarrow> (string \<times> handler) list" where
  "package_pipelines Deepbook = core_pipelines"
| "package_pipelines DeepbookMargin = margin_pipelines"

definition registered_pipelines :: "Package list \<Rightarrow> (string \<times> handler) list" where
  "registered_pipelines packages = concat (map package_pipelines packages)"

section \<open>The keys a handler should produce\<close>

definition matches_any ::
  "sui_lib \<Rightarrow> sandbox_state \<Rightarrow> DeepbookEnv \<Rightarrow> MoveStruct list \<Rightarrow> struct_tag \<Rightarrow> bool" where
  "matches_any lib st env mss tag \<longleftrightarrow> list_ex (\<lambda>ms. matches_event_type lib st ms tag env) mss"

definition tx_event_list :: "ExecutedTransaction \<Rightarrow> (nat \<times> move_event) list" where
  "tx_event_list tx = enumerate 0 (case tx_events tx of None \<Rightarrow> [] | Some evs \<Rightarrow> evs)"

text \<open>The keys of the events of a checkpoint that are of one of the given types.\<close>

definition tx_keys ::
  "sui_lib \<Rightarrow> sandbox_state \<Rightarrow> DeepbookEnv \<Rightarrow> MoveStruct list \<Rightarrow> ExecutedTransaction \<Rightarrow> string list" where
  "tx_keys lib st env mss tx =
     map (\<lambda>(i, _). event_key (digest_to_string lib (tx_effects_digest tx)) i)
       (filter (\<lambda>(_, ev). matches_any lib st env mss (event_type ev)) (tx_event_list tx))"

definition checkpoint_keys ::
  "sui_lib \<Rightarrow> sandbox_state \<Rightarrow> DeepbookEnv \<Rightarrow> MoveStruct list \<Rightarrow> Checkpoint \<Rightarrow> string list" where
  "checkpoint_keys lib st env mss cp = concat (map (tx_keys lib st env mss) (transactions cp))"

lemma matches_any_append:
  "matches_any lib st env (mss @ mss') tag \<longleftrightarrow> matches_any lib st env mss tag \<or> matches_any lib st env mss' tag"
  by (simp add: matches_any_def)

lemma mset_filter_disj:
  "(\<And>x. \<not> (P x \<and> Q x)) \<Longrightarrow> mset (map g (filter (\<lambda>x. P x \<or> Q x) xs)) =
     mset (map g (filter P xs)) + mset (map g (filter Q xs))"
  by (induction xs) auto

lemma concat_map_if: "concat (map (\<lambda>x. if P x then [g x] else []) xs) = map g (filter P xs)"
  by (induction xs) auto

text \<open>Different structs have no event in common.\<close>

definition struct_path :: "MoveStruct \<Rightarrow> string \<times> string" where "struct_path ms = (MODULE ms, NAME ms)"

lemma matches_apart:
  assumes "struct_path ` set mss \<inter> struct_path ` set mss' = {}"
  shows "\<not> (matches_any lib st env mss tag \<and> matches_any lib st env mss' tag)"
proof
  assume "matches_any lib st env mss tag \<and> matches_any lib st env mss' tag"
  then obtain a b where "a \<in> set mss" "b \<in> set mss'" "struct_path a = struct_path b"
    by (fastforce simp: matches_any_def list_ex_iff matches_event_type_iff struct_path_def)
  with assms show False by blast
qed

lemma checkpoint_keys_append:
  assumes "struct_path ` set mss \<inter> struct_path ` set mss' = {}"
  shows "mset (checkpoint_keys lib st env (mss @ mss') cp) =
    mset (checkpoint_keys lib st env mss cp) + mset (checkpoint_keys lib st env mss' cp)"
proof -
  have "mset (tx_keys lib st env (mss @ mss') tx) = mset (tx_keys lib st env mss tx) + mset (tx_keys lib st env mss' tx)" for tx
    unfolding tx_keys_def matches_any_append split_beta by (rule mset_filter_disj) (rule matches_apart [OF assms])
  then have "mset (concat (map (tx_keys lib st env (mss @ mss')) txs)) =
      mset (concat (map (tx_keys lib st env mss) txs)) + mset (concat (map (tx_keys lib st env mss') txs))" for txs
    by (induction txs) auto
  then show ?thesis by (simp add: checkpoint_keys_def)
qed

lemma checkpoint_keys_concat:
  "distinct (map struct_path (concat msss)) \<Longrightarrow>
     mset (concat (map (\<lambda>mss. checkpoint_keys lib st env mss cp) msss)) = mset (checkpoint_keys lib st env (concat msss) cp)"
proof (induction msss)
  case Nil
  then show ?case by (simp add: checkpoint_keys_def tx_keys_def matches_any_def)
next
  case (Cons mss msss)
  have "struct_path ` set mss \<inter> struct_path ` set (concat msss) = {}" using Cons.prems by auto
  from checkpoint_keys_append [OF this] Cons show ?case by simp
qed

lemma checkpoint_keys_set: "set mss = set mss' \<Longrightarrow> checkpoint_keys lib st env mss cp = checkpoint_keys lib st env mss' cp"
  by (simp add: checkpoint_keys_def tx_keys_def [abs_def] matches_any_def list_ex_iff)

section \<open>The keys a handler produces\<close>

text \<open>For every checkpoint that it can process, the keys of the rows of the handler are those of the events of
  the given types.\<close>

definition extracts :: "handler \<Rightarrow> MoveStruct list \<Rightarrow> bool" where
  "extracts h mss \<longleftrightarrow> (\<forall>lib st env dec cp rows. parsers_agree lib \<longrightarrow> full_packages st env \<longrightarrow>
     (\<forall>tx\<in>set (transactions cp). tx_digest tx = tx_effects_digest tx) \<longrightarrow> h lib st env dec cp = Inr rows \<longrightarrow>
     map event_digest rows = checkpoint_keys lib st env mss cp)"

lemma collect_result_nothing: "(\<And>x. x \<in> set xs \<Longrightarrow> f x = Inr []) \<Longrightarrow> collect_result f xs = Inr []"
  by (induction xs) (auto simp: result_simps)

lemma collect_result_keys:
  assumes "collect_result f xs = Inr rows" and "\<And>x ys. x \<in> set xs \<Longrightarrow> f x = Inr ys \<Longrightarrow> map g ys = k x"
  shows "map g rows = concat (map k xs)"
  using assms by (induction xs arbitrary: rows) (auto simp: result_simps)

text \<open>The filter for DeepBook transactions changes nothing for a loop that only looks at such events.\<close>

lemma process_tx_events:
  assumes "parsers_agree lib" and "full_packages st env" and "\<And>ms. ms \<in> set mss \<Longrightarrow> MODULE ms \<notin> set get_sui_modules"
    and skip: "\<And>i ev. \<not> matches_any lib st env mss (event_type ev) \<Longrightarrow> f (i, ev) = Inr []"
  shows "process_tx lib st env f tx = collect_result f (tx_event_list tx)"
proof (cases "\<exists>ms\<in>set mss. tx_matches lib st env ms tx \<noteq> []")
  case True
  then have "is_deepbook_tx lib st tx env = Some True"
    using is_deepbook_tx_matches [OF assms(1,2)] assms(3) by blast
  then show ?thesis by (simp add: process_tx_def tx_event_list_def split: option.split)
next
  case False
  have "f z = Inr []" if "z \<in> set (tx_event_list tx)" for z
  proof (cases z)
    case (Pair i ev)
    then have "\<not> matches_any lib st env mss (event_type ev)"
      using False that
      by (fastforce simp: matches_any_def list_ex_iff tx_matches_def tx_event_list_def filter_empty_conv split: option.splits)
    then show ?thesis using skip Pair by simp
  qed
  then have "collect_result f (tx_event_list tx) = Inr []" by (rule collect_result_nothing)
  moreover obtain b where "is_deepbook_tx lib st tx env = Some b"
    using is_deepbook_tx_defined [OF assms(1,2)] by blast
  ultimately show ?thesis
    by (cases b; cases "tx_events tx") (simp_all add: process_tx_def tx_event_list_def)
qed

lemma extractsI:
  assumes h: "\<And>lib st env dec cp. h lib st env dec cp = as_event_rows
      (collect_result (\<lambda>tx. process_tx lib st env (f lib st env dec cp tx) tx) (transactions cp))"
    and sui: "\<And>ms. ms \<in> set mss \<Longrightarrow> MODULE ms \<notin> set get_sui_modules"
    and f: "\<And>lib st env dec cp tx i ev. parsers_agree lib \<Longrightarrow> full_packages st env \<Longrightarrow>
        tx_digest tx = tx_effects_digest tx \<Longrightarrow>
        if matches_any lib st env mss (event_type ev)
        then \<forall>rs. f lib st env dec cp tx (i, ev) = Inr rs \<longrightarrow>
          map event_digest rs = [event_key (digest_to_string lib (tx_effects_digest tx)) i]
        else f lib st env dec cp tx (i, ev) = Inr []"
  shows "extracts h mss"
  unfolding extracts_def
proof (intro allI impI)
  fix lib st env dec cp rows
  assume lib: "parsers_agree lib" "full_packages st env"
    and tx: "\<forall>tx\<in>set (transactions cp). tx_digest tx = tx_effects_digest tx"
    and "h lib st env dec cp = Inr rows"
  then obtain rs where rs: "collect_result (\<lambda>tx. process_tx lib st env (f lib st env dec cp tx) tx) (transactions cp) = Inr rs"
    "rows = map event_row.truncate rs"
    by (auto simp: h as_event_rows_def result_simps)
  have "map event_digest rs = checkpoint_keys lib st env mss cp"
    unfolding checkpoint_keys_def
  proof (rule collect_result_keys [OF rs(1)])
    fix tx ys assume t: "tx \<in> set (transactions cp)" "process_tx lib st env (f lib st env dec cp tx) tx = Inr ys"
    note f = f [OF lib tx [rule_format, OF t(1)]]
    have c: "collect_result (f lib st env dec cp tx) (tx_event_list tx) = Inr ys"
      using t(2) f by (subst (asm) process_tx_events [OF lib sui, where mss = mss]) (auto split: if_splits)
    have "map event_digest ys = concat (map (\<lambda>(i, ev). if matches_any lib st env mss (event_type ev)
        then [event_key (digest_to_string lib (tx_effects_digest tx)) i] else []) (tx_event_list tx))"
      using f by (intro collect_result_keys [OF c]) (auto split: if_splits prod.splits)
    also have "\<dots> = tx_keys lib st env mss tx"
      unfolding tx_keys_def split_beta by (rule concat_map_if)
    finally show "map event_digest ys = tx_keys lib st env mss tx" .
  qed
  then show "map event_digest rows = checkpoint_keys lib st env mss cp"
    by (simp add: rs(2) comp_def event_row.truncate_def)
qed

lemma extracts_generated:
  assumes "\<And>lib st env dec cp. h lib st env dec cp = as_event_rows (process_handler lib st env ms (d dec) (m lib dec) cp)"
    and "\<And>lib dec. event_handler (m lib dec)" and "MODULE ms \<notin> set get_sui_modules"
  shows "extracts h [ms]"
proof (rule extractsI)
  show "h lib st env dec cp = as_event_rows (collect_result (\<lambda>tx. process_tx lib st env
      (process_event lib st env ms (d dec) (m lib dec) (from_checkpoint_tx lib cp tx)) tx) (transactions cp))" for lib st env dec cp
    by (simp add: assms(1) process_handler_def)
  show "if matches_any lib st env [ms] (event_type ev)
      then \<forall>rs. process_event lib st env ms (d dec) (m lib dec) (from_checkpoint_tx lib cp tx) (i, ev) = Inr rs \<longrightarrow>
        map event_digest rs = [event_key (digest_to_string lib (tx_effects_digest tx)) i]
      else process_event lib st env ms (d dec) (m lib dec) (from_checkpoint_tx lib cp tx) (i, ev) = Inr []"
    for lib st env dec cp tx i ev
    by (simp add: matches_any_def process_event_def event_handler.key [OF assms(2)] meta_event_digest_def
        with_index_def from_checkpoint_tx_def split: option.split)
qed (use assms(3) in simp)

section \<open>The structs of the pipelines\<close>

text \<open>The event structs that each pipeline extracts, in the order of the pipelines.\<close>

definition core_structs :: "MoveStruct list list" where
  "core_structs =
    [[BalanceManagerEvent_struct],
     [BalanceEvent_struct],
     [DeepBurned_struct],
     [DeepBookReferralCreatedEvent_struct],
     [DeepBookReferralSetEvent_struct],
     [FlashLoanBorrowed_struct],
     [OrderFilled_struct],
     [OrderPlaced_struct, OrderModified_struct, OrderCanceled_struct, OrderExpired_struct],
     [PriceAdded_struct],
     [ProposalEvent_struct],
     [RebateEvent_struct],
     [ReferralFeeEvent_struct],
     [StakeEvent_struct],
     [TradeParamsUpdateEvent_struct],
     [VoteEvent_struct],
     [PoolCreated_struct],
     [BookParamsUpdated_struct],
     [ReferralClaimed_struct],
     [EWMAUpdate_struct],
     [TakerFeePenaltyApplied_struct]]"

definition margin_structs :: "MoveStruct list list" where
  "margin_structs =
    [[MarginManagerCreatedEvent_struct],
     [LoanBorrowedEvent_struct],
     [LoanRepaidEvent_struct],
     [LiquidationEvent_struct],
     [AssetSupplied_struct],
     [AssetWithdrawn_struct],
     [MarginPoolCreated_struct],
     [DeepbookPoolUpdated_struct],
     [InterestParamsUpdated_struct],
     [MarginPoolConfigUpdated_struct],
     [MaintainerCapUpdated_struct],
     [DeepbookPoolRegistered_struct],
     [DeepbookPoolUpdatedRegistry_struct],
     [DeepbookPoolConfigUpdated_struct],
     [MaintainerFeesWithdrawn_struct],
     [ProtocolFeesWithdrawn_struct],
     [SupplierCapMinted_struct],
     [SupplyReferralMinted_struct],
     [PauseCapUpdated_struct],
     [ProtocolFeesIncreasedEvent_struct],
     [ReferralFeesClaimedEvent_struct],
     [DepositCollateralEvent_struct],
     [WithdrawCollateralEvent_struct],
     [ConditionalOrderAdded_struct],
     [ConditionalOrderCancelled_struct],
     [ConditionalOrderExecuted_struct],
     [ConditionalOrderInsufficientFunds_struct]]"

lemmas generated_process_defs =
  BalanceManagerEventHandler_process_def BalancesHandler_process_def
  DeepBookReferralCreatedEventHandler_process_def DeepBookReferralSetEventHandler_process_def
  FlashLoanHandler_process_def OrderFillHandler_process_def PoolPriceHandler_process_def
  ProposalsHandler_process_def RebatesHandler_process_def ReferralFeeEventHandler_process_def
  StakesHandler_process_def VotesHandler_process_def BookParamsUpdatedHandler_process_def
  ReferralClaimedHandler_process_def EwmaUpdateHandler_process_def TakerFeePenaltyHandler_process_def
  MarginManagerCreatedHandler_process_def LoanBorrowedHandler_process_def LoanRepaidHandler_process_def
  LiquidationHandler_process_def AssetSuppliedHandler_process_def AssetWithdrawnHandler_process_def
  MarginPoolCreatedHandler_process_def DeepbookPoolUpdatedHandler_process_def
  InterestParamsUpdatedHandler_process_def MarginPoolConfigUpdatedHandler_process_def
  MaintainerCapUpdatedHandler_process_def DeepbookPoolRegisteredHandler_process_def
  DeepbookPoolUpdatedRegistryHandler_process_def DeepbookPoolConfigUpdatedHandler_process_def
  MaintainerFeesWithdrawnHandler_process_def ProtocolFeesWithdrawnHandler_process_def
  SupplierCapMintedHandler_process_def SupplyReferralMintedHandler_process_def
  PauseCapUpdatedHandler_process_def ProtocolFeesIncreasedHandler_process_def
  ReferralFeesClaimedHandler_process_def DepositCollateralHandler_process_def
  WithdrawCollateralHandler_process_def ConditionalOrderAddedHandler_process_def
  ConditionalOrderCancelledHandler_process_def ConditionalOrderExecutedHandler_process_def
  ConditionalOrderInsufficientFundsHandler_process_def

lemmas generated_handlers =
  balance_manager_event_handler.event_handler_axioms balances_handler.event_handler_axioms
  deep_book_referral_created_event_handler.event_handler_axioms
  deep_book_referral_set_event_handler.event_handler_axioms flash_loan_handler.event_handler_axioms
  order_fill_handler.event_handler_axioms pool_price_handler.event_handler_axioms
  proposals_handler.event_handler_axioms rebates_handler.event_handler_axioms
  referral_fee_event_handler.event_handler_axioms stakes_handler.event_handler_axioms
  votes_handler.event_handler_axioms book_params_updated_handler.event_handler_axioms
  referral_claimed_handler.event_handler_axioms ewma_update_handler.event_handler_axioms
  taker_fee_penalty_handler.event_handler_axioms margin_manager_created_handler.event_handler_axioms
  loan_borrowed_handler.event_handler_axioms loan_repaid_handler.event_handler_axioms
  liquidation_handler.event_handler_axioms asset_supplied_handler.event_handler_axioms
  asset_withdrawn_handler.event_handler_axioms margin_pool_created_handler.event_handler_axioms
  deepbook_pool_updated_handler.event_handler_axioms
  interest_params_updated_handler.event_handler_axioms
  margin_pool_config_updated_handler.event_handler_axioms
  maintainer_cap_updated_handler.event_handler_axioms
  deepbook_pool_registered_handler.event_handler_axioms
  deepbook_pool_updated_registry_handler.event_handler_axioms
  deepbook_pool_config_updated_handler.event_handler_axioms
  maintainer_fees_withdrawn_handler.event_handler_axioms
  protocol_fees_withdrawn_handler.event_handler_axioms supplier_cap_minted_handler.event_handler_axioms
  supply_referral_minted_handler.event_handler_axioms pause_cap_updated_handler.event_handler_axioms
  protocol_fees_increased_handler.event_handler_axioms
  referral_fees_claimed_handler.event_handler_axioms deposit_collateral_handler.event_handler_axioms
  withdraw_collateral_handler.event_handler_axioms conditional_order_added_handler.event_handler_axioms
  conditional_order_cancelled_handler.event_handler_axioms
  conditional_order_executed_handler.event_handler_axioms
  conditional_order_insufficient_funds_handler.event_handler_axioms

lemma not_sui_modules:
  "list_all (\<lambda>ms. MODULE ms \<notin> set get_sui_modules) (concat core_structs @ concat margin_structs)"
  by code_simp

lemma extracts_order_update:
  "extracts (\<lambda>lib st env d cp. as_event_rows (OrderUpdateHandler_process lib st env (bcs_order_update d) cp))
     [OrderPlaced_struct, OrderModified_struct, OrderCanceled_struct, OrderExpired_struct]"
  unfolding OrderUpdateHandler_process_def
  by (rule extractsI, rule refl, use not_sui_modules in \<open>simp add: core_structs_def\<close>)
    (auto simp: matches_any_def process_order_event_def push_event_def order_metadata_def process_order_placed_def
      process_order_modified_def process_order_canceled_def process_order_expired_def split: option.splits)

lemma extracts_deep_burned:
  "extracts (\<lambda>lib st env d cp. as_event_rows (DeepBurnedHandler_process lib st env (bcs_DeepBurned d) cp)) [DeepBurned_struct]"
  unfolding DeepBurnedHandler_process_def
  by (rule extractsI, rule refl, use not_sui_modules in \<open>simp add: core_structs_def\<close>)
    (auto simp: matches_any_def push_event_def DeepBurnedHandler_row_def split: option.splits)

lemma extracts_pool_created:
  "extracts (\<lambda>lib st env d cp. as_event_rows (PoolCreatedHandler_process lib st env (bcs_PoolCreated d) cp)) [PoolCreated_struct]"
  unfolding PoolCreatedHandler_process_def
  by (rule extractsI, rule refl, use not_sui_modules in \<open>simp add: core_structs_def\<close>)
    (auto simp: matches_any_def push_event_def PoolCreatedHandler_row_def split: option.splits)

lemma package_addresses_some:
  "parsers_agree lib \<Longrightarrow> full_packages st env \<Longrightarrow> \<exists>as. package_addresses (account_address_from_str lib) st env = Some as"
  by (rule package_addresses_full) auto

lemma extracts_trade_params:
  "extracts (\<lambda>lib st env d cp. as_event_rows (TradeParamsUpdateHandler_process lib st env (bcs_TradeParamsUpdateEvent d) cp))
     [TradeParamsUpdateEvent_struct]"
  unfolding TradeParamsUpdateHandler_process_def
  by (rule extractsI, rule refl, use not_sui_modules in \<open>simp add: core_structs_def\<close>, drule (1) package_addresses_some)
    (auto simp: matches_any_def push_event_def TradeParamsUpdateHandler_row_def split: option.splits)

lemmas extracts_by_hand = extracts_order_update extracts_deep_burned extracts_pool_created extracts_trade_params

lemma core_extracts: "list_all2 extracts (map snd core_pipelines) core_structs"
  unfolding core_pipelines_def core_structs_def list.map snd_conv list.rel_inject
  by (intro conjI extracts_by_hand list.rel_intros;
      rule extracts_generated, unfold generated_process_defs, rule refl, rule generated_handlers,
      use not_sui_modules in \<open>simp add: core_structs_def\<close>)

lemma margin_extracts: "list_all2 extracts (map snd margin_pipelines) margin_structs"
  unfolding margin_pipelines_def margin_structs_def list.map snd_conv list.rel_inject
  by (intro conjI extracts_by_hand list.rel_intros;
      rule extracts_generated, unfold generated_process_defs, rule refl, rule generated_handlers,
      use not_sui_modules in \<open>simp add: margin_structs_def\<close>)

fun package_structs :: "Package \<Rightarrow> MoveStruct list list" where
  "package_structs Deepbook = core_structs"
| "package_structs DeepbookMargin = margin_structs"

lemma registered_extracts:
  "list_all2 extracts (map snd (registered_pipelines packages)) (concat (map package_structs packages))"
proof (induction packages)
  case (Cons p packages)
  then show ?case
    by (cases p) (simp_all add: registered_pipelines_def list_all2_appendI core_extracts margin_extracts)
qed (simp add: registered_pipelines_def)

section \<open>Properties\<close>

lemma pipeline_names_distinct: "distinct (map fst (core_pipelines @ margin_pipelines))"
  by (simp add: core_pipelines_def margin_pipelines_def)

text \<open>The events the indexer knows: the structs of \<^verbatim>\<open>models.rs\<close> in the modules of a package, but for the
  type \<open>SUI\<close> and the two structs that are nested in configuration events.\<close>

definition known_structs :: "Package list \<Rightarrow> MoveStruct list" where
  "known_structs packages = filter (\<lambda>ms. NAME ms \<notin> {''SUI'', ''RiskRatios'', ''PoolConfig''} \<and>
     (get_module_type (MODULE ms) = Core \<and> Deepbook \<in> set packages \<or>
      get_module_type (MODULE ms) = Margin \<and> DeepbookMargin \<in> set packages)) move_structs"

lemma struct_paths_distinct: "distinct (map struct_path (concat core_structs @ concat margin_structs))"
  by code_simp

lemma structs_known:
  "list_all (\<lambda>ms. NAME ms \<in> {''SUI'', ''RiskRatios'', ''PoolConfig''} \<or>
     (if get_module_type (MODULE ms) = Core then ms \<in> set (concat core_structs)
      else get_module_type (MODULE ms) = Margin \<and> ms \<in> set (concat margin_structs))) move_structs \<and>
   list_all (\<lambda>ms. ms \<in> set move_structs \<and> NAME ms \<notin> {''SUI'', ''RiskRatios'', ''PoolConfig''} \<and>
     get_module_type (MODULE ms) = Core) (concat core_structs) \<and>
   list_all (\<lambda>ms. ms \<in> set move_structs \<and> NAME ms \<notin> {''SUI'', ''RiskRatios'', ''PoolConfig''} \<and>
     get_module_type (MODULE ms) = Margin) (concat margin_structs)"
  by code_simp

lemma structs_of_packages:
  "set (concat (concat (map package_structs packages))) = set (known_structs packages)"
proof -
  have "set (concat (concat (map package_structs packages))) =
      {ms. ms \<in> set (concat core_structs) \<and> Deepbook \<in> set packages \<or>
           ms \<in> set (concat margin_structs) \<and> DeepbookMargin \<in> set packages}"
  proof (induction packages)
    case (Cons p packages)
    then show ?case by (cases p) auto
  qed simp
  also have "\<dots> = set (known_structs packages)"
    using structs_known by (auto simp: known_structs_def list_all_iff split: if_splits)
  finally show ?thesis .
qed

lemma packages_cases:
  assumes "distinct (packages :: Package list)"
  shows "packages \<in> {[], [Deepbook], [DeepbookMargin], [Deepbook, DeepbookMargin], [DeepbookMargin, Deepbook]}"
proof (cases packages)
  case p: (Cons p ps)
  show ?thesis
  proof (cases ps)
    case Nil
    with p show ?thesis by (cases p) simp_all
  next
    case q: (Cons q qs)
    show ?thesis
    proof (cases qs)
      case Nil
      with p q assms show ?thesis by (cases p; cases q) simp_all
    next
      case (Cons r rs)
      with p q assms show ?thesis by (cases p; cases q; cases r) simp_all
    qed
  qed
qed simp

lemma registered_names_distinct: "distinct packages \<Longrightarrow> distinct (map fst (registered_pipelines packages))"
  using packages_cases [of packages] pipeline_names_distinct
  by (simp, elim disjE) (simp_all add: registered_pipelines_def Int_commute)

lemma registered_paths_distinct:
  "distinct packages \<Longrightarrow> distinct (map struct_path (concat (concat (map package_structs packages))))"
  using packages_cases [of packages] struct_paths_distinct by (simp, elim disjE) (simp_all add: Int_commute)

lemma pipelines_keys:
  assumes "list_all2 extracts hs msss" and "parsers_agree lib" and "full_packages st env"
    and "\<forall>tx\<in>set (transactions cp). tx_digest tx = tx_effects_digest tx"
    and "map (\<lambda>h. h lib st env dec cp) hs = map Inr rowss"
  shows "map (map event_digest) rowss = map (\<lambda>mss. checkpoint_keys lib st env mss cp) msss"
  using assms(1,5)
proof (induction hs msss arbitrary: rowss rule: list_all2_induct)
  case (Cons h hs mss msss)
  then obtain rows rest where "rowss = rows # rest" "h lib st env dec cp = Inr rows"
    "map (\<lambda>h. h lib st env dec cp) hs = map Inr rest" by (cases rowss) auto
  with Cons assms(2-4) show ?case by (simp add: extracts_def)
qed simp

text \<open>C40: whatever packages the indexer runs with, each named once, its pipelines have distinct names, and together they miss
  no event and take none twice. For every checkpoint that all their handlers can process, the keys of
  the rows of all pipelines are, each as often, the keys of the events of the checkpoint of the known
  types: the types of \<^verbatim>\<open>models.rs\<close> in the modules of the packages, but for \<open>SUI\<close> and two structs nested
  in configuration events. It assumes that the package ids are full addresses, on which the parsers
  agree, and that the digest in the effects of a transaction is that of the transaction.\<close>

theorem registration_complete:
  assumes "distinct packages" and "parsers_agree lib" and "full_packages st env"
    and "\<forall>tx\<in>set (transactions cp). tx_digest tx = tx_effects_digest tx"
    and "map (\<lambda>(_, handler). handler lib st env dec cp) (registered_pipelines packages) = map Inr rowss"
  shows "distinct (map fst (registered_pipelines packages)) \<and>
    mset (concat (map (map event_digest) rowss)) = mset (checkpoint_keys lib st env (known_structs packages) cp)"
proof -
  let ?structs = "concat (map package_structs packages)"
  have "map (\<lambda>h. h lib st env dec cp) (map snd (registered_pipelines packages)) = map Inr rowss"
    using assms(5) by (simp add: comp_def case_prod_unfold)
  from pipelines_keys [OF registered_extracts assms(2-4) this]
  have "mset (concat (map (map event_digest) rowss)) = mset (checkpoint_keys lib st env (concat ?structs) cp)"
    by (simp only: checkpoint_keys_concat [OF registered_paths_distinct [OF assms(1)]])
  also have "checkpoint_keys lib st env (concat ?structs) cp = checkpoint_keys lib st env (known_structs packages) cp"
    by (rule checkpoint_keys_set [OF structs_of_packages])
  finally show ?thesis using registered_names_distinct [OF assms(1)] by blast
qed

definition example_decoders :: decoders where
  "example_decoders = \<lparr>bcs_BalanceManagerEvent = (\<lambda>_. None), bcs_BalanceEvent = (\<lambda>_. None),
     bcs_DeepBurned = (\<lambda>_. None), bcs_DeepBookReferralCreatedEvent = (\<lambda>_. None),
     bcs_DeepBookReferralSetEvent = (\<lambda>_. None), bcs_FlashLoanBorrowed = (\<lambda>_. None),
     bcs_OrderFilled = (\<lambda>_. None), bcs_order_update = example_order_decoders,
     bcs_PriceAdded = (\<lambda>_. None), bcs_ProposalEvent = (\<lambda>_. None),
     bcs_RebateEvent = (\<lambda>_. None), bcs_ReferralFeeEvent = (\<lambda>_. None),
     bcs_StakeEvent = (\<lambda>_. None), bcs_TradeParamsUpdateEvent = (\<lambda>_. None),
     bcs_VoteEvent = (\<lambda>_. None), bcs_PoolCreated = (\<lambda>_. None),
     bcs_BookParamsUpdated = (\<lambda>_. None), bcs_ReferralClaimed = (\<lambda>_. None),
     bcs_EWMAUpdate = (\<lambda>_. None), bcs_TakerFeePenaltyApplied = (\<lambda>_. None),
     bcs_MarginManagerCreatedEvent = (\<lambda>_. None), bcs_LoanBorrowedEvent = (\<lambda>_. None),
     bcs_LoanRepaidEvent = (\<lambda>_. None), bcs_LiquidationEvent = (\<lambda>_. None),
     bcs_AssetSupplied = (\<lambda>_. None), bcs_AssetWithdrawn = (\<lambda>_. None),
     bcs_MarginPoolCreated = (\<lambda>_. None), bcs_DeepbookPoolUpdated = (\<lambda>_. None),
     bcs_InterestParamsUpdated = (\<lambda>_. None),
     bcs_MarginPoolConfigUpdated = (\<lambda>_. None),
     bcs_MaintainerCapUpdated = (\<lambda>_. None), bcs_DeepbookPoolRegistered = (\<lambda>_. None),
     bcs_DeepbookPoolUpdatedRegistry = (\<lambda>_. None),
     bcs_DeepbookPoolConfigUpdated = (\<lambda>_. None),
     bcs_MaintainerFeesWithdrawn = (\<lambda>_. None),
     bcs_ProtocolFeesWithdrawn = (\<lambda>_. None), bcs_SupplierCapMinted = (\<lambda>_. None),
     bcs_SupplyReferralMinted = (\<lambda>_. None), bcs_PauseCapUpdated = (\<lambda>_. None),
     bcs_ProtocolFeesIncreasedEvent = (\<lambda>_. None),
     bcs_ReferralFeesClaimedEvent = (\<lambda>_. None),
     bcs_DepositCollateralEvent = (\<lambda>_. None),
     bcs_WithdrawCollateralEvent = (\<lambda>_. None),
     bcs_ConditionalOrderAdded = (\<lambda>_. None),
     bcs_ConditionalOrderCancelled = (\<lambda>_. None),
     bcs_ConditionalOrderExecuted = (\<lambda>_. None),
     bcs_ConditionalOrderInsufficientFunds = (\<lambda>_. None),
     json_InterestConfig = (\<lambda>_. JNull), json_MarginPoolConfig = (\<lambda>_. JNull),
     json_PoolConfig = (\<lambda>_. JNull), json_ProtocolConfig = (\<lambda>_. JNull)\<rparr>"

lemma example_processed:
  "list_all (\<lambda>(_, handler). case handler ref_lib example_sandbox Testnet example_decoders example_order_checkpoint of
       Inl _ \<Rightarrow> False | Inr _ \<Rightarrow> True) (registered_pipelines [Deepbook, DeepbookMargin])"
  by code_simp

theorem registration_complete_witness:
  "\<exists>rowss. map (\<lambda>(_, handler). handler ref_lib example_sandbox Testnet example_decoders example_order_checkpoint)
       (registered_pipelines [Deepbook, DeepbookMargin]) = map Inr rowss \<and>
     mset (concat (map (map event_digest) rowss)) = {#''10'', ''11''#}"
proof -
  let ?run = "\<lambda>(_, handler :: handler). handler ref_lib example_sandbox Testnet example_decoders example_order_checkpoint"
  have "?run p = Inr (projr (?run p))" if "p \<in> set (registered_pipelines [Deepbook, DeepbookMargin])" for p
  proof (cases p)
    case (Pair n h)
    with example_processed that have "case ?run p of Inl _ \<Rightarrow> False | Inr _ \<Rightarrow> True" unfolding list_all_iff by fast
    then show ?thesis by (auto split: sum.splits)
  qed
  then have "map ?run (registered_pipelines [Deepbook, DeepbookMargin]) =
      map Inr (map (projr \<circ> ?run) (registered_pipelines [Deepbook, DeepbookMargin]))"
    unfolding map_map by (intro map_cong) simp_all
  then obtain rowss where run: "map ?run (registered_pipelines [Deepbook, DeepbookMargin]) = map Inr rowss" by blast
  have d: "distinct [Deepbook, DeepbookMargin]" by simp
  have tx: "\<forall>tx\<in>set (transactions example_order_checkpoint). tx_digest tx = tx_effects_digest tx"
    by (simp add: example_order_checkpoint_def)
  have keys: "checkpoint_keys ref_lib example_sandbox Testnet (known_structs [Deepbook, DeepbookMargin]) example_order_checkpoint =
      [''10'', ''11'']" by code_simp
  have "mset (concat (map (map event_digest) rowss)) = {#''10'', ''11''#}"
    using registration_complete [OF d parsers_agree_ref_lib example_packages tx run] unfolding keys by simp
  with run show ?thesis by (intro exI conjI)
qed

end
