(* ===== verification/Admin.thy ===== *)
theory Admin
  imports Database
begin

text \<open>
  The administration of the server: the statements of \<^verbatim>\<open>crates/server/src/writer.rs\<close>, the
  authorization of \<^verbatim>\<open>admin/auth.rs\<close> with the tokens that \<open>AppState::new\<close> reads, and the handlers and
  routes of \<^verbatim>\<open>admin/handlers.rs\<close> and \<^verbatim>\<open>admin/routes.rs\<close>, as functions on \<open>admin_state\<close>: the tables,
  the number of connections the writer made and the state of the rate limiter. A statement is one
  atomic change of the tables.

  The rate limiter (crate \<^verbatim>\<open>governor\<close>) is the parameter \<open>check\<close>: whether an attempt is allowed, and its
  next state. The extraction of a JSON body (\<^verbatim>\<open>serde\<close>, \<^verbatim>\<open>axum::Json\<close>) are the parameters \<open>body_lib\<close>; an
  extraction that fails answers with a response of its own. The routes are those of \<^verbatim>\<open>axum\<close> 0.7, the version
  in the lock file: a path segment of a route that starts with a colon is a parameter, any other is
  literal. Paths are lists of decoded segments below \<^verbatim>\<open>/admin\<close>; \<open>HEAD\<close> and \<open>OPTIONS\<close> are not modelled.
\<close>

section \<open>Statements\<close>

record CreatePoolRequest =
  cp_pool_id :: string
  cp_pool_name :: string
  cp_base_asset_id :: string
  cp_base_asset_decimals :: i16
  cp_base_asset_symbol :: string
  cp_base_asset_name :: string
  cp_quote_asset_id :: string
  cp_quote_asset_decimals :: i16
  cp_quote_asset_symbol :: string
  cp_quote_asset_name :: string
  cp_min_size :: i64
  cp_lot_size :: i64
  cp_tick_size :: i64

record UpdatePoolRequest =
  up_pool_name :: "string option"
  up_min_size :: "i64 option"
  up_lot_size :: "i64 option"
  up_tick_size :: "i64 option"

record CreateAssetRequest =
  ca_asset_type :: string
  ca_name :: string
  ca_symbol :: string
  ca_decimals :: i16
  ca_ucid :: "i32 option"
  ca_package_id :: "string option"
  ca_package_address_url :: "string option"

text \<open>A statement returns the number of rows it affected and the new tables.\<close>

type_synonym statement = "database \<Rightarrow> string + nat \<times> database"

definition duplicate_key :: string where
  "duplicate_key = ''duplicate key value violates unique constraint''"

definition new_pool :: "CreatePoolRequest \<Rightarrow> Pools" where
  "new_pool req =
     \<lparr>pools_pool_id = cp_pool_id req,
      pools_pool_name = cp_pool_name req,
      pools_base_asset_id = cp_base_asset_id req,
      pools_base_asset_decimals = cp_base_asset_decimals req,
      pools_base_asset_symbol = cp_base_asset_symbol req,
      pools_base_asset_name = cp_base_asset_name req,
      pools_quote_asset_id = cp_quote_asset_id req,
      pools_quote_asset_decimals = cp_quote_asset_decimals req,
      pools_quote_asset_symbol = cp_quote_asset_symbol req,
      pools_quote_asset_name = cp_quote_asset_name req,
      pools_min_size = cp_min_size req,
      pools_lot_size = cp_lot_size req,
      pools_tick_size = cp_tick_size req\<rparr>"

definition new_asset :: "CreateAssetRequest \<Rightarrow> asset_row" where
  "new_asset req =
     \<lparr>assets_asset_type = ca_asset_type req,
      assets_name = ca_name req,
      assets_symbol = ca_symbol req,
      assets_decimals = ca_decimals req,
      assets_ucid = ca_ucid req,
      assets_package_id = ca_package_id req,
      assets_package_address_url = ca_package_address_url req\<rparr>"

definition insert_pool :: "CreatePoolRequest \<Rightarrow> statement" where
  "insert_pool req db =
     (if cp_pool_id req \<in> pools_pool_id ` set (tb_pools db) then Inl duplicate_key
      else Inr (1, db\<lparr>tb_pools := tb_pools db @ [new_pool req]\<rparr>))"

definition insert_asset :: "CreateAssetRequest \<Rightarrow> statement" where
  "insert_asset req db =
     (if ca_asset_type req \<in> assets_asset_type ` set (tb_assets db) then Inl duplicate_key
      else Inr (1, db\<lparr>tb_assets := tb_assets db @ [new_asset req]\<rparr>))"

text \<open>The changeset: a field that is \<open>None\<close> is not set; without any field diesel refuses the query.\<close>

definition set_opt :: "'a option \<Rightarrow> 'a \<Rightarrow> 'a" where "set_opt v old = (case v of None \<Rightarrow> old | Some x \<Rightarrow> x)"

definition change_pool :: "UpdatePoolRequest \<Rightarrow> Pools \<Rightarrow> Pools" where
  "change_pool req p =
     p\<lparr>pools_pool_name := set_opt (up_pool_name req) (pools_pool_name p),
       pools_min_size := set_opt (up_min_size req) (pools_min_size p),
       pools_lot_size := set_opt (up_lot_size req) (pools_lot_size p),
       pools_tick_size := set_opt (up_tick_size req) (pools_tick_size p)\<rparr>"

definition update_pools :: "string \<Rightarrow> UpdatePoolRequest \<Rightarrow> statement" where
  "update_pools i req db =
     (if up_pool_name req = None \<and> up_min_size req = None \<and> up_lot_size req = None \<and>
         up_tick_size req = None
      then Inl ''There are no changes to save. This query cannot be built''
      else Inr (length (filter (\<lambda>p. pools_pool_id p = i) (tb_pools db)),
        db\<lparr>tb_pools := map (\<lambda>p. if pools_pool_id p = i then change_pool req p else p) (tb_pools db)\<rparr>))"

definition delete_pools :: "string \<Rightarrow> statement" where
  "delete_pools i db =
     Inr (length (filter (\<lambda>p. pools_pool_id p = i) (tb_pools db)),
       db\<lparr>tb_pools := filter (\<lambda>p. pools_pool_id p \<noteq> i) (tb_pools db)\<rparr>)"

definition delete_assets :: "string \<Rightarrow> statement" where
  "delete_assets i db =
     Inr (length (filter (\<lambda>a. assets_asset_type a = i) (tb_assets db)),
       db\<lparr>tb_assets := filter (\<lambda>a. assets_asset_type a \<noteq> i) (tb_assets db)\<rparr>)"

section \<open>The writer\<close>

text \<open>What the writer's connections meet: the \<open>n\<close>-th connection or its statement may fail.\<close>

record write_env =
  write_connect_error :: "nat \<Rightarrow> string option"
  write_error :: "nat \<Rightarrow> string option"

record 'l admin_state =
  tables :: database
  write_connections :: nat
  limiter :: 'l

definition write_request ::
  "write_env \<Rightarrow> statement \<Rightarrow> 'l admin_state \<Rightarrow> (DeepBookError + nat) \<times> 'l admin_state" where
  "write_request env stmt st =
     (let n = write_connections st; st1 = st\<lparr>write_connections := n + 1\<rparr>
      in case write_connect_error env n of
           Some e \<Rightarrow> (Inl (database_error e), st1)
         | None \<Rightarrow>
             (case write_error env n of
                Some e \<Rightarrow> (Inl (from_diesel e), st1)
              | None \<Rightarrow>
                  (case stmt (tables st) of
                     Inl e \<Rightarrow> (Inl (from_diesel e), st1)
                   | Inr (rows_affected, db) \<Rightarrow> (Inr rows_affected, st1\<lparr>tables := db\<rparr>))))"

text \<open>\<open>if rows_affected == 0 { return Err(not_found(..)) }\<close>\<close>

definition require_rows ::
  "string \<Rightarrow> (DeepBookError + nat) \<times> 'l admin_state \<Rightarrow> (DeepBookError + unit) \<times> 'l admin_state" where
  "require_rows what = (\<lambda>(r, st).
     (case r of Inl e \<Rightarrow> Inl e | Inr n \<Rightarrow> if n = 0 then Inl (not_found what) else Inr (), st))"

definition writer_create_pool ::
  "write_env \<Rightarrow> CreatePoolRequest \<Rightarrow> 'l admin_state \<Rightarrow> (DeepBookError + unit) \<times> 'l admin_state" where
  "writer_create_pool env req st =
     (case write_request env (insert_pool req) st of (r, st') \<Rightarrow> (map_result (\<lambda>_. ()) r, st'))"

definition writer_update_pool ::
  "write_env \<Rightarrow> string \<Rightarrow> UpdatePoolRequest \<Rightarrow> 'l admin_state \<Rightarrow> (DeepBookError + unit) \<times> 'l admin_state" where
  "writer_update_pool env i req st =
     require_rows (''pool '' @ i) (write_request env (update_pools i req) st)"

definition writer_delete_pool ::
  "write_env \<Rightarrow> string \<Rightarrow> 'l admin_state \<Rightarrow> (DeepBookError + unit) \<times> 'l admin_state" where
  "writer_delete_pool env i st = require_rows (''pool '' @ i) (write_request env (delete_pools i) st)"

definition writer_create_asset ::
  "write_env \<Rightarrow> CreateAssetRequest \<Rightarrow> 'l admin_state \<Rightarrow> (DeepBookError + unit) \<times> 'l admin_state" where
  "writer_create_asset env req st =
     (case write_request env (insert_asset req) st of (r, st') \<Rightarrow> (map_result (\<lambda>_. ()) r, st'))"

definition writer_delete_asset ::
  "write_env \<Rightarrow> string \<Rightarrow> 'l admin_state \<Rightarrow> (DeepBookError + unit) \<times> 'l admin_state" where
  "writer_delete_asset env i st = require_rows (''asset '' @ i) (write_request env (delete_assets i) st)"

section \<open>Authorization\<close>

text \<open>The tokens of \<open>AppState::new\<close>: the non-empty entries of the comma-separated setting.\<close>

definition parse_admin_tokens :: "string option \<Rightarrow> string list" where
  "parse_admin_tokens setting =
     (case setting of
        None \<Rightarrow> []
      | Some s \<Rightarrow> filter (\<lambda>t. t \<noteq> []) (map trim (split_on (CHR '','') s)))"

definition is_valid_admin_token :: "string list \<Rightarrow> string \<Rightarrow> bool" where
  "is_valid_admin_token tokens token = list_ex (\<lambda>t. t = token) tokens"

type_synonym response = "nat \<times> string"

definition auth_failure_rate_limited ::
  "('l \<Rightarrow> bool \<times> 'l) \<Rightarrow> 'l admin_state \<Rightarrow> response \<times> 'l admin_state" where
  "auth_failure_rate_limited check st =
     (case check (limiter st) of (ok, l) \<Rightarrow> ((if ok then 401 else 429, ''''), st\<lparr>limiter := l\<rparr>))"

definition require_admin_auth ::
  "string list \<Rightarrow> ('l \<Rightarrow> bool \<times> 'l) \<Rightarrow> string option \<Rightarrow>
   ('l admin_state \<Rightarrow> response \<times> 'l admin_state) \<Rightarrow> 'l admin_state \<Rightarrow> response \<times> 'l admin_state" where
  "require_admin_auth tokens check auth_header handler st =
     (case auth_header of
        None \<Rightarrow> auth_failure_rate_limited check st
      | Some header \<Rightarrow>
          if starts_with header ''Bearer '' then
            (if is_valid_admin_token tokens (trim_start_matches ''Bearer '' header) then handler st
             else auth_failure_rate_limited check st)
          else auth_failure_rate_limited check st)"

section \<open>Handlers and routes\<close>

record body_lib =
  decode_create_pool :: "string \<Rightarrow> response + CreatePoolRequest"
  decode_update_pool :: "string \<Rightarrow> response + UpdatePoolRequest"
  decode_create_asset :: "string \<Rightarrow> response + CreateAssetRequest"

datatype http_method = GET | POST | PUT | DELETE | OTHER

datatype admin_handler = CreatePool | UpdatePool | DeletePool | CreateAsset | DeleteAsset

record admin_request =
  req_method :: http_method
  req_path :: "string list"
  req_authorization :: "string option"
  req_body :: string

definition admin_response :: "string \<Rightarrow> response" where
  "admin_response s = (200, ''{\"status\":\"'' @ s @ ''\"}'')"

definition respond ::
  "string \<Rightarrow> (DeepBookError + unit) \<times> 'l admin_state \<Rightarrow> response \<times> 'l admin_state" where
  "respond s = (\<lambda>(r, st). (case r of Inl e \<Rightarrow> into_response e | Inr _ \<Rightarrow> admin_response s, st))"

text \<open>\<open>Path(..)\<close> on a route with no parameter is an error of the server.\<close>

definition with_path ::
  "string list \<Rightarrow> (string \<Rightarrow> 'l admin_state \<Rightarrow> response \<times> 'l admin_state) \<Rightarrow>
   'l admin_state \<Rightarrow> response \<times> 'l admin_state" where
  "with_path path_args f st =
     (case path_args of [x] \<Rightarrow> f x st | _ \<Rightarrow> ((500, ''Wrong number of path arguments for `Path`''), st))"

definition with_body ::
  "response + 'a \<Rightarrow> ('a \<Rightarrow> 'l admin_state \<Rightarrow> response \<times> 'l admin_state) \<Rightarrow>
   'l admin_state \<Rightarrow> response \<times> 'l admin_state" where
  "with_body body f st = (case body of Inl r \<Rightarrow> (r, st) | Inr x \<Rightarrow> f x st)"

fun run_admin_handler ::
  "write_env \<Rightarrow> body_lib \<Rightarrow> admin_handler \<Rightarrow> string list \<Rightarrow> string \<Rightarrow> 'l admin_state \<Rightarrow>
   response \<times> 'l admin_state" where
  "run_admin_handler env lib CreatePool args body =
     with_body (decode_create_pool lib body) (\<lambda>p st. respond ''created'' (writer_create_pool env p st))"
| "run_admin_handler env lib UpdatePool args body =
     with_path args (\<lambda>i. with_body (decode_update_pool lib body)
       (\<lambda>p st. respond ''updated'' (writer_update_pool env i p st)))"
| "run_admin_handler env lib DeletePool args body =
     with_path args (\<lambda>i st. respond ''deleted'' (writer_delete_pool env i st))"
| "run_admin_handler env lib CreateAsset args body =
     with_body (decode_create_asset lib body) (\<lambda>p st. respond ''created'' (writer_create_asset env p st))"
| "run_admin_handler env lib DeleteAsset args body =
     with_path args (\<lambda>i st. respond ''deleted'' (writer_delete_asset env i st))"

text \<open>The match of a route: the values of its parameters.\<close>

fun match_segments :: "string list \<Rightarrow> string list \<Rightarrow> string list option" where
  "match_segments [] [] = Some []"
| "match_segments (p # ps) (x # xs) =
     (if starts_with p '':'' then (if x = [] then None else map_option ((#) x) (match_segments ps xs))
      else if p = x then match_segments ps xs else None)"
| "match_segments _ _ = None"

type_synonym 'h routes = "(string list \<times> (http_method \<times> 'h) list) list"

fun find_route :: "'h routes \<Rightarrow> string list \<Rightarrow> ((http_method \<times> 'h) list \<times> string list) option" where
  "find_route [] path = None"
| "find_route ((p, hs) # rs) path =
     (case match_segments p path of Some args \<Rightarrow> Some (hs, args) | None \<Rightarrow> find_route rs path)"

definition protected_routes :: "admin_handler routes" where
  "protected_routes =
     [([''pools''], [(POST, CreatePool)]),
      ([''pools'', ''{pool_id}''], [(PUT, UpdatePool), (DELETE, DeletePool)]),
      ([''assets''], [(POST, CreateAsset)]),
      ([''assets'', ''{asset_type}''], [(DELETE, DeleteAsset)])]"

text \<open>The authorization runs for every matched path, before the method is looked at.\<close>

definition admin_routes ::
  "write_env \<Rightarrow> body_lib \<Rightarrow> string list \<Rightarrow> ('l \<Rightarrow> bool \<times> 'l) \<Rightarrow> admin_request \<Rightarrow> 'l admin_state \<Rightarrow>
   response \<times> 'l admin_state" where
  "admin_routes env lib tokens check req st =
     (if req_path req = [''health''] then
        ((if req_method req = GET then (200, ''admin_ok'') else (405, '''')), st)
      else
        (case find_route protected_routes (req_path req) of
           None \<Rightarrow> ((404, ''''), st)
         | Some (hs, args) \<Rightarrow>
             require_admin_auth tokens check (req_authorization req)
               (\<lambda>st. case map_of hs (req_method req) of
                  None \<Rightarrow> ((405, ''''), st)
                | Some h \<Rightarrow> run_admin_handler env lib h args (req_body req) st) st))"

section \<open>The statements keep the primary keys\<close>

definition keys_unique :: "database \<Rightarrow> bool" where
  "keys_unique db \<longleftrightarrow> distinct (map pools_pool_id (tb_pools db)) \<and>
     distinct (map assets_asset_type (tb_assets db))"

lemmas statement_defs = insert_pool_def insert_asset_def update_pools_def delete_pools_def delete_assets_def

lemma change_pool_id [simp]: "pools_pool_id (change_pool req p) = pools_pool_id p"
  by (simp add: change_pool_def)

lemma statement_keys:
  assumes "stmt = insert_pool cp \<or> stmt = insert_asset ca \<or> stmt = update_pools i up \<or>
      stmt = delete_pools i \<or> stmt = delete_assets i"
    and "keys_unique db" and "stmt db = Inr (n, db')"
  shows "keys_unique db'"
proof -
  have "map pools_pool_id (map (\<lambda>p. if pools_pool_id p = i then change_pool up p else p) ps) =
      map pools_pool_id ps" for ps
    by simp
  with assms show ?thesis
    by (auto simp: statement_defs keys_unique_def new_pool_def new_asset_def distinct_map_filter comp_def
        simp del: map_map split: if_splits)
qed

section \<open>Properties\<close>

text \<open>The tables as maps from the primary keys, and the behaviour of the statements on them.\<close>

definition pools_map :: "database \<Rightarrow> string \<rightharpoonup> Pools" where
  "pools_map db = map_of (map (\<lambda>p. (pools_pool_id p, p)) (tb_pools db))"

lemma pools_map_Some:
  "keys_unique db \<Longrightarrow> pools_map db i = Some p \<longleftrightarrow> p \<in> set (tb_pools db) \<and> pools_pool_id p = i"
  by (auto simp: pools_map_def keys_unique_def comp_def)

lemma pools_map_None: "pools_map db i = None \<longleftrightarrow> i \<notin> pools_pool_id ` set (tb_pools db)"
  by (simp add: pools_map_def map_of_eq_None_iff image_image)

lemma pools_map_append:
  assumes "pools_map db (pools_pool_id p) = None"
  shows "pools_map (db\<lparr>tb_pools := tb_pools db @ [p]\<rparr>) = (pools_map db)(pools_pool_id p \<mapsto> p)"
proof
  fix k
  show "pools_map (db\<lparr>tb_pools := tb_pools db @ [p]\<rparr>) k = ((pools_map db)(pools_pool_id p \<mapsto> p)) k"
    using assms by (auto simp: pools_map_def map_add_def split: option.split)
qed

lemma pools_map_update:
  "pools_map (db\<lparr>tb_pools := map (\<lambda>p. if pools_pool_id p = i then change_pool req p else p) (tb_pools db)\<rparr>) k =
     (if k = i then map_option (change_pool req) (pools_map db k) else pools_map db k)"
proof -
  have "map_of (map (\<lambda>p. (pools_pool_id p, p)) (map (\<lambda>p. if pools_pool_id p = i then change_pool req p else p) ps)) k =
      (if k = i then map_option (change_pool req) (map_of (map (\<lambda>p. (pools_pool_id p, p)) ps) k)
       else map_of (map (\<lambda>p. (pools_pool_id p, p)) ps) k)" for ps
    by (induction ps) auto
  then show ?thesis by (simp add: pools_map_def del: map_map)
qed

lemma map_of_filter_id:
  "map_of (map (\<lambda>p. (pools_pool_id p, p)) (filter (\<lambda>p. pools_pool_id p \<noteq> i) ps)) k =
     (if k = i then None else map_of (map (\<lambda>p. (pools_pool_id p, p)) ps) k)"
  by (induction ps) auto

lemma pools_map_delete:
  "pools_map (db\<lparr>tb_pools := filter (\<lambda>p. pools_pool_id p \<noteq> i) (tb_pools db)\<rparr>) = (pools_map db)(i := None)"
  by (rule ext) (simp add: pools_map_def map_of_filter_id)

lemma count_by_id:
  "length (filter (\<lambda>p. pools_pool_id p = i) (tb_pools db)) = 0 \<longleftrightarrow> pools_map db i = None"
  by (auto simp: pools_map_None filter_empty_conv)

definition no_faults :: "write_env \<Rightarrow> 'l admin_state \<Rightarrow> bool" where
  "no_faults env st \<longleftrightarrow> write_connect_error env (write_connections st) = None \<and>
     write_error env (write_connections st) = None"

lemma write_request_no_faults:
  "no_faults env st \<Longrightarrow> write_request env stmt st = (case stmt (tables st) of
      Inl e \<Rightarrow> (Inl (from_diesel e), st\<lparr>write_connections := write_connections st + 1\<rparr>)
    | Inr (n, db) \<Rightarrow> (Inr n, st\<lparr>write_connections := write_connections st + 1, tables := db\<rparr>))"
  by (simp add: no_faults_def write_request_def Let_def split: sum.split)

lemma writer_create_pool_map:
  assumes "no_faults env st"
  shows "if pools_map (tables st) (cp_pool_id cp) = None
     then fst (writer_create_pool env cp st) = Inr () \<and>
       pools_map (tables (snd (writer_create_pool env cp st))) =
         (pools_map (tables st))(cp_pool_id cp \<mapsto> new_pool cp)
     else fst (writer_create_pool env cp st) = Inl (Database duplicate_key) \<and>
       tables (snd (writer_create_pool env cp st)) = tables st"
proof -
  have new: "pools_pool_id (new_pool cp) = cp_pool_id cp" by (simp add: new_pool_def)
  show ?thesis
    using pools_map_append [of "tables st" "new_pool cp"] pools_map_None [of "tables st" "cp_pool_id cp"]
    by (auto simp: writer_create_pool_def write_request_no_faults [OF assms] insert_pool_def from_diesel_def new)
qed

lemma writer_update_pool_map:
  assumes "no_faults env st" and "up \<noteq> \<lparr>up_pool_name = None, up_min_size = None, up_lot_size = None, up_tick_size = None\<rparr>"
  shows "case pools_map (tables st) i of
       None \<Rightarrow> fst (writer_update_pool env i up st) = Inl (NotFound (''pool '' @ i)) \<and>
         pools_map (tables (snd (writer_update_pool env i up st))) = pools_map (tables st)
     | Some p \<Rightarrow> fst (writer_update_pool env i up st) = Inr () \<and>
         pools_map (tables (snd (writer_update_pool env i up st))) = (pools_map (tables st))(i \<mapsto> change_pool up p)"
proof -
  let ?db = "tables st"
  have "\<not> (up_pool_name up = None \<and> up_min_size up = None \<and> up_lot_size up = None \<and> up_tick_size up = None)"
    using assms(2) by (cases up) auto
  then have up: "update_pools i up ?db = Inr (length (filter (\<lambda>p. pools_pool_id p = i) (tb_pools ?db)),
      ?db\<lparr>tb_pools := map (\<lambda>p. if pools_pool_id p = i then change_pool up p else p) (tb_pools ?db)\<rparr>)"
    unfolding update_pools_def by (simp only: if_False)
  have upd: "pools_map (?db\<lparr>tb_pools := map (\<lambda>p. if pools_pool_id p = i then change_pool up p else p) (tb_pools ?db)\<rparr>) =
      (case pools_map ?db i of None \<Rightarrow> pools_map ?db | Some p \<Rightarrow> (pools_map ?db)(i \<mapsto> change_pool up p))"
    by (rule ext) (auto simp: pools_map_update split: option.split)
  show ?thesis
    using count_by_id [of i ?db] upd
    by (simp add: writer_update_pool_def write_request_no_faults [OF assms(1)] up require_rows_def
        not_found_def split: option.split)
qed

lemma writer_delete_pool_map:
  assumes "no_faults env st"
  shows "fst (writer_delete_pool env i st) =
      (if pools_map (tables st) i = None then Inl (NotFound (''pool '' @ i)) else Inr ()) \<and>
    pools_map (tables (snd (writer_delete_pool env i st))) = (pools_map (tables st))(i := None)"
  using count_by_id [of i "tables st"]
  by (simp add: writer_delete_pool_def write_request_no_faults [OF assms] delete_pools_def require_rows_def
      not_found_def pools_map_delete)

text \<open>C11: on working connections the writer implements a map from pool ids to pools: creating a pool
  fails, changing nothing, exactly if its id is taken, and otherwise adds just that pool; an update
  that sets something changes just the fields it sets of just that pool; a deletion removes just that
  pool; an update or deletion of an absent pool is answered with not found and changes nothing.\<close>

theorem writer_refines_map:
  assumes "no_faults env st"
    and "up \<noteq> \<lparr>up_pool_name = None, up_min_size = None, up_lot_size = None, up_tick_size = None\<rparr>"
  shows "(case writer_create_pool env cp st of (r, st') \<Rightarrow>
       if pools_map (tables st) (cp_pool_id cp) = None
       then r = Inr () \<and> pools_map (tables st') = (pools_map (tables st))(cp_pool_id cp \<mapsto> new_pool cp)
       else r = Inl (Database duplicate_key) \<and> tables st' = tables st) \<and>
    (case writer_update_pool env i up st of (r, st') \<Rightarrow>
       (case pools_map (tables st) i of
          None \<Rightarrow> r = Inl (NotFound (''pool '' @ i)) \<and> pools_map (tables st') = pools_map (tables st)
        | Some p \<Rightarrow> r = Inr () \<and> pools_map (tables st') = (pools_map (tables st))(i \<mapsto> change_pool up p))) \<and>
    (case writer_delete_pool env i st of (r, st') \<Rightarrow>
       r = (if pools_map (tables st) i = None then Inl (NotFound (''pool '' @ i)) else Inr ()) \<and>
       pools_map (tables st') = (pools_map (tables st))(i := None))"
  using writer_create_pool_map [OF assms(1), of cp] writer_update_pool_map [OF assms, of i]
    writer_delete_pool_map [OF assms(1), of i]
  by (simp only: split_beta)

definition example_create :: CreatePoolRequest where
  "example_create = \<lparr>cp_pool_id = ''0x1'', cp_pool_name = ''SUI_USDC'', cp_base_asset_id = ''b'',
     cp_base_asset_decimals = 9, cp_base_asset_symbol = ''SUI'', cp_base_asset_name = ''Sui'',
     cp_quote_asset_id = ''q'', cp_quote_asset_decimals = 6, cp_quote_asset_symbol = ''USDC'',
     cp_quote_asset_name = ''USDC'', cp_min_size = 1, cp_lot_size = 1, cp_tick_size = 1\<rparr>"

definition example_admin :: "nat admin_state" where
  "example_admin = \<lparr>tables = empty_database, write_connections = 0, limiter = 10\<rparr>"

definition no_write_errors :: write_env where
  "no_write_errors = \<lparr>write_connect_error = (\<lambda>_. None), write_error = (\<lambda>_. None)\<rparr>"

theorem writer_refines_map_witness:
  "pools_map (tables (snd (writer_create_pool no_write_errors example_create example_admin))) ''0x1'' =
     Some (new_pool example_create)"
proof -
  have "no_faults no_write_errors example_admin" by (simp add: no_faults_def no_write_errors_def)
  from writer_refines_map [OF this, of "\<lparr>up_pool_name = None, up_min_size = Some 1, up_lot_size = None, up_tick_size = None\<rparr>"
      example_create "''0x1''"]
  show ?thesis
    by (auto simp: pools_map_def example_admin_def empty_database_def example_create_def split_beta)
qed

section \<open>Who may change the tables\<close>

definition authorized :: "string list \<Rightarrow> admin_request \<Rightarrow> bool" where
  "authorized tokens req \<longleftrightarrow> (\<exists>header. req_authorization req = Some header \<and>
     starts_with header ''Bearer '' \<and> trim_start_matches ''Bearer '' header \<in> set tokens)"

lemma is_valid_admin_token_iff: "is_valid_admin_token tokens t \<longleftrightarrow> t \<in> set tokens"
  by (auto simp: is_valid_admin_token_def list_ex_iff)

lemma require_admin_auth_cases:
  "require_admin_auth tokens check (req_authorization req) handler st =
     (if authorized tokens req then handler st else auth_failure_rate_limited check st)"
  by (auto simp: require_admin_auth_def authorized_def is_valid_admin_token_iff split: option.split)

lemma write_request_limiter: "limiter (snd (write_request env stmt st)) = limiter st"
  by (simp add: write_request_def Let_def split: option.split sum.split)

lemma snd_require_rows [simp]: "snd (require_rows what x) = snd x"
  by (simp add: require_rows_def split_beta)

lemma snd_respond [simp]: "snd (respond what x) = snd x"
  by (simp add: respond_def split_beta)

lemmas writer_defs = writer_create_pool_def writer_update_pool_def writer_delete_pool_def
  writer_create_asset_def writer_delete_asset_def

lemma run_admin_handler_limiter:
  "limiter (snd (run_admin_handler env lib h args body st)) = limiter st"
  by (cases h) (simp_all add: with_body_def with_path_def writer_defs write_request_limiter split_beta
      split: sum.split list.split)

lemma admin_unauthorized:
  "admin_routes env lib tokens check req st = (resp, st') \<Longrightarrow> \<not> authorized tokens req \<Longrightarrow>
     tables st' = tables st \<and> write_connections st' = write_connections st"
  by (auto simp: admin_routes_def require_admin_auth_cases auth_failure_rate_limited_def
      split: if_splits option.splits prod.splits)

text \<open>C13: only a request that carries one of the configured tokens reaches a handler: any other
  request leaves the tables and the writer as they are and is answered with 401, or 429 when the
  limiter refuses the attempt, unless it is the health check or no route; and a request that is
  authorized does not use up the limiter.\<close>

theorem admin_auth_required:
  assumes "admin_routes env lib tokens check req st = (resp, st')"
  shows "if authorized tokens req then limiter st' = limiter st
    else tables st' = tables st \<and> write_connections st' = write_connections st \<and>
      (req_path req = [''health''] \<or> find_route protected_routes (req_path req) = None \<or>
       (limiter st' = snd (check (limiter st)) \<and>
        fst resp = (if fst (check (limiter st)) then 401 else 429)))"
proof (cases "req_path req = [''health''] \<or> find_route protected_routes (req_path req) = None")
  case True
  then have "st' = st" using assms by (simp add: admin_routes_def split: if_splits)
  with True show ?thesis by auto
next
  case False
  then obtain hs args where route: "find_route protected_routes (req_path req) = Some (hs, args)" by force
  with False have r: "admin_routes env lib tokens check req st =
      (if authorized tokens req then
         (case map_of hs (req_method req) of
            None \<Rightarrow> ((405, ''''), st)
          | Some h \<Rightarrow> run_admin_handler env lib h args (req_body req) st)
       else auth_failure_rate_limited check st)"
    by (simp add: admin_routes_def require_admin_auth_cases)
  show ?thesis
  proof (cases "authorized tokens req")
    case True
    with assms r show ?thesis
      using run_admin_handler_limiter [of env lib _ args "req_body req" st]
      by (auto split: option.splits) (metis snd_conv)
  next
    case auth: False
    with assms r False show ?thesis by (auto simp: auth_failure_rate_limited_def split: prod.splits)
  qed
qed

text \<open>A decoder of bodies that accepts one pool, and a limiter that counts down, for the examples.\<close>

definition example_bodies :: body_lib where
  "example_bodies = \<lparr>decode_create_pool = (\<lambda>_. Inr example_create),
     decode_update_pool = (\<lambda>_. Inl (400, '''')), decode_create_asset = (\<lambda>_. Inl (400, ''''))\<rparr>"

definition count_down :: "nat \<Rightarrow> bool \<times> nat" where "count_down n = (0 < n, n - 1)"

definition example_request :: "string \<Rightarrow> admin_request" where
  "example_request token = \<lparr>req_method = POST, req_path = [''pools''],
     req_authorization = Some (''Bearer '' @ token), req_body = ''''\<rparr>"

lemma trim_bearer: "trim_start_matches ''Bearer '' (''Bearer '' @ t) = trim_start_matches ''Bearer '' t"
  by (subst trim_start_matches.simps) simp

lemma trim_bearer_other: "\<not> starts_with t ''Bearer '' \<Longrightarrow> trim_start_matches ''Bearer '' t = t"
  by (subst trim_start_matches.simps) simp

theorem admin_auth_required_witness:
  "fst (fst (admin_routes no_write_errors example_bodies [''secret''] count_down (example_request ''guess'')
     example_admin)) = 401"
proof -
  obtain resp st' where r: "admin_routes no_write_errors example_bodies [''secret''] count_down
      (example_request ''guess'') example_admin = (resp, st')" by (metis surj_pair)
  have "\<not> authorized [''secret''] (example_request ''guess'')"
    by (simp add: authorized_def example_request_def trim_bearer [simplified] trim_bearer_other)
  moreover have "find_route protected_routes (req_path (example_request ''guess'')) \<noteq> None"
    by (simp add: protected_routes_def example_request_def)
  moreover have "req_path (example_request ''guess'') \<noteq> [''health'']" by (simp add: example_request_def)
  ultimately have "fst resp = (if fst (count_down (limiter example_admin)) then 401 else 429)"
    using admin_auth_required [OF r] by argo
  then show ?thesis unfolding r by (simp add: count_down_def example_admin_def)
qed

text \<open>C32: the tokens are read from their setting as they were written into it: a comma-separated list
  of tokens that are not empty and have no comma and no surrounding space. A request that presents
  one of them is authorized, unless the token itself starts with \<open>Bearer\<close> and a space: the header is
  stripped of that prefix as often as it occurs, so no request can present such a token.\<close>

theorem admin_token_roundtrip:
  assumes "\<forall>t\<in>set ts. t \<noteq> [] \<and> CHR '','' \<notin> set t \<and> trim t = t" and "ts \<noteq> []"
  shows "parse_admin_tokens (Some (join '','' ts)) = ts \<and>
    (req_authorization req = Some (''Bearer '' @ t) \<longrightarrow>
       (authorized (parse_admin_tokens (Some (join '','' ts))) req \<longleftrightarrow>
          trim_start_matches ''Bearer '' t \<in> set ts)) \<and>
    (\<forall>u. starts_with u ''Bearer '' \<longrightarrow> \<not> authorized [u] req)"
proof (intro conjI allI impI)
  have "map trim ts = ts" "filter (\<lambda>t. t \<noteq> []) ts = ts"
    using assms(1) by (auto intro: map_idI simp: filter_id_conv)
  then show tokens: "parse_admin_tokens (Some (join '','' ts)) = ts"
    using assms by (simp add: parse_admin_tokens_def split_on_join)
  show "authorized (parse_admin_tokens (Some (join '','' ts))) req \<longleftrightarrow> trim_start_matches ''Bearer '' t \<in> set ts"
    if "req_authorization req = Some (''Bearer '' @ t)"
    unfolding tokens using that trim_bearer [of t] by (auto simp: authorized_def)
  show "\<not> authorized [u] req" if "starts_with u ''Bearer ''" for u
    using that trim_start_matches_not_prefix [of "''Bearer ''"] by (auto simp: authorized_def)
qed

theorem admin_token_roundtrip_witness:
  "parse_admin_tokens (Some ''abc,def'') = [''abc'', ''def'']"
proof -
  have "\<forall>t\<in>set [''abc'', ''def'']. t \<noteq> [] \<and> CHR '','' \<notin> set t \<and> trim t = t" by code_simp
  from admin_token_roundtrip [OF this] show ?thesis by simp
qed

section \<open>What an administrator can do\<close>

text \<open>In \<^verbatim>\<open>axum\<close> 0.7 the braces of the routes with an id are literal, so no route has a parameter.\<close>

lemma protected_routes_no_args:
  "find_route protected_routes path = Some (hs, args) \<Longrightarrow> args = []"
proof -
  have lit: "match_segments ps xs = Some args \<Longrightarrow> \<forall>p\<in>set ps. \<not> starts_with p '':'' \<Longrightarrow> args = []" for ps xs args
    by (induction ps xs arbitrary: args rule: match_segments.induct) (auto split: if_splits)
  have "find_route rs path = Some (hs, args) \<Longrightarrow> \<forall>(ps, _)\<in>set rs. \<forall>p\<in>set ps. \<not> starts_with p '':'' \<Longrightarrow> args = []"
    for rs :: "admin_handler routes"
    by (induction rs) (auto split: option.splits dest: lit)
  moreover assume "find_route protected_routes path = Some (hs, args)"
  moreover have "\<forall>(ps, _)\<in>set protected_routes. \<forall>p\<in>set ps. \<not> starts_with p '':''" by (simp add: protected_routes_def)
  ultimately show ?thesis by blast
qed

definition only_adds :: "database \<Rightarrow> database \<Rightarrow> bool" where
  "only_adds db db' \<longleftrightarrow>
     (\<exists>ps as. db' = db\<lparr>tb_pools := tb_pools db @ ps, tb_assets := tb_assets db @ as\<rparr>) \<and>
     (keys_unique db \<longrightarrow> keys_unique db')"

lemma only_addsI:
  "db' = db\<lparr>tb_pools := tb_pools db @ ps, tb_assets := tb_assets db @ as\<rparr> \<Longrightarrow>
   (keys_unique db \<Longrightarrow> keys_unique db') \<Longrightarrow> only_adds db db'"
  by (auto simp: only_adds_def)

lemma only_adds_refl [simp]: "only_adds db db"
  by (rule only_addsI [where ps = "[]" and as = "[]"]) simp_all

lemma only_adds_trans: "only_adds db db' \<Longrightarrow> only_adds db' db'' \<Longrightarrow> only_adds db db''"
  by (auto simp: only_adds_def) (metis append_assoc)+

lemma write_request_only_adds:
  assumes "stmt = insert_pool cp \<or> stmt = insert_asset ca"
  shows "only_adds (tables st) (tables (snd (write_request env stmt st)))"
proof -
  have "only_adds (tables st) db'" if "stmt (tables st) = Inr (n, db')" for n db'
  proof (rule disjE [OF assms])
    assume s: "stmt = insert_pool cp"
    then show ?thesis using that statement_keys [of stmt cp ca _ _ "tables st" n db']
      by (intro only_addsI [where ps = "[new_pool cp]" and as = "[]"]) (auto simp: insert_pool_def split: if_splits)
  next
    assume s: "stmt = insert_asset ca"
    then show ?thesis using that statement_keys [of stmt cp ca _ _ "tables st" n db']
      by (intro only_addsI [where ps = "[]" and as = "[new_asset ca]"]) (auto simp: insert_asset_def split: if_splits)
  qed
  then show ?thesis
    by (auto simp: write_request_def Let_def split: option.split sum.split prod.split)
qed

lemma run_admin_handler_only_adds:
  "only_adds (tables st) (tables (snd (run_admin_handler env lib h [] body st)))"
  by (cases h) (auto simp: with_body_def with_path_def writer_defs split_beta
      split: sum.split intro!: write_request_only_adds)

text \<open>No request can update or delete a pool or an asset, whatever token it carries: the routes
  for it are written with the parameters of a later version of the web framework, so a request for
  the pool \<open>x\<close> is answered with 404, and the tables only ever grow. They keep their keys unique.\<close>

theorem admin_only_adds:
  assumes "admin_routes env lib tokens check req st = (resp, st')"
  shows "only_adds (tables st) (tables st') \<and>
    (\<forall>x. req_path req = [''pools'', x] \<and> x \<noteq> ''{pool_id}'' \<longrightarrow> fst resp = 404 \<and> st' = st) \<and>
    (\<forall>x. req_path req = [''assets'', x] \<and> x \<noteq> ''{asset_type}'' \<longrightarrow> fst resp = 404 \<and> st' = st)"
proof (intro conjI)
  show "only_adds (tables st) (tables st')"
  proof (cases "authorized tokens req")
    case True
    show ?thesis
    proof (cases "find_route protected_routes (req_path req)")
      case None
      with assms show ?thesis by (auto simp: admin_routes_def split: if_splits)
    next
      case (Some hr)
      then obtain hs where "find_route protected_routes (req_path req) = Some (hs, [])"
        using protected_routes_no_args by (cases hr) auto
      with assms True run_admin_handler_only_adds [of st env lib _ "req_body req"] show ?thesis
        by (auto simp: admin_routes_def require_admin_auth_cases split: if_splits option.splits)
          (metis snd_conv)
    qed
  next
    case False
    with admin_unauthorized [OF assms] show ?thesis by simp
  qed
  show "\<forall>x. req_path req = [''pools'', x] \<and> x \<noteq> ''{pool_id}'' \<longrightarrow> fst resp = 404 \<and> st' = st"
    using assms by (auto simp: admin_routes_def protected_routes_def)
  show "\<forall>x. req_path req = [''assets'', x] \<and> x \<noteq> ''{asset_type}'' \<longrightarrow> fst resp = 404 \<and> st' = st"
    using assms by (auto simp: admin_routes_def protected_routes_def)
qed

definition example_delete :: admin_request where
  "example_delete = \<lparr>req_method = DELETE, req_path = [''pools'', ''0x1''],
     req_authorization = Some ''Bearer secret'', req_body = ''''\<rparr>"

theorem admin_only_adds_witness:
  "fst (fst (admin_routes no_write_errors example_bodies [''secret''] count_down example_delete example_admin)) = 404"
proof -
  obtain resp st' where r: "admin_routes no_write_errors example_bodies [''secret''] count_down
      example_delete example_admin = (resp, st')" by (metis surj_pair)
  from admin_only_adds [OF r] have "fst resp = 404" by (simp add: example_delete_def)
  then show ?thesis unfolding r by simp
qed

end
