(* ===== verification/Params.thy ===== *)
theory Params
  imports Database
begin

text \<open>
  The trait \<open>ParameterUtil\<close> of \<^verbatim>\<open>crates/server/src/server.rs\<close>: the query parameters of a request. A
  parameter that is missing or does not parse takes its default. Times are given in seconds and
  used in milliseconds; the multiplication is on \<open>i64\<close> and wraps. \<open>now\<close> is the reading of the
  system clock in milliseconds.
\<close>

type_synonym params = "string \<rightharpoonup> string"

definition param_i64 :: "string \<Rightarrow> params \<Rightarrow> i64 option" where
  "param_i64 key params = Option.bind (params key) parse_i64"

definition param_start_time :: "params \<Rightarrow> i64 option" where
  "param_start_time params = map_option (\<lambda>t. i64_mul t 1000) (param_i64 ''start_time'' params)"

definition param_end_time :: "i64 \<Rightarrow> params \<Rightarrow> i64" where
  "param_end_time now params =
     unwrap_or now (map_option (\<lambda>t. i64_mul t 1000) (param_i64 ''end_time'' params))"

definition param_volume_in_base :: "params \<Rightarrow> bool" where
  "param_volume_in_base params = unwrap_or False (map_option (\<lambda>v. v = ''true'') (params ''volume_in_base''))"

definition param_limit :: "params \<Rightarrow> i64" where
  "param_limit params = unwrap_or 1 (param_i64 ''limit'' params)"

text \<open>The start of the window of an endpoint: one day before its end by default.\<close>

definition DAY_MS :: i64 where "DAY_MS = 24 * 60 * 60 * 1000"

definition window_start :: "params \<Rightarrow> i64 \<Rightarrow> i64" where
  "window_start params end_time = unwrap_or (i64_sub end_time DAY_MS) (param_start_time params)"

lemma param_i64_range: "param_i64 k p = Some t \<Longrightarrow> in_i64 t"
  by (auto simp: param_i64_def bind_eq_Some_conv dest: parse_i64_range)

text \<open>Times given as decimal seconds are read as exactly 1000 times as many milliseconds, as
  long as that fits in 64 bits; without \<open>start_time\<close> the window is the 24 hours up to its end, and
  text that is not a number is treated as if the parameter were missing.\<close>

theorem window_of_params:
  assumes "in_i64 s" and "in_i64 (s * 1000)" and "in_i64 e" and "in_i64 (e * 1000)"
    and "in_i64 (e * 1000 - DAY_MS)" and "parse_i64 junk = None"
  shows "param_end_time now (p(''end_time'' \<mapsto> show_int e)) = e * 1000 \<and>
    window_start (p(''start_time'' \<mapsto> show_int s)) end_time = s * 1000 \<and>
    window_start (p(''start_time'' := None)) (e * 1000) = e * 1000 - 86400000 \<and>
    param_end_time now (p(''end_time'' \<mapsto> junk)) = now \<and>
    window_start (p(''start_time'' \<mapsto> junk)) end_time = window_start (p(''start_time'' := None)) end_time"
proof -
  have "param_i64 k (p(k \<mapsto> show_int t)) = Some t" if "in_i64 t" for k t
    using that by (simp add: param_i64_def parse_i64_show)
  moreover have "param_i64 k (p(k \<mapsto> junk)) = None" "param_i64 k (p(k := None)) = None" for k
    using assms(6) by (simp_all add: param_i64_def)
  moreover have "DAY_MS = 86400000" by (simp add: DAY_MS_def)
  ultimately show ?thesis using assms(1-5)
    by (intro conjI) (simp_all only: param_end_time_def window_start_def param_start_time_def
        unwrap_or_def i64_mul_def i64_sub_def wrap_i64_id option.map option.case)
qed

theorem window_of_params_witness:
  "param_end_time 5 [''end_time'' \<mapsto> ''17''] = 17000"
proof -
  have "show_int 17 = ''17''" "parse_i64 ''x'' = None" by code_simp+
  with window_of_params [of 0 17 "''x''" 5 "Map.empty"] show ?thesis
    by (simp add: in_i64_def i64_min_def i64_max_def DAY_MS_def)
qed

end
