(* ===== verification/Event_Endpoints.thy ===== *)
theory Event_Endpoints
  imports Params
begin

text \<open>
  The endpoints that list the events of a table, newest first: the queries of \<^verbatim>\<open>reader.rs\<close> and the
  handlers of \<^verbatim>\<open>server.rs\<close> that read their parameters. For an endpoint \<open>x\<close>, \<open>get_x\<close> is the query and
  \<open>x\<close> the handler. All of them have the shape \<open>select_newest\<close>, of which the interpretation
  \<open>event_page\<close> gives the contract.
\<close>

text \<open>\<open>params.get(key).cloned().unwrap_or_default()\<close>\<close>

definition param_or_empty :: "string \<Rightarrow> params \<Rightarrow> string" where
  "param_or_empty key params = unwrap_or [] (params key)"

section \<open>Loan borrowed\<close>

definition get_loan_borrowed ::
  "db_env \<Rightarrow> i64 \<Rightarrow> i64 \<Rightarrow> i64 \<Rightarrow> string \<Rightarrow> string \<Rightarrow> LoanBorrowed list rpc" where
  "get_loan_borrowed env start_time end_time limit margin_manager_id_filter margin_pool_id_filter =
     results env (\<lambda>db. select_newest checkpoint_timestamp_ms
       (\<lambda>r. between (checkpoint_timestamp_ms r) start_time end_time \<and>
          sql_like (to_pattern margin_manager_id_filter) (loan_borrowed_margin_manager_id r) \<and>
          sql_like (to_pattern margin_pool_id_filter) (loan_borrowed_margin_pool_id r))
       limit (tb_loan_borrowed db))"

definition loan_borrowed :: "db_env \<Rightarrow> i64 \<Rightarrow> params \<Rightarrow> LoanBorrowed list rpc" where
  "loan_borrowed env now params =
     (let end_time = param_end_time now params;
          start_time = window_start params end_time;
          limit = param_limit params;
          margin_manager_id_filter = param_or_empty ''margin_manager_id'' params;
          margin_pool_id_filter = param_or_empty ''margin_pool_id'' params
      in get_loan_borrowed env start_time end_time limit margin_manager_id_filter margin_pool_id_filter)"

section \<open>Loan repaid\<close>

definition get_loan_repaid ::
  "db_env \<Rightarrow> i64 \<Rightarrow> i64 \<Rightarrow> i64 \<Rightarrow> string \<Rightarrow> string \<Rightarrow> LoanRepaid list rpc" where
  "get_loan_repaid env start_time end_time limit margin_manager_id_filter margin_pool_id_filter =
     results env (\<lambda>db. select_newest checkpoint_timestamp_ms
       (\<lambda>r. between (checkpoint_timestamp_ms r) start_time end_time \<and>
          sql_like (to_pattern margin_manager_id_filter) (loan_repaid_margin_manager_id r) \<and>
          sql_like (to_pattern margin_pool_id_filter) (loan_repaid_margin_pool_id r))
       limit (tb_loan_repaid db))"

definition loan_repaid :: "db_env \<Rightarrow> i64 \<Rightarrow> params \<Rightarrow> LoanRepaid list rpc" where
  "loan_repaid env now params =
     (let end_time = param_end_time now params;
          start_time = window_start params end_time;
          limit = param_limit params;
          margin_manager_id_filter = param_or_empty ''margin_manager_id'' params;
          margin_pool_id_filter = param_or_empty ''margin_pool_id'' params
      in get_loan_repaid env start_time end_time limit margin_manager_id_filter margin_pool_id_filter)"

section \<open>Liquidation\<close>

definition get_liquidation ::
  "db_env \<Rightarrow> i64 \<Rightarrow> i64 \<Rightarrow> i64 \<Rightarrow> string \<Rightarrow> string \<Rightarrow> Liquidation list rpc" where
  "get_liquidation env start_time end_time limit margin_manager_id_filter margin_pool_id_filter =
     results env (\<lambda>db. select_newest checkpoint_timestamp_ms
       (\<lambda>r. between (checkpoint_timestamp_ms r) start_time end_time \<and>
          sql_like (to_pattern margin_manager_id_filter) (liquidation_margin_manager_id r) \<and>
          sql_like (to_pattern margin_pool_id_filter) (liquidation_margin_pool_id r))
       limit (tb_liquidation db))"

definition liquidation :: "db_env \<Rightarrow> i64 \<Rightarrow> params \<Rightarrow> Liquidation list rpc" where
  "liquidation env now params =
     (let end_time = param_end_time now params;
          start_time = window_start params end_time;
          limit = param_limit params;
          margin_manager_id_filter = param_or_empty ''margin_manager_id'' params;
          margin_pool_id_filter = param_or_empty ''margin_pool_id'' params
      in get_liquidation env start_time end_time limit margin_manager_id_filter margin_pool_id_filter)"

section \<open>Asset supplied\<close>

definition get_asset_supplied ::
  "db_env \<Rightarrow> i64 \<Rightarrow> i64 \<Rightarrow> i64 \<Rightarrow> string \<Rightarrow> string \<Rightarrow> AssetSupplied list rpc" where
  "get_asset_supplied env start_time end_time limit margin_pool_id_filter supplier_filter =
     results env (\<lambda>db. select_newest checkpoint_timestamp_ms
       (\<lambda>r. between (checkpoint_timestamp_ms r) start_time end_time \<and>
          sql_like (to_pattern margin_pool_id_filter) (asset_supplied_margin_pool_id r) \<and>
          sql_like (to_pattern supplier_filter) (asset_supplied_supplier r))
       limit (tb_asset_supplied db))"

definition asset_supplied :: "db_env \<Rightarrow> i64 \<Rightarrow> params \<Rightarrow> AssetSupplied list rpc" where
  "asset_supplied env now params =
     (let end_time = param_end_time now params;
          start_time = window_start params end_time;
          limit = param_limit params;
          margin_pool_id_filter = param_or_empty ''margin_pool_id'' params;
          supplier_filter = param_or_empty ''supplier'' params
      in get_asset_supplied env start_time end_time limit margin_pool_id_filter supplier_filter)"

section \<open>Asset withdrawn\<close>

definition get_asset_withdrawn ::
  "db_env \<Rightarrow> i64 \<Rightarrow> i64 \<Rightarrow> i64 \<Rightarrow> string \<Rightarrow> string \<Rightarrow> AssetWithdrawn list rpc" where
  "get_asset_withdrawn env start_time end_time limit margin_pool_id_filter supplier_filter =
     results env (\<lambda>db. select_newest checkpoint_timestamp_ms
       (\<lambda>r. between (checkpoint_timestamp_ms r) start_time end_time \<and>
          sql_like (to_pattern margin_pool_id_filter) (asset_withdrawn_margin_pool_id r) \<and>
          sql_like (to_pattern supplier_filter) (asset_withdrawn_supplier r))
       limit (tb_asset_withdrawn db))"

definition asset_withdrawn :: "db_env \<Rightarrow> i64 \<Rightarrow> params \<Rightarrow> AssetWithdrawn list rpc" where
  "asset_withdrawn env now params =
     (let end_time = param_end_time now params;
          start_time = window_start params end_time;
          limit = param_limit params;
          margin_pool_id_filter = param_or_empty ''margin_pool_id'' params;
          supplier_filter = param_or_empty ''supplier'' params
      in get_asset_withdrawn env start_time end_time limit margin_pool_id_filter supplier_filter)"

section \<open>Deepbook pool updated\<close>

definition get_deepbook_pool_updated ::
  "db_env \<Rightarrow> i64 \<Rightarrow> i64 \<Rightarrow> i64 \<Rightarrow> string \<Rightarrow> string \<Rightarrow> DeepbookPoolUpdated list rpc" where
  "get_deepbook_pool_updated env start_time end_time limit margin_pool_id_filter deepbook_pool_id_filter =
     results env (\<lambda>db. select_newest checkpoint_timestamp_ms
       (\<lambda>r. between (checkpoint_timestamp_ms r) start_time end_time \<and>
          sql_like (to_pattern margin_pool_id_filter) (deepbook_pool_updated_margin_pool_id r) \<and>
          sql_like (to_pattern deepbook_pool_id_filter) (deepbook_pool_updated_deepbook_pool_id r))
       limit (tb_deepbook_pool_updated db))"

definition deepbook_pool_updated :: "db_env \<Rightarrow> i64 \<Rightarrow> params \<Rightarrow> DeepbookPoolUpdated list rpc" where
  "deepbook_pool_updated env now params =
     (let end_time = param_end_time now params;
          start_time = window_start params end_time;
          limit = param_limit params;
          margin_pool_id_filter = param_or_empty ''margin_pool_id'' params;
          deepbook_pool_id_filter = param_or_empty ''deepbook_pool_id'' params
      in get_deepbook_pool_updated env start_time end_time limit margin_pool_id_filter deepbook_pool_id_filter)"

section \<open>Interest params updated\<close>

definition get_interest_params_updated ::
  "db_env \<Rightarrow> i64 \<Rightarrow> i64 \<Rightarrow> i64 \<Rightarrow> string \<Rightarrow> InterestParamsUpdated list rpc" where
  "get_interest_params_updated env start_time end_time limit margin_pool_id_filter =
     results env (\<lambda>db. select_newest checkpoint_timestamp_ms
       (\<lambda>r. between (checkpoint_timestamp_ms r) start_time end_time \<and>
          sql_like (to_pattern margin_pool_id_filter) (interest_params_updated_margin_pool_id r))
       limit (tb_interest_params_updated db))"

definition interest_params_updated :: "db_env \<Rightarrow> i64 \<Rightarrow> params \<Rightarrow> InterestParamsUpdated list rpc" where
  "interest_params_updated env now params =
     (let end_time = param_end_time now params;
          start_time = window_start params end_time;
          limit = param_limit params;
          margin_pool_id_filter = param_or_empty ''margin_pool_id'' params
      in get_interest_params_updated env start_time end_time limit margin_pool_id_filter)"

section \<open>Margin pool config updated\<close>

definition get_margin_pool_config_updated ::
  "db_env \<Rightarrow> i64 \<Rightarrow> i64 \<Rightarrow> i64 \<Rightarrow> string \<Rightarrow> MarginPoolConfigUpdated list rpc" where
  "get_margin_pool_config_updated env start_time end_time limit margin_pool_id_filter =
     results env (\<lambda>db. select_newest checkpoint_timestamp_ms
       (\<lambda>r. between (checkpoint_timestamp_ms r) start_time end_time \<and>
          sql_like (to_pattern margin_pool_id_filter) (margin_pool_config_updated_margin_pool_id r))
       limit (tb_margin_pool_config_updated db))"

definition margin_pool_config_updated :: "db_env \<Rightarrow> i64 \<Rightarrow> params \<Rightarrow> MarginPoolConfigUpdated list rpc" where
  "margin_pool_config_updated env now params =
     (let end_time = param_end_time now params;
          start_time = window_start params end_time;
          limit = param_limit params;
          margin_pool_id_filter = param_or_empty ''margin_pool_id'' params
      in get_margin_pool_config_updated env start_time end_time limit margin_pool_id_filter)"

section \<open>Maintainer cap updated\<close>

definition get_maintainer_cap_updated ::
  "db_env \<Rightarrow> i64 \<Rightarrow> i64 \<Rightarrow> i64 \<Rightarrow> string \<Rightarrow> MaintainerCapUpdated list rpc" where
  "get_maintainer_cap_updated env start_time end_time limit maintainer_cap_id_filter =
     results env (\<lambda>db. select_newest checkpoint_timestamp_ms
       (\<lambda>r. between (checkpoint_timestamp_ms r) start_time end_time \<and>
          sql_like (to_pattern maintainer_cap_id_filter) (maintainer_cap_updated_maintainer_cap_id r))
       limit (tb_maintainer_cap_updated db))"

definition maintainer_cap_updated :: "db_env \<Rightarrow> i64 \<Rightarrow> params \<Rightarrow> MaintainerCapUpdated list rpc" where
  "maintainer_cap_updated env now params =
     (let end_time = param_end_time now params;
          start_time = window_start params end_time;
          limit = param_limit params;
          maintainer_cap_id_filter = param_or_empty ''maintainer_cap_id'' params
      in get_maintainer_cap_updated env start_time end_time limit maintainer_cap_id_filter)"

section \<open>Maintainer fees withdrawn\<close>

definition get_maintainer_fees_withdrawn ::
  "db_env \<Rightarrow> i64 \<Rightarrow> i64 \<Rightarrow> i64 \<Rightarrow> string \<Rightarrow> MaintainerFeesWithdrawn list rpc" where
  "get_maintainer_fees_withdrawn env start_time end_time limit margin_pool_id_filter =
     results env (\<lambda>db. select_newest checkpoint_timestamp_ms
       (\<lambda>r. between (checkpoint_timestamp_ms r) start_time end_time \<and>
          sql_like (to_pattern margin_pool_id_filter) (maintainer_fees_withdrawn_margin_pool_id r))
       limit (tb_maintainer_fees_withdrawn db))"

definition maintainer_fees_withdrawn :: "db_env \<Rightarrow> i64 \<Rightarrow> params \<Rightarrow> MaintainerFeesWithdrawn list rpc" where
  "maintainer_fees_withdrawn env now params =
     (let end_time = param_end_time now params;
          start_time = window_start params end_time;
          limit = param_limit params;
          margin_pool_id_filter = param_or_empty ''margin_pool_id'' params
      in get_maintainer_fees_withdrawn env start_time end_time limit margin_pool_id_filter)"

section \<open>Protocol fees withdrawn\<close>

definition get_protocol_fees_withdrawn ::
  "db_env \<Rightarrow> i64 \<Rightarrow> i64 \<Rightarrow> i64 \<Rightarrow> string \<Rightarrow> ProtocolFeesWithdrawn list rpc" where
  "get_protocol_fees_withdrawn env start_time end_time limit margin_pool_id_filter =
     results env (\<lambda>db. select_newest checkpoint_timestamp_ms
       (\<lambda>r. between (checkpoint_timestamp_ms r) start_time end_time \<and>
          sql_like (to_pattern margin_pool_id_filter) (protocol_fees_withdrawn_margin_pool_id r))
       limit (tb_protocol_fees_withdrawn db))"

definition protocol_fees_withdrawn :: "db_env \<Rightarrow> i64 \<Rightarrow> params \<Rightarrow> ProtocolFeesWithdrawn list rpc" where
  "protocol_fees_withdrawn env now params =
     (let end_time = param_end_time now params;
          start_time = window_start params end_time;
          limit = param_limit params;
          margin_pool_id_filter = param_or_empty ''margin_pool_id'' params
      in get_protocol_fees_withdrawn env start_time end_time limit margin_pool_id_filter)"

section \<open>Supplier cap minted\<close>

definition get_supplier_cap_minted ::
  "db_env \<Rightarrow> i64 \<Rightarrow> i64 \<Rightarrow> i64 \<Rightarrow> string \<Rightarrow> SupplierCapMinted list rpc" where
  "get_supplier_cap_minted env start_time end_time limit supplier_cap_id_filter =
     results env (\<lambda>db. select_newest checkpoint_timestamp_ms
       (\<lambda>r. between (checkpoint_timestamp_ms r) start_time end_time \<and>
          sql_like (to_pattern supplier_cap_id_filter) (supplier_cap_minted_supplier_cap_id r))
       limit (tb_supplier_cap_minted db))"

definition supplier_cap_minted :: "db_env \<Rightarrow> i64 \<Rightarrow> params \<Rightarrow> SupplierCapMinted list rpc" where
  "supplier_cap_minted env now params =
     (let end_time = param_end_time now params;
          start_time = window_start params end_time;
          limit = param_limit params;
          supplier_cap_id_filter = param_or_empty ''supplier_cap_id'' params
      in get_supplier_cap_minted env start_time end_time limit supplier_cap_id_filter)"

section \<open>Supply referral minted\<close>

definition get_supply_referral_minted ::
  "db_env \<Rightarrow> i64 \<Rightarrow> i64 \<Rightarrow> i64 \<Rightarrow> string \<Rightarrow> string \<Rightarrow> SupplyReferralMinted list rpc" where
  "get_supply_referral_minted env start_time end_time limit margin_pool_id_filter owner_filter =
     results env (\<lambda>db. select_newest checkpoint_timestamp_ms
       (\<lambda>r. between (checkpoint_timestamp_ms r) start_time end_time \<and>
          sql_like (to_pattern margin_pool_id_filter) (supply_referral_minted_margin_pool_id r) \<and>
          sql_like (to_pattern owner_filter) (supply_referral_minted_owner r))
       limit (tb_supply_referral_minted db))"

definition supply_referral_minted :: "db_env \<Rightarrow> i64 \<Rightarrow> params \<Rightarrow> SupplyReferralMinted list rpc" where
  "supply_referral_minted env now params =
     (let end_time = param_end_time now params;
          start_time = window_start params end_time;
          limit = param_limit params;
          margin_pool_id_filter = param_or_empty ''margin_pool_id'' params;
          owner_filter = param_or_empty ''owner'' params
      in get_supply_referral_minted env start_time end_time limit margin_pool_id_filter owner_filter)"

section \<open>Pause cap updated\<close>

definition get_pause_cap_updated ::
  "db_env \<Rightarrow> i64 \<Rightarrow> i64 \<Rightarrow> i64 \<Rightarrow> string \<Rightarrow> PauseCapUpdated list rpc" where
  "get_pause_cap_updated env start_time end_time limit pause_cap_id_filter =
     results env (\<lambda>db. select_newest checkpoint_timestamp_ms
       (\<lambda>r. between (checkpoint_timestamp_ms r) start_time end_time \<and>
          sql_like (to_pattern pause_cap_id_filter) (pause_cap_updated_pause_cap_id r))
       limit (tb_pause_cap_updated db))"

definition pause_cap_updated :: "db_env \<Rightarrow> i64 \<Rightarrow> params \<Rightarrow> PauseCapUpdated list rpc" where
  "pause_cap_updated env now params =
     (let end_time = param_end_time now params;
          start_time = window_start params end_time;
          limit = param_limit params;
          pause_cap_id_filter = param_or_empty ''pause_cap_id'' params
      in get_pause_cap_updated env start_time end_time limit pause_cap_id_filter)"

section \<open>Protocol fees increased\<close>

definition get_protocol_fees_increased ::
  "db_env \<Rightarrow> i64 \<Rightarrow> i64 \<Rightarrow> i64 \<Rightarrow> string \<Rightarrow> ProtocolFeesIncreasedEvent list rpc" where
  "get_protocol_fees_increased env start_time end_time limit margin_pool_id_filter =
     results env (\<lambda>db. select_newest checkpoint_timestamp_ms
       (\<lambda>r. between (checkpoint_timestamp_ms r) start_time end_time \<and>
          sql_like (to_pattern margin_pool_id_filter) (protocol_fees_increased_margin_pool_id r))
       limit (tb_protocol_fees_increased db))"

definition protocol_fees_increased :: "db_env \<Rightarrow> i64 \<Rightarrow> params \<Rightarrow> ProtocolFeesIncreasedEvent list rpc" where
  "protocol_fees_increased env now params =
     (let end_time = param_end_time now params;
          start_time = window_start params end_time;
          limit = param_limit params;
          margin_pool_id_filter = param_or_empty ''margin_pool_id'' params
      in get_protocol_fees_increased env start_time end_time limit margin_pool_id_filter)"

section \<open>Referral fees claimed\<close>

definition get_referral_fees_claimed ::
  "db_env \<Rightarrow> i64 \<Rightarrow> i64 \<Rightarrow> i64 \<Rightarrow> string \<Rightarrow> string \<Rightarrow> ReferralFeesClaimedEvent list rpc" where
  "get_referral_fees_claimed env start_time end_time limit referral_id_filter owner_filter =
     results env (\<lambda>db. select_newest checkpoint_timestamp_ms
       (\<lambda>r. between (checkpoint_timestamp_ms r) start_time end_time \<and>
          sql_like (to_pattern referral_id_filter) (referral_fees_claimed_referral_id r) \<and>
          sql_like (to_pattern owner_filter) (referral_fees_claimed_owner r))
       limit (tb_referral_fees_claimed db))"

definition referral_fees_claimed :: "db_env \<Rightarrow> i64 \<Rightarrow> params \<Rightarrow> ReferralFeesClaimedEvent list rpc" where
  "referral_fees_claimed env now params =
     (let end_time = param_end_time now params;
          start_time = window_start params end_time;
          limit = param_limit params;
          referral_id_filter = param_or_empty ''referral_id'' params;
          owner_filter = param_or_empty ''owner'' params
      in get_referral_fees_claimed env start_time end_time limit referral_id_filter owner_filter)"

section \<open>Referral fee events\<close>

definition get_referral_fee_events ::
  "db_env \<Rightarrow> i64 \<Rightarrow> i64 \<Rightarrow> i64 \<Rightarrow> string \<Rightarrow> string \<Rightarrow> ReferralFeeEvent list rpc" where
  "get_referral_fee_events env start_time end_time limit pool_id_filter referral_id_filter =
     results env (\<lambda>db. select_newest checkpoint_timestamp_ms
       (\<lambda>r. between (checkpoint_timestamp_ms r) start_time end_time \<and>
          sql_like (to_pattern pool_id_filter) (referral_fee_events_pool_id r) \<and>
          sql_like (to_pattern referral_id_filter) (referral_fee_events_referral_id r))
       limit (tb_referral_fee_events db))"

definition referral_fee_events :: "db_env \<Rightarrow> i64 \<Rightarrow> params \<Rightarrow> ReferralFeeEvent list rpc" where
  "referral_fee_events env now params =
     (let end_time = param_end_time now params;
          start_time = window_start params end_time;
          limit = param_limit params;
          pool_id_filter = param_or_empty ''pool_id'' params;
          referral_id_filter = param_or_empty ''referral_id'' params
      in get_referral_fee_events env start_time end_time limit pool_id_filter referral_id_filter)"

section \<open>Deepbook pool registered\<close>

definition get_deepbook_pool_registered ::
  "db_env \<Rightarrow> i64 \<Rightarrow> i64 \<Rightarrow> i64 \<Rightarrow> string \<Rightarrow> DeepbookPoolRegistered list rpc" where
  "get_deepbook_pool_registered env start_time end_time limit pool_id_filter =
     results env (\<lambda>db. select_newest checkpoint_timestamp_ms
       (\<lambda>r. between (checkpoint_timestamp_ms r) start_time end_time \<and>
          sql_like (to_pattern pool_id_filter) (deepbook_pool_registered_pool_id r))
       limit (tb_deepbook_pool_registered db))"

definition deepbook_pool_registered :: "db_env \<Rightarrow> i64 \<Rightarrow> params \<Rightarrow> DeepbookPoolRegistered list rpc" where
  "deepbook_pool_registered env now params =
     (let end_time = param_end_time now params;
          start_time = window_start params end_time;
          limit = param_limit params;
          pool_id_filter = param_or_empty ''pool_id'' params
      in get_deepbook_pool_registered env start_time end_time limit pool_id_filter)"

section \<open>Deepbook pool updated registry\<close>

definition get_deepbook_pool_updated_registry ::
  "db_env \<Rightarrow> i64 \<Rightarrow> i64 \<Rightarrow> i64 \<Rightarrow> string \<Rightarrow> DeepbookPoolUpdatedRegistry list rpc" where
  "get_deepbook_pool_updated_registry env start_time end_time limit pool_id_filter =
     results env (\<lambda>db. select_newest checkpoint_timestamp_ms
       (\<lambda>r. between (checkpoint_timestamp_ms r) start_time end_time \<and>
          sql_like (to_pattern pool_id_filter) (deepbook_pool_updated_registry_pool_id r))
       limit (tb_deepbook_pool_updated_registry db))"

definition deepbook_pool_updated_registry :: "db_env \<Rightarrow> i64 \<Rightarrow> params \<Rightarrow> DeepbookPoolUpdatedRegistry list rpc" where
  "deepbook_pool_updated_registry env now params =
     (let end_time = param_end_time now params;
          start_time = window_start params end_time;
          limit = param_limit params;
          pool_id_filter = param_or_empty ''pool_id'' params
      in get_deepbook_pool_updated_registry env start_time end_time limit pool_id_filter)"

section \<open>Deepbook pool config updated\<close>

definition get_deepbook_pool_config_updated ::
  "db_env \<Rightarrow> i64 \<Rightarrow> i64 \<Rightarrow> i64 \<Rightarrow> string \<Rightarrow> DeepbookPoolConfigUpdated list rpc" where
  "get_deepbook_pool_config_updated env start_time end_time limit pool_id_filter =
     results env (\<lambda>db. select_newest checkpoint_timestamp_ms
       (\<lambda>r. between (checkpoint_timestamp_ms r) start_time end_time \<and>
          sql_like (to_pattern pool_id_filter) (deepbook_pool_config_updated_pool_id r))
       limit (tb_deepbook_pool_config_updated db))"

definition deepbook_pool_config_updated :: "db_env \<Rightarrow> i64 \<Rightarrow> params \<Rightarrow> DeepbookPoolConfigUpdated list rpc" where
  "deepbook_pool_config_updated env now params =
     (let end_time = param_end_time now params;
          start_time = window_start params end_time;
          limit = param_limit params;
          pool_id_filter = param_or_empty ''pool_id'' params
      in get_deepbook_pool_config_updated env start_time end_time limit pool_id_filter)"

section \<open>Margin managers, margin pools and collateral\<close>

text \<open>The query for created margin managers has optional bounds, and its requests are not counted in
  the metrics.\<close>

definition get_margin_manager_created ::
  "db_env \<Rightarrow> i64 option \<Rightarrow> i64 option \<Rightarrow> i64 \<Rightarrow> string option \<Rightarrow> MarginManagerCreated list rpc" where
  "get_margin_manager_created env start_time end_time limit owner_filter s =
     (let n = connections s; s1 = s\<lparr>connections := n + 1\<rparr>
      in case connect_error env n of
           Some e \<Rightarrow> (Inl (from_anyhow e), s1)
         | None \<Rightarrow>
             (case run_query env n (\<lambda>db. select_newest checkpoint_timestamp_ms
                 (\<lambda>r. (case start_time of None \<Rightarrow> True | Some start \<Rightarrow> start \<le> checkpoint_timestamp_ms r) \<and>
                      (case end_time of None \<Rightarrow> True | Some end_t \<Rightarrow> checkpoint_timestamp_ms r \<le> end_t) \<and>
                      (case owner_filter of None \<Rightarrow> True | Some owner \<Rightarrow> margin_manager_created_owner r = owner))
                 limit (tb_margin_manager_created db)) of
                Inl e \<Rightarrow> (Inl (from_diesel e), s1)
              | Inr rows \<Rightarrow> (Inr rows, s1)))"

definition margin_manager_created :: "db_env \<Rightarrow> params \<Rightarrow> MarginManagerCreated list rpc" where
  "margin_manager_created env params =
     get_margin_manager_created env (param_start_time params)
       (map_option (\<lambda>t. i64_mul t 1000) (param_i64 ''end_time'' params))
       (param_limit params) (params ''owner'')"

definition get_margin_pool_created :: "db_env \<Rightarrow> string \<Rightarrow> MarginPoolCreated list rpc" where
  "get_margin_pool_created env margin_pool_id_filter =
     results env (\<lambda>db. Inr (order_desc checkpoint_timestamp_ms
       (filter (\<lambda>r. sql_like (to_pattern margin_pool_id_filter) (margin_pool_created_margin_pool_id r))
         (tb_margin_pool_created db))))"

definition margin_pool_created :: "db_env \<Rightarrow> params \<Rightarrow> MarginPoolCreated list rpc" where
  "margin_pool_created env params =
     get_margin_pool_created env (param_or_empty ''margin_pool_id'' params)"

definition get_collateral_events ::
  "db_env \<Rightarrow> i64 \<Rightarrow> i64 \<Rightarrow> i64 \<Rightarrow> string \<Rightarrow> string \<Rightarrow> bool option \<Rightarrow> CollateralEvent list rpc" where
  "get_collateral_events env start_time end_time limit margin_manager_id_filter event_type_filter
     is_base_filter =
     db_request from_anyhow (\<lambda>_. database_error ''Error fetching collateral events'') env
       (\<lambda>db. select_newest checkpoint_timestamp_ms
         (\<lambda>r. between (checkpoint_timestamp_ms r) start_time end_time \<and>
              sql_like (to_pattern margin_manager_id_filter) (collateral_events_margin_manager_id r) \<and>
              sql_like (to_pattern event_type_filter) (collateral_events_event_type r) \<and>
              (case is_base_filter of
                 None \<Rightarrow> True
               | Some is_base \<Rightarrow> collateral_events_withdraw_base_asset r = Some is_base))
         limit (tb_collateral_events db))"

definition collateral_events :: "db_env \<Rightarrow> i64 \<Rightarrow> params \<Rightarrow> CollateralEvent list rpc" where
  "collateral_events env now params =
     (let end_time = param_end_time now params;
          start_time = window_start params end_time;
          limit = param_limit params;
          margin_manager_id_filter = param_or_empty ''margin_manager_id'' params;
          event_type_filter = param_or_empty ''type'' params;
          is_base_filter = Option.bind (params ''is_base'') parse_bool
      in get_collateral_events env start_time end_time limit margin_manager_id_filter event_type_filter
           is_base_filter)"

section \<open>Properties\<close>

lemmas event_endpoint_defs =
  get_loan_borrowed_def loan_borrowed_def
  get_loan_repaid_def loan_repaid_def
  get_liquidation_def liquidation_def
  get_asset_supplied_def asset_supplied_def
  get_asset_withdrawn_def asset_withdrawn_def
  get_deepbook_pool_updated_def deepbook_pool_updated_def
  get_interest_params_updated_def interest_params_updated_def
  get_margin_pool_config_updated_def margin_pool_config_updated_def
  get_maintainer_cap_updated_def maintainer_cap_updated_def
  get_maintainer_fees_withdrawn_def maintainer_fees_withdrawn_def
  get_protocol_fees_withdrawn_def protocol_fees_withdrawn_def
  get_supplier_cap_minted_def supplier_cap_minted_def
  get_supply_referral_minted_def supply_referral_minted_def
  get_pause_cap_updated_def pause_cap_updated_def
  get_protocol_fees_increased_def protocol_fees_increased_def
  get_referral_fees_claimed_def referral_fees_claimed_def
  get_referral_fee_events_def referral_fee_events_def
  get_deepbook_pool_registered_def deepbook_pool_registered_def
  get_deepbook_pool_updated_registry_def deepbook_pool_updated_registry_def
  get_deepbook_pool_config_updated_def deepbook_pool_config_updated_def

text \<open>What every one of these requests returns: the page of the table the connection sees.\<close>

lemma db_page_rows:
  assumes "results env (\<lambda>db. select_newest time sel limit (tbl db)) s = (Inr rows, s')"
  shows "0 \<le> limit \<and>
    rows = take (nat limit) (order_desc time (filter sel (tbl (contents env (connections s)))))"
  using assms by (simp add: results_Inr select_newest_Inr)

text \<open>A successful \<open>loan_borrowed\<close> request returns loans of the window that match both filters,
  newest first and at most \<open>limit\<close> of them; a matching loan it leaves out is no newer than any loan
  it returns, and then the page is full. The other event endpoints have the same query.\<close>

theorem loan_borrowed_page:
  assumes "get_loan_borrowed env a b limit mm mp s = (Inr rows, s')"
  shows "length rows \<le> nat limit \<and>
    sorted_wrt (\<lambda>r q. checkpoint_timestamp_ms q \<le> checkpoint_timestamp_ms r) rows \<and>
    (\<forall>r\<in>set rows. r \<in> set (tb_loan_borrowed (contents env (connections s))) \<and>
       between (checkpoint_timestamp_ms r) a b \<and>
       sql_like (to_pattern mm) (loan_borrowed_margin_manager_id r) \<and>
       sql_like (to_pattern mp) (loan_borrowed_margin_pool_id r)) \<and>
    (\<forall>q\<in>set (tb_loan_borrowed (contents env (connections s))).
       between (checkpoint_timestamp_ms q) a b \<longrightarrow>
       sql_like (to_pattern mm) (loan_borrowed_margin_manager_id q) \<longrightarrow>
       sql_like (to_pattern mp) (loan_borrowed_margin_pool_id q) \<longrightarrow> q \<notin> set rows \<longrightarrow>
       length rows = nat limit \<and> (\<forall>r\<in>set rows. checkpoint_timestamp_ms q \<le> checkpoint_timestamp_ms r))"
proof -
  let ?sel = "\<lambda>r. between (checkpoint_timestamp_ms r) a b \<and>
    sql_like (to_pattern mm) (loan_borrowed_margin_manager_id r) \<and>
    sql_like (to_pattern mp) (loan_borrowed_margin_pool_id r)"
  let ?t = "tb_loan_borrowed (contents env (connections s))"
  have rows: "rows = take (nat limit) (order_desc checkpoint_timestamp_ms (filter ?sel ?t))"
    using db_page_rows [OF assms [unfolded get_loan_borrowed_def]] by blast
  show ?thesis unfolding rows
    using event_page.page_length [of "nat limit" checkpoint_timestamp_ms ?sel ?t]
      event_page.page_sorted [of checkpoint_timestamp_ms "nat limit" ?sel ?t]
      event_page.page_sound [of _ "nat limit" checkpoint_timestamp_ms ?sel ?t]
      event_page.page_newest [of _ "nat limit" checkpoint_timestamp_ms ?sel ?t]
      event_page.page_full [of _ ?t ?sel "nat limit" checkpoint_timestamp_ms]
    by blast
qed

definition example_loan :: "int \<Rightarrow> LoanBorrowed" where
  "example_loan t = \<lparr>event_digest = [], digest = [], sender = [], checkpoint = 0,
     checkpoint_timestamp_ms = t, package = [], loan_borrowed_margin_manager_id = ''0xab'',
     loan_borrowed_margin_pool_id = ''0xcd'', loan_borrowed_loan_amount = 7,
     loan_borrowed_loan_shares = 7, loan_borrowed_onchain_timestamp = t\<rparr>"

theorem loan_borrowed_page_witness:
  "let db = empty_database\<lparr>tb_loan_borrowed := [example_loan 1, example_loan 3, example_loan 2]\<rparr>
   in \<exists>r s. get_loan_borrowed (steady_env db) 0 9 1 ''0xab'' [] fresh_state = (Inr [r], s) \<and>
      \<not> checkpoint_timestamp_ms r < 2"
proof -
  define db where
    "db = empty_database\<lparr>tb_loan_borrowed := [example_loan 1, example_loan 3, example_loan 2]\<rparr>"
  have "\<exists>r s. get_loan_borrowed (steady_env db) 0 9 1 ''0xab'' [] fresh_state = (Inr [r], s)"
    by (simp add: get_loan_borrowed_def results_def db_request_def run_query_def db_def
        select_newest_def sql_limit_def order_desc_def between_def to_pattern_def example_loan_def)
  then obtain r s where r: "get_loan_borrowed (steady_env db) 0 9 1 ''0xab'' [] fresh_state = (Inr [r], s)"
    by blast
  have m: "example_loan t \<in> set (tb_loan_borrowed db) \<longleftrightarrow> t \<in> {1, 2, 3}" for t
    by (auto simp: db_def example_loan_def)
  have "\<not> checkpoint_timestamp_ms r < 2"
    using loan_borrowed_page [OF r] m [of 3]
    by (auto simp: between_def to_pattern_def example_loan_def db_def)
  with r show ?thesis unfolding db_def Let_def by blast
qed

text \<open>An endpoint asked for no more rows than it has in the window returns all of them: with a
  limit of at least the number of matching collateral events, a successful request returns exactly
  these events, each as often as it is stored.\<close>

theorem collateral_events_complete:
  assumes "get_collateral_events env a b limit mm et None s = (Inr rows, s')"
    and "length (filter (\<lambda>r. between (checkpoint_timestamp_ms r) a b \<and>
           sql_like (to_pattern mm) (collateral_events_margin_manager_id r) \<and>
           sql_like (to_pattern et) (collateral_events_event_type r))
         (tb_collateral_events (contents env (connections s)))) \<le> nat limit"
  shows "mset rows = mset (filter (\<lambda>r. between (checkpoint_timestamp_ms r) a b \<and>
           sql_like (to_pattern mm) (collateral_events_margin_manager_id r) \<and>
           sql_like (to_pattern et) (collateral_events_event_type r))
         (tb_collateral_events (contents env (connections s))))"
proof -
  have "rows = take (nat limit) (order_desc checkpoint_timestamp_ms
      (filter (\<lambda>r. between (checkpoint_timestamp_ms r) a b \<and>
           sql_like (to_pattern mm) (collateral_events_margin_manager_id r) \<and>
           sql_like (to_pattern et) (collateral_events_event_type r))
         (tb_collateral_events (contents env (connections s)))))"
    using assms(1) by (simp add: get_collateral_events_def db_request_Inr select_newest_Inr)
  then show ?thesis using event_page.page_complete [OF assms(2)] by simp
qed

definition example_collateral :: "int \<Rightarrow> CollateralEvent" where
  "example_collateral t = \<lparr>event_digest = [], digest = [], sender = [], checkpoint = 0,
     checkpoint_timestamp_ms = t, package = [], collateral_events_event_type = [],
     collateral_events_margin_manager_id = [],
     collateral_events_amount = 0,
     collateral_events_asset_type = [],
     collateral_events_pyth_decimals = 0,
     collateral_events_pyth_price = 0,
     collateral_events_withdraw_base_asset = None,
     collateral_events_base_pyth_decimals = None,
     collateral_events_base_pyth_price = None,
     collateral_events_quote_pyth_decimals = None,
     collateral_events_quote_pyth_price = None,
     collateral_events_remaining_base_asset = None,
     collateral_events_remaining_quote_asset = None,
     collateral_events_remaining_base_debt = None,
     collateral_events_remaining_quote_debt = None,
     collateral_events_onchain_timestamp = 0\<rparr>"

theorem collateral_events_complete_witness:
  "let db = empty_database\<lparr>tb_collateral_events := [example_collateral 1, example_collateral 3]\<rparr>
   in \<exists>rows s. get_collateral_events (steady_env db) 0 9 5 [] [] None fresh_state = (Inr rows, s) \<and>
      mset rows = mset [example_collateral 3, example_collateral 1]"
proof -
  define db where
    "db = empty_database\<lparr>tb_collateral_events := [example_collateral 1, example_collateral 3]\<rparr>"
  have all: "filter (\<lambda>r. between (checkpoint_timestamp_ms r) 0 9 \<and>
           sql_like (to_pattern []) (collateral_events_margin_manager_id r) \<and>
           sql_like (to_pattern []) (collateral_events_event_type r))
         (tb_collateral_events (contents (steady_env db) (connections fresh_state))) =
      [example_collateral 1, example_collateral 3]"
    by (simp add: db_def between_def to_pattern_def example_collateral_def)
  have "\<exists>rows s. get_collateral_events (steady_env db) 0 9 5 [] [] None fresh_state = (Inr rows, s)"
    by (simp add: get_collateral_events_def db_request_def run_query_def select_newest_def sql_limit_def)
  then obtain rows s where
    r: "get_collateral_events (steady_env db) 0 9 5 [] [] None fresh_state = (Inr rows, s)"
    by blast
  with collateral_events_complete [OF r] show ?thesis unfolding all by (auto simp: db_def)
qed

end
