(* ===== verification/Hash_Map.thy ===== *)
theory Hash_Map
  imports Database "HOL-Library.AList"
begin

text \<open>
  A \<open>HashMap\<close> as an association list with distinct keys. The order of the list is the order of an
  iteration, which the code never relies on: its keys are distinct, and so are the values it
  searches for (ids, the primary key of a table). An insertion replaces the value of a present key.
\<close>

type_synonym ('k, 'v) hash_map = "('k \<times> 'v) list"

definition hm_get :: "('k, 'v) hash_map \<Rightarrow> 'k \<Rightarrow> 'v option" where "hm_get m k = map_of m k"

definition hm_insert :: "'k \<Rightarrow> 'v \<Rightarrow> ('k, 'v) hash_map \<Rightarrow> ('k, 'v) hash_map" where
  "hm_insert k v m = AList.update k v m"

definition hm_remove :: "'k \<Rightarrow> ('k, 'v) hash_map \<Rightarrow> ('k, 'v) hash_map" where
  "hm_remove k m = AList.delete k m"

text \<open>\<open>collect()\<close> into a map: a later pair replaces an earlier one with the same key.\<close>

definition hm_collect :: "('k \<times> 'v) list \<Rightarrow> ('k, 'v) hash_map" where
  "hm_collect ps = fold (\<lambda>(k, v). hm_insert k v) ps []"

text \<open>\<open>iter().find(|(_, v)| v == x).map(|(k, _)| k)\<close>\<close>

definition hm_find_value :: "'v \<Rightarrow> ('k, 'v) hash_map \<Rightarrow> 'k option" where
  "hm_find_value x m = map_option fst (find (\<lambda>(_, v). v = x) m)"

definition hm_wf :: "('k, 'v) hash_map \<Rightarrow> bool" where "hm_wf m \<longleftrightarrow> distinct (map fst m)"

locale finite_map =
  fixes get :: "'m \<Rightarrow> 'k \<Rightarrow> 'v option" and put :: "'k \<Rightarrow> 'v \<Rightarrow> 'm \<Rightarrow> 'm" and empty :: 'm
    and wf :: "'m \<Rightarrow> bool"
  assumes get_empty: "get empty k = None"
    and wf_empty: "wf empty"
    and get_put: "get (put k v m) k' = (if k' = k then Some v else get m k')"
    and wf_put: "wf m \<Longrightarrow> wf (put k v m)"
begin

definition collect :: "('k \<times> 'v) list \<Rightarrow> 'm" where
  "collect ps = fold (\<lambda>(k, v). put k v) ps empty"

lemma wf_collect: "wf (collect ps)"
proof -
  have "wf m \<Longrightarrow> wf (fold (\<lambda>(k, v). put k v) ps m)" for m
    by (induction ps arbitrary: m) (auto simp: wf_put)
  then show ?thesis by (simp add: collect_def wf_empty)
qed

lemma get_fold_put:
  "get (fold (\<lambda>(k, v). put k v) ps m) k = (case map_of (rev ps) k of Some v \<Rightarrow> Some v | None \<Rightarrow> get m k)"
  by (induction ps arbitrary: m) (auto simp: get_put map_add_def split: option.split)

lemma get_collect: "get (collect ps) k = map_of (rev ps) k"
  by (simp add: collect_def get_fold_put get_empty split: option.split)

text \<open>An accumulation that adds to one key per element: what a key holds at the end depends only
  on the elements of that key.\<close>

lemma get_fold_group:
  assumes step: "\<And>x m. x \<in> set xs \<Longrightarrow> f x m =
      (case key x of None \<Rightarrow> m | Some k \<Rightarrow> put k (g x (get m k)) m)"
  shows "get (fold f xs m) k =
    fold (\<lambda>x v. Some (g x v)) (filter (\<lambda>x. key x = Some k) xs) (get m k)"
  using step
proof (induction xs arbitrary: m)
  case (Cons x xs)
  then have IH: "get (fold f xs m') k =
      fold (\<lambda>x v. Some (g x v)) (filter (\<lambda>x. key x = Some k) xs) (get m' k)" for m' by simp
  have "f x m = (case key x of None \<Rightarrow> m | Some k \<Rightarrow> put k (g x (get m k)) m)"
    using Cons.prems by simp
  then show ?case by (cases "key x") (auto simp: IH get_put)
qed simp

end

interpretation hm: finite_map hm_get hm_insert "[]" hm_wf
  by unfold_locales
    (auto simp: hm_get_def hm_insert_def hm_wf_def update_conv' distinct_update)

lemma hm_collect_eq: "hm_collect ps = hm.collect ps"
  by (simp add: hm_collect_def hm.collect_def)

lemma hm_get_collect: "hm_get (hm_collect ps) k = map_of (rev ps) k"
  by (simp add: hm_collect_eq hm.get_collect)

lemma hm_wf_collect: "hm_wf (hm_collect ps)"
  by (simp add: hm_collect_eq hm.wf_collect)

lemma hm_get_collect_distinct:
  "distinct (map fst ps) \<Longrightarrow> hm_get (hm_collect ps) k = map_of ps k"
  unfolding hm_get_collect by (metis distinct_rev map_of_inject_set rev_map set_rev)

lemma hm_collect_keys: "fst ` set (hm_collect ps) = fst ` set ps"
proof -
  have "k \<in> fst ` set (hm_collect ps) \<longleftrightarrow> k \<in> fst ` set ps" for k
    using hm_get_collect [of ps k] map_of_eq_None_iff [of "hm_collect ps" k] map_of_eq_None_iff [of "rev ps" k]
    by (simp add: hm_get_def)
  then show ?thesis by blast
qed

lemma hm_get_remove: "hm_get (hm_remove k m) k' = (if k' = k then None else hm_get m k')"
  by (simp add: hm_get_def hm_remove_def delete_conv')

lemma hm_get_Some_iff: "hm_wf m \<Longrightarrow> hm_get m k = Some v \<longleftrightarrow> (k, v) \<in> set m"
  by (simp add: hm_get_def hm_wf_def)

lemma find_SomeD: "find P xs = Some x \<Longrightarrow> x \<in> set xs \<and> P x"
  by (induction xs) (auto split: if_splits)

lemma find_None_member: "find P xs = None \<Longrightarrow> x \<in> set xs \<Longrightarrow> \<not> P x"
  by (induction xs) (auto split: if_splits)

text \<open>When no value occurs under two keys, a search by value inverts the map.\<close>

lemma hm_find_value_unique:
  assumes "hm_wf m" and "inj_on snd (set m)"
  shows "hm_find_value x m = Some k \<longleftrightarrow> hm_get m k = Some x"
proof
  assume "hm_find_value x m = Some k"
  then obtain p where "find (\<lambda>(_, v). v = x) m = Some p" "fst p = k"
    by (auto simp: hm_find_value_def)
  then have "p \<in> set m" "snd p = x" using find_SomeD [of "\<lambda>(_, v). v = x" m p]
    by (auto split: prod.splits)
  then show "hm_get m k = Some x"
    using assms(1) \<open>fst p = k\<close> by (metis hm_get_Some_iff prod.collapse)
next
  assume g: "hm_get m k = Some x"
  then have kx: "(k, x) \<in> set m" using assms(1) by (simp add: hm_get_Some_iff)
  have "find (\<lambda>(_, v). v = x) m \<noteq> None"
  proof
    assume "find (\<lambda>(_, v). v = x) m = None"
    from find_None_member [OF this kx] show False by simp
  qed
  then obtain p where p: "find (\<lambda>(_, v). v = x) m = Some p"
    by (cases "find (\<lambda>(_, v). v = x) m") simp_all
  then have "p \<in> set m" "snd p = snd (k, x)" using find_SomeD [of "\<lambda>(_, v). v = x" m p]
    by (auto split: prod.splits)
  then have "p = (k, x)" using inj_onD [OF assms(2)] kx by blast
  with p show "hm_find_value x m = Some k" by (simp add: hm_find_value_def)
qed

end
