(* ===== verification/Volume.thy ===== *)
theory Volume
  imports Hash_Map Params
begin

text \<open>
  The volume endpoints of \<^verbatim>\<open>server.rs\<close> and their queries in \<^verbatim>\<open>reader.rs\<close>: the volume of the fills of a
  window per pool, in base or quote units; the maker and taker volume of one balance manager; and
  the same for the consecutive intervals of a window. The loop over the intervals is a
  \<open>partial_function\<close>: \<open>None\<close> means that the request never returns.
\<close>

section \<open>Queries\<close>

definition get_pools :: "db_env \<Rightarrow> Pools list rpc" where
  "get_pools env = results env (\<lambda>db. Inr (tb_pools db))"

definition fill_volume :: "bool \<Rightarrow> OrderFill \<Rightarrow> i64" where
  "fill_volume volume_in_base r =
     (if volume_in_base then order_fills_base_quantity r else order_fills_quote_quantity r)"

definition get_historical_volume ::
  "db_env \<Rightarrow> i64 \<Rightarrow> i64 \<Rightarrow> string list \<Rightarrow> bool \<Rightarrow> (string \<times> i64) list rpc" where
  "get_historical_volume env start_time end_time pool_ids volume_in_base =
     results env (\<lambda>db. Inr (map (\<lambda>r. (order_fills_pool_id r, fill_volume volume_in_base r))
       (filter (\<lambda>r. between (checkpoint_timestamp_ms r) start_time end_time \<and>
                    order_fills_pool_id r \<in> set pool_ids)
         (tb_order_fills db))))"

definition fill_summary :: "bool \<Rightarrow> OrderFill \<Rightarrow> OrderFillSummary" where
  "fill_summary volume_in_base r =
     \<lparr>order_fill_summary_pool_id = order_fills_pool_id r,
      order_fill_summary_maker_balance_manager_id = order_fills_maker_balance_manager_id r,
      order_fill_summary_taker_balance_manager_id = order_fills_taker_balance_manager_id r,
      order_fill_summary_quantity = fill_volume volume_in_base r\<rparr>"

definition get_order_fill_summary ::
  "db_env \<Rightarrow> i64 \<Rightarrow> i64 \<Rightarrow> string list \<Rightarrow> string \<Rightarrow> bool \<Rightarrow> OrderFillSummary list rpc" where
  "get_order_fill_summary env start_time end_time pool_ids balance_manager_id volume_in_base =
     results env (\<lambda>db. Inr (map (fill_summary volume_in_base)
       (filter (\<lambda>r. order_fills_pool_id r \<in> set pool_ids \<and>
                    between (checkpoint_timestamp_ms r) start_time end_time \<and>
                    (order_fills_maker_balance_manager_id r = balance_manager_id \<or>
                     order_fills_taker_balance_manager_id r = balance_manager_id))
         (tb_order_fills db))))"

section \<open>Volume of the pools\<close>

definition pool_name_to_id :: "Pools list \<Rightarrow> (string, string) hash_map" where
  "pool_name_to_id pools = hm_collect (map (\<lambda>p. (pools_pool_name p, pools_pool_id p)) pools)"

definition requested_pool_ids :: "(string, string) hash_map \<Rightarrow> string \<Rightarrow> string list" where
  "requested_pool_ids name_to_id pool_names =
     List.map_filter (hm_get name_to_id) (split_on (CHR '','') pool_names)"

text \<open>One result row added to the volume of its pool; the sum is on \<open>u64\<close>.\<close>

definition add_volume ::
  "(string, string) hash_map \<Rightarrow> string \<times> i64 \<Rightarrow> (string, u64) hash_map \<Rightarrow> (string, u64) hash_map" where
  "add_volume name_to_id = (\<lambda>(pool_id, volume) acc.
     case hm_find_value pool_id name_to_id of
       None \<Rightarrow> acc
     | Some name \<Rightarrow> hm_insert name (unwrap_or 0 (hm_get acc name) + as_u64 volume) acc)"

definition historical_volume_with_pools ::
  "db_env \<Rightarrow> i64 \<Rightarrow> string \<Rightarrow> params \<Rightarrow> Pools list \<Rightarrow> (string, u64) hash_map rpc" where
  "historical_volume_with_pools env now pool_names params pools =
     (let name_to_id = pool_name_to_id pools;
          pool_ids = requested_pool_ids name_to_id pool_names
      in if pool_ids = [] then rpc_fail (bad_request ''No valid pool names provided'')
         else
           (let end_time = param_end_time now params;
                start_time = window_start params end_time;
                volume_in_base = param_volume_in_base params
            in rpc_map (\<lambda>rows. fold (add_volume name_to_id) rows [])
                 (get_historical_volume env start_time end_time pool_ids volume_in_base)))"

definition historical_volume ::
  "db_env \<Rightarrow> i64 \<Rightarrow> string \<Rightarrow> params \<Rightarrow> (string, u64) hash_map rpc" where
  "historical_volume env now pool_names params =
     rpc_bind (get_pools env) (historical_volume_with_pools env now pool_names params)"

definition all_historical_volume_with_pools ::
  "db_env \<Rightarrow> i64 \<Rightarrow> params \<Rightarrow> Pools list \<Rightarrow> (string, u64) hash_map rpc" where
  "all_historical_volume_with_pools env now params pools =
     (let pool_names = join '','' (map pools_pool_name pools)
      in historical_volume_with_pools env now pool_names params pools)"

definition all_historical_volume :: "db_env \<Rightarrow> i64 \<Rightarrow> params \<Rightarrow> (string, u64) hash_map rpc" where
  "all_historical_volume env now params =
     rpc_bind (get_pools env) (all_historical_volume_with_pools env now params)"

section \<open>Volume of a balance manager\<close>

text \<open>A fill adds its quantity to the entry \<open>[maker, taker]\<close> of its pool, on the sides the manager is on.\<close>

definition add_fill ::
  "(string, string) hash_map \<Rightarrow> string \<Rightarrow> OrderFillSummary \<Rightarrow> (string, i64 list) hash_map \<Rightarrow>
   (string, i64 list) hash_map" where
  "add_fill name_to_id balance_manager_id fill acc =
     (case hm_find_value (order_fill_summary_pool_id fill) name_to_id of
        None \<Rightarrow> acc
      | Some name \<Rightarrow>
          (let entry = unwrap_or [0, 0] (hm_get acc name);
               entry = (if order_fill_summary_maker_balance_manager_id fill = balance_manager_id
                 then entry[0 := i64_add (entry ! 0) (order_fill_summary_quantity fill)] else entry);
               entry = (if order_fill_summary_taker_balance_manager_id fill = balance_manager_id
                 then entry[1 := i64_add (entry ! 1) (order_fill_summary_quantity fill)] else entry)
           in hm_insert name entry acc))"

definition get_historical_volume_by_balance_manager_id ::
  "db_env \<Rightarrow> i64 \<Rightarrow> string \<Rightarrow> string \<Rightarrow> params \<Rightarrow> (string, i64 list) hash_map rpc" where
  "get_historical_volume_by_balance_manager_id env now pool_names balance_manager_id params =
     rpc_bind (get_pools env) (\<lambda>pools.
       let name_to_id = pool_name_to_id pools;
           pool_ids = requested_pool_ids name_to_id pool_names
       in if pool_ids = [] then rpc_fail (bad_request ''No valid pool names provided'')
          else
            (let end_time = param_end_time now params;
                 start_time = window_start params end_time;
                 volume_in_base = param_volume_in_base params
             in rpc_map (\<lambda>fills. fold (add_fill name_to_id balance_manager_id) fills [])
                  (get_order_fill_summary env start_time end_time pool_ids balance_manager_id
                     volume_in_base)))"

section \<open>Volume of a balance manager by interval\<close>

definition interval_key :: "i64 \<Rightarrow> i64 \<Rightarrow> string" where
  "interval_key current_start current_end =
     ''['' @ show_int (trunc_div current_start 1000) @ '', '' @ show_int (trunc_div current_end 1000)
       @ '']''"

type_synonym interval_volumes = "(string, (string, i64 list) hash_map) hash_map"

partial_function (option) interval_loop ::
  "db_env \<Rightarrow> (string, string) hash_map \<Rightarrow> string list \<Rightarrow> string \<Rightarrow> bool \<Rightarrow> i64 \<Rightarrow> i64 \<Rightarrow> i64 \<Rightarrow>
   interval_volumes \<Rightarrow> rpc_state \<Rightarrow> ((DeepBookError + interval_volumes) \<times> rpc_state) option" where
  "interval_loop env name_to_id pool_ids balance_manager_id volume_in_base interval_ms end_time
     current_start acc s =
     (if i64_add current_start interval_ms \<le> end_time then
        (let current_end = i64_add current_start interval_ms
         in case get_order_fill_summary env current_start current_end pool_ids balance_manager_id
                   volume_in_base s of
              (r, s') \<Rightarrow>
                (case r of
                   Inl e \<Rightarrow> Some (Inl e, s')
                 | Inr fills \<Rightarrow>
                     interval_loop env name_to_id pool_ids balance_manager_id volume_in_base
                       interval_ms end_time current_end
                       (hm_insert (interval_key current_start current_end)
                          (fold (add_fill name_to_id balance_manager_id) fills []) acc) s'))
      else Some (Inr acc, s))"

definition get_historical_volume_by_balance_manager_id_with_interval ::
  "db_env \<Rightarrow> i64 \<Rightarrow> string \<Rightarrow> string \<Rightarrow> params \<Rightarrow> rpc_state \<Rightarrow>
   ((DeepBookError + interval_volumes) \<times> rpc_state) option" where
  "get_historical_volume_by_balance_manager_id_with_interval env now pool_names balance_manager_id
     params s =
     (case get_pools env s of
        (Inl e, s') \<Rightarrow> Some (Inl e, s')
      | (Inr pools, s') \<Rightarrow>
          (let name_to_id = pool_name_to_id pools;
               pool_ids = requested_pool_ids name_to_id pool_names
           in if pool_ids = [] then Some (Inl (bad_request ''No valid pool names provided''), s')
              else
                (let interval = unwrap_or 3600 (param_i64 ''interval'' params)
                 in if interval \<le> 0
                    then Some (Inl (bad_request ''Interval must be greater than 0''), s')
                    else
                      (let interval_ms = i64_mul interval 1000;
                           end_time = param_end_time now params;
                           start_time = window_start params end_time
                       in interval_loop env name_to_id pool_ids balance_manager_id
                            (param_volume_in_base params) interval_ms end_time start_time [] s'))))"

section \<open>Names and ids of pools\<close>

text \<open>Pool ids are the primary key of the table; the endpoints identify pools by name.\<close>

definition pools_wf :: "Pools list \<Rightarrow> bool" where
  "pools_wf pools \<longleftrightarrow> distinct (map pools_pool_id pools) \<and> distinct (map pools_pool_name pools)"

lemma pool_name_to_id_member:
  assumes "pools_wf pools"
  shows "(n, i) \<in> set (pool_name_to_id pools) \<longleftrightarrow>
     (\<exists>p\<in>set pools. pools_pool_name p = n \<and> pools_pool_id p = i)"
proof -
  let ?ps = "map (\<lambda>p. (pools_pool_name p, pools_pool_id p)) pools"
  have d: "distinct (map fst ?ps)" using assms by (simp add: pools_wf_def comp_def)
  have "(n, i) \<in> set (pool_name_to_id pools) \<longleftrightarrow> hm_get (pool_name_to_id pools) n = Some i"
    by (simp add: hm_get_Some_iff pool_name_to_id_def hm_wf_collect)
  also have "\<dots> \<longleftrightarrow> map_of ?ps n = Some i"
    by (simp only: pool_name_to_id_def hm_get_collect_distinct [OF d])
  also have "\<dots> \<longleftrightarrow> (n, i) \<in> set ?ps" using d by simp
  finally show ?thesis by auto
qed

lemma pool_name_to_id_get:
  assumes "pools_wf pools"
  shows "hm_get (pool_name_to_id pools) n = Some i \<longleftrightarrow>
     (\<exists>p\<in>set pools. pools_pool_name p = n \<and> pools_pool_id p = i)"
proof -
  have "hm_wf (pool_name_to_id pools)" by (simp add: pool_name_to_id_def hm_wf_collect)
  then show ?thesis using pool_name_to_id_member [OF assms] by (simp add: hm_get_Some_iff)
qed

lemma pool_of_id:
  assumes "pools_wf pools"
  shows "hm_find_value i (pool_name_to_id pools) = Some n \<longleftrightarrow>
     (\<exists>p\<in>set pools. pools_pool_name p = n \<and> pools_pool_id p = i)"
proof -
  have ids: "p = q" if "p \<in> set pools" "q \<in> set pools" "pools_pool_id p = pools_pool_id q" for p q
    using assms that by (auto simp: pools_wf_def distinct_map dest: inj_onD)
  have "inj_on snd (set (pool_name_to_id pools))"
    by (rule inj_onI) (auto simp: pool_name_to_id_member [OF assms] dest: ids)
  moreover have "hm_wf (pool_name_to_id pools)" by (simp add: pool_name_to_id_def hm_wf_collect)
  ultimately show ?thesis by (simp add: hm_find_value_unique pool_name_to_id_get [OF assms])
qed

lemma pool_of_id_iff:
  assumes "pools_wf pools" and "p \<in> set pools"
  shows "hm_find_value i (pool_name_to_id pools) = Some (pools_pool_name p) \<longleftrightarrow> i = pools_pool_id p"
proof -
  have "q = p" if "q \<in> set pools" "pools_pool_name q = pools_pool_name p" for q
    using assms that by (auto simp: pools_wf_def distinct_map dest: inj_onD)
  with assms(2) show ?thesis by (auto simp: pool_of_id [OF assms(1)])
qed

lemma requested_pool_ids_member:
  assumes "pools_wf pools" and "p \<in> set pools"
    and "pools_pool_name p \<in> set (split_on (CHR '','') pool_names)"
  shows "pools_pool_id p \<in> set (requested_pool_ids (pool_name_to_id pools) pool_names)"
proof -
  have "hm_get (pool_name_to_id pools) (pools_pool_name p) = Some (pools_pool_id p)"
    using assms by (auto simp: pool_name_to_id_get)
  with assms(3) show ?thesis by (force simp: requested_pool_ids_def List.map_filter_def)
qed

section \<open>The sums\<close>

lemma as_u64_sum: "as_u64 (sum_list xs) = sum_list (map as_u64 xs)"
  by (induction xs) (simp_all add: as_u64_def)

lemma as_u64_add: "as_u64 x + as_u64 y = as_u64 (x + y)"
  by (simp add: as_u64_def)

lemma fold_volume:
  "fold (\<lambda>x v. Some (unwrap_or 0 v + as_u64 (snd x))) xs (Some a) =
     Some (a + as_u64 (sum_list (map snd xs)))"
  by (induction xs arbitrary: a) (simp_all add: as_u64_def algebra_simps)

lemma fold_volume_None:
  "fold (\<lambda>x v. Some (unwrap_or 0 v + as_u64 (snd x))) xs None =
     (if xs = [] then None else Some (as_u64 (sum_list (map snd xs))))"
  by (cases xs) (simp_all add: fold_volume as_u64_add)

text \<open>The fills of a pool in a window.\<close>

definition pool_fills :: "database \<Rightarrow> i64 \<Rightarrow> i64 \<Rightarrow> string \<Rightarrow> OrderFill list" where
  "pool_fills db a b pool_id =
     filter (\<lambda>r. between (checkpoint_timestamp_ms r) a b \<and> order_fills_pool_id r = pool_id)
       (tb_order_fills db)"

lemma historical_volume_rows:
  assumes "pools_wf pools" and "p \<in> set pools" and "pools_pool_id p \<in> set ids"
  shows "hm_get (fold (add_volume (pool_name_to_id pools))
      (map (\<lambda>r. (order_fills_pool_id r, fill_volume vib r))
        (filter (\<lambda>r. between (checkpoint_timestamp_ms r) a b \<and> order_fills_pool_id r \<in> set ids)
          (tb_order_fills db))) []) (pools_pool_name p) =
    (if pool_fills db a b (pools_pool_id p) = [] then None
     else Some (as_u64 (sum_list (map (fill_volume vib) (pool_fills db a b (pools_pool_id p))))))"
proof -
  let ?m = "pool_name_to_id pools"
  let ?key = "\<lambda>x :: string \<times> i64. hm_find_value (fst x) ?m"
  let ?rows = "map (\<lambda>r. (order_fills_pool_id r, fill_volume vib r))
        (filter (\<lambda>r. between (checkpoint_timestamp_ms r) a b \<and> order_fills_pool_id r \<in> set ids)
          (tb_order_fills db))"
  have "hm_get (fold (add_volume ?m) ?rows []) (pools_pool_name p) =
      fold (\<lambda>x v. Some (unwrap_or 0 v + as_u64 (snd x)))
        (filter (\<lambda>x. ?key x = Some (pools_pool_name p)) ?rows) (hm_get [] (pools_pool_name p))"
    by (rule hm.get_fold_group) (auto simp: add_volume_def split: option.split)
  also have "filter (\<lambda>x. ?key x = Some (pools_pool_name p)) ?rows =
      map (\<lambda>r. (order_fills_pool_id r, fill_volume vib r)) (pool_fills db a b (pools_pool_id p))"
    unfolding pool_of_id_iff [OF assms(1,2)] filter_map pool_fills_def using assms(3)
    by (auto simp: comp_def intro!: arg_cong [where f = "map _"] filter_cong)
  finally show ?thesis
    by (simp add: hm.get_empty fold_volume_None comp_def)
qed

lemma all_historical_volume_entry:
  assumes "all_historical_volume_with_pools env now params pools s = (Inr vol, s')"
    and "pools_wf pools" and "p \<in> set pools"
    and "list_all (\<lambda>q. CHR '','' \<notin> set (pools_pool_name q)) pools"
  shows "hm_get vol (pools_pool_name p) =
    (let e = param_end_time now params;
         fills = pool_fills (contents env (connections s)) (window_start params e) e (pools_pool_id p)
     in if fills = [] then None
        else Some (as_u64 (sum_list (map (fill_volume (param_volume_in_base params)) fills))))"
    and "connections s' = connections s + 1"
proof -
  let ?names = "join '','' (map pools_pool_name pools)"
  let ?ids = "requested_pool_ids (pool_name_to_id pools) ?names"
  have "split_on (CHR '','') ?names = map pools_pool_name pools"
    using assms(3,4) by (intro split_on_join) (auto simp: list_all_iff)
  then have id: "pools_pool_id p \<in> set ?ids"
    using assms(2,3) by (intro requested_pool_ids_member) auto
  then have ne: "?ids \<noteq> []" by auto
  let ?e = "param_end_time now params"
  have "\<exists>rows. get_historical_volume env (window_start params ?e) ?e ?ids
      (param_volume_in_base params) s = (Inr rows, s') \<and>
      vol = fold (add_volume (pool_name_to_id pools)) rows []"
    using assms(1) ne
    by (auto simp: all_historical_volume_with_pools_def historical_volume_with_pools_def Let_def
        rpc_map_Inr)
  then have vol: "vol = fold (add_volume (pool_name_to_id pools))
      (map (\<lambda>r. (order_fills_pool_id r, fill_volume (param_volume_in_base params) r))
        (filter (\<lambda>r. between (checkpoint_timestamp_ms r) (window_start params ?e) ?e \<and>
            order_fills_pool_id r \<in> set ?ids)
          (tb_order_fills (contents env (connections s))))) []"
    and "connections s' = connections s + 1"
    by (auto simp: get_historical_volume_def results_Inr)
  then show "connections s' = connections s + 1" by simp
  show "hm_get vol (pools_pool_name p) =
    (let e = param_end_time now params;
         fills = pool_fills (contents env (connections s)) (window_start params e) e (pools_pool_id p)
     in if fills = [] then None
        else Some (as_u64 (sum_list (map (fill_volume (param_volume_in_base params)) fills))))"
    unfolding vol using historical_volume_rows [OF assms(2,3) id] by (simp add: Let_def)
qed

text \<open>On a working database the request is answered.\<close>

lemma volumes_steady:
  assumes "pools \<noteq> []" and "pools_wf pools" and "list_all (\<lambda>q. CHR '','' \<notin> set (pools_pool_name q)) pools"
  shows "\<exists>v s'. all_historical_volume_with_pools (steady_env db) now params pools s = (Inr v, s')"
proof -
  have p: "hd pools \<in> set pools" using assms(1) by simp
  have "split_on (CHR '','') (join '','' (map pools_pool_name pools)) = map pools_pool_name pools"
    using assms by (intro split_on_join) (auto simp: list_all_iff)
  with p have "pools_pool_id (hd pools) \<in> set (requested_pool_ids (pool_name_to_id pools)
      (join '','' (map pools_pool_name pools)))"
    using assms(2) by (intro requested_pool_ids_member) auto
  then show ?thesis
    by (auto simp: all_historical_volume_with_pools_def historical_volume_with_pools_def Let_def rpc_map_Inr
        get_historical_volume_def results_Inr)
qed

text \<open>The volume reported for all pools is the volume of the fills of the window: for each pool
  with a fill in the window, the sum of its fills in the requested unit, as an unsigned number;
  a pool without fills has no entry. It assumes that no pool name contains a comma, the separator
  of the list of names the endpoint builds.\<close>

theorem all_historical_volume_sum:
  assumes "all_historical_volume_with_pools env now params pools s = (Inr vol, s')"
    and "pools_wf pools" and "p \<in> set pools"
    and "list_all (\<lambda>q. CHR '','' \<notin> set (pools_pool_name q)) pools"
  shows "hm_get vol (pools_pool_name p) =
    (let e = param_end_time now params;
         fills = pool_fills (contents env (connections s)) (window_start params e) e (pools_pool_id p)
     in if fills = [] then None
        else Some (as_u64 (sum_list (map (fill_volume (param_volume_in_base params)) fills))))"
  by (rule all_historical_volume_entry(1) [OF assms])

end
