(* ===== verification/Intervals.thy ===== *)
theory Intervals
  imports Volume
begin

text \<open>
  Properties of the volume of a balance manager, in one window and by interval: the sums per pool,
  what the loop over the intervals returns when it returns, when it returns, that fills on a
  boundary are counted in both intervals, and that a large interval makes it run forever.
\<close>

section \<open>Maker and taker volume\<close>

definition maker_volume :: "string \<Rightarrow> OrderFillSummary list \<Rightarrow> int" where
  "maker_volume bm fills =
     sum_list (map order_fill_summary_quantity
       (filter (\<lambda>f. order_fill_summary_maker_balance_manager_id f = bm) fills))"

definition taker_volume :: "string \<Rightarrow> OrderFillSummary list \<Rightarrow> int" where
  "taker_volume bm fills =
     sum_list (map order_fill_summary_quantity
       (filter (\<lambda>f. order_fill_summary_taker_balance_manager_id f = bm) fills))"

definition add_sides :: "string \<Rightarrow> OrderFillSummary \<Rightarrow> i64 list option \<Rightarrow> i64 list" where
  "add_sides bm fill v =
     (let entry = unwrap_or [0, 0] v;
          entry = (if order_fill_summary_maker_balance_manager_id fill = bm
            then entry[0 := i64_add (entry ! 0) (order_fill_summary_quantity fill)] else entry)
      in if order_fill_summary_taker_balance_manager_id fill = bm
         then entry[1 := i64_add (entry ! 1) (order_fill_summary_quantity fill)] else entry)"

lemma add_fill_sides:
  "add_fill m bm fill acc =
     (case hm_find_value (order_fill_summary_pool_id fill) m of
        None \<Rightarrow> acc
      | Some name \<Rightarrow> hm_insert name (add_sides bm fill (hm_get acc name)) acc)"
  by (simp add: add_fill_def add_sides_def Let_def split: option.split)

lemma fold_add_sides:
  "fold (\<lambda>f v. Some (add_sides bm f v)) fills (Some [wrap_i64 a, wrap_i64 b]) =
     Some [wrap_i64 (a + maker_volume bm fills), wrap_i64 (b + taker_volume bm fills)]"
proof (induction fills arbitrary: a b)
  case (Cons f fills)
  show ?case
    using Cons [of "a + order_fill_summary_quantity f" "b + order_fill_summary_quantity f"]
      Cons [of "a + order_fill_summary_quantity f" b]
      Cons [of a "b + order_fill_summary_quantity f"] Cons [of a b]
    by (simp add: add_sides_def i64_add_def maker_volume_def taker_volume_def add.assoc)
qed (simp add: maker_volume_def taker_volume_def)

lemma fold_add_sides_None:
  "fold (\<lambda>f v. Some (add_sides bm f v)) fills None =
     (if fills = [] then None
      else Some [wrap_i64 (maker_volume bm fills), wrap_i64 (taker_volume bm fills)])"
proof (cases fills)
  case (Cons f fs)
  have "wrap_i64 0 = 0" by (simp add: wrap_i64_id in_i64_def i64_min_def i64_max_def)
  then have "add_sides bm f None = add_sides bm f (Some [wrap_i64 0, wrap_i64 0])"
    by (simp add: add_sides_def)
  then have "fold (\<lambda>f v. Some (add_sides bm f v)) fills None =
      fold (\<lambda>f v. Some (add_sides bm f v)) fills (Some [wrap_i64 0, wrap_i64 0])"
    using Cons by simp
  then show ?thesis using Cons fold_add_sides [of bm fills 0 0] by simp
qed simp

text \<open>The entry of a pool after a query: the sums over the summaries of the pool.\<close>

lemma fills_of_pool:
  assumes "pools_wf pools" and "p \<in> set pools"
  shows "hm_get (fold (add_fill (pool_name_to_id pools) bm) fills []) (pools_pool_name p) =
    (let own = filter (\<lambda>f. order_fill_summary_pool_id f = pools_pool_id p) fills
     in if own = [] then None
        else Some [wrap_i64 (maker_volume bm own), wrap_i64 (taker_volume bm own)])"
proof -
  have "hm_get (fold (add_fill (pool_name_to_id pools) bm) fills []) (pools_pool_name p) =
      fold (\<lambda>f v. Some (add_sides bm f v))
        (filter (\<lambda>f. hm_find_value (order_fill_summary_pool_id f) (pool_name_to_id pools) =
           Some (pools_pool_name p)) fills) (hm_get [] (pools_pool_name p))"
    by (rule hm.get_fold_group) (simp add: add_fill_sides)
  then show ?thesis
    by (simp add: pool_of_id_iff [OF assms] hm.get_empty fold_add_sides_None Let_def)
qed

text \<open>What the query for a balance manager reads.\<close>

definition manager_fills ::
  "database \<Rightarrow> i64 \<Rightarrow> i64 \<Rightarrow> string list \<Rightarrow> string \<Rightarrow> bool \<Rightarrow> OrderFillSummary list" where
  "manager_fills db a b ids bm vib =
     map (fill_summary vib)
       (filter (\<lambda>r. order_fills_pool_id r \<in> set ids \<and> between (checkpoint_timestamp_ms r) a b \<and>
                    (order_fills_maker_balance_manager_id r = bm \<or>
                     order_fills_taker_balance_manager_id r = bm))
         (tb_order_fills db))"

lemma get_order_fill_summary_steady:
  "get_order_fill_summary (steady_env db) a b ids bm vib s =
     (Inr (manager_fills db a b ids bm vib),
      s\<lparr>connections := connections s + 1, db_requests_succeeded := db_requests_succeeded s + 1\<rparr>)"
  by (simp add: get_order_fill_summary_def results_def db_request_def run_query_def manager_fills_def)

definition own_fills :: "database \<Rightarrow> i64 \<Rightarrow> i64 \<Rightarrow> string \<Rightarrow> bool \<Rightarrow> (OrderFill \<Rightarrow> string) \<Rightarrow> string \<Rightarrow> int" where
  "own_fills db a b pid vib side bm =
     sum_list (map (fill_volume vib) (filter (\<lambda>r. side r = bm) (pool_fills db a b pid)))"

lemma sum_fills_side:
  assumes "pid \<in> set ids"
  shows "maker_volume bm (filter (\<lambda>f. order_fill_summary_pool_id f = pid)
      (manager_fills db a b ids bm vib)) = own_fills db a b pid vib order_fills_maker_balance_manager_id bm"
    and "taker_volume bm (filter (\<lambda>f. order_fill_summary_pool_id f = pid)
      (manager_fills db a b ids bm vib)) = own_fills db a b pid vib order_fills_taker_balance_manager_id bm"
  using assms unfolding maker_volume_def taker_volume_def manager_fills_def own_fills_def pool_fills_def
  by (auto simp: filter_map comp_def fill_summary_def intro!: arg_cong [where f = sum_list]
      arg_cong [where f = "map _"] filter_cong)

text \<open>C30: when the pools have unique names and unique ids (nothing in the schema enforces the names: of
  two pools with one name only one is reported) and the request is answered, the volume of a balance
  manager in a requested pool is reported as the pair of the sum over the fills of the window in which
  it is the maker and the sum over those in which it is the taker, modulo 2^64; a fill with itself
  counts on both sides. Without such fills there is no entry.\<close>

theorem balance_manager_volume:
  assumes "get_historical_volume_by_balance_manager_id env now names bm params s = (Inr vol, s')"
    and "pools_wf (tb_pools (contents env (connections s)))"
    and "p \<in> set (tb_pools (contents env (connections s)))"
    and "pools_pool_name p \<in> set (split_on (CHR '','') names)"
  shows "hm_get vol (pools_pool_name p) =
    (let e = param_end_time now params; a = window_start params e; vib = param_volume_in_base params;
         db = contents env (connections s + 1)
     in if filter (\<lambda>r. order_fills_maker_balance_manager_id r = bm \<or>
                       order_fills_taker_balance_manager_id r = bm)
             (pool_fills db a e (pools_pool_id p)) = [] then None
        else Some [wrap_i64 (own_fills db a e (pools_pool_id p) vib order_fills_maker_balance_manager_id bm),
                   wrap_i64 (own_fills db a e (pools_pool_id p) vib order_fills_taker_balance_manager_id bm)])"
proof -
  let ?pools = "tb_pools (contents env (connections s))"
  let ?ids = "requested_pool_ids (pool_name_to_id ?pools) names"
  let ?e = "param_end_time now params"
  let ?a = "window_start params ?e"
  let ?vib = "param_volume_in_base params"
  let ?db = "contents env (connections s + 1)"
  have id: "pools_pool_id p \<in> set ?ids" using assms(2-4) by (rule requested_pool_ids_member)
  then have ne: "?ids \<noteq> []" by auto
  have vol: "vol = fold (add_fill (pool_name_to_id ?pools) bm) (manager_fills ?db ?a ?e ?ids bm ?vib) []"
    using assms(1) ne
    by (auto simp: get_historical_volume_by_balance_manager_id_def rpc_bind_Inr get_pools_def
        results_Inr Let_def rpc_map_Inr get_order_fill_summary_def manager_fills_def)
  have "filter (\<lambda>f. order_fill_summary_pool_id f = pools_pool_id p)
        (manager_fills ?db ?a ?e ?ids bm ?vib) = [] \<longleftrightarrow>
      filter (\<lambda>r. order_fills_maker_balance_manager_id r = bm \<or>
                  order_fills_taker_balance_manager_id r = bm)
        (pool_fills ?db ?a ?e (pools_pool_id p)) = []"
    using id by (auto simp: manager_fills_def pool_fills_def filter_empty_conv fill_summary_def)
  then show ?thesis
    unfolding vol fills_of_pool [OF assms(2,3)] Let_def sum_fills_side [OF id] by simp
qed

section \<open>The intervals\<close>

text \<open>The entries of the first \<open>n\<close> intervals from \<open>start\<close>.\<close>

definition interval_entries ::
  "database \<Rightarrow> (string, string) hash_map \<Rightarrow> string list \<Rightarrow> string \<Rightarrow> bool \<Rightarrow> i64 \<Rightarrow> i64 \<Rightarrow> nat \<Rightarrow>
   (string \<times> (string, i64 list) hash_map) list" where
  "interval_entries db m ids bm vib d start n =
     map (\<lambda>k. (interval_key (start + int k * d) (start + int (Suc k) * d),
               fold (add_fill m bm)
                 (manager_fills db (start + int k * d) (start + int (Suc k) * d) ids bm vib) []))
       [0..<n]"

lemma interval_entries_Suc:
  "interval_entries db m ids bm vib d start (Suc n) =
     (interval_key start (start + d), fold (add_fill m bm) (manager_fills db start (start + d) ids bm vib) [])
       # interval_entries db m ids bm vib d (start + d) n"
  by (simp add: interval_entries_def map_upt_Suc algebra_simps del: upt_Suc)

definition after_requests :: "nat \<Rightarrow> rpc_state \<Rightarrow> rpc_state" where
  "after_requests n s =
     s\<lparr>connections := connections s + n, db_requests_succeeded := db_requests_succeeded s + n\<rparr>"

lemma number_of_intervals_Suc:
  fixes d x :: int
  assumes "0 < d" and "d \<le> x"
  shows "nat (x div d) = Suc (nat ((x - d) div d))"
proof -
  have "x div d = (x - d) div d + 1" using assms by (metis add_diff_cancel_right' diff_add_cancel div_add_self2 less_irrefl)
  moreover have "0 \<le> (x - d) div d" using assms by (simp add: pos_imp_zdiv_nonneg_iff)
  ultimately show ?thesis by simp
qed

lemma div_ge_one_iff: "0 < (d::int) \<Longrightarrow> 1 \<le> x div d \<longleftrightarrow> d \<le> x"
  using pos_imp_zdiv_pos_iff [of d x] by linarith

lemma interval_loop_returns:
  assumes "0 < d" and "in_i64 start" and "start \<le> end_time" and "in_i64 (end_time + d)"
  shows "interval_loop (steady_env db) m ids bm vib d end_time start acc s =
     Some (Inr (fold (\<lambda>(k, v). hm_insert k v)
              (interval_entries db m ids bm vib d start (nat ((end_time - start) div d))) acc),
           after_requests (nat ((end_time - start) div d)) s)"
  using assms
proof (induction "nat ((end_time - start) div d)" arbitrary: start acc s)
  case 0
  then have "\<not> d \<le> end_time - start" using div_ge_one_iff [of d "end_time - start"] by simp
  moreover have "in_i64 (start + d)" using 0 by (auto simp: in_i64_def)
  ultimately have "\<not> i64_add start d \<le> end_time" by (simp add: i64_add_def wrap_i64_id)
  then show ?case using 0
    by (subst interval_loop.simps) (simp add: interval_entries_def after_requests_def)
next
  case (Suc n)
  have le: "d \<le> end_time - start"
    using div_ge_one_iff [OF Suc.prems(1), of "end_time - start"] Suc.hyps(2) by linarith
  have n: "n = nat ((end_time - (start + d)) div d)"
    using number_of_intervals_Suc [OF Suc.prems(1) le] Suc.hyps(2) by (simp add: algebra_simps)
  have i: "in_i64 (start + d)" using Suc.prems le by (auto simp: in_i64_def)
  then have add: "i64_add start d = start + d" by (simp add: i64_add_def wrap_i64_id)
  have le': "start + d \<le> end_time" using le by simp
  show ?case
    unfolding Suc.hyps(2) [symmetric]
    by (subst interval_loop.simps)
      (simp add: add le' get_order_fill_summary_steady
        Suc.hyps(1) [OF n Suc.prems(1) i le' Suc.prems(4)] n [symmetric]
        interval_entries_Suc after_requests_def Let_def)
qed

text \<open>On any database, the loop ends when its interval is positive and does not take the end of the window
  past 64 bits.\<close>

lemma interval_loop_some:
  assumes "0 < d" and "in_i64 start" and "start \<le> end_time" and "in_i64 (end_time + d)"
  shows "interval_loop env m ids bm vib d end_time start acc s \<noteq> None"
  using assms
proof (induction "nat (end_time - start)" arbitrary: start acc s rule: less_induct)
  case less
  have i: "in_i64 (start + d)" using less.prems by (auto simp: in_i64_def)
  then have add: "i64_add start d = start + d" by (simp add: i64_add_def wrap_i64_id)
  show ?case
  proof (cases "start + d \<le> end_time")
    case True
    then have "nat (end_time - (start + d)) < nat (end_time - start)" using less.prems(1) by simp
    from less.hyps [OF this less.prems(1) i True less.prems(4)]
    show ?thesis by (subst interval_loop.simps) (simp add: add Let_def split: prod.split sum.split)
  next
    case False
    then show ?thesis by (subst interval_loop.simps) (simp add: add)
  qed
qed

lemma interval_loop_terminates:
  assumes "0 < d" and "in_i64 start" and "in_i64 (end_time + d)"
  shows "interval_loop env m ids bm vib d end_time start acc s \<noteq> None"
proof (cases "start \<le> end_time")
  case True
  then show ?thesis using assms by (rule_tac interval_loop_some)
next
  case False
  have "in_i64 (i64_add start d)" by (simp add: i64_add_def)
  then show ?thesis
    using assms interval_loop_some [of d "i64_add start d" end_time env m ids bm vib]
    by (subst interval_loop.simps) (simp add: Let_def split: prod.split sum.split)
qed

lemma interval_request_terminates:
  assumes "get_historical_volume_by_balance_manager_id_with_interval env now names bm params s = None"
  shows "let interval = unwrap_or 3600 (param_i64 ''interval'' params); d = i64_mul interval 1000
    in 0 < interval \<and> (d \<le> 0 \<or> \<not> in_i64 (param_end_time now params + d))"
proof -
  let ?d = "i64_mul (unwrap_or 3600 (param_i64 ''interval'' params)) 1000"
  let ?until = "param_end_time now params"
  have "in_i64 (window_start params ?until)"
    by (auto simp: window_start_def param_start_time_def unwrap_or_def i64_mul_def i64_sub_def split: option.split)
  then have "interval_loop env m ids bm vib ?d ?until (window_start params ?until) acc s' \<noteq> None"
    if "0 < ?d" "in_i64 (?until + ?d)" for m ids vib acc s'
    using that by (intro interval_loop_terminates)
  moreover from assms obtain m ids vib acc s' where "0 < unwrap_or 3600 (param_i64 ''interval'' params)"
    "interval_loop env m ids bm vib ?d ?until (window_start params ?until) acc s' = None"
    by (auto simp: get_historical_volume_by_balance_manager_id_with_interval_def Let_def
        split: prod.splits sum.splits if_splits)
  ultimately show ?thesis unfolding Let_def by (meson not_le)
qed
lemma interval_loop_stuck:
  assumes "in_i64 start" and "start \<le> end_time"
  shows "interval_loop (steady_env db) m ids bm vib 0 end_time start acc s = None"
proof (rule ccontr)
  let ?P = "\<lambda>env (m :: (string, string) hash_map) (ids :: string list) (bm :: string) (vib :: bool) (d :: int) e
    (st :: int) (acc :: interval_volumes) (s :: rpc_state)
    (y :: (DeepBookError + interval_volumes) \<times> rpc_state).
    \<not> (env = steady_env db \<and> d = 0 \<and> in_i64 st \<and> st \<le> e)"
  assume "\<not> ?thesis"
  then obtain y where y: "interval_loop (steady_env db) m ids bm vib 0 end_time start acc s = Some y"
    by blast
  have "?P (steady_env db) m ids bm vib 0 end_time start acc s y"
  proof (rule interval_loop.raw_induct [where P = ?P, OF _ y])
    fix loop env m ids bm vib d e st acc s y
    assume IH: "\<And>env m ids bm vib d e st acc s y.
        loop env m ids bm vib d e st acc s = Some y \<Longrightarrow> ?P env m ids bm vib d e st acc s y"
      and step: "(if i64_add st d \<le> e then
          (let current_end = i64_add st d
           in case get_order_fill_summary env st current_end ids bm vib s of
                (r, s') \<Rightarrow> (case r of Inl e' \<Rightarrow> Some (Inl e', s')
                  | Inr fills \<Rightarrow> loop env m ids bm vib d e current_end
                      (hm_insert (interval_key st current_end) (fold (add_fill m bm) fills []) acc) s'))
        else Some (Inr acc, s)) = Some y"
    show "?P env m ids bm vib d e st acc s y"
    proof
      assume a: "env = steady_env db \<and> d = 0 \<and> in_i64 st \<and> st \<le> e"
      then have "i64_add st d = st" by (simp add: i64_add_def wrap_i64_id)
      with step a have "loop env m ids bm vib d e st
          (hm_insert (interval_key st st) (fold (add_fill m bm) (manager_fills db st st ids bm vib) []) acc)
          (s\<lparr>connections := connections s + 1, db_requests_succeeded := db_requests_succeeded s + 1\<rparr>) = Some y"
        by (simp add: get_order_fill_summary_steady)
      from IH [OF this] a show False by blast
    qed
  qed
  with assms show False by blast
qed

section \<open>Keys of the intervals\<close>

lemma show_int_no_comma: "CHR '','' \<notin> set (show_int x)"
proof -
  have "c \<noteq> CHR '',''" if "c \<in> set (show_nat n)" for c n
    using show_nat_digits [of n] that by (auto simp: list_all_iff is_digit_def)
  then show ?thesis by (auto simp: show_int_def)
qed

lemma interval_key_inj:
  assumes "interval_key a b = interval_key a' b'"
    and "in_i64 (trunc_div a 1000)" and "in_i64 (trunc_div a' 1000)"
  shows "trunc_div a 1000 = trunc_div a' 1000"
proof -
  have tw: "takeWhile (\<lambda>c. c \<noteq> CHR '','') (show_int x @ CHR '','' # r) = show_int x" for x r
    using show_int_no_comma [of x] by (subst takeWhile_append2) auto
  have "show_int (trunc_div a 1000) @ CHR '','' # CHR '' '' # show_int (trunc_div b 1000) @ '']'' =
      show_int (trunc_div a' 1000) @ CHR '','' # CHR '' '' # show_int (trunc_div b' 1000) @ '']''"
    using assms(1) by (simp add: interval_key_def)
  then have "show_int (trunc_div a 1000) = show_int (trunc_div a' 1000)" by (metis tw)
  then show ?thesis using parse_i64_show assms(2,3) by (metis option.inject)
qed

lemma div_1000_bounds: "0 \<le> (x::int) \<Longrightarrow> 0 \<le> x div 1000 \<and> x div 1000 \<le> x"
  using zdiv_mono2 [of x 1 1000] by (simp add: pos_imp_zdiv_nonneg_iff)

lemma in_i64_le: "0 \<le> x \<Longrightarrow> x \<le> y \<Longrightarrow> in_i64 y \<Longrightarrow> in_i64 x"
  by (auto simp: in_i64_def i64_min_def)

lemma interval_keys_distinct:
  assumes "0 < i" and "0 \<le> start" and "in_i64 (start + int n * (i * 1000))"
  shows "distinct (map fst (interval_entries db m ids bm vib (i * 1000) start n))"
proof -
  let ?t = "\<lambda>k. start + int k * (i * 1000)"
  have b: "0 \<le> ?t k \<and> in_i64 (trunc_div (?t k) 1000) \<and> trunc_div (?t k) 1000 = start div 1000 + int k * i"
    if "k < n" for k
  proof -
    have "0 \<le> int k * (i * 1000)" "int k * (i * 1000) \<le> int n * (i * 1000)"
      using that assms(1) by (simp_all add: mult_right_mono)
    then have r: "0 \<le> ?t k" "?t k \<le> start + int n * (i * 1000)" using assms(2) by simp_all
    have e: "trunc_div (?t k) 1000 = ?t k div 1000" using r(1) by (simp add: trunc_div_nonneg)
    have "?t k div 1000 = (start + (int k * i) * 1000) div 1000" by (simp add: mult.assoc)
    also have "\<dots> = start div 1000 + int k * i" by simp
    finally have d: "?t k div 1000 = start div 1000 + int k * i" .
    note q = div_1000_bounds [OF r(1)]
    have "in_i64 (?t k div 1000)"
      by (rule in_i64_le [OF conjunct1 [OF q] order_trans [OF conjunct2 [OF q] r(2)] assms(3)])
    with e d r(1) show ?thesis by simp
  qed
  have "interval_key (?t k) x \<noteq> interval_key (?t l) y" if "k < n" "l < n" "k \<noteq> l" for k l x y
  proof
    assume "interval_key (?t k) x = interval_key (?t l) y"
    then have "trunc_div (?t k) 1000 = trunc_div (?t l) 1000"
      using b [OF that(1)] b [OF that(2)] by (intro interval_key_inj) auto
    then show False using b [OF that(1)] b [OF that(2)] assms(1) that(3) by simp
  qed
  then have "inj_on (\<lambda>k. interval_key (?t k) (?t (Suc k))) (set [0..<n])"
    by (intro inj_onI) (metis atLeastLessThan_iff set_upt)
  then show ?thesis by (simp add: interval_entries_def distinct_map comp_def)
qed

section \<open>The request by intervals\<close>

text \<open>A request on a steady database with an interval of \<open>i\<close> seconds, from \<open>a\<close> to \<open>e\<close>.\<close>

definition interval_request ::
  "database \<Rightarrow> string \<Rightarrow> params \<Rightarrow> i64 \<Rightarrow> i64 \<Rightarrow> i64 \<Rightarrow> i64 \<Rightarrow> bool" where
  "interval_request db names params now i a e \<longleftrightarrow>
     requested_pool_ids (pool_name_to_id (tb_pools db)) names \<noteq> [] \<and>
     params ''interval'' = Some (show_int i) \<and> in_i64 i \<and> 0 < i \<and> in_i64 (i * 1000) \<and>
     e = param_end_time now params \<and> a = window_start params e \<and>
     0 \<le> a \<and> a \<le> e \<and> in_i64 (e + i * 1000)"

lemma interval_request_entries:
  fixes db names params now i a e bm
  assumes "interval_request db names params now i a e"
  defines "d \<equiv> i * 1000" and "m \<equiv> pool_name_to_id (tb_pools db)"
  shows "\<exists>acc s'. get_historical_volume_by_balance_manager_id_with_interval (steady_env db) now names bm
      params s = Some (Inr acc, s') \<and>
    (\<forall>k<nat ((e - a) div d).
       hm_get acc (interval_key (a + int k * d) (a + int (Suc k) * d)) =
         Some (fold (add_fill m bm) (manager_fills db (a + int k * d) (a + int (Suc k) * d)
           (requested_pool_ids m names) bm (param_volume_in_base params)) [])) \<and>
    set (map fst acc) = (\<lambda>k. interval_key (a + int k * d) (a + int (Suc k) * d)) ` {..<nat ((e - a) div d)}"
proof -
  let ?ids = "requested_pool_ids m names"
  let ?vib = "param_volume_in_base params"
  let ?n = "nat ((e - a) div d)"
  let ?es = "interval_entries db m ?ids bm ?vib d a ?n"
  have i: "in_i64 i" "0 < i" "in_i64 d" "0 \<le> a" "a \<le> e" "in_i64 (e + d)" "?ids \<noteq> []"
    "params ''interval'' = Some (show_int i)" "e = param_end_time now params" "a = window_start params e"
    using assms(1) unfolding interval_request_def d_def m_def by blast+
  have d: "0 < d" using i(2) by (simp add: d_def)
  have nd: "int ?n * d \<le> e - a"
    using i(5) d by (simp add: pos_imp_zdiv_nonneg_iff minus_mod_eq_div_mult [symmetric])
  have "0 \<le> int ?n * d" using d by simp
  then have "0 \<le> a + int ?n * d" "a + int ?n * d \<le> e + d" "a \<le> e + d"
    using nd d i(4,5) by linarith+
  then have n: "in_i64 (a + int ?n * d)" "in_i64 a" using i(4,6) by (blast intro: in_i64_le)+
  have mul: "i64_mul i 1000 = d" using i(3) by (simp add: i64_mul_def d_def wrap_i64_id)
  have "get_historical_volume_by_balance_manager_id_with_interval (steady_env db) now names bm params s =
      interval_loop (steady_env db) m ?ids bm ?vib d e a []
        (s\<lparr>connections := connections s + 1, db_requests_succeeded := db_requests_succeeded s + 1\<rparr>)"
    using i(1,2,7,8) unfolding i(9,10)
    by (simp add: get_historical_volume_by_balance_manager_id_with_interval_def get_pools_def
        results_def db_request_def run_query_def Let_def m_def [symmetric] param_i64_def parse_i64_show
        mul not_le)
  also have "\<dots> = Some (Inr (hm_collect ?es), after_requests ?n
      (s\<lparr>connections := connections s + 1, db_requests_succeeded := db_requests_succeeded s + 1\<rparr>))"
    by (simp add: interval_loop_returns [OF d n(2) i(5,6)] hm_collect_def)
  finally have eq: "get_historical_volume_by_balance_manager_id_with_interval (steady_env db) now names bm
      params s = \<dots>" .
  have dk: "distinct (map fst ?es)"
    using interval_keys_distinct [OF i(2,4)] n(1) unfolding d_def by blast
  have "hm_get (hm_collect ?es) (interval_key (a + int k * d) (a + int (Suc k) * d)) =
      Some (fold (add_fill m bm) (manager_fills db (a + int k * d) (a + int (Suc k) * d) ?ids bm ?vib) [])"
    if "k < ?n" for k
    unfolding hm_get_collect_distinct [OF dk]
    by (rule map_of_is_SomeI [OF dk]) (use that in \<open>auto simp: interval_entries_def\<close>)
  moreover have "set (map fst (hm_collect ?es)) =
      (\<lambda>k. interval_key (a + int k * d) (a + int (Suc k) * d)) ` {..<?n}"
    by (simp add: hm_collect_keys interval_entries_def comp_def image_comp lessThan_atLeast0)
  ultimately show ?thesis using eq by blast
qed

text \<open>C8: on a steady database whose pools have unique names and unique ids, a request by intervals
  returns when it asks for at least one pool of the database, gives an interval of \<open>i > 0\<close> seconds whose
  milliseconds fit in i64, and its window \<open>a .. e\<close> satisfies \<open>0 \<le> a \<le> e\<close> and ends more than an interval
  before the largest i64 (with a larger interval it may never return: that is another property). Its
  window is then cut into the full intervals from its start, each with its own entry, and what is left after
  the last full interval is dropped. The entry of an interval holds for every requested pool with
  fills of the manager in the interval, bounds included, the maker and the taker volume.\<close>

theorem interval_volumes_tile:
  fixes db names params now i a e bm
  assumes "interval_request db names params now i a e" and "pools_wf (tb_pools db)"
    and "p \<in> set (tb_pools db)" and "pools_pool_name p \<in> set (split_on (CHR '','') names)"
  shows "\<exists>acc s'. get_historical_volume_by_balance_manager_id_with_interval (steady_env db) now names bm
      params s = Some (Inr acc, s') \<and>
    (\<forall>k<nat ((e - a) div (i * 1000)). let l = a + int k * (i * 1000); h = l + i * 1000;
         vib = param_volume_in_base params; pid = pools_pool_id p in
       \<exists>vol. hm_get acc (interval_key l h) = Some vol \<and>
         hm_get vol (pools_pool_name p) =
           (if filter (\<lambda>r. order_fills_maker_balance_manager_id r = bm \<or>
                           order_fills_taker_balance_manager_id r = bm) (pool_fills db l h pid) = []
            then None
            else Some [wrap_i64 (own_fills db l h pid vib order_fills_maker_balance_manager_id bm),
                       wrap_i64 (own_fills db l h pid vib order_fills_taker_balance_manager_id bm)])) \<and>
    card (set (map fst acc)) \<le> nat ((e - a) div (i * 1000))"
proof -
  let ?m = "pool_name_to_id (tb_pools db)"
  let ?ids = "requested_pool_ids ?m names"
  let ?vib = "param_volume_in_base params"
  let ?n = "nat ((e - a) div (i * 1000))"
  let ?l = "\<lambda>k. a + int k * (i * 1000)"
  have id: "pools_pool_id p \<in> set ?ids" using assms(2-4) by (rule requested_pool_ids_member)
  obtain acc s' where r: "get_historical_volume_by_balance_manager_id_with_interval (steady_env db) now
      names bm params s = Some (Inr acc, s')"
    and acc: "\<forall>k<?n. hm_get acc (interval_key (?l k) (?l (Suc k))) =
      Some (fold (add_fill ?m bm) (manager_fills db (?l k) (?l (Suc k)) ?ids bm ?vib) [])"
    and keys: "set (map fst acc) = (\<lambda>k. interval_key (?l k) (?l (Suc k))) ` {..<?n}"
    using interval_request_entries [OF assms(1)] by blast
  have fills: "filter (\<lambda>f. order_fill_summary_pool_id f = pools_pool_id p)
        (manager_fills db l h ?ids bm ?vib) = [] \<longleftrightarrow>
      filter (\<lambda>r. order_fills_maker_balance_manager_id r = bm \<or>
                  order_fills_taker_balance_manager_id r = bm)
        (pool_fills db l h (pools_pool_id p)) = []" for l h
    using id by (auto simp: manager_fills_def pool_fills_def filter_empty_conv fill_summary_def)
  have "?l (Suc k) = ?l k + i * 1000" for k by (simp add: algebra_simps)
  with acc have "\<forall>k<?n. hm_get acc (interval_key (?l k) (?l k + i * 1000)) =
      Some (fold (add_fill ?m bm) (manager_fills db (?l k) (?l k + i * 1000) ?ids bm ?vib) [])"
    by (simp add: add.assoc)
  moreover have "card (set (map fst acc)) \<le> ?n"
    unfolding keys using card_image_le [of "{..<?n}"] by simp
  ultimately show ?thesis
    unfolding Let_def fills [symmetric] sum_fills_side [OF id, symmetric]
    using r fills_of_pool [OF assms(2,3), of bm] by (simp add: Let_def)
qed

section \<open>Fills on a boundary\<close>

lemma own_fills_split:
  assumes "a \<le> b" and "b \<le> c"
  shows "own_fills db a b pid vib side bm + own_fills db b c pid vib side bm =
    own_fills db a c pid vib side bm + own_fills db b b pid vib side bm"
proof -
  have "sum_list (map f (filter (\<lambda>r. P r) (filter (\<lambda>r. between (t r) a b \<and> Q r) xs))) +
      sum_list (map f (filter (\<lambda>r. P r) (filter (\<lambda>r. between (t r) b c \<and> Q r) xs))) =
      sum_list (map f (filter (\<lambda>r. P r) (filter (\<lambda>r. between (t r) a c \<and> Q r) xs))) +
      (sum_list (map f (filter (\<lambda>r. P r) (filter (\<lambda>r. between (t r) b b \<and> Q r) xs))) :: int)"
    for f t P Q and xs :: "OrderFill list"
    using assms by (induction xs) (auto simp: between_def)
  then show ?thesis by (simp only: own_fills_def pool_fills_def)
qed

lemma own_fills_intervals:
  assumes "0 \<le> d"
  shows "(\<Sum>k<Suc n. own_fills db (a + int k * d) (a + int (Suc k) * d) pid vib side bm) =
    own_fills db a (a + int (Suc n) * d) pid vib side bm +
    (\<Sum>k\<in>{1..<Suc n}. own_fills db (a + int k * d) (a + int k * d) pid vib side bm)"
proof (induction n)
  case (Suc n)
  have "own_fills db a (a + int (Suc n) * d) pid vib side bm +
      own_fills db (a + int (Suc n) * d) (a + int (Suc (Suc n)) * d) pid vib side bm =
      own_fills db a (a + int (Suc (Suc n)) * d) pid vib side bm +
      own_fills db (a + int (Suc n) * d) (a + int (Suc n) * d) pid vib side bm"
    using assms by (intro own_fills_split) (simp_all add: mult_right_mono)
  then show ?case unfolding sum.lessThan_Suc [of _ "Suc n"] Suc.IH by simp
qed simp

text \<open>What the answer says of one side of a pool in one interval: 0 is the maker, 1 the taker.\<close>

definition entry_side :: "interval_volumes \<Rightarrow> string \<Rightarrow> string \<Rightarrow> nat \<Rightarrow> i64" where
  "entry_side acc key name side =
     (case hm_get acc key of
        None \<Rightarrow> 0
      | Some vol \<Rightarrow> (case hm_get vol name of None \<Rightarrow> 0 | Some entry \<Rightarrow> entry ! side))"

lemma wrap_i64_sum: "wrap_i64 (\<Sum>k<n. wrap_i64 (f k)) = wrap_i64 (\<Sum>k<(n::nat). f k)"
proof (induction n)
  case (Suc n)
  have "wrap_i64 ((\<Sum>k<n. wrap_i64 (f k)) + f n) = wrap_i64 (wrap_i64 (\<Sum>k<n. wrap_i64 (f k)) + f n)"
    by simp
  also have "\<dots> = wrap_i64 ((\<Sum>k<n. f k) + f n)" unfolding Suc.IH by simp
  finally show ?case by simp
qed simp

lemma wrap_i64_sum_cong:
  assumes "\<And>k. k < (n::nat) \<Longrightarrow> wrap_i64 (f k) = wrap_i64 (g k)"
  shows "wrap_i64 (\<Sum>k<n. f k) = wrap_i64 (\<Sum>k<n. g k)"
proof -
  have "(\<Sum>k<n. wrap_i64 (f k)) = (\<Sum>k<n. wrap_i64 (g k))" using assms by (intro sum.cong) simp_all
  then show ?thesis by (subst (1 2) wrap_i64_sum [symmetric]) (simp only:)
qed

lemma wrap_i64_0 [simp]: "wrap_i64 0 = 0"
  by (simp add: wrap_i64_id in_i64_def i64_min_def i64_max_def)

text \<open>The intervals overlap in their bounds: added up over the intervals, the maker volume of
  the answer exceeds the volume of the window it covers by the volume of the fills exactly on an
  inner boundary, which are counted twice (modulo 2^64).\<close>

theorem interval_volumes_overcount:
  fixes db names params now i a e bm
  assumes "interval_request db names params now i a e" and "pools_wf (tb_pools db)"
    and "p \<in> set (tb_pools db)" and "pools_pool_name p \<in> set (split_on (CHR '','') names)"
    and "i * 1000 \<le> e - a"
  shows "\<exists>acc s'. get_historical_volume_by_balance_manager_id_with_interval (steady_env db) now names bm
      params s = Some (Inr acc, s') \<and>
    (let n = nat ((e - a) div (i * 1000)); t = (\<lambda>k. a + int k * (i * 1000));
         own = (\<lambda>l h. own_fills db l h (pools_pool_id p) (param_volume_in_base params)
                        order_fills_maker_balance_manager_id bm)
     in wrap_i64 (\<Sum>k<n. entry_side acc (interval_key (t k) (t (Suc k))) (pools_pool_name p) 0) =
        wrap_i64 (own a (t n) + (\<Sum>k\<in>{1..<n}. own (t k) (t k))))"
proof -
  let ?m = "pool_name_to_id (tb_pools db)"
  let ?ids = "requested_pool_ids ?m names"
  let ?vib = "param_volume_in_base params"
  let ?n = "nat ((e - a) div (i * 1000))"
  let ?t = "\<lambda>k. a + int k * (i * 1000)"
  let ?own = "\<lambda>l h. own_fills db l h (pools_pool_id p) ?vib order_fills_maker_balance_manager_id bm"
  have id: "pools_pool_id p \<in> set ?ids" using assms(2-4) by (rule requested_pool_ids_member)
  have i: "0 < i" using assms(1) by (simp add: interval_request_def)
  obtain acc s' where r: "get_historical_volume_by_balance_manager_id_with_interval (steady_env db) now
      names bm params s = Some (Inr acc, s')"
    and acc: "\<forall>k<?n. hm_get acc (interval_key (?t k) (?t (Suc k))) =
      Some (fold (add_fill ?m bm) (manager_fills db (?t k) (?t (Suc k)) ?ids bm ?vib) [])"
    using interval_request_entries [OF assms(1)] by blast
  have "wrap_i64 (entry_side acc (interval_key (?t k) (?t (Suc k))) (pools_pool_name p) 0) =
      wrap_i64 (?own (?t k) (?t (Suc k)))" if "k < ?n" for k
  proof -
    have g: "hm_get acc (interval_key (?t k) (?t (Suc k))) =
        Some (fold (add_fill ?m bm) (manager_fills db (?t k) (?t (Suc k)) ?ids bm ?vib) [])"
      using acc that by blast
    show ?thesis
      unfolding entry_side_def g option.case fills_of_pool [OF assms(2,3)]
        sum_fills_side [OF id, symmetric]
      by (simp add: Let_def maker_volume_def del: filter_filter)
  qed
  then have main: "wrap_i64 (\<Sum>k<?n. entry_side acc (interval_key (?t k) (?t (Suc k))) (pools_pool_name p) 0) =
      wrap_i64 (\<Sum>k<?n. ?own (?t k) (?t (Suc k)))"
    by (rule wrap_i64_sum_cong)
  have "1 \<le> (e - a) div (i * 1000)" using assms(5) i div_ge_one_iff [of "i * 1000" "e - a"] by simp
  then have "?n = Suc (?n - 1)" by simp
  then obtain n where n: "?n = Suc n" by blast
  have "(\<Sum>k<?n. ?own (?t k) (?t (Suc k))) = ?own a (?t ?n) + (\<Sum>k\<in>{1..<?n}. ?own (?t k) (?t k))"
    unfolding n using i by (intro own_fills_intervals) simp
  with main have "wrap_i64 (\<Sum>k<?n. entry_side acc (interval_key (?t k) (?t (Suc k))) (pools_pool_name p) 0) =
      wrap_i64 (?own a (?t ?n) + (\<Sum>k\<in>{1..<?n}. ?own (?t k) (?t k)))"
    by (simp only:)
  with r show ?thesis unfolding Let_def by blast
qed

text \<open>C9: the interval is multiplied by 1000 in 64 bits after it was checked to be positive: with an
  interval of 2^61 seconds the product is 0, and the request never returns.\<close>

theorem interval_request_diverges:
  assumes "requested_pool_ids (pool_name_to_id (tb_pools db)) names \<noteq> []"
    and "params ''interval'' = Some (show_int (2 ^ 61))"
    and "in_i64 (window_start params (param_end_time now params))"
    and "window_start params (param_end_time now params) \<le> param_end_time now params"
  shows "get_historical_volume_by_balance_manager_id_with_interval (steady_env db) now names bm params s =
    None"
proof -
  have "in_i64 (2 ^ 61)" "i64_mul (2 ^ 61) 1000 = 0"
    by (simp_all add: in_i64_def i64_min_def i64_max_def i64_mul_def wrap_i64_def)
  then show ?thesis using assms
    by (simp add: get_historical_volume_by_balance_manager_id_with_interval_def get_pools_def
        results_def db_request_def run_query_def Let_def param_i64_def parse_i64_show
        interval_loop_stuck)
qed

section \<open>An example\<close>

definition example_pools :: "Pools list" where
  "example_pools = [\<lparr>pools_pool_id = ''0x1'', pools_pool_name = ''A_B'', pools_base_asset_id = ''0xa'',
     pools_base_asset_decimals = 9, pools_base_asset_symbol = ''A'', pools_base_asset_name = ''A'',
     pools_quote_asset_id = ''0xb'', pools_quote_asset_decimals = 6, pools_quote_asset_symbol = ''B'',
     pools_quote_asset_name = ''B'', pools_min_size = 1, pools_lot_size = 1, pools_tick_size = 1\<rparr>]"

definition example_fill :: "int \<Rightarrow> OrderFill" where
  "example_fill t = \<lparr>event_digest = [], digest = [], sender = [], checkpoint = 0,
     checkpoint_timestamp_ms = t, package = [], order_fills_pool_id = ''0x1'',
     order_fills_maker_order_id = ''1'', order_fills_taker_order_id = ''2'',
     order_fills_maker_client_order_id = 0, order_fills_taker_client_order_id = 0,
     order_fills_price = 5, order_fills_taker_fee = 0, order_fills_taker_fee_is_deep = False,
     order_fills_maker_fee = 0, order_fills_maker_fee_is_deep = False, order_fills_taker_is_bid = True,
     order_fills_base_quantity = 7, order_fills_quote_quantity = 3,
     order_fills_maker_balance_manager_id = ''0xm'', order_fills_taker_balance_manager_id = ''0xt'',
     order_fills_onchain_timestamp = t\<rparr>"

definition example_db :: database where
  "example_db = empty_database\<lparr>tb_pools := example_pools, tb_order_fills := [example_fill 2000]\<rparr>"

definition example_params :: params where
  "example_params = [''interval'' \<mapsto> ''1'', ''start_time'' \<mapsto> ''1'', ''end_time'' \<mapsto> ''3'']"

lemma example_pools_simps:
  "pools_wf example_pools" "hd example_pools \<in> set example_pools"
  "tb_pools example_db = example_pools" "pools_pool_name (hd example_pools) = ''A_B''"
  "pools_pool_id (hd example_pools) = ''0x1''" "tb_order_fills example_db = [example_fill 2000]"
  by (simp_all add: example_pools_def example_db_def pools_wf_def)

lemma example_pool_ids: "requested_pool_ids (pool_name_to_id example_pools) ''A_B'' = [''0x1'']"
  by (simp add: requested_pool_ids_def pool_name_to_id_def hm_collect_def hm_insert_def hm_get_def
      example_pools_def List.map_filter_def)

lemma example_numbers: "parse_i64 ''1'' = Some 1" "parse_i64 ''3'' = Some 3" "show_int 1 = ''1''"
proof -
  have "show_int 1 = ''1''" "show_int 3 = ''3''" by code_simp+
  then show "parse_i64 ''1'' = Some 1" "parse_i64 ''3'' = Some 3" "show_int 1 = ''1''"
    using parse_i64_show [of 1] parse_i64_show [of 3]
    by (simp_all add: in_i64_def i64_min_def i64_max_def)
qed

lemma example_interval_request:
  "interval_request example_db ''A_B'' example_params 0 1 1000 3000"
  by (simp add: example_pool_ids interval_request_def example_pools_simps example_numbers in_i64_def
      i64_min_def i64_max_def param_end_time_def window_start_def param_start_time_def param_i64_def
      example_params_def i64_mul_def wrap_i64_def)

theorem all_historical_volume_sum_witness:
  "\<exists>vol s. all_historical_volume_with_pools (steady_env example_db) 5000 example_params example_pools
     fresh_state = (Inr vol, s) \<and> hm_get vol ''A_B'' = Some 3"
proof -
  have "\<exists>vol s. all_historical_volume_with_pools (steady_env example_db) 5000 example_params example_pools
      fresh_state = (Inr vol, s)"
  proof -
    have "join '','' (map pools_pool_name example_pools) = ''A_B''" by (simp add: example_pools_def)
    then have "requested_pool_ids (pool_name_to_id example_pools)
        (join '','' (map pools_pool_name example_pools)) = [''0x1'']"
      by (simp only: example_pool_ids)
    then show ?thesis
      by (simp add: all_historical_volume_with_pools_def historical_volume_with_pools_def Let_def
          rpc_map_def rpc_bind_def rpc_return_def get_historical_volume_def results_def db_request_def
          run_query_def)
  qed
  then obtain vol s where r: "all_historical_volume_with_pools (steady_env example_db) 5000
      example_params example_pools fresh_state = (Inr vol, s)" by blast
  have n: "list_all (\<lambda>q. CHR '','' \<notin> set (pools_pool_name q)) example_pools"
    by (simp add: example_pools_def)
  have "hm_get vol ''A_B'' = Some 3"
    using all_historical_volume_sum [OF r example_pools_simps(1,2) n]
    by (simp add: example_pools_simps Let_def pool_fills_def between_def example_fill_def example_numbers
        param_end_time_def window_start_def param_start_time_def param_i64_def example_params_def
        i64_mul_def wrap_i64_def fill_volume_def param_volume_in_base_def as_u64_def)
  with r show ?thesis by blast
qed

theorem interval_volumes_tile_witness:
  "\<exists>acc s'. get_historical_volume_by_balance_manager_id_with_interval (steady_env example_db) 0 ''A_B''
     ''0xm'' example_params fresh_state = Some (Inr acc, s') \<and> card (set (map fst acc)) \<le> 2"
proof -
  have "''A_B'' \<in> set (split_on (CHR '','') ''A_B'')" by simp
  then show ?thesis
    using interval_volumes_tile [OF example_interval_request, of "hd example_pools" "''0xm''" fresh_state]
    by (auto simp: example_pools_simps)
qed

theorem interval_volumes_overcount_witness:
  "\<exists>acc s'. get_historical_volume_by_balance_manager_id_with_interval (steady_env example_db) 0 ''A_B''
     ''0xm'' example_params fresh_state = Some (Inr acc, s') \<and>
     wrap_i64 (entry_side acc (interval_key 1000 2000) ''A_B'' 0 +
               entry_side acc (interval_key 2000 3000) ''A_B'' 0) = 6"
proof -
  have s: "''A_B'' \<in> set (split_on (CHR '','') ''A_B'')" by simp
  have "{..<Suc (Suc 0)} = {0, 1}" "{Suc 0..<Suc (Suc 0)} = {1}" by auto
  then show ?thesis
    using interval_volumes_overcount [OF example_interval_request, of "hd example_pools" "''0xm''" fresh_state] s
    by (simp add: example_pools_simps Let_def own_fills_def pool_fills_def between_def
        example_fill_def fill_volume_def param_volume_in_base_def example_params_def numeral_2_eq_2
        wrap_i64_def)
qed

theorem interval_request_diverges_witness:
  "get_historical_volume_by_balance_manager_id_with_interval (steady_env example_db) 86400000 ''A_B''
     ''0xm'' [''interval'' \<mapsto> show_int (2 ^ 61)] fresh_state = None"
proof -
  have ids: "requested_pool_ids (pool_name_to_id (tb_pools example_db)) ''A_B'' \<noteq> []"
    by (simp only: example_pools_simps example_pool_ids) simp
  have w: "window_start [''interval'' \<mapsto> show_int (2 ^ 61)] 86400000 = 0"
    "param_end_time 86400000 [''interval'' \<mapsto> show_int (2 ^ 61)] = 86400000"
    by (simp_all add: window_start_def param_start_time_def param_end_time_def param_i64_def
        i64_sub_def wrap_i64_def DAY_MS_def)
  show ?thesis
  proof (rule interval_request_diverges [OF ids])
    show "in_i64 (window_start [''interval'' \<mapsto> show_int (2 ^ 61)]
        (param_end_time 86400000 [''interval'' \<mapsto> show_int (2 ^ 61)]))"
      unfolding w by (simp add: in_i64_def i64_min_def i64_max_def)
    show "window_start [''interval'' \<mapsto> show_int (2 ^ 61)]
        (param_end_time 86400000 [''interval'' \<mapsto> show_int (2 ^ 61)])
        \<le> param_end_time 86400000 [''interval'' \<mapsto> show_int (2 ^ 61)]"
      unfolding w by simp
  qed simp
qed

theorem balance_manager_volume_witness:
  "\<exists>vol s. get_historical_volume_by_balance_manager_id (steady_env example_db) 0 ''A_B'' ''0xt''
     example_params fresh_state = (Inr vol, s) \<and> hm_get vol ''A_B'' = Some [0, 3]"
proof -
  have s: "''A_B'' \<in> set (split_on (CHR '','') ''A_B'')" by simp
  have "\<exists>vol s. get_historical_volume_by_balance_manager_id (steady_env example_db) 0 ''A_B'' ''0xt''
      example_params fresh_state = (Inr vol, s)"
    by (simp add: get_historical_volume_by_balance_manager_id_def get_pools_def results_def
        rpc_bind_def db_request_def run_query_def example_pools_simps Let_def example_pool_ids rpc_map_def
        get_order_fill_summary_def rpc_return_def)
  then obtain vol s' where r: "get_historical_volume_by_balance_manager_id (steady_env example_db) 0
      ''A_B'' ''0xt'' example_params fresh_state = (Inr vol, s')" by blast
  have "hm_get vol ''A_B'' = Some [0, 3]"
    using balance_manager_volume [OF r, of "hd example_pools"] s
    by (simp add: example_pools_simps Let_def own_fills_def pool_fills_def between_def
        example_fill_def fill_volume_def param_volume_in_base_def example_params_def example_numbers
        param_end_time_def window_start_def param_start_time_def param_i64_def i64_mul_def
        wrap_i64_def)
  with r show ?thesis by blast
qed

end
