(* ===== verification/Orders.thy ===== *)
theory Orders
  imports Hash_Map Params
begin

text \<open>
  The order and trade endpoints of \<^verbatim>\<open>server.rs\<close> (\<open>order_updates\<close>, \<open>orders\<close>, \<open>trades\<close>, \<open>trade_count\<close>,
  \<open>calculate_trade_id\<close>) and their queries in \<^verbatim>\<open>reader.rs\<close>. A query returns the rows it selects from;
  the handlers read the selected columns of them. The state of an order is computed by one SQL
  statement, from the newest update of the order in the window. An element of an answer is the
  list of its members. Quantities are scaled to floating point by powers of ten on \<open>u64\<close>; the
  exponent of the price is \<open>u8\<close> arithmetic, which wraps in a release build.
\<close>

section \<open>Scaling\<close>

definition pow10 :: "u8 \<Rightarrow> u64" where "pow10 k = 10 ^ unat k"

definition price_exponent :: "u8 \<Rightarrow> u8 \<Rightarrow> u8" where
  "price_exponent base_decimals quote_decimals = 9 - base_decimals + quote_decimals"

text \<open>\<open>Value::from(n as f64 / factor as f64)\<close>\<close>

definition scaled_f64 :: "i64 \<Rightarrow> u64 \<Rightarrow> f64" where
  "scaled_f64 n factor = f64_div (f64_of_int n) (f64_of_int (uint factor))"

definition scaled :: "i64 \<Rightarrow> u64 \<Rightarrow> json" where
  "scaled n factor = json_of_f64 (scaled_f64 n factor)"

text \<open>\<open>Value::from(t as u64)\<close>\<close>

definition json_timestamp :: "i64 \<Rightarrow> json" where "json_timestamp t = JInt (uint (as_u64 t))"

type_synonym json_object = "(string \<times> json) list"

section \<open>Queries\<close>

definition quoted :: "string \<Rightarrow> string" where "quoted s = CHR 0x27 # s @ [CHR 0x27]"

definition get_pool_decimals :: "db_env \<Rightarrow> string \<Rightarrow> (string \<times> i16 \<times> i16) rpc" where
  "get_pool_decimals env pool_name =
     (let e = (\<lambda>_. not_found (''Pool '' @ quoted pool_name))
      in db_request e e env (first_row (\<lambda>db. Inr
           (map (\<lambda>p. (pools_pool_id p, pools_base_asset_decimals p, pools_quote_asset_decimals p))
             (filter (\<lambda>p. pools_pool_name p = pool_name) (tb_pools db))))))"

definition opt_eq :: "'a option \<Rightarrow> 'a \<Rightarrow> bool" where
  "opt_eq f x = (case f of None \<Rightarrow> True | Some y \<Rightarrow> x = y)"

definition order_fill_selected ::
  "string \<Rightarrow> i64 \<Rightarrow> i64 \<Rightarrow> string option \<Rightarrow> string option \<Rightarrow> string option \<Rightarrow> OrderFill \<Rightarrow> bool" where
  "order_fill_selected pool_id start_time end_time maker taker balance_manager r \<longleftrightarrow>
     order_fills_pool_id r = pool_id \<and>
     between (checkpoint_timestamp_ms r) start_time end_time \<and>
     opt_eq maker (order_fills_maker_balance_manager_id r) \<and>
     opt_eq taker (order_fills_taker_balance_manager_id r) \<and>
     (opt_eq balance_manager (order_fills_maker_balance_manager_id r) \<or>
      opt_eq balance_manager (order_fills_taker_balance_manager_id r))"

definition get_orders ::
  "db_env \<Rightarrow> string \<Rightarrow> string \<Rightarrow> i64 \<Rightarrow> i64 \<Rightarrow> i64 \<Rightarrow> string option \<Rightarrow> string option \<Rightarrow> string option \<Rightarrow>
   OrderFill list rpc" where
  "get_orders env pool_name pool_id start_time end_time limit maker taker balance_manager =
     db_request from_anyhow
       (\<lambda>_. not_found (''Trades for pool '' @ quoted pool_name @ '' in the specified time range'')) env
       (\<lambda>db. select_newest checkpoint_timestamp_ms
          (order_fill_selected pool_id start_time end_time maker taker balance_manager) limit
          (tb_order_fills db))"

definition order_update_selected ::
  "string \<Rightarrow> i64 \<Rightarrow> i64 \<Rightarrow> string option \<Rightarrow> string option \<Rightarrow> OrderUpdate \<Rightarrow> bool" where
  "order_update_selected pool_id start_time end_time manager status r \<longleftrightarrow>
     between (checkpoint_timestamp_ms r) start_time end_time \<and>
     order_updates_pool_id r = pool_id \<and>
     opt_eq manager (order_updates_balance_manager_id r) \<and>
     opt_eq status (status_to_sql (order_updates_status r))"

definition get_order_updates ::
  "db_env \<Rightarrow> string \<Rightarrow> i64 \<Rightarrow> i64 \<Rightarrow> i64 \<Rightarrow> string option \<Rightarrow> string option \<Rightarrow> OrderUpdate list rpc" where
  "get_order_updates env pool_id start_time end_time limit manager status =
     db_request from_anyhow (\<lambda>_. database_error ''Error fetching trade details'') env
       (\<lambda>db. select_newest checkpoint_timestamp_ms
          (order_update_selected pool_id start_time end_time manager status) limit
          (tb_order_updates db))"

text \<open>
  The statement of \<open>get_orders_status\<close>. The order of the order ids in its first two parts does not
  matter, since the result is sorted again; of several updates with the same time any may come first.
\<close>

definition latest_events :: "string \<Rightarrow> string option \<Rightarrow> i64 \<Rightarrow> i64 \<Rightarrow> OrderUpdate list \<Rightarrow> OrderUpdate list" where
  "latest_events pool_id manager start_time end_time rows =
     distinct_on order_updates_order_id (order_desc checkpoint_timestamp_ms
       (filter (\<lambda>r. order_updates_pool_id r = pool_id \<and>
                    opt_eq manager (order_updates_balance_manager_id r) \<and>
                    between (checkpoint_timestamp_ms r) start_time end_time) rows))"

definition placed_events :: "string \<Rightarrow> i64 \<Rightarrow> i64 \<Rightarrow> OrderUpdate list \<Rightarrow> OrderUpdate list" where
  "placed_events pool_id start_time end_time rows =
     distinct_on order_updates_order_id (sort_key checkpoint_timestamp_ms
       (filter (\<lambda>r. order_updates_pool_id r = pool_id \<and> order_updates_status r = Placed \<and>
                    between (checkpoint_timestamp_ms r) start_time end_time) rows))"

definition current_status :: "OrderUpdate \<Rightarrow> string" where
  "current_status le =
     (if order_updates_status le = Canceled then ''canceled''
      else if order_updates_status le = Expired then ''expired''
      else if order_updates_original_quantity le \<le> order_updates_filled_quantity le then ''filled''
      else if 0 < order_updates_filled_quantity le then ''partially_filled''
      else ''placed'')"

definition order_status_row :: "OrderUpdate list \<Rightarrow> OrderUpdate \<Rightarrow> OrderStatus" where
  "order_status_row placed le =
     \<lparr>order_status_order_id = order_updates_order_id le,
      order_status_balance_manager_id = order_updates_balance_manager_id le,
      order_status_is_bid = order_updates_is_bid le,
      order_status_current_status = current_status le,
      order_status_price = order_updates_price le,
      order_status_placed_at =
        (case find (\<lambda>pe. order_updates_order_id pe = order_updates_order_id le) placed of
           Some pe \<Rightarrow> checkpoint_timestamp_ms pe
         | None \<Rightarrow> checkpoint_timestamp_ms le),
      order_status_last_updated_at = checkpoint_timestamp_ms le,
      order_status_original_quantity = order_updates_original_quantity le,
      order_status_filled_quantity = order_updates_filled_quantity le,
      order_status_remaining_quantity = order_updates_quantity le\<rparr>"

definition orders_status_query ::
  "string \<Rightarrow> i64 \<Rightarrow> string option \<Rightarrow> string list option \<Rightarrow> i64 \<Rightarrow> i64 \<Rightarrow> OrderStatus list query" where
  "orders_status_query pool_id limit manager statuses start_time end_time db =
     select_newest order_status_last_updated_at
       (\<lambda>r. case statuses of None \<Rightarrow> True | Some xs \<Rightarrow> order_status_current_status r \<in> set xs) limit
       (map (order_status_row (placed_events pool_id start_time end_time (tb_order_updates db)))
         (latest_events pool_id manager start_time end_time (tb_order_updates db)))"

definition get_orders_status ::
  "db_env \<Rightarrow> string \<Rightarrow> i64 \<Rightarrow> string option \<Rightarrow> string list option \<Rightarrow> i64 \<Rightarrow> i64 \<Rightarrow> OrderStatus list rpc" where
  "get_orders_status env pool_id limit manager statuses start_time end_time =
     db_request from_anyhow (\<lambda>e. database_error (''Error fetching order status: '' @ e)) env
       (orders_status_query pool_id limit manager statuses start_time end_time)"

section \<open>Handlers\<close>

definition order_update_json :: "u64 \<Rightarrow> u64 \<Rightarrow> OrderUpdate \<Rightarrow> json_object" where
  "order_update_json base_factor price_factor r =
     [(''order_id'', JString (order_updates_order_id r)),
      (''price'', scaled (order_updates_price r) price_factor),
      (''original_quantity'', scaled (order_updates_original_quantity r) base_factor),
      (''remaining_quantity'', scaled (order_updates_quantity r) base_factor),
      (''filled_quantity'', scaled (order_updates_filled_quantity r) base_factor),
      (''timestamp'', json_timestamp (checkpoint_timestamp_ms r)),
      (''type'', JString (if order_updates_is_bid r then ''buy'' else ''sell'')),
      (''balance_manager_id'', JString (order_updates_balance_manager_id r)),
      (''status'', JString (status_to_sql (order_updates_status r)))]"

definition order_updates :: "db_env \<Rightarrow> i64 \<Rightarrow> string \<Rightarrow> params \<Rightarrow> json_object list rpc" where
  "order_updates env now pool_name params =
     rpc_bind (get_pool_decimals env pool_name) (\<lambda>(pool_id, base_decimals, quote_decimals).
       let base_decimals = i16_as_u8 base_decimals;
           quote_decimals = i16_as_u8 quote_decimals;
           end_time = param_end_time now params;
           start_time = window_start params end_time
       in rpc_map (map (order_update_json (pow10 base_decimals)
             (pow10 (price_exponent base_decimals quote_decimals))))
           (get_order_updates env pool_id start_time end_time (param_limit params)
              (params ''balance_manager_id'') (params ''status'')))"

definition order_status_json :: "u64 \<Rightarrow> u64 \<Rightarrow> OrderStatus \<Rightarrow> json_object" where
  "order_status_json base_factor price_factor r =
     [(''order_id'', JString (order_status_order_id r)),
      (''balance_manager_id'', JString (order_status_balance_manager_id r)),
      (''type'', JString (if order_status_is_bid r then ''buy'' else ''sell'')),
      (''current_status'', JString (order_status_current_status r)),
      (''price'', scaled (order_status_price r) price_factor),
      (''placed_at'', json_timestamp (order_status_placed_at r)),
      (''last_updated_at'', json_timestamp (order_status_last_updated_at r)),
      (''original_quantity'', scaled (order_status_original_quantity r) base_factor),
      (''filled_quantity'', scaled (order_status_filled_quantity r) base_factor),
      (''remaining_quantity'', scaled (order_status_remaining_quantity r) base_factor)]"

definition DEFAULT_ORDERS_LOOKBACK_MS :: i64 where
  "DEFAULT_ORDERS_LOOKBACK_MS = 7 * 24 * 60 * 60 * 1000"

definition orders_status_filter :: "params \<Rightarrow> string list option" where
  "orders_status_filter params = map_option (\<lambda>s. map trim (split_on (CHR '','') s)) (params ''status'')"

definition orders :: "db_env \<Rightarrow> i64 \<Rightarrow> string \<Rightarrow> string \<Rightarrow> params \<Rightarrow> json_object list rpc" where
  "orders env now pool_name balance_manager_id params =
     rpc_bind (get_pool_decimals env pool_name) (\<lambda>(pool_id, base_decimals, quote_decimals).
       let base_decimals = i16_as_u8 base_decimals;
           quote_decimals = i16_as_u8 quote_decimals;
           limit = unwrap_or 1000 (param_i64 ''limit'' params);
           end_time = param_end_time now params;
           start_time = unwrap_or (i64_sub end_time DEFAULT_ORDERS_LOOKBACK_MS) (param_start_time params)
       in rpc_map (map (order_status_json (pow10 base_decimals)
             (pow10 (price_exponent base_decimals quote_decimals))))
           (get_orders_status env pool_id limit (Some balance_manager_id)
              (orders_status_filter params) start_time end_time))"

text \<open>\<open>id & !(1 << 127)\<close>; a trade id is the sum of two ids without their top bit.\<close>

definition ignore_top_bit :: "u128 \<Rightarrow> u128" where
  "ignore_top_bit i = and i (not (push_bit 127 1))"

definition calculate_trade_id :: "string \<Rightarrow> string \<Rightarrow> DeepBookError + u128" where
  "calculate_trade_id maker_id taker_id =
     bind_result (ok_or (bad_request ''Invalid maker_id'') (parse_u128 maker_id)) (\<lambda>maker_id.
     bind_result (ok_or (bad_request ''Invalid taker_id'') (parse_u128 taker_id)) (\<lambda>taker_id.
       let maker_id = ignore_top_bit maker_id;
           taker_id = ignore_top_bit taker_id
       in Inr (maker_id + taker_id)))"

definition trade_taker_fee :: "u64 \<Rightarrow> u64 \<Rightarrow> u64 \<Rightarrow> OrderFill \<Rightarrow> json" where
  "trade_taker_fee base_factor quote_factor deep_factor r =
     (if order_fills_taker_fee_is_deep r then scaled (order_fills_taker_fee r) deep_factor
      else if order_fills_taker_is_bid r then scaled (order_fills_taker_fee r) quote_factor
      else scaled (order_fills_taker_fee r) base_factor)"

definition trade_maker_fee :: "u64 \<Rightarrow> u64 \<Rightarrow> u64 \<Rightarrow> OrderFill \<Rightarrow> json" where
  "trade_maker_fee base_factor quote_factor deep_factor r =
     (if order_fills_maker_fee_is_deep r then scaled (order_fills_maker_fee r) deep_factor
      else if order_fills_taker_is_bid r then scaled (order_fills_maker_fee r) base_factor
      else scaled (order_fills_maker_fee r) quote_factor)"

definition trade_json :: "u64 \<Rightarrow> u64 \<Rightarrow> u64 \<Rightarrow> u64 \<Rightarrow> OrderFill \<Rightarrow> json_object" where
  "trade_json base_factor quote_factor deep_factor price_factor r =
     [(''event_digest'', JString (event_digest r)),
      (''digest'', JString (digest r)),
      (''trade_id'', JString (show_u128 (case calculate_trade_id (order_fills_maker_order_id r)
          (order_fills_taker_order_id r) of Inl _ \<Rightarrow> 0 | Inr i \<Rightarrow> i))),
      (''maker_order_id'', JString (order_fills_maker_order_id r)),
      (''taker_order_id'', JString (order_fills_taker_order_id r)),
      (''maker_client_order_id'', JString (show_int (order_fills_maker_client_order_id r))),
      (''taker_client_order_id'', JString (show_int (order_fills_taker_client_order_id r))),
      (''maker_balance_manager_id'', JString (order_fills_maker_balance_manager_id r)),
      (''taker_balance_manager_id'', JString (order_fills_taker_balance_manager_id r)),
      (''price'', scaled (order_fills_price r) price_factor),
      (''base_volume'', scaled (order_fills_base_quantity r) base_factor),
      (''quote_volume'', scaled (order_fills_quote_quantity r) quote_factor),
      (''timestamp'', json_timestamp (checkpoint_timestamp_ms r)),
      (''type'', JString (if order_fills_taker_is_bid r then ''buy'' else ''sell'')),
      (''taker_is_bid'', JBool (order_fills_taker_is_bid r)),
      (''taker_fee'', trade_taker_fee base_factor quote_factor deep_factor r),
      (''maker_fee'', trade_maker_fee base_factor quote_factor deep_factor r),
      (''taker_fee_is_deep'', JBool (order_fills_taker_fee_is_deep r)),
      (''maker_fee_is_deep'', JBool (order_fills_maker_fee_is_deep r))]"

definition trades :: "db_env \<Rightarrow> i64 \<Rightarrow> string \<Rightarrow> params \<Rightarrow> json_object list rpc" where
  "trades env now pool_name params =
     rpc_bind (get_pool_decimals env pool_name) (\<lambda>(pool_id, base_decimals, quote_decimals).
       let end_time = param_end_time now params;
           start_time = window_start params end_time;
           base_decimals = i16_as_u8 base_decimals;
           quote_decimals = i16_as_u8 quote_decimals
       in rpc_map (map (trade_json (pow10 base_decimals) (pow10 quote_decimals) (pow10 6)
             (pow10 (price_exponent base_decimals quote_decimals))))
           (get_orders env pool_name pool_id start_time end_time (param_limit params)
              (params ''maker_balance_manager_id'') (params ''taker_balance_manager_id'')
              (params ''balance_manager_id'')))"

definition trade_count :: "db_env \<Rightarrow> i64 \<Rightarrow> params \<Rightarrow> i64 rpc" where
  "trade_count env now params =
     (let end_time = param_end_time now params;
          start_time = window_start params end_time
      in first env (\<lambda>db. Inr [int (length (filter (\<lambda>r. between (checkpoint_timestamp_ms r) start_time end_time)
           (tb_order_fills db)))]))"

section \<open>Numbers\<close>

lemma uint_pow10: "unat k \<le> 19 \<Longrightarrow> uint (pow10 k) = 10 ^ unat k"
proof -
  assume k: "unat k \<le> 19"
  have "(10::int) ^ unat k \<le> 10 ^ 19" using k by (intro power_increasing) simp_all
  also have "(10::int) ^ 19 < 2 ^ 64" by simp
  finally have "(10::int) ^ unat k < 2 ^ 64" .
  then have "uint (word_of_int (10 ^ unat k) :: u64) = 10 ^ unat k"
    by (simp add: uint_word_of_int mod_pos_pos_trivial del: of_int_power)
  moreover have "pow10 k = word_of_int (10 ^ unat k)" by (simp add: pow10_def)
  ultimately show ?thesis by metis
qed

lemma uint_price_exponent:
  assumes "uint b \<le> 9" and "uint q \<le> 200"
  shows "uint (price_exponent b q) = 9 - uint b + uint q"
proof -
  have "price_exponent b q = word_of_int (9 - uint b + uint q)" by (simp add: price_exponent_def)
  moreover have "0 \<le> uint b" "0 \<le> uint q" by simp_all
  then have "0 \<le> 9 - uint b + uint q \<and> 9 - uint b + uint q < 256" using assms by linarith
  then have "uint (word_of_int (9 - uint b + uint q) :: u8) = 9 - uint b + uint q"
    by (simp only: uint_word_of_int) (simp add: mod_pos_pos_trivial)
  ultimately show ?thesis by simp
qed

text \<open>A scaled value is the quotient, rounded once, when both numbers fit in 53 bits.\<close>

lemma scaled_f64_exact:
  assumes "\<bar>n\<bar> \<le> 2 ^ 53" and "unat k \<le> 15"
  shows "scaled_f64 n (pow10 k) = F64 (round_rat (of_int n / 10 ^ unat k)) \<and>
    \<bar>round_rat (of_int n / 10 ^ unat k) - of_int n / 10 ^ unat k\<bar> \<le> \<bar>of_int n\<bar> / 10 ^ unat k / 2 ^ 53"
proof -
  let ?d = "10 ^ unat k :: rat"
  let ?x = "of_int n / ?d"
  have ten: "(10::int) ^ unat k \<le> 10 ^ 15" using assms(2) by (intro power_increasing) simp_all
  have d: "1 \<le> ?d" "?d \<le> 10 ^ 15" using power_increasing [OF assms(2), of "10 :: rat"] by simp_all
  have f: "f64_of_int (uint (pow10 k)) = F64 ?d"
    using f64_of_int_exact [of "10 ^ unat k"] uint_pow10 [of k] ten assms(2) by simp
  have bound: "\<bar>?x\<bar> \<le> 2 ^ 53"
  proof -
    have "\<bar>of_int n :: rat\<bar> \<le> 2 ^ 53"
      using assms(1) by (metis of_int_abs of_int_le_iff of_int_numeral of_int_power)
    moreover have "\<bar>?x\<bar> \<le> \<bar>of_int n\<bar> / 1" using d by (simp only: abs_divide) (intro divide_left_mono, auto)
    ultimately show ?thesis by simp
  qed
  have err: "\<bar>round_rat ?x - ?x\<bar> \<le> \<bar>?x\<bar> / 2 ^ 53"
  proof (cases "n = 0")
    case False
    then have "(1::rat) \<le> \<bar>of_int n\<bar>" by (simp add: zero_less_abs_iff flip: of_int_abs)
    then have "1 / 10 ^ 15 \<le> \<bar>?x\<bar>" using d by (simp only: abs_divide) (intro frac_le, auto)
    moreover have "2 powi (- 1022) \<le> (1 / 10 ^ 15 :: rat)"
    proof -
      have "2 powi (- 1022) \<le> (2::rat) powi (- 50)" by (intro power_int_increasing) simp_all
      also have "\<dots> \<le> 1 / 10 ^ 15" by (simp add: power_int_minus)
      finally show ?thesis .
    qed
    ultimately show ?thesis by (intro round_rat_relative) linarith
  qed (simp add: round_rat_def)
  have "\<bar>round_rat ?x\<bar> < 2 ^ 1024"
  proof -
    have "\<bar>?x\<bar> / 2 ^ 53 \<le> 2 ^ 53 / 2 ^ 53" using bound by (rule divide_right_mono) simp
    then have "\<bar>?x\<bar> / 2 ^ 53 \<le> 1" by simp
    then have "\<bar>round_rat ?x\<bar> \<le> 2 ^ 53 + 1" using err bound by linarith
    also have "\<dots> < (2::rat) ^ 1024" by simp
    finally show ?thesis .
  qed
  then have "scaled_f64 n (pow10 k) = F64 (round_rat ?x)"
    using f d f64_of_int_exact [OF assms(1)] by (simp add: scaled_f64_def round_f64_def not_le)
  with err show ?thesis by (simp add: abs_divide)
qed

section \<open>Properties\<close>

text \<open>A number of the answer that is a rational, rounded once to the nearest double.\<close>

definition rounded_once :: "json option \<Rightarrow> rat \<Rightarrow> bool" where
  "rounded_once j x \<longleftrightarrow> j = Some (JFloat (F64 (round_rat x))) \<and> \<bar>round_rat x - x\<bar> \<le> \<bar>x\<bar> / 2 ^ 53"

lemma rounded_once_scaled:
  "\<bar>n\<bar> \<le> 2 ^ 53 \<Longrightarrow> unat k \<le> 15 \<Longrightarrow> rounded_once (Some (scaled n (pow10 k))) (of_int n / 10 ^ unat k)"
  using scaled_f64_exact [of n k] by (simp add: rounded_once_def scaled_def json_of_f64_def abs_divide)

text \<open>C26: for a pool with at most 9 base decimals and a price exponent of at most 15, the price and
  the original, remaining and filled quantity of an order update are the stored integers divided by the
  powers of ten of the pool, each rounded once to the nearest floating-point number, so off by at most
  one part in \<open>2 ^ 53\<close>, as long as the integers fit in 53 bits; they are numbers, never \<open>Null\<close>.\<close>

theorem order_update_scaled:
  assumes "uint b \<le> 9" and "uint q \<le> 15" and "9 - uint b + uint q \<le> 15"
    and "\<bar>order_updates_price r\<bar> \<le> 2 ^ 53" and "\<bar>order_updates_original_quantity r\<bar> \<le> 2 ^ 53"
    and "\<bar>order_updates_quantity r\<bar> \<le> 2 ^ 53" and "\<bar>order_updates_filled_quantity r\<bar> \<le> 2 ^ 53"
  shows "let field = map_of (order_update_json (pow10 b) (pow10 (price_exponent b q)) r);
      base = 10 ^ nat (uint b); price = 10 ^ nat (9 - uint b + uint q)
    in rounded_once (field ''price'') (of_int (order_updates_price r) / price) \<and>
       rounded_once (field ''original_quantity'') (of_int (order_updates_original_quantity r) / base) \<and>
       rounded_once (field ''remaining_quantity'') (of_int (order_updates_quantity r) / base) \<and>
       rounded_once (field ''filled_quantity'') (of_int (order_updates_filled_quantity r) / base)"
proof -
  have e: "unat (price_exponent b q) = nat (9 - uint b + uint q)" "unat b = nat (uint b)"
    using uint_price_exponent [of b q] assms by (simp_all flip: nat_uint_eq)
  then have "unat (price_exponent b q) \<le> 15" "unat b \<le> 15" using assms(1,3) by linarith+
  note p = rounded_once_scaled [OF assms(4) this(1), unfolded e]
    and q = assms(5-7) [THEN rounded_once_scaled, OF this(2), unfolded e]
  have "map_of (order_update_json x y r) ''price'' = Some (scaled (order_updates_price r) y)"
    "map_of (order_update_json x y r) ''original_quantity'' = Some (scaled (order_updates_original_quantity r) x)"
    "map_of (order_update_json x y r) ''remaining_quantity'' = Some (scaled (order_updates_quantity r) x)"
    "map_of (order_update_json x y r) ''filled_quantity'' = Some (scaled (order_updates_filled_quantity r) x)" for x y
    by (simp_all add: order_update_json_def)
  with p q show ?thesis by (simp only: Let_def simp_thms)
qed

lemma uint_ignore_top_bit: "uint (ignore_top_bit x) = uint x mod 2 ^ 127"
proof -
  have bit: "bit (push_bit n (1 :: u128)) k \<longleftrightarrow> k = n" if "n < 128" for n k
    using that by (simp only: bit_push_bit_iff) (auto simp: bit_1_iff)
  have "ignore_top_bit x = take_bit 127 x"
    unfolding ignore_top_bit_def
    by (rule bit_word_eqI) (simp only: bit_and_iff bit_not_iff bit_take_bit_iff bit, auto)
  then show ?thesis by (simp only: unsigned_take_bit_eq) (simp only: take_bit_eq_mod)
qed

text \<open>C25: the trade id of two printed order ids is the sum of the ids without their top bits; the
  sum never overflows and does not depend on which order is the maker's. There is no trade id, but an
  error of the request, exactly when one of the two ids is not a number, whichever it is.\<close>

theorem calculate_trade_id_sum:
  "(\<exists>i. calculate_trade_id (show_u128 m) (show_u128 t) = Inr i \<and>
      uint i = uint m mod 2 ^ 127 + uint t mod 2 ^ 127 \<and>
      calculate_trade_id (show_u128 t) (show_u128 m) = Inr i) \<and>
   ((\<exists>e. calculate_trade_id x y = Inl (BadRequest e)) \<longleftrightarrow> parse_u128 x = None \<or> parse_u128 y = None) \<and>
   ((\<exists>i. calculate_trade_id x y = Inr i) \<longleftrightarrow> parse_u128 x \<noteq> None \<and> parse_u128 y \<noteq> None)"
proof -
  have "uint m mod 2 ^ 127 < 2 ^ 127" "uint t mod 2 ^ 127 < 2 ^ 127" by simp_all
  then have "uint (ignore_top_bit m) + uint (ignore_top_bit t) < 2 ^ 128"
    unfolding uint_ignore_top_bit by simp
  then have "uint (ignore_top_bit m + ignore_top_bit t) = uint m mod 2 ^ 127 + uint t mod 2 ^ 127"
    by (simp add: uint_word_arith_bintrs take_bit_int_eq_self uint_ignore_top_bit)
  then show ?thesis
    by (auto simp: calculate_trade_id_def parse_u128_show ok_or_def Let_def add.commute bad_request_def
        result_simps split: option.splits)
qed

theorem calculate_trade_id_sum_witness:
  "(\<exists>i. calculate_trade_id (show_u128 5) (show_u128 (push_bit 127 1 + 7)) = Inr i \<and> uint i = 12) \<and>
   (\<exists>e. calculate_trade_id (show_u128 5) ''x'' = Inl (BadRequest e))"
proof -
  have "parse_u128 ''x'' = None" by code_simp
  with calculate_trade_id_sum [of 5 "push_bit 127 1 + 7" "show_u128 5" "''x''"] show ?thesis by auto
qed

text \<open>What \<open>DISTINCT ON\<close> keeps of rows sorted by time: for every key one row, and one of the newest
  (the oldest, sorted the other way).\<close>

lemma distinct_on_sorted:
  assumes "sorted_wrt R rows" and "\<And>x. R x x" and "r \<in> set (distinct_on key rows)" and "q \<in> set rows"
    and "key q = key r"
  shows "R r q"
proof -
  have "find (\<lambda>q. key q = key r) rows = Some r" using assms(3) by (rule distinct_on_first)
  with assms(1,4,5) show ?thesis
    by (induction rows) (auto intro: assms(2) split: if_splits)
qed

lemma latest_events_newest:
  assumes "r \<in> set (latest_events pool manager a b rows)"
  shows "r \<in> set rows \<and> order_updates_pool_id r = pool \<and> opt_eq manager (order_updates_balance_manager_id r) \<and>
      between (checkpoint_timestamp_ms r) a b"
    and "q \<in> set rows \<Longrightarrow> order_updates_pool_id q = pool \<Longrightarrow> opt_eq manager (order_updates_balance_manager_id q) \<Longrightarrow>
      between (checkpoint_timestamp_ms q) a b \<Longrightarrow> order_updates_order_id q = order_updates_order_id r \<Longrightarrow>
      checkpoint_timestamp_ms q \<le> checkpoint_timestamp_ms r"
proof -
  note in_rows = subsetD [OF set_distinct_on assms [unfolded latest_events_def]]
  show "r \<in> set rows \<and> order_updates_pool_id r = pool \<and> opt_eq manager (order_updates_balance_manager_id r) \<and>
      between (checkpoint_timestamp_ms r) a b"
    using in_rows by auto
  assume "q \<in> set rows" "order_updates_pool_id q = pool" "opt_eq manager (order_updates_balance_manager_id q)"
    "between (checkpoint_timestamp_ms q) a b" "order_updates_order_id q = order_updates_order_id r"
  then show "checkpoint_timestamp_ms q \<le> checkpoint_timestamp_ms r"
    by (intro distinct_on_sorted [OF order_desc_sorted _ assms [unfolded latest_events_def]]) auto
qed

lemma length_distinct_on: "length (distinct_on key rows) \<le> length rows"
proof (induction key rows rule: distinct_on.induct)
  case (2 key r rows)
  then show ?case by (simp add: order_trans [OF 2 length_filter_le])
qed simp

lemma distinct_page:
  assumes "distinct (map f rows)"
  shows "distinct (map f (take n (order_desc key (filter P rows))))"
proof -
  have "mset (map f (order_desc key (filter P rows))) = mset (map f (filter P rows))" by simp
  then have "distinct (map f (order_desc key (filter P rows)))"
    using distinct_map_filter [OF assms] mset_eq_imp_distinct_iff by blast
  then show ?thesis by (metis distinct_take take_map)
qed

lemma orders_status_ids:
  assumes "orders_status_query pool limit manager statuses a b db = Inr res"
  shows "distinct (map order_status_order_id res)"
proof -
  let ?row = "order_status_row (placed_events pool a b (tb_order_updates db))"
  let ?all = "map ?row (latest_events pool manager a b (tb_order_updates db))"
  have ids: "order_status_order_id (?row le) = order_updates_order_id le" for le
    by (simp add: order_status_row_def)
  have "distinct (map order_status_order_id ?all)"
    by (simp add: comp_def ids latest_events_def distinct_on_keys)
  moreover obtain sel where "res = take (nat limit) (order_desc order_status_last_updated_at (filter sel ?all))"
    using assms by (auto simp: orders_status_query_def select_newest_Inr)
  ultimately show ?thesis
    using distinct_page by blast
qed

text \<open>What the answer should say of an order: its newest update, the state by its kind and its filled
  quantity, and the time at which it was placed.\<close>

definition newest_update :: "OrderUpdate list \<Rightarrow> OrderUpdate \<Rightarrow> bool" where
  "newest_update us u \<longleftrightarrow> u \<in> set us \<and>
     (\<forall>v\<in>set us. order_updates_order_id v = order_updates_order_id u \<longrightarrow>
        checkpoint_timestamp_ms v \<le> checkpoint_timestamp_ms u)"

definition order_state :: "OrderUpdate \<Rightarrow> string \<Rightarrow> bool" where
  "order_state u st \<longleftrightarrow>
     (let live = order_updates_status u \<in> {Placed, Modified};
          filled = order_updates_filled_quantity u; original = order_updates_original_quantity u
      in (st = ''canceled'' \<longleftrightarrow> order_updates_status u = Canceled) \<and>
         (st = ''expired'' \<longleftrightarrow> order_updates_status u = Expired) \<and>
         (st = ''filled'' \<longleftrightarrow> live \<and> original \<le> filled) \<and>
         (st = ''partially_filled'' \<longleftrightarrow> live \<and> 0 < filled \<and> filled < original) \<and>
         (st = ''placed'' \<longleftrightarrow> live \<and> filled \<le> 0 \<and> filled < original))"

text \<open>\<open>ps\<close> are the updates of the pool and the window that place an order, of any balance manager.\<close>

definition placed_time :: "OrderUpdate list \<Rightarrow> OrderUpdate \<Rightarrow> i64 \<Rightarrow> bool" where
  "placed_time ps u t \<longleftrightarrow>
     (let times = checkpoint_timestamp_ms ` {p \<in> set ps. order_updates_order_id p = order_updates_order_id u}
      in if times = {} then t = checkpoint_timestamp_ms u else t \<in> times \<and> (\<forall>t'\<in>times. t \<le> t'))"

definition reported_update :: "OrderUpdate list \<Rightarrow> OrderUpdate \<Rightarrow> OrderStatus \<Rightarrow> bool" where
  "reported_update ps u r \<longleftrightarrow>
     order_status_order_id r = order_updates_order_id u \<and>
     order_status_balance_manager_id r = order_updates_balance_manager_id u \<and>
     order_status_is_bid r = order_updates_is_bid u \<and>
     order_status_price r = order_updates_price u \<and>
     order_status_original_quantity r = order_updates_original_quantity u \<and>
     order_status_filled_quantity r = order_updates_filled_quantity u \<and>
     order_status_remaining_quantity r = order_updates_quantity u \<and>
     order_status_last_updated_at r = checkpoint_timestamp_ms u \<and>
     order_state u (order_status_current_status r) \<and>
     placed_time ps u (order_status_placed_at r)"

lemma order_state_current: "order_state u (current_status u)"
  by (cases "order_updates_status u") (auto simp: order_state_def current_status_def Let_def)

lemma order_state_unique: "order_state u st \<Longrightarrow> st = current_status u"
  by (cases "order_updates_status u") (auto simp: order_state_def current_status_def Let_def split: if_splits)

lemma placed_time_row:
  assumes "set ps = {r \<in> set rows. order_updates_pool_id r = pool \<and> order_updates_status r = Placed \<and>
      between (checkpoint_timestamp_ms r) a b}"
  shows "placed_time ps u (order_status_placed_at (order_status_row (placed_events pool a b rows) u))"
proof -
  let ?pe = "placed_events pool a b rows"
  let ?sel = "filter (\<lambda>r. order_updates_pool_id r = pool \<and> order_updates_status r = Placed \<and>
      between (checkpoint_timestamp_ms r) a b) rows"
  let ?id = order_updates_order_id
  have sel: "set ps = set ?sel" using assms by auto
  have keys: "?id ` set ?pe = ?id ` set ps" by (simp add: placed_events_def distinct_on_key_set sel)
  show ?thesis
  proof (cases "find (\<lambda>pe. ?id pe = ?id u) ?pe")
    case None
    then have "?id u \<notin> ?id ` set ps" unfolding keys [symmetric] by (auto simp: find_None_iff)
    then have "{p \<in> set ps. ?id p = ?id u} = {}" by (auto intro: rev_image_eqI)
    then show ?thesis using None by (simp add: placed_time_def order_status_row_def Let_def)
  next
    case (Some pe)
    then have pe: "pe \<in> set ?pe" "?id pe = ?id u" by (auto simp: find_Some_iff)
    have "pe \<in> set ps" using subsetD [OF set_distinct_on pe(1) [unfolded placed_events_def]] by (simp add: sel)
    moreover have "checkpoint_timestamp_ms pe \<le> checkpoint_timestamp_ms q" if "q \<in> set ps" "?id q = ?id u" for q
      using distinct_on_sorted [OF _ _ pe(1) [unfolded placed_events_def], of "\<lambda>r q. checkpoint_timestamp_ms r \<le> checkpoint_timestamp_ms q" q]
        that pe(2) sel sorted_map [of checkpoint_timestamp_ms "sort_key checkpoint_timestamp_ms ?sel"] by simp
    ultimately show ?thesis using Some pe(2)
      by (auto simp: placed_time_def order_status_row_def Let_def)
  qed
qed

text \<open>C23: the status of orders. At most the limit many orders of the pool and balance manager are reported,
  each at most once, newest first. Every field of a reported order is that of one of its newest updates
  in the window; its state is derived from that update (canceled or expired by its kind, else filled,
  partially filled or placed by its filled quantity), and it was placed at the time of the oldest update
  of the pool in the window that places it, or else at the time of the newest update. With a status
  filter only orders in one of these states are reported. When the limit is large enough, every order
  with an update in the window is reported, unless one of its newest updates has a state that the
  filter excludes; so without a filter all are.\<close>

theorem orders_status_correct:
  assumes "get_orders_status env pool limit manager statuses a b s = (Inr res, s')"
  shows "let table = tb_order_updates (contents env (connections s));
      updates = filter (\<lambda>u. order_updates_pool_id u = pool \<and> between (checkpoint_timestamp_ms u) a b \<and>
        opt_eq manager (order_updates_balance_manager_id u)) table;
      placed = filter (\<lambda>u. order_updates_pool_id u = pool \<and> between (checkpoint_timestamp_ms u) a b \<and>
        order_updates_status u = Placed) table
    in length res \<le> nat limit \<and> distinct (map order_status_order_id res) \<and>
       sorted_wrt (\<lambda>r q. order_status_last_updated_at q \<le> order_status_last_updated_at r) res \<and>
       (\<forall>r\<in>set res. (\<exists>u. newest_update updates u \<and> reported_update placed u r) \<and>
          opt_eq manager (order_status_balance_manager_id r) \<and>
          (\<forall>xs. statuses = Some xs \<longrightarrow> order_status_current_status r \<in> set xs)) \<and>
       (length updates \<le> nat limit \<longrightarrow> (\<forall>u\<in>set updates.
          order_updates_order_id u \<in> order_status_order_id ` set res \<or>
          (\<exists>v xs st. newest_update updates v \<and> order_updates_order_id v = order_updates_order_id u \<and>
             order_state v st \<and> statuses = Some xs \<and> st \<notin> set xs))) \<and>
       (statuses = None \<and> length updates \<le> nat limit \<longrightarrow>
          order_updates_order_id ` set updates = order_status_order_id ` set res)"
proof -
  let ?rows = "tb_order_updates (contents env (connections s))"
  let ?us = "filter (\<lambda>u. order_updates_pool_id u = pool \<and> between (checkpoint_timestamp_ms u) a b \<and>
        opt_eq manager (order_updates_balance_manager_id u)) ?rows"
  let ?ps = "filter (\<lambda>u. order_updates_pool_id u = pool \<and> between (checkpoint_timestamp_ms u) a b \<and>
        order_updates_status u = Placed) ?rows"
  let ?le = "latest_events pool manager a b ?rows"
  let ?row = "order_status_row (placed_events pool a b ?rows)"
  let ?id = order_updates_order_id
  have q: "orders_status_query pool limit manager statuses a b (contents env (connections s)) = Inr res"
    using assms by (simp add: get_orders_status_def db_request_Inr)
  define sel where "sel = (\<lambda>r :: OrderStatus. case statuses of None \<Rightarrow> True | Some xs \<Rightarrow> order_status_current_status r \<in> set xs)"
  have res: "res = take (nat limit) (order_desc order_status_last_updated_at (filter sel (map ?row ?le)))"
    using q by (simp add: orders_status_query_def select_newest_Inr sel_def)
  have row: "\<exists>u. newest_update ?us u \<and> reported_update ?ps u r \<and> sel r" if r: "r \<in> set res" for r
  proof -
    obtain u where u: "u \<in> set ?le" "r = ?row u" "sel r" using r unfolding res by (auto dest!: in_set_takeD)
    have "placed_time ?ps u (order_status_placed_at (?row u))" by (rule placed_time_row) auto
    moreover have "newest_update ?us u" using latest_events_newest [OF u(1)] by (auto simp: newest_update_def)
    ultimately show ?thesis
      using u(2,3) order_state_current [of u] by (auto simp: reported_update_def order_status_row_def)
  qed
  have ids: "?id ` set ?le = ?id ` set ?us"
    unfolding latest_events_def distinct_on_key_set by auto
  have us: "?us = filter (\<lambda>r. order_updates_pool_id r = pool \<and> opt_eq manager (order_updates_balance_manager_id r) \<and>
      between (checkpoint_timestamp_ms r) a b) ?rows" by (rule filter_cong) auto
  have "length ?le \<le> length ?us"
    using length_distinct_on [of ?id "order_desc checkpoint_timestamp_ms ?us"] unfolding us latest_events_def by simp
  then have all: "set res = set (filter sel (map ?row ?le))" if "length ?us \<le> nat limit"
    using that le_trans [OF length_filter_le, of "map ?row ?le" "nat limit" sel] by (simp add: res)
  have row_id: "order_status_order_id (?row le) = ?id le" "order_status_current_status (?row le) = current_status le" for le
    by (simp_all add: order_status_row_def)
  have left: "?id u \<in> order_status_order_id ` set res \<or> (\<exists>v xs st. newest_update ?us v \<and> ?id v = ?id u \<and>
             order_state v st \<and> statuses = Some xs \<and> st \<notin> set xs)" if len: "length ?us \<le> nat limit" and u: "u \<in> set ?us" for u
  proof -
    have "?id u \<in> ?id ` set ?le" unfolding ids by (rule imageI [OF u])
    then obtain v where v: "v \<in> set ?le" "?id v = ?id u" by (elim imageE) simp
    have "newest_update ?us v" using latest_events_newest [OF v(1)] by (auto simp: newest_update_def)
    moreover have "?id u \<in> order_status_order_id ` set res" if "sel (?row v)"
      by (rule image_eqI [of _ _ "?row v"]) (use v that in \<open>simp_all add: all [OF len] row_id\<close>)
    moreover have "\<exists>xs. statuses = Some xs \<and> current_status v \<notin> set xs" if "\<not> sel (?row v)"
      using that by (auto simp: sel_def row_id split: option.splits)
    ultimately show ?thesis using order_state_current [of v] v(2) by blast
  qed
  have none: "?id ` set ?us = order_status_order_id ` set res" if "statuses = None" "length ?us \<le> nat limit"
    unfolding all [OF that(2)] ids [symmetric] using that(1) by (simp add: sel_def image_image row_id)
  have sorted: "sorted_wrt (\<lambda>r q. order_status_last_updated_at q \<le> order_status_last_updated_at r) res"
    unfolding res by (intro sorted_wrt_take order_desc_sorted)
  have manager: "opt_eq manager (order_status_balance_manager_id r)" if "r \<in> set res" for r
    using row [OF that] by (auto simp: newest_update_def reported_update_def)
  have states: "order_status_current_status r \<in> set xs" if "r \<in> set res" "statuses = Some xs" for r xs
    using row [OF that(1)] that(2) by (auto simp: sel_def)
  have len: "length res \<le> nat limit" by (simp add: res)
  have rows: "\<forall>r\<in>set res. (\<exists>u. newest_update ?us u \<and> reported_update ?ps u r) \<and>
      opt_eq manager (order_status_balance_manager_id r) \<and>
      (\<forall>xs. statuses = Some xs \<longrightarrow> order_status_current_status r \<in> set xs)"
    using row manager states by blast
  show ?thesis unfolding Let_def
    by (intro conjI impI ballI len orders_status_ids [OF q] sorted left)
      (simp_all add: rows [THEN bspec] none del: set_filter)
qed

definition example_update :: "int \<Rightarrow> string \<Rightarrow> OrderUpdateStatus \<Rightarrow> int \<Rightarrow> OrderUpdate" where
  "example_update t oid st filled =
     \<lparr>event_digest = show_int t, digest = ''d'', sender = ''s'', checkpoint = 1, checkpoint_timestamp_ms = t,
      package = ''p'', order_updates_status = st, order_updates_pool_id = ''pool'', order_updates_order_id = oid,
      order_updates_client_order_id = 0, order_updates_price = 7, order_updates_is_bid = True,
      order_updates_original_quantity = 10, order_updates_quantity = 10 - filled,
      order_updates_filled_quantity = filled, order_updates_onchain_timestamp = t,
      order_updates_trader = ''t'', order_updates_balance_manager_id = ''m''\<rparr>"

theorem order_update_scaled_witness:
  "map_of (order_update_json (pow10 9) (pow10 (price_exponent 9 6)) (example_update 1 ''1'' Placed 4)) ''price'' =
     Some (JFloat (F64 (round_rat (7 / 10 ^ 6)))) \<and>
   map_of (order_update_json (pow10 9) (pow10 (price_exponent 9 6)) (example_update 1 ''1'' Placed 4)) ''filled_quantity'' =
     Some (JFloat (F64 (round_rat (4 / 10 ^ 9))))"
  using order_update_scaled [of 9 6 "example_update 1 ''1'' Placed 4"]
  by (simp add: example_update_def Let_def rounded_once_def)

definition orders_db :: database where
  "orders_db = empty_database\<lparr>tb_order_updates :=
     [example_update 1 ''1'' Placed 0, example_update 5 ''1'' Modified 4, example_update 3 ''2'' Placed 0]\<rparr>"

lemma example_orders_status:
  "get_orders_status (steady_env orders_db) ''pool'' 10 None None 0 9 fresh_state =
     (Inr [order_status_row [example_update 1 ''1'' Placed 0] (example_update 5 ''1'' Modified 4),
           order_status_row [example_update 3 ''2'' Placed 0] (example_update 3 ''2'' Placed 0)],
      \<lparr>connections = 1, db_requests_succeeded = 1, db_requests_failed = 0\<rparr>)"
  by (simp add: get_orders_status_def db_request_def run_query_def fresh_state_def orders_status_query_def
      select_newest_def sql_limit_def order_desc_def latest_events_def placed_events_def orders_db_def
      example_update_def empty_database_def between_def opt_eq_def order_status_row_def)

theorem orders_status_correct_witness:
  "\<exists>res s'. get_orders_status (steady_env orders_db) ''pool'' 10 None None 0 9 fresh_state = (Inr res, s') \<and>
     order_status_order_id ` set res = {''1'', ''2''} \<and> distinct (map order_status_order_id res)"
  using orders_status_correct [OF example_orders_status, unfolded Let_def]
  by (simp add: example_orders_status order_status_row_def example_update_def)

text \<open>C24: the trades endpoint answers with fills of a pool of that name only, in the requested
  window and with the requested makers and takers, newest first and at most the limit many; a fill
  that is left out is no newer than those reported, and left out only because the limit is reached.\<close>

theorem trades_page:
  assumes "trades env now pool_name params s = (Inr res, s')"
  shows "\<exists>p fills. p \<in> set (tb_pools (contents env (connections s))) \<and> pools_pool_name p = pool_name \<and>
    (let b = i16_as_u8 (pools_base_asset_decimals p); q = i16_as_u8 (pools_quote_asset_decimals p)
     in res = map (trade_json (pow10 b) (pow10 q) (pow10 6) (pow10 (price_exponent b q))) fills) \<and>
    (let end_time = param_end_time now params;
         sel = order_fill_selected (pools_pool_id p) (window_start params end_time) end_time
           (params ''maker_balance_manager_id'') (params ''taker_balance_manager_id'')
           (params ''balance_manager_id'');
         tbl = tb_order_fills (contents env (connections s + 1))
     in (\<forall>f\<in>set fills. f \<in> set tbl \<and> sel f) \<and>
        sorted_wrt (\<lambda>f g. checkpoint_timestamp_ms g \<le> checkpoint_timestamp_ms f) fills \<and>
        int (length fills) \<le> param_limit params \<and>
        (\<forall>g\<in>set tbl. sel g \<and> g \<notin> set fills \<longrightarrow> int (length fills) = param_limit params \<and>
           (\<forall>f\<in>set fills. checkpoint_timestamp_ms g \<le> checkpoint_timestamp_ms f)))"
proof -
  let ?till = "param_end_time now params"
  obtain pool b q s1 fills where d: "get_pool_decimals env pool_name s = (Inr (pool, b, q), s1)"
    and g: "get_orders env pool_name pool (window_start params ?till) ?till (param_limit params)
        (params ''maker_balance_manager_id'') (params ''taker_balance_manager_id'')
        (params ''balance_manager_id'') s1 = (Inr fills, s')"
    and res: "res = map (trade_json (pow10 (i16_as_u8 b)) (pow10 (i16_as_u8 q)) (pow10 6)
        (pow10 (price_exponent (i16_as_u8 b) (i16_as_u8 q)))) fills"
    using assms by (auto simp: trades_def rpc_bind_Inr rpc_map_Inr Let_def)
  from d obtain p rest where "filter (\<lambda>p. pools_pool_name p = pool_name) (tb_pools (contents env (connections s))) = p # rest"
    and p: "pool = pools_pool_id p" "b = pools_base_asset_decimals p" "q = pools_quote_asset_decimals p"
    and s1: "connections s1 = connections s + 1"
    by (auto simp: get_pool_decimals_def Let_def db_request_Inr first_row_Inr map_eq_Cons_conv)
  then have "p \<in> set (filter (\<lambda>p. pools_pool_name p = pool_name) (tb_pools (contents env (connections s))))"
    by simp
  then have pin: "p \<in> set (tb_pools (contents env (connections s)))" "pools_pool_name p = pool_name" by auto
  let ?sel = "order_fill_selected pool (window_start params ?till) ?till (params ''maker_balance_manager_id'')
      (params ''taker_balance_manager_id'') (params ''balance_manager_id'')"
  let ?tbl = "tb_order_fills (contents env (connections s + 1))"
  from g have "select_newest checkpoint_timestamp_ms ?sel (param_limit params) ?tbl = Inr fills"
    by (auto simp: get_orders_def db_request_Inr s1)
  note select_newest_page [OF this]
  with pin res show ?thesis
    unfolding Let_def p by (intro exI [of _ p] exI [of _ fills] conjI) simp_all
qed

definition trades_db :: database where
  "trades_db = empty_database\<lparr>
     tb_pools := [\<lparr>pools_pool_id = ''0x1'', pools_pool_name = ''SUI_USDC'', pools_base_asset_id = ''b'',
       pools_base_asset_decimals = 9, pools_base_asset_symbol = ''SUI'', pools_base_asset_name = ''Sui'',
       pools_quote_asset_id = ''q'', pools_quote_asset_decimals = 6, pools_quote_asset_symbol = ''USDC'',
       pools_quote_asset_name = ''USDC'', pools_min_size = 1, pools_lot_size = 1, pools_tick_size = 1\<rparr>],
     tb_order_fills := map (\<lambda>t. \<lparr>event_digest = show_int t, digest = ''d'', sender = ''s'', checkpoint = 1,
       checkpoint_timestamp_ms = t, package = ''p'', order_fills_pool_id = ''0x1'',
       order_fills_maker_order_id = ''1'', order_fills_taker_order_id = ''2'',
       order_fills_maker_client_order_id = 0, order_fills_taker_client_order_id = 0, order_fills_price = 3,
       order_fills_taker_fee = 1, order_fills_taker_fee_is_deep = True, order_fills_maker_fee = 1,
       order_fills_maker_fee_is_deep = True, order_fills_taker_is_bid = True, order_fills_base_quantity = 2,
       order_fills_quote_quantity = 6, order_fills_maker_balance_manager_id = ''m'',
       order_fills_taker_balance_manager_id = ''t'', order_fills_onchain_timestamp = t\<rparr>) [1000, 3000, 2000]\<rparr>"

lemma example_trades: "\<exists>r s'. trades (steady_env trades_db) 4000 ''SUI_USDC'' Map.empty fresh_state = (Inr [r], s')"
  by (simp add: trades_def rpc_bind_def rpc_map_def rpc_return_def get_pool_decimals_def db_request_def
      run_query_def fresh_state_def first_row_def trades_db_def empty_database_def Let_def get_orders_def
      select_newest_def sql_limit_def param_limit_def param_i64_def order_desc_def order_fill_selected_def
      between_def opt_eq_def param_end_time_def window_start_def param_start_time_def DAY_MS_def
      i64_sub_def wrap_i64_def)

theorem trades_page_witness:
  "\<exists>r s'. trades (steady_env trades_db) 4000 ''SUI_USDC'' Map.empty fresh_state = (Inr [r], s') \<and>
     (\<exists>f. f \<in> set (tb_order_fills trades_db) \<and> map_of r ''event_digest'' = Some (JString (event_digest f)))"
proof -
  obtain r s' where r: "trades (steady_env trades_db) 4000 ''SUI_USDC'' Map.empty fresh_state = (Inr [r], s')"
    using example_trades by blast
  with trades_page [OF r] show ?thesis by (auto simp: Let_def trade_json_def)
qed

end
