(* ===== verification/Chain.thy ===== *)
theory Chain
  imports Orders
begin

text \<open>
  The endpoints of \<^verbatim>\<open>server.rs\<close> that ask a Sui node: \<open>orderbook\<close>, \<open>deep_supply\<close>, \<open>fees\<close> and
  \<open>margin_supply\<close>. The node is the parameter \<open>chain\<close>: its objects, the outcome of a
  dry run of a transaction, for each of its commands the returned values, and its latest checkpoint. Parsing of ids and
  types, the decoding of values and what the transaction builder does with a new input (\<^verbatim>\<open>sui-types\<close>,
  \<^verbatim>\<open>bcs\<close>) are the fields of \<open>chain_lib\<close>. A transaction is built as in the code: inputs are added one by
  one, the code ignores the number the builder gives them, and a command names its inputs by a 16-bit number.
  The levels of an order book are the numbers that its strings print.
\<close>

section \<open>The node\<close>

record object_data =
  od_object_id :: object_id
  od_shared_version :: "u64 option"

datatype call_input = SharedInput object_id u64 | PureU64 u64

record 't move_call =
  mc_package :: object_id
  mc_module :: string
  mc_function :: string
  mc_types :: "'t list"
  mc_args :: "u16 list"

record 't ptb =
  ptb_inputs :: "call_input list"
  ptb_commands :: "'t move_call list"

record 't chain_lib =
  object_id_from_hex_literal :: "string \<Rightarrow> string + object_id"
  type_from_str :: "string \<Rightarrow> string + 't"
  bcs_u64 :: "bytes \<Rightarrow> u64 option"
  bcs_u64s :: "bytes \<Rightarrow> u64 list option"
  builder_input :: "call_input \<Rightarrow> call_input list \<Rightarrow> string + call_input list"

record 't chain =
  client_error :: "string option"
  node_object :: "object_id \<Rightarrow> string + object_data option"
  dev_inspect :: "'t ptb \<Rightarrow> string + bytes list list option"
  node_latest_checkpoint :: "string + u64"

record app_config =
  deepbook_package_id :: string
  deep_token_package_id :: string
  deep_treasury_id :: string
  margin_package_id :: "string option"

definition empty_ptb :: "'t ptb" where "empty_ptb = \<lparr>ptb_inputs = [], ptb_commands = []\<rparr>"

text \<open>\<open>ProgrammableTransactionBuilder::input\<close>: the builder may refuse an input, or merge it with one it has.\<close>

definition ptb_input :: "'t chain_lib \<Rightarrow> call_input \<Rightarrow> 't ptb \<Rightarrow> string + 't ptb" where
  "ptb_input lib i p =
     bind_result (builder_input lib i (ptb_inputs p)) (\<lambda>inputs. Inr (p\<lparr>ptb_inputs := inputs\<rparr>))"

definition ptb_command :: "'t move_call \<Rightarrow> 't ptb \<Rightarrow> 't ptb" where
  "ptb_command c p = p\<lparr>ptb_commands := ptb_commands p @ [c]\<rparr>"

definition from_result :: "(string \<Rightarrow> DeepBookError) \<Rightarrow> string + 'a \<Rightarrow> DeepBookError + 'a" where
  "from_result f r = (case r of Inl e \<Rightarrow> Inl (f e) | Inr x \<Rightarrow> Inr x)"

definition sui_client :: "'t chain \<Rightarrow> DeepBookError + unit" where
  "sui_client ch = (case client_error ch of Some e \<Rightarrow> Inl (from_sui_sdk e) | None \<Rightarrow> Inr ())"

definition get_object :: "'t chain \<Rightarrow> object_id \<Rightarrow> DeepBookError + object_data option" where
  "get_object ch i = from_result from_sui_sdk (node_object ch i)"

definition parse_type_input :: "'t chain_lib \<Rightarrow> string \<Rightarrow> DeepBookError + 't" where
  "parse_type_input lib s = from_result from_anyhow (type_from_str lib s)"

definition inspect :: "'t chain \<Rightarrow> 't ptb \<Rightarrow> DeepBookError + bytes list list option" where
  "inspect ch p = from_result from_sui_sdk (dev_inspect ch p)"

definition add_input :: "'t chain_lib \<Rightarrow> call_input \<Rightarrow> 't ptb \<Rightarrow> DeepBookError + 't ptb" where
  "add_input lib i p = from_result from_anyhow (ptb_input lib i p)"

definition no_results :: DeepBookError where
  "no_results = rpc_error ''No results from dev_inspect_transaction_block''"

section \<open>The order book\<close>

text \<open>\<open>params.get(..).map(parse::<u64>).transpose()\<close> with its error.\<close>

definition param_u64 :: "string \<Rightarrow> string \<Rightarrow> params \<Rightarrow> DeepBookError + u64 option" where
  "param_u64 msg key params =
     (case params key of
        None \<Rightarrow> Inr None
      | Some v \<Rightarrow> (case parse_u64 v of None \<Rightarrow> Inl (bad_request msg) | Some n \<Rightarrow> Inr (Some n)))"

definition orderbook_ticks :: "params \<Rightarrow> DeepBookError + u64" where
  "orderbook_ticks params =
     bind_result (param_u64 ''Depth must be a non-negative integer'' ''depth'' params) (\<lambda>d.
       let depth = map_option (\<lambda>depth. if depth = 0 then 200 else depth) d
       in if depth = Some 1 then
            Inl (bad_request ''Depth cannot be 1. Use a value greater than 1 or 0 for the entire orderbook'')
          else
            bind_result (param_u64 ''Level must be an integer between 1 and 2'' ''level'' params) (\<lambda>level.
              case level of
                None \<Rightarrow> Inr (case depth of Some d \<Rightarrow> d div 2 | None \<Rightarrow> 100)
              | Some l \<Rightarrow>
                  if \<not> (1 \<le> l \<and> l \<le> 2) then Inl (bad_request ''Level must be 1 or 2'')
                  else Inr (case depth of
                         Some d \<Rightarrow> (if l = 1 then 1 else d div 2)
                       | None \<Rightarrow> (if l = 1 then 1 else 100))))"

record orderbook_data =
  ob_timestamp :: i64
  ob_bids :: "(f64 \<times> f64) list"
  ob_asks :: "(f64 \<times> f64) list"

definition book_levels :: "u64 \<Rightarrow> u8 \<Rightarrow> u8 \<Rightarrow> u64 list \<Rightarrow> u64 list \<Rightarrow> (f64 \<times> f64) list" where
  "book_levels ticks base_decimals quote_decimals prices quantities =
     map (\<lambda>(price, quantity).
         (f64_div (f64_of_int (uint price)) (f64_of_int (uint (pow10 (price_exponent base_decimals quote_decimals)))),
          f64_div (f64_of_int (uint quantity)) (f64_of_int (uint (pow10 base_decimals)))))
       (take (unat ticks) (zip prices quantities))"

text \<open>One of the four return values of the first command.\<close>

definition book_vector ::
  "'t chain_lib \<Rightarrow> bytes list list \<Rightarrow> nat \<Rightarrow> string \<Rightarrow> string \<Rightarrow> string \<Rightarrow> DeepBookError + u64 list" where
  "book_vector lib res i no_values no_data no_parse =
     (case res of
        [] \<Rightarrow> Inl (rpc_error no_values)
      | values # _ \<Rightarrow>
          if length values \<le> i then Inl (rpc_error no_data)
          else ok_or (deserialization no_parse) (bcs_u64s lib (values ! i)))"

definition orderbook_call ::
  "'t chain_lib \<Rightarrow> 't chain \<Rightarrow> app_config \<Rightarrow> u64 \<Rightarrow> string \<Rightarrow> string \<Rightarrow> string \<Rightarrow> string \<Rightarrow>
   DeepBookError + bytes list list" where
  "orderbook_call lib ch cfg ticks pool_name pool_id base_asset_id quote_asset_id =
     bind_result (from_result from_object_id_parse (object_id_from_hex_literal lib pool_id)) (\<lambda>pool_address.
     bind_result (sui_client ch) (\<lambda>_.
     bind_result (get_object ch pool_address) (\<lambda>obj.
     bind_result (ok_or (rpc_error (''Missing data in pool object response for '' @ quoted pool_name)) obj) (\<lambda>pool_data.
     bind_result (ok_or (rpc_error (''Pool '' @ quoted pool_name @ '' is not a shared object or owner info missing''))
         (od_shared_version pool_data)) (\<lambda>version.
     bind_result (add_input lib (SharedInput (od_object_id pool_data) version) empty_ptb) (\<lambda>p.
     bind_result (add_input lib (PureU64 ticks) p) (\<lambda>p.
     bind_result (from_result from_object_id_parse (object_id_from_hex_literal lib
         ''0x0000000000000000000000000000000000000000000000000000000000000006'')) (\<lambda>clock.
     bind_result (add_input lib (SharedInput clock 1) p) (\<lambda>p.
     bind_result (parse_type_input lib base_asset_id) (\<lambda>base_coin_type.
     bind_result (parse_type_input lib quote_asset_id) (\<lambda>quote_coin_type.
     bind_result (from_result (\<lambda>e. bad_request (''Invalid pool ID: '' @ e))
         (object_id_from_hex_literal lib (deepbook_package_id cfg))) (\<lambda>pkg.
     bind_result (inspect ch (ptb_command
         \<lparr>mc_package = pkg, mc_module = ''pool'', mc_function = ''get_level2_ticks_from_mid'',
          mc_types = [base_coin_type, quote_coin_type], mc_args = [0, 1, 2]\<rparr> p)) (\<lambda>results.
       ok_or no_results results)))))))))))))"

definition orderbook_result ::
  "'t chain_lib \<Rightarrow> i64 \<Rightarrow> u64 \<Rightarrow> u8 \<Rightarrow> u8 \<Rightarrow> bytes list list \<Rightarrow> DeepBookError + orderbook_data" where
  "orderbook_result lib now ticks base_decimals quote_decimals res =
     bind_result (book_vector lib res 0 ''No return values for bid prices'' ''No bid price data found''
         ''Failed to deserialize bid prices'') (\<lambda>bid_prices.
     bind_result (book_vector lib res 1 ''No return values for bid quantities''
         ''No bid quantity data found'' ''Failed to deserialize bid quantities'') (\<lambda>bid_quantities.
     bind_result (book_vector lib res 2 ''No return values for ask prices'' ''No ask price data found''
         ''Failed to deserialize ask prices'') (\<lambda>ask_prices.
     bind_result (book_vector lib res 3 ''No return values for ask quantities''
         ''No ask quantity data found'' ''Failed to deserialize ask quantities'') (\<lambda>ask_quantities.
       Inr \<lparr>ob_timestamp = now,
            ob_bids = book_levels ticks base_decimals quote_decimals bid_prices bid_quantities,
            ob_asks = book_levels ticks base_decimals quote_decimals ask_prices ask_quantities\<rparr>))))"

definition orderbook ::
  "'t chain_lib \<Rightarrow> 't chain \<Rightarrow> app_config \<Rightarrow> db_env \<Rightarrow> i64 \<Rightarrow> string \<Rightarrow> params \<Rightarrow> orderbook_data rpc" where
  "orderbook lib ch cfg env now pool_name params =
     rpc_bind (rpc_lift (orderbook_ticks params)) (\<lambda>ticks.
     rpc_bind (first env (\<lambda>db. Inr (filter (\<lambda>p. pools_pool_name p = pool_name) (tb_pools db)))) (\<lambda>pool.
       rpc_lift (bind_result (orderbook_call lib ch cfg ticks pool_name (pools_pool_id pool)
           (pools_base_asset_id pool) (pools_quote_asset_id pool)) (\<lambda>results.
         orderbook_result lib now ticks (i16_as_u8 (pools_base_asset_decimals pool))
           (i16_as_u8 (pools_quote_asset_decimals pool)) results))))"

section \<open>The supply of the DEEP token\<close>

definition deep_supply :: "'t chain_lib \<Rightarrow> 't chain \<Rightarrow> app_config \<Rightarrow> DeepBookError + u64" where
  "deep_supply lib ch cfg =
     bind_result (sui_client ch) (\<lambda>_.
     bind_result (from_result from_object_id_parse (object_id_from_hex_literal lib (deep_treasury_id cfg))) (\<lambda>treasury.
     bind_result (get_object ch treasury) (\<lambda>obj.
     bind_result (ok_or (rpc_error ''Incorrect Treasury ID'') obj) (\<lambda>treasury_data.
     bind_result (ok_or (rpc_error ''Treasury is not a shared object'') (od_shared_version treasury_data)) (\<lambda>version.
     bind_result (add_input lib (SharedInput (od_object_id treasury_data) version) empty_ptb) (\<lambda>p.
     bind_result (from_result (\<lambda>e. bad_request (''Invalid deep token package ID: '' @ e))
         (object_id_from_hex_literal lib (deep_token_package_id cfg))) (\<lambda>pkg.
     bind_result (inspect ch (ptb_command
         \<lparr>mc_package = pkg, mc_module = ''deep'', mc_function = ''total_supply'', mc_types = [], mc_args = [0]\<rparr>
         p)) (\<lambda>results.
     bind_result (ok_or no_results results) (\<lambda>results.
     bind_result (ok_or (rpc_error ''No return values for total supply'')
         (case results of [] \<Rightarrow> None | r # _ \<Rightarrow> Some r)) (\<lambda>values.
     bind_result (ok_or (rpc_error ''No total supply data found'')
         (case values of [] \<Rightarrow> None | v # _ \<Rightarrow> Some v)) (\<lambda>v.
       ok_or (deserialization ''Failed to deserialize total supply'') (bcs_u64 lib v))))))))))))"

section \<open>The fees of all pools\<close>

record PoolFees =
  pf_pool_id :: string
  pf_taker_fee :: f64
  pf_maker_fee :: f64
  pf_stake_required :: f64

definition fees_call :: "object_id \<Rightarrow> 't \<Rightarrow> 't \<Rightarrow> u16 \<Rightarrow> 't move_call" where
  "fees_call pkg base quote input_idx =
     \<lparr>mc_package = pkg, mc_module = ''pool'', mc_function = ''pool_trade_params'',
      mc_types = [base, quote], mc_args = [input_idx]\<rparr>"

text \<open>The loop over the pools and their objects: a pool without a shared object is skipped. The number of
  the input is \<open>valid_pools.len() as u16\<close>.\<close>

fun fees_ptb ::
  "'t chain_lib \<Rightarrow> object_id \<Rightarrow> (Pools \<times> (DeepBookError + object_data option)) list \<Rightarrow> 't ptb \<Rightarrow> Pools list \<Rightarrow>
   DeepBookError + 't ptb \<times> Pools list" where
  "fees_ptb lib pkg [] p valid_pools = Inr (p, valid_pools)"
| "fees_ptb lib pkg ((pool, obj) # rest) p valid_pools =
     (case obj of
        Inl _ \<Rightarrow> fees_ptb lib pkg rest p valid_pools
      | Inr None \<Rightarrow> fees_ptb lib pkg rest p valid_pools
      | Inr (Some data) \<Rightarrow>
          (case od_shared_version data of
             None \<Rightarrow> fees_ptb lib pkg rest p valid_pools
           | Some version \<Rightarrow>
               (let input_idx = of_nat (length valid_pools)
                in bind_result (add_input lib (SharedInput (od_object_id data) version) p) (\<lambda>p.
                   bind_result (parse_type_input lib (pools_base_asset_id pool)) (\<lambda>base_coin_type.
                   bind_result (parse_type_input lib (pools_quote_asset_id pool)) (\<lambda>quote_coin_type.
                     fees_ptb lib pkg rest (ptb_command (fees_call pkg base_coin_type quote_coin_type input_idx) p)
                       (valid_pools @ [pool])))))))"

definition fee_value :: "'t chain_lib \<Rightarrow> bytes list \<Rightarrow> nat \<Rightarrow> string \<Rightarrow> DeepBookError + u64" where
  "fee_value lib values i name =
     (if length values \<le> i then Inl (rpc_error (''Missing '' @ name))
      else ok_or (deserialization (''Failed to deserialize '' @ name)) (bcs_u64 lib (values ! i)))"

definition pool_fees :: "'t chain_lib \<Rightarrow> Pools \<Rightarrow> bytes list \<Rightarrow> DeepBookError + PoolFees" where
  "pool_fees lib pool values =
     bind_result (fee_value lib values 0 ''taker_fee'') (\<lambda>taker_fee.
     bind_result (fee_value lib values 1 ''maker_fee'') (\<lambda>maker_fee.
     bind_result (fee_value lib values 2 ''stake_required'') (\<lambda>stake_required.
       Inr \<lparr>pf_pool_id = pools_pool_id pool,
            pf_taker_fee = f64_div (f64_of_int (uint taker_fee)) (F64 1000000000),
            pf_maker_fee = f64_div (f64_of_int (uint maker_fee)) (F64 1000000000),
            pf_stake_required = f64_div (f64_of_int (uint stake_required)) (F64 1000000)\<rparr>)))"

fun collect_fees ::
  "'t chain_lib \<Rightarrow> bytes list list \<Rightarrow> (nat \<times> Pools) list \<Rightarrow> (string, PoolFees) hash_map \<Rightarrow>
   DeepBookError + (string, PoolFees) hash_map" where
  "collect_fees lib res [] acc = Inr acc"
| "collect_fees lib res ((i, pool) # rest) acc =
     (if length res \<le> i then Inl (rpc_error ''Missing result for pool'')
      else bind_result (pool_fees lib pool (res ! i)) (\<lambda>f.
        collect_fees lib res rest (hm_insert (pools_pool_name pool) f acc)))"

definition fees_of_pools ::
  "'t chain_lib \<Rightarrow> 't chain \<Rightarrow> app_config \<Rightarrow> Pools list \<Rightarrow> DeepBookError + (string, PoolFees) hash_map" where
  "fees_of_pools lib ch cfg pools =
     bind_result (sui_client ch) (\<lambda>_.
     bind_result (from_result (\<lambda>e. bad_request (''Invalid package ID: '' @ e))
         (object_id_from_hex_literal lib (deepbook_package_id cfg))) (\<lambda>pkg.
       let pool_objects = map (\<lambda>pool. bind_result (from_result from_object_id_parse
             (object_id_from_hex_literal lib (pools_pool_id pool))) (get_object ch)) pools
       in bind_result (fees_ptb lib pkg (zip pools pool_objects) empty_ptb []) (\<lambda>(p, valid_pools).
            if valid_pools = [] then Inr []
            else
              bind_result (inspect ch p) (\<lambda>results.
              bind_result (ok_or no_results results) (\<lambda>results.
                collect_fees lib results (enumerate 0 valid_pools) [])))))"

definition fees :: "'t chain_lib \<Rightarrow> 't chain \<Rightarrow> app_config \<Rightarrow> db_env \<Rightarrow> (string, PoolFees) hash_map rpc" where
  "fees lib ch cfg env = rpc_bind (results env (\<lambda>db. Inr (tb_pools db)))
     (\<lambda>pools. rpc_lift (fees_of_pools lib ch cfg pools))"

section \<open>The supply of the margin pools\<close>

text \<open>\<open>rsplit("::").next()\<close>: what follows the last \<open>::\<close>.\<close>

fun after_last_colons :: "string \<Rightarrow> string" where
  "after_last_colons [] = []"
| "after_last_colons (c # s) =
     (if contains_str s ''::'' then after_last_colons s
      else if starts_with (c # s) ''::'' then tl s
      else c # s)"

definition normalize_asset_type :: "string \<Rightarrow> string" where
  "normalize_asset_type asset_type =
     (if starts_with asset_type ''0x'' \<or> starts_with asset_type ''0X'' then asset_type else ''0x'' @ asset_type)"

fun supply_loop ::
  "'t chain_lib \<Rightarrow> 't chain \<Rightarrow> object_id \<Rightarrow> MarginPoolCreated list \<Rightarrow> (string, u64) hash_map \<Rightarrow>
   DeepBookError + (string, u64) hash_map" where
  "supply_loop lib ch pkg [] acc = Inr acc"
| "supply_loop lib ch pkg (r # rest) acc =
     (let pool_id = margin_pool_created_margin_pool_id r; asset_type = margin_pool_created_asset_type r
      in bind_result (from_result (\<lambda>e. bad_request (''Invalid pool ID '' @ quoted pool_id @ '': '' @ e))
             (object_id_from_hex_literal lib pool_id)) (\<lambda>pool_object_id.
         bind_result (get_object ch pool_object_id) (\<lambda>obj.
         bind_result (ok_or (rpc_error (''Missing data in pool object response for '' @ quoted pool_id)) obj) (\<lambda>pool_data.
           case od_shared_version pool_data of
             None \<Rightarrow> supply_loop lib ch pkg rest acc
           | Some version \<Rightarrow>
               (case type_from_str lib (normalize_asset_type asset_type) of
                  Inl _ \<Rightarrow> supply_loop lib ch pkg rest acc
                | Inr type_input \<Rightarrow>
                    bind_result (add_input lib (SharedInput (od_object_id pool_data) version) empty_ptb) (\<lambda>p.
                    bind_result (inspect ch (ptb_command
                        \<lparr>mc_package = pkg, mc_module = ''margin_pool'', mc_function = ''total_supply'',
                         mc_types = [type_input], mc_args = [0]\<rparr> p)) (\<lambda>results.
                      supply_loop lib ch pkg rest
                        (case results of
                           Some ((value # _) # _) \<Rightarrow>
                             (case bcs_u64 lib value of
                                Some total_supply \<Rightarrow>
                                  hm_insert (after_last_colons asset_type) total_supply acc
                              | None \<Rightarrow> acc)
                         | _ \<Rightarrow> acc))))))))"

definition margin_supply :: "'t chain_lib \<Rightarrow> 't chain \<Rightarrow> app_config \<Rightarrow> db_env \<Rightarrow> (string, u64) hash_map rpc" where
  "margin_supply lib ch cfg env =
     (case margin_package_id cfg of
        None \<Rightarrow> rpc_fail (bad_request ''Margin package ID not configured'')
      | Some margin_package \<Rightarrow>
          rpc_bind (results env (\<lambda>db. Inr (tb_margin_pool_created db))) (\<lambda>pools.
            if pools = [] then rpc_return []
            else rpc_lift (
              bind_result (sui_client ch) (\<lambda>_.
              bind_result (from_result (\<lambda>e. bad_request (''Invalid margin package ID: '' @ e))
                  (object_id_from_hex_literal lib margin_package)) (\<lambda>pkg.
                supply_loop lib ch pkg pools [])))))"

section \<open>Properties\<close>

lemma orderbook_ticks_error: "orderbook_ticks params = Inl e \<Longrightarrow> \<exists>msg. e = BadRequest msg"
  by (auto simp: orderbook_ticks_def param_u64_def bad_request_def result_simps Let_def
      split: option.splits if_splits)

lemma orderbook_ticks_depth:
  assumes "orderbook_ticks params = Inr t" and "params ''depth'' = Some (show_u64 d)" and "d \<noteq> 0"
  shows "1 \<le> unat t \<and> 2 * unat t \<le> unat d"
proof -
  have d: "d \<noteq> 1" "t = 1 \<or> t = d div 2"
    using assms by (auto simp: orderbook_ticks_def param_u64_def parse_u64_show result_simps Let_def
        split: option.splits if_splits)
  then have "2 \<le> unat d" using assms(3)
    by (metis One_nat_def Suc_1 Suc_leI le_neq_implies_less less_one linorder_not_less unat_1 unat_eq_zero word_unat_eq_iff)
  with d(2) show ?thesis by (auto simp: unat_div)
qed

lemma length_book_levels: "length (book_levels t b q ps qs) \<le> unat t"
  by (simp add: book_levels_def)

text \<open>C29: an order book request with a bad depth or level is answered as a bad request before
  any database connection is made; otherwise, for a depth \<open>d\<close> above 0 that was accepted, the
  answer has at most \<open>d\<close> levels in all, as many of each side as the node was asked for at most.\<close>

theorem orderbook_depth:
  "(\<forall>e. orderbook_ticks params = Inl e \<longrightarrow> (\<exists>msg. e = BadRequest msg) \<and>
      orderbook lib ch cfg env now pool_name params s = (Inl e, s)) \<and>
   (\<forall>ob s' d. orderbook lib ch cfg env now pool_name params s = (Inr ob, s') \<and>
      params ''depth'' = Some (show_u64 d) \<and> d \<noteq> 0 \<longrightarrow>
      length (ob_bids ob) + length (ob_asks ob) \<le> unat d \<and>
      (\<exists>t. orderbook_ticks params = Inr t \<and> 1 \<le> unat t \<and>
         length (ob_bids ob) \<le> unat t \<and> length (ob_asks ob) \<le> unat t))"
proof (intro conjI allI impI; (elim conjE)?)
  fix e assume "orderbook_ticks params = Inl e"
  then show "\<exists>msg. e = BadRequest msg" "orderbook lib ch cfg env now pool_name params s = (Inl e, s)"
    using orderbook_ticks_error by (auto simp: orderbook_def rpc_bind_def rpc_lift_def)
next
  fix ob s' d
  assume h: "orderbook lib ch cfg env now pool_name params s = (Inr ob, s')"
    "params ''depth'' = Some (show_u64 d)" "d \<noteq> 0"
  then obtain t b q bp bq ap aq where t: "orderbook_ticks params = Inr t"
    and l: "ob_bids ob = book_levels t b q bp bq" "ob_asks ob = book_levels t b q ap aq"
    by (auto simp: orderbook_def rpc_bind_Inr rpc_lift_Inr orderbook_result_def bind_result_Inr)
  have "length (ob_bids ob) \<le> unat t" "length (ob_asks ob) \<le> unat t"
    unfolding l by (rule length_book_levels)+
  with orderbook_ticks_depth [OF t h(2,3)] t
  show "length (ob_bids ob) + length (ob_asks ob) \<le> unat d"
    "\<exists>t. orderbook_ticks params = Inr t \<and> 1 \<le> unat t \<and>
       length (ob_bids ob) \<le> unat t \<and> length (ob_asks ob) \<le> unat t"
    by auto
qed

section \<open>Each pool its own fees\<close>

type_synonym pool_object = "Pools \<times> (DeepBookError + object_data option)"

definition usable :: "pool_object \<Rightarrow> bool" where
  "usable z = (case snd z of Inr (Some d) \<Rightarrow> od_shared_version d \<noteq> None | _ \<Rightarrow> False)"

definition own_input :: "pool_object \<Rightarrow> call_input" where
  "own_input z = (case snd z of Inr (Some d) \<Rightarrow> SharedInput (od_object_id d) (the (od_shared_version d)) | _ \<Rightarrow> PureU64 0)"

definition own_object :: "pool_object \<Rightarrow> object_id" where
  "own_object z = (case snd z of Inr (Some d) \<Rightarrow> od_object_id d | _ \<Rightarrow> [])"

definition own_call :: "'t chain_lib \<Rightarrow> object_id \<Rightarrow> Pools \<Rightarrow> u16 \<Rightarrow> 't move_call" where
  "own_call lib pkg pool = fees_call pkg (projr (type_from_str lib (pools_base_asset_id pool)))
     (projr (type_from_str lib (pools_quote_asset_id pool)))"

text \<open>The objects among the inputs of a transaction, and what the builder documents: an object that is not
  among them is a new input, after the others.\<close>

definition input_objects :: "call_input list \<Rightarrow> object_id list" where
  "input_objects ins = concat (map (\<lambda>i. case i of SharedInput x _ \<Rightarrow> [x] | PureU64 _ \<Rightarrow> []) ins)"

definition builder_appends :: "'t chain_lib \<Rightarrow> bool" where
  "builder_appends lib \<longleftrightarrow> (\<forall>x v ins. x \<notin> set (input_objects ins) \<longrightarrow>
     builder_input lib (SharedInput x v) ins = Inr (ins @ [SharedInput x v]))"

lemma fees_ptb_aligned:
  assumes "fees_ptb lib pkg zs p vp = Inr (p', vp')" and "builder_appends lib"
    and "distinct (input_objects (ptb_inputs p) @ map own_object (filter usable zs))"
  shows "vp' = vp @ map fst (filter usable zs) \<and>
    ptb_inputs p' = ptb_inputs p @ map own_input (filter usable zs) \<and>
    ptb_commands p' = ptb_commands p @
      map (\<lambda>(i, pool). own_call lib pkg pool (of_nat i)) (enumerate (length vp) (map fst (filter usable zs)))"
  using assms(1,3)
proof (induction zs arbitrary: p vp)
  case (Cons z zs)
  obtain pool obj where z: "z = (pool, obj)" by (cases z)
  show ?case
  proof (cases "usable z")
    case False
    then have "fees_ptb lib pkg (z # zs) p vp = fees_ptb lib pkg zs p vp"
      by (auto simp: z usable_def split: sum.splits option.splits)
    with Cons False show ?thesis by simp
  next
    case True
    then obtain d v where d: "obj = Inr (Some d)" "od_shared_version d = Some v"
      by (auto simp: z usable_def split: sum.splits option.splits)
    have oi: "own_input z = SharedInput (od_object_id d) v" "own_object z = od_object_id d"
      by (simp_all add: own_input_def own_object_def z d)
    have "own_object z \<notin> set (input_objects (ptb_inputs p))" using Cons.prems(2) True by auto
    then have add: "add_input lib (SharedInput (od_object_id d) v) p =
        Inr (p\<lparr>ptb_inputs := ptb_inputs p @ [own_input z]\<rparr>)"
      using assms(2) by (simp add: builder_appends_def add_input_def ptb_input_def from_result_def oi)
    obtain b q where bq: "type_from_str lib (pools_base_asset_id pool) = Inr b"
      "type_from_str lib (pools_quote_asset_id pool) = Inr q"
      using Cons.prems(1) d add by (auto simp: z result_simps parse_type_input_def from_result_def Let_def split: sum.splits)
    let ?p = "ptb_command (fees_call pkg b q (of_nat (length vp))) (p\<lparr>ptb_inputs := ptb_inputs p @ [own_input z]\<rparr>)"
    have step: "fees_ptb lib pkg (z # zs) p vp = fees_ptb lib pkg zs ?p (vp @ [pool])"
      by (simp add: z d bq parse_type_input_def add [simplified z d] from_result_def Let_def)
    have inp: "ptb_inputs ?p = ptb_inputs p @ [own_input z]"
      "ptb_commands ?p = ptb_commands p @ [own_call lib pkg pool (of_nat (length vp))]"
      by (simp_all add: ptb_command_def own_call_def bq)
    have d: "distinct (input_objects (ptb_inputs ?p) @ map own_object (filter usable zs))"
      unfolding inp using Cons.prems(2) True by (auto simp: oi input_objects_def)
    from Cons.IH [OF Cons.prems(1) [unfolded step] d, unfolded inp] True show ?thesis by (simp add: z)
  qed
qed simp

lemma collect_fees_each:
  assumes "collect_fees lib res (enumerate n ps) acc = Inr m" and "distinct (map pools_pool_name ps)"
  shows "(\<forall>i<length ps. \<exists>f. n + i < length res \<and> pool_fees lib (ps ! i) (res ! (n + i)) = Inr f \<and>
      hm_get m (pools_pool_name (ps ! i)) = Some f) \<and>
    (\<forall>k. k \<notin> pools_pool_name ` set ps \<longrightarrow> hm_get m k = hm_get acc k)"
  using assms
proof (induction ps arbitrary: n acc)
  case (Cons a ps)
  then obtain f where f: "n < length res" "pool_fees lib a (res ! n) = Inr f"
    "collect_fees lib res (enumerate (Suc n) ps) (hm_insert (pools_pool_name a) f acc) = Inr m"
    by (auto simp: result_simps split: if_splits)
  have IH: "(\<forall>i<length ps. \<exists>f. Suc n + i < length res \<and> pool_fees lib (ps ! i) (res ! (Suc n + i)) = Inr f \<and>
      hm_get m (pools_pool_name (ps ! i)) = Some f)"
    "k \<notin> pools_pool_name ` set ps \<Longrightarrow> hm_get m k = hm_get (hm_insert (pools_pool_name a) f acc) k" for k
    using Cons.IH [OF f(3)] Cons.prems(2) by auto
  have "hm_get m (pools_pool_name a) = Some f"
    using IH(2) [of "pools_pool_name a"] Cons.prems(2) by (simp add: hm.get_put)
  with IH f Cons.prems(2) show ?case
    by (auto simp: hm.get_put less_Suc_eq_0_disj)
qed simp

text \<open>What the node documents of a dry run: every command is run on the inputs it names by number.\<close>

definition runs_calls :: "'t chain \<Rightarrow> ('t move_call \<Rightarrow> call_input list \<Rightarrow> bytes list) \<Rightarrow> bool" where
  "runs_calls ch run \<longleftrightarrow> (\<forall>p. dev_inspect ch p =
     Inr (Some (map (\<lambda>c. run (c\<lparr>mc_args := []\<rparr>) (map (\<lambda>a. ptb_inputs p ! unat a) (mc_args c))) (ptb_commands p))))"

definition pool_objects :: "'t chain_lib \<Rightarrow> 't chain \<Rightarrow> Pools list \<Rightarrow> pool_object list" where
  "pool_objects lib ch pools = map (\<lambda>pool. (pool, bind_result (from_result from_object_id_parse
     (object_id_from_hex_literal lib (pools_pool_id pool))) (get_object ch))) pools"

text \<open>The name of a pool that cannot be asked about is not the name of one that can.\<close>

lemma unusable_name:
  assumes "distinct (map pools_pool_name pools)" and "z \<in> set (pool_objects lib ch pools)" and "\<not> usable z"
  shows "pools_pool_name (fst z) \<notin> pools_pool_name ` set (map fst (filter usable (pool_objects lib ch pools)))"
proof
  assume "pools_pool_name (fst z) \<in> pools_pool_name ` set (map fst (filter usable (pool_objects lib ch pools)))"
  then obtain y where y: "y \<in> set (pool_objects lib ch pools)" "usable y"
    "pools_pool_name (fst y) = pools_pool_name (fst z)" by auto
  have zs: "map fst (pool_objects lib ch pools) = pools" by (simp add: pool_objects_def comp_def)
  have "inj_on pools_pool_name (set pools)" using assms(1) by (simp add: distinct_map)
  then have "fst y = fst z" using y assms(2) zs by (metis inj_onD imageI set_map)
  with y assms(2) have "y = z" by (auto simp: pool_objects_def)
  with y assms(3) show False by simp
qed

text \<open>C28: all fees are asked for in one transaction, and every pool is reported with the fees of its
  own shared object and its own asset types: pools that are not found or not shared are skipped
  without shifting the others. It assumes that the request is answered, that the node runs every call on the inputs it names, that the
  builder appends an object it does not have yet, that pool names are unique, that the pools that are
  not skipped are different objects, and that they are at most \<open>2 ^ 16\<close> many: the number of an input is
  the number of pools before it, in 16 bits.\<close>

theorem fees_own:
  assumes "fees_of_pools lib ch cfg pools = Inr m" and "runs_calls ch run" and "builder_appends lib"
    and "object_id_from_hex_literal lib (deepbook_package_id cfg) = Inr pkg"
    and "distinct (map pools_pool_name pools)"
    and "distinct (map own_object (filter usable (pool_objects lib ch pools)))"
    and "length (filter usable (pool_objects lib ch pools)) \<le> 2 ^ 16"
    and "z \<in> set (pool_objects lib ch pools)"
  shows "if usable z
    then \<exists>f. hm_get m (pools_pool_name (fst z)) = Some f \<and>
      pool_fees lib (fst z) (run ((own_call lib pkg (fst z) 0)\<lparr>mc_args := []\<rparr>) [own_input z]) = Inr f
    else hm_get m (pools_pool_name (fst z)) = None"
proof -
  let ?zs = "pool_objects lib ch pools"
  let ?us = "filter usable ?zs"
  have zs: "map fst ?zs = pools" by (simp add: pool_objects_def comp_def)
  have "zip pools (map f pools) = map (\<lambda>x. (x, f x)) pools" for f :: "Pools \<Rightarrow> DeepBookError + object_data option"
    by (induction pools) auto
  then obtain p vp where p: "fees_ptb lib pkg ?zs empty_ptb [] = Inr (p, vp)"
    and m: "if vp = [] then m = [] else \<exists>res. dev_inspect ch p = Inr (Some res) \<and>
        collect_fees lib res (enumerate 0 vp) [] = Inr m"
    using assms(1,4)
    by (auto simp: fees_of_pools_def result_simps Let_def from_result_def inspect_def pool_objects_def
        split: if_splits sum.splits)
  have "distinct (input_objects (ptb_inputs empty_ptb) @ map own_object ?us)"
    using assms(6) by (simp add: empty_ptb_def input_objects_def)
  then have al: "vp = map fst ?us" "ptb_inputs p = map own_input ?us"
    "ptb_commands p = map (\<lambda>(i, pool). own_call lib pkg pool (of_nat i)) (enumerate 0 vp)"
    using fees_ptb_aligned [OF p assms(3)] by (simp_all add: empty_ptb_def)
  let ?res = "map (\<lambda>c. run (c\<lparr>mc_args := []\<rparr>) (map (\<lambda>a. ptb_inputs p ! unat a) (mc_args c))) (ptb_commands p)"
  have names: "distinct (map pools_pool_name vp)"
  proof -
    have "distinct (map (pools_pool_name \<circ> fst) ?zs)" using assms(5) zs by (metis map_map)
    then show ?thesis unfolding al(1) map_map by (rule distinct_map_filter)
  qed
  have c: "collect_fees lib ?res (enumerate 0 vp) [] = Inr m"
    using m assms(2) by (cases "vp = []") (auto simp: runs_calls_def)
  note each = collect_fees_each [OF c names]
  show ?thesis
  proof (cases "usable z")
    case True
    then have "z \<in> set ?us" using assms(8) by simp
    then obtain i where i: "i < length ?us" "?us ! i = z" unfolding in_set_conv_nth by blast
    then have v: "i < length vp" "vp ! i = fst z" by (simp_all add: al(1))
    have "i < 2 ^ 16" using i(1) assms(7) by linarith
    then have "unat (of_nat i :: u16) = i" by (simp add: unsigned_of_nat take_bit_nat_eq_self)
    then have "?res ! i = run ((own_call lib pkg (fst z) 0)\<lparr>mc_args := []\<rparr>) [own_input z]"
      using i v by (simp add: al(2,3) nth_enumerate_eq own_call_def fees_call_def)
    with each v True show ?thesis by auto
  next
    case False
    from unusable_name [OF assms(5,8) this] have "pools_pool_name (fst z) \<notin> pools_pool_name ` set vp"
      by (simp add: al(1))
    with each False show ?thesis by (simp add: hm_get_def)
  qed
qed

text \<open>An example: two pools, the first of which the node does not know.\<close>

definition example_pool :: "string \<Rightarrow> string \<Rightarrow> Pools" where
  "example_pool i name = \<lparr>pools_pool_id = i, pools_pool_name = name, pools_base_asset_id = ''b'',
     pools_base_asset_decimals = 9, pools_base_asset_symbol = ''SUI'', pools_base_asset_name = ''Sui'',
     pools_quote_asset_id = ''q'', pools_quote_asset_decimals = 6, pools_quote_asset_symbol = ''USDC'',
     pools_quote_asset_name = ''USDC'', pools_min_size = 1, pools_lot_size = 1, pools_tick_size = 1\<rparr>"

definition example_lib :: "string chain_lib" where
  "example_lib = \<lparr>object_id_from_hex_literal = (\<lambda>s. Inr [of_nat (length s)]), type_from_str = (\<lambda>s. Inr s),
     bcs_u64 = (\<lambda>bs. case bs of [b] \<Rightarrow> Some (ucast b) | _ \<Rightarrow> None), bcs_u64s = (\<lambda>_. None),
     builder_input = (\<lambda>i ins. case i of
         PureU64 _ \<Rightarrow> Inr (if i \<in> set ins then ins else ins @ [i])
       | SharedInput x _ \<Rightarrow>
           if i \<in> set ins then Inr ins
           else if x \<in> set (input_objects ins) then Inl ''Mismatched Object argument kind''
           else Inr (ins @ [i]))\<rparr>"

definition example_run :: "string move_call \<Rightarrow> call_input list \<Rightarrow> bytes list" where
  "example_run c ins = (case ins of [SharedInput i _] \<Rightarrow> [i, i, i] | _ \<Rightarrow> [])"

definition example_chain :: "string chain" where
  "example_chain = \<lparr>client_error = None,
     node_object = (\<lambda>i. if i = [3] then Inr None else Inr (Some \<lparr>od_object_id = i, od_shared_version = Some 7\<rparr>)),
     dev_inspect = (\<lambda>p. Inr (Some (map (\<lambda>c. example_run (c\<lparr>mc_args := []\<rparr>)
       (map (\<lambda>a. ptb_inputs p ! unat a) (mc_args c))) (ptb_commands p)))),
     node_latest_checkpoint = Inr 1\<rparr>"

definition example_config :: app_config where
  "example_config = \<lparr>deepbook_package_id = ''0xabcd'', deep_token_package_id = ''0x5'', deep_treasury_id = ''0x6'',
     margin_package_id = None\<rparr>"

definition example_two :: "Pools list" where "example_two = [example_pool ''0x1'' ''A'', example_pool ''0x22'' ''B'']"

theorem orderbook_depth_witness:
  "\<exists>s. orderbook example_lib example_chain example_config (steady_env empty_database) 5 ''SUI_USDC''
     [''level'' \<mapsto> ''3''] s = (Inl (BadRequest ''Level must be 1 or 2''), s) \<and> connections s = 0"
proof -
  have "char_of (51 :: nat) = CHR ''3''" by code_simp
  then have "parse_u64 ''3'' = Some 3" using parse_u64_show [of 3]
    by (simp add: show_u64_def show_nat.simps digit_char_def)
  then have "orderbook_ticks [''level'' \<mapsto> ''3''] = Inl (BadRequest ''Level must be 1 or 2'')"
    by (simp add: orderbook_ticks_def param_u64_def Let_def bad_request_def)
  then have "orderbook example_lib example_chain example_config (steady_env empty_database) 5 ''SUI_USDC''
      [''level'' \<mapsto> ''3''] fresh_state = (Inl (BadRequest ''Level must be 1 or 2''), fresh_state)"
    using orderbook_depth [of "[''level'' \<mapsto> ''3'']" example_lib example_chain example_config
      "steady_env empty_database" 5 "''SUI_USDC''" fresh_state] by blast
  then show ?thesis by (intro exI [of _ fresh_state]) (simp add: fresh_state_def)
qed

lemma example_objects: "pool_objects example_lib example_chain example_two =
    [(example_pool ''0x1'' ''A'', Inr None),
     (example_pool ''0x22'' ''B'', Inr (Some \<lparr>od_object_id = [4], od_shared_version = Some 7\<rparr>))]"
  by (simp add: pool_objects_def example_two_def example_pool_def example_lib_def example_chain_def
      from_result_def get_object_def)

theorem fees_own_witness:
  "\<exists>m f. fees_of_pools example_lib example_chain example_config example_two = Inr m \<and>
     hm_get m ''A'' = None \<and> hm_get m ''B'' = Some f \<and> pf_pool_id f = ''0x22''"
proof -
  have "\<exists>m. fees_of_pools example_lib example_chain example_config example_two = Inr m"
    by (simp add: fees_of_pools_def sui_client_def example_chain_def example_lib_def example_config_def
        example_two_def from_result_def get_object_def Let_def example_pool_def parse_type_input_def
        ptb_command_def add_input_def ptb_input_def input_objects_def empty_ptb_def inspect_def ok_or_def fees_call_def example_run_def
        pool_fees_def fee_value_def)
  then obtain m where m: "fees_of_pools example_lib example_chain example_config example_two = Inr m" by blast
  have run: "runs_calls example_chain example_run" by (simp add: runs_calls_def example_chain_def)
  have builder: "builder_appends example_lib"
    by (auto simp: builder_appends_def example_lib_def input_objects_def)
  have pkg: "object_id_from_hex_literal example_lib (deepbook_package_id example_config) = Inr [6]"
    by (simp add: example_lib_def example_config_def)
  have names: "distinct (map pools_pool_name example_two)" by (simp add: example_two_def example_pool_def)
  have inputs: "distinct (map own_object (filter usable (pool_objects example_lib example_chain example_two)))"
    "length (filter usable (pool_objects example_lib example_chain example_two)) \<le> 2 ^ 16"
    by (simp_all add: example_objects usable_def)
  note own = fees_own [OF m run builder pkg names inputs, unfolded example_objects]
  have "hm_get m ''A'' = None" using own [of "(example_pool ''0x1'' ''A'', Inr None)"]
    by (simp add: usable_def example_pool_def)
  moreover obtain f where "hm_get m ''B'' = Some f" "pf_pool_id f = ''0x22''"
    using own [of "(example_pool ''0x22'' ''B'', Inr (Some \<lparr>od_object_id = [4], od_shared_version = Some 7\<rparr>))"]
    by (auto simp: usable_def example_pool_def pool_fees_def result_simps)
  ultimately show ?thesis using m by blast
qed

end
