(* ===== verification/Status.thy ===== *)
theory Status
  imports Chain
begin

text \<open>
  The \<open>/status\<close> endpoint of \<^verbatim>\<open>server.rs\<close>: the lag of every pipeline behind the chain, and the verdict
  on the health of the indexer. The latest checkpoint comes from the RPC node (\<open>chain\<close>) and the time from the
  system clock; both are arguments. All arithmetic is on \<open>i64\<close>.
\<close>

record StatusQueryParams =
  max_checkpoint_lag_param :: i64
  max_time_lag_seconds_param :: i64

definition default_max_checkpoint_lag :: i64 where "default_max_checkpoint_lag = 100"
definition default_max_time_lag_seconds :: i64 where "default_max_time_lag_seconds = 60"

text \<open>A watermark as the query returns it: pipeline, checkpoint, timestamp, epoch.\<close>

type_synonym watermark = "string \<times> i64 \<times> i64 \<times> i64"

definition watermark_of :: "watermark_row \<Rightarrow> watermark" where
  "watermark_of w = (watermarks_pipeline w, watermarks_checkpoint_hi_inclusive w,
     watermarks_timestamp_ms_hi_inclusive w, watermarks_epoch_hi_inclusive w)"

definition get_watermarks :: "db_env \<Rightarrow> watermark list rpc" where
  "get_watermarks env =
     db_request from_anyhow (\<lambda>_. database_error ''Error fetching watermarks'') env
       (\<lambda>db. Inr (map watermark_of (tb_watermarks db)))"

record pipeline_status =
  ps_pipeline :: string
  ps_indexed_checkpoint :: i64
  ps_indexed_epoch :: i64
  ps_indexed_timestamp_ms :: i64
  ps_checkpoint_lag :: i64
  ps_time_lag_seconds :: i64
  ps_latest_onchain_checkpoint :: u64
  ps_is_backfill :: bool

definition pipeline_status_of :: "u64 \<Rightarrow> i64 \<Rightarrow> watermark \<Rightarrow> pipeline_status" where
  "pipeline_status_of latest_checkpoint current_time_ms = (\<lambda>(pipeline, checkpoint_hi, timestamp_ms_hi, epoch_hi).
     \<lparr>ps_pipeline = pipeline,
      ps_indexed_checkpoint = checkpoint_hi,
      ps_indexed_epoch = epoch_hi,
      ps_indexed_timestamp_ms = timestamp_ms_hi,
      ps_checkpoint_lag = i64_sub (as_i64 latest_checkpoint) checkpoint_hi,
      ps_time_lag_seconds = trunc_div (i64_sub current_time_ms timestamp_ms_hi) 1000,
      ps_latest_onchain_checkpoint = latest_checkpoint,
      ps_is_backfill = contains_str pipeline ''@backfill''\<rparr>)"

text \<open>The variables of the loop: the least checkpoint and the largest lag so far, with its pipeline.\<close>

record status_scan =
  sc_min_checkpoint :: i64
  sc_max_checkpoint_lag :: i64
  sc_max_lag_pipeline :: string

definition status_scan_init :: status_scan where
  "status_scan_init = \<lparr>sc_min_checkpoint = i64_max, sc_max_checkpoint_lag = 0, sc_max_lag_pipeline = []\<rparr>"

definition status_scan_step :: "pipeline_status \<Rightarrow> status_scan \<Rightarrow> status_scan" where
  "status_scan_step p sc =
     (if ps_is_backfill p then sc
      else
        (let sc = (if ps_indexed_checkpoint p < sc_min_checkpoint sc
               then sc\<lparr>sc_min_checkpoint := ps_indexed_checkpoint p\<rparr> else sc)
         in if sc_max_checkpoint_lag sc < ps_checkpoint_lag p
            then sc\<lparr>sc_max_checkpoint_lag := ps_checkpoint_lag p, sc_max_lag_pipeline := ps_pipeline p\<rparr>
            else sc))"

record status_report =
  sr_status :: string
  sr_latest_onchain_checkpoint :: u64
  sr_current_time_ms :: i64
  sr_earliest_checkpoint :: i64
  sr_max_lag_pipeline :: string
  sr_pipelines :: "pipeline_status list"
  sr_max_checkpoint_lag :: i64
  sr_max_time_lag_seconds :: i64

text \<open>\<open>filter_map(..).max().unwrap_or(0)\<close>\<close>

definition max_or_zero :: "int list \<Rightarrow> int" where
  "max_or_zero xs = (if xs = [] then 0 else Max (set xs))"

definition status_of_watermarks :: "StatusQueryParams \<Rightarrow> u64 \<Rightarrow> i64 \<Rightarrow> watermark list \<Rightarrow> status_report" where
  "status_of_watermarks params latest_checkpoint current_time_ms watermarks =
     (let pipelines = map (pipeline_status_of latest_checkpoint current_time_ms) watermarks;
          sc = fold status_scan_step pipelines status_scan_init;
          max_time_lag_seconds =
            max_or_zero (map ps_time_lag_seconds (filter (\<lambda>p. \<not> ps_is_backfill p) pipelines));
          earliest_checkpoint = (if sc_min_checkpoint sc = i64_max then 0 else sc_min_checkpoint sc);
          is_healthy = (sc_max_checkpoint_lag sc < max_checkpoint_lag_param params \<and>
                        max_time_lag_seconds < max_time_lag_seconds_param params)
      in \<lparr>sr_status = (if is_healthy then ''OK'' else ''UNHEALTHY''),
          sr_latest_onchain_checkpoint = latest_checkpoint,
          sr_current_time_ms = current_time_ms,
          sr_earliest_checkpoint = earliest_checkpoint,
          sr_max_lag_pipeline = sc_max_lag_pipeline sc,
          sr_pipelines = pipelines,
          sr_max_checkpoint_lag = sc_max_checkpoint_lag sc,
          sr_max_time_lag_seconds = max_time_lag_seconds\<rparr>)"

text \<open>The endpoint fails when the query fails, when there is no client of the node, and when the
  node does not answer.\<close>

definition latest_error :: "string \<Rightarrow> DeepBookError" where
  "latest_error e = rpc_error (''Failed to get latest checkpoint: '' @ e)"

definition status :: "db_env \<Rightarrow> 't chain \<Rightarrow> i64 \<Rightarrow> StatusQueryParams \<Rightarrow> status_report rpc" where
  "status env ch current_time_ms params =
     rpc_bind (get_watermarks env) (\<lambda>watermarks.
     rpc_bind (rpc_lift (sui_client ch)) (\<lambda>_.
     rpc_bind (rpc_lift (from_result latest_error (node_latest_checkpoint ch))) (\<lambda>latest_checkpoint.
       rpc_return (status_of_watermarks params latest_checkpoint current_time_ms watermarks))))"

section \<open>Properties\<close>

text \<open>The pipelines that count for the verdict.\<close>

definition live_pipelines :: "u64 \<Rightarrow> i64 \<Rightarrow> watermark list \<Rightarrow> pipeline_status list" where
  "live_pipelines latest now ws = filter (\<lambda>p. \<not> ps_is_backfill p) (map (pipeline_status_of latest now) ws)"

lemma status_scan_step_simps:
  "sc_max_checkpoint_lag (status_scan_step p sc) =
     (if ps_is_backfill p then sc_max_checkpoint_lag sc else max (sc_max_checkpoint_lag sc) (ps_checkpoint_lag p))"
  "sc_min_checkpoint (status_scan_step p sc) =
     (if ps_is_backfill p then sc_min_checkpoint sc else min (sc_min_checkpoint sc) (ps_indexed_checkpoint p))"
  "sc_max_lag_pipeline (status_scan_step p sc) =
     (if \<not> ps_is_backfill p \<and> sc_max_checkpoint_lag sc < ps_checkpoint_lag p then ps_pipeline p
      else sc_max_lag_pipeline sc)"
  by (simp_all add: status_scan_step_def Let_def)

lemma scan_max_less:
  "sc_max_checkpoint_lag (fold status_scan_step ps sc) < b \<longleftrightarrow>
     sc_max_checkpoint_lag sc < b \<and> (\<forall>p\<in>set ps. \<not> ps_is_backfill p \<longrightarrow> ps_checkpoint_lag p < b)"
  by (induction ps arbitrary: sc) (auto simp: status_scan_step_simps)

lemma scan_max_attained:
  "sc_max_checkpoint_lag (fold status_scan_step ps sc) = sc_max_checkpoint_lag sc \<and>
     sc_max_lag_pipeline (fold status_scan_step ps sc) = sc_max_lag_pipeline sc \<or>
   (\<exists>p\<in>set ps. \<not> ps_is_backfill p \<and>
      sc_max_checkpoint_lag (fold status_scan_step ps sc) = ps_checkpoint_lag p \<and>
      sc_max_lag_pipeline (fold status_scan_step ps sc) = ps_pipeline p)"
proof (induction ps arbitrary: sc)
  case (Cons p ps)
  show ?case using Cons [of "status_scan_step p sc"]
    by (cases "ps_is_backfill p"; cases "sc_max_checkpoint_lag sc < ps_checkpoint_lag p")
      (auto simp: status_scan_step_simps)
qed simp

lemma scan_min_le:
  "b \<le> sc_min_checkpoint (fold status_scan_step ps sc) \<longleftrightarrow>
     b \<le> sc_min_checkpoint sc \<and> (\<forall>p\<in>set ps. \<not> ps_is_backfill p \<longrightarrow> b \<le> ps_indexed_checkpoint p)"
  by (induction ps arbitrary: sc) (auto simp: status_scan_step_simps)

lemma scan_min_attained:
  "sc_min_checkpoint (fold status_scan_step ps sc) = sc_min_checkpoint sc \<or>
   (\<exists>p\<in>set ps. \<not> ps_is_backfill p \<and>
      sc_min_checkpoint (fold status_scan_step ps sc) = ps_indexed_checkpoint p)"
proof (induction ps arbitrary: sc)
  case (Cons p ps)
  show ?case using Cons [of "status_scan_step p sc"]
    by (cases "ps_is_backfill p") (auto simp: status_scan_step_simps min_def)
qed simp

lemma max_or_zero_less: "max_or_zero xs < b \<longleftrightarrow> (if xs = [] then 0 < b else \<forall>x\<in>set xs. x < b)"
  by (simp add: max_or_zero_def)

lemma verdict_of_watermarks:
  "sr_status (status_of_watermarks params latest now ws) = ''OK'' \<longleftrightarrow>
     0 < max_checkpoint_lag_param params \<and>
     (\<forall>p\<in>set (live_pipelines latest now ws).
        ps_checkpoint_lag p < max_checkpoint_lag_param params \<and>
        ps_time_lag_seconds p < max_time_lag_seconds_param params) \<and>
     (live_pipelines latest now ws = [] \<longrightarrow> 0 < max_time_lag_seconds_param params)"
proof -
  have live: "set (live_pipelines latest now ws) =
      {p \<in> set (map (pipeline_status_of latest now) ws). \<not> ps_is_backfill p}"
    by (simp add: live_pipelines_def)
  have "sr_status (status_of_watermarks params latest now ws) = ''OK'' \<longleftrightarrow>
      sc_max_checkpoint_lag (fold status_scan_step (map (pipeline_status_of latest now) ws) status_scan_init)
        < max_checkpoint_lag_param params \<and>
      max_or_zero (map ps_time_lag_seconds (live_pipelines latest now ws))
        < max_time_lag_seconds_param params"
    by (simp add: status_of_watermarks_def Let_def live_pipelines_def)
  moreover have "sc_max_checkpoint_lag (fold status_scan_step (map (pipeline_status_of latest now) ws)
        status_scan_init) < max_checkpoint_lag_param params \<longleftrightarrow>
      0 < max_checkpoint_lag_param params \<and>
      (\<forall>p\<in>set (live_pipelines latest now ws). ps_checkpoint_lag p < max_checkpoint_lag_param params)"
    unfolding scan_max_less live by (auto simp: status_scan_init_def)
  moreover have "max_or_zero (map ps_time_lag_seconds (live_pipelines latest now ws))
        < max_time_lag_seconds_param params \<longleftrightarrow>
      (if live_pipelines latest now ws = [] then 0 < max_time_lag_seconds_param params
       else \<forall>p\<in>set (live_pipelines latest now ws). ps_time_lag_seconds p < max_time_lag_seconds_param params)"
    by (simp add: max_or_zero_less)
  ultimately show ?thesis by auto
qed

lemma status_Inr:
  "status env ch now params s = (Inr r, s') \<longleftrightarrow>
     connect_error env (connections s) = None \<and> query_error env (connections s) = None \<and>
     client_error ch = None \<and>
     (\<exists>latest. node_latest_checkpoint ch = Inr latest \<and>
        r = status_of_watermarks params latest now
              (map watermark_of (tb_watermarks (contents env (connections s))))) \<and>
     s' = s\<lparr>connections := connections s + 1, db_requests_succeeded := db_requests_succeeded s + 1\<rparr>"
  by (auto simp: status_def get_watermarks_def rpc_bind_Inr rpc_lift_Inr rpc_return_Inr db_request_Inr
      sui_client_def from_result_def split: option.splits sum.splits)

text \<open>C6: the status is answered exactly when the connection, the query, the client of the node and its
  call succeed, and then it is \<open>OK\<close> exactly when the lag of every live pipeline is strictly
  below both limits, in checkpoints and in seconds; backfill pipelines never count. A limit that is
  not positive makes the report unhealthy, except that without live pipelines only the limits are
  compared, with 0.\<close>

theorem status_verdict:
  "((\<exists>r s'. status env ch now params s = (Inr r, s')) \<longleftrightarrow>
      connect_error env (connections s) = None \<and> query_error env (connections s) = None \<and>
      client_error ch = None \<and> (\<exists>latest. node_latest_checkpoint ch = Inr latest)) \<and>
   (\<forall>r s' latest. status env ch now params s = (Inr r, s') \<and> node_latest_checkpoint ch = Inr latest \<longrightarrow>
      (let live = live_pipelines latest now (map watermark_of (tb_watermarks (contents env (connections s))))
       in sr_status r = ''OK'' \<longleftrightarrow>
          0 < max_checkpoint_lag_param params \<and>
          (\<forall>p\<in>set live. ps_checkpoint_lag p < max_checkpoint_lag_param params \<and>
             ps_time_lag_seconds p < max_time_lag_seconds_param params) \<and>
          (live = [] \<longrightarrow> 0 < max_time_lag_seconds_param params)))"
  by (auto simp: status_Inr verdict_of_watermarks Let_def)

definition example_watermarks :: "watermark list" where
  "example_watermarks = [(''order_fill'', 450, 8000, 1), (''order_fill@backfill'', 3, 5, 1)]"

lemma example_live_pipelines:
  "live_pipelines 500 9000 example_watermarks =
     [\<lparr>ps_pipeline = ''order_fill'', ps_indexed_checkpoint = 450, ps_indexed_epoch = 1,
       ps_indexed_timestamp_ms = 8000, ps_checkpoint_lag = 50, ps_time_lag_seconds = 1,
       ps_latest_onchain_checkpoint = 500, ps_is_backfill = False\<rparr>]"
  by (simp add: live_pipelines_def example_watermarks_def pipeline_status_of_def as_i64_eq i64_sub_def
      wrap_i64_def trunc_div_def)

definition example_status_db :: database where
  "example_status_db = empty_database\<lparr>tb_watermarks := map (\<lambda>(p, c, t, e).
     \<lparr>watermarks_pipeline = p, watermarks_epoch_hi_inclusive = e, watermarks_checkpoint_hi_inclusive = c,
      watermarks_timestamp_ms_hi_inclusive = t\<rparr>) example_watermarks\<rparr>"

lemma example_status_rows: "map watermark_of (tb_watermarks example_status_db) = example_watermarks"
  by (simp add: example_status_db_def example_watermarks_def watermark_of_def)

definition example_limits :: StatusQueryParams where
  "example_limits = \<lparr>max_checkpoint_lag_param = 100, max_time_lag_seconds_param = 60\<rparr>"

theorem status_verdict_witness:
  "\<exists>r s'. status (steady_env example_status_db) (example_chain\<lparr>node_latest_checkpoint := Inr 500\<rparr>) 9000
     example_limits fresh_state = (Inr r, s') \<and> sr_status r = ''OK''"
proof -
  note v = status_verdict [of "steady_env example_status_db" "example_chain\<lparr>node_latest_checkpoint := Inr 500\<rparr>"
    9000 example_limits fresh_state]
  have "client_error (example_chain\<lparr>node_latest_checkpoint := Inr 500\<rparr>) = None" by (simp add: example_chain_def)
  with v obtain r s' where r: "status (steady_env example_status_db)
      (example_chain\<lparr>node_latest_checkpoint := Inr 500\<rparr>) 9000 example_limits fresh_state = (Inr r, s')" by auto
  with v have "sr_status r = ''OK''"
    by (simp add: Let_def example_status_rows example_live_pipelines example_limits_def)
  with r show ?thesis by blast
qed

text \<open>The least checkpoint is that of a live pipeline, unless there is none below the initial value.\<close>

lemma scan_earliest:
  "let least = sc_min_checkpoint (fold status_scan_step (map (pipeline_status_of latest now) ws) status_scan_init);
       cps = ps_indexed_checkpoint ` {p \<in> set (live_pipelines latest now ws). ps_indexed_checkpoint p < i64_max}
   in if cps = {} then least = i64_max else least \<noteq> i64_max \<and> least \<in> cps \<and> (\<forall>c\<in>cps. least \<le> c)"
proof -
  let ?ps = "map (pipeline_status_of latest now) ws"
  let ?least = "sc_min_checkpoint (fold status_scan_step ?ps status_scan_init)"
  have live: "p \<in> set (live_pipelines latest now ws) \<longleftrightarrow> p \<in> set ?ps \<and> \<not> ps_is_backfill p" for p
    by (auto simp: live_pipelines_def)
  have init: "sc_min_checkpoint status_scan_init = i64_max" by (simp add: status_scan_init_def)
  have min: "?least \<le> i64_max \<and> (\<forall>p\<in>set ?ps. \<not> ps_is_backfill p \<longrightarrow> ?least \<le> ps_indexed_checkpoint p)"
    using scan_min_le [of ?least ?ps status_scan_init] init by simp
  show ?thesis
  proof (cases "?least = i64_max")
    case True
    with min live have "{p \<in> set (live_pipelines latest now ws). ps_indexed_checkpoint p < i64_max} = {}"
      by fastforce
    with True show ?thesis by simp
  next
    case False
    with scan_min_attained [of ?ps status_scan_init] init obtain p where
      "p \<in> set ?ps" "\<not> ps_is_backfill p" "?least = ps_indexed_checkpoint p" by auto
    with False min live have "p \<in> {p \<in> set (live_pipelines latest now ws). ps_indexed_checkpoint p < i64_max}"
      "?least = ps_indexed_checkpoint p" by auto
    with False min live show ?thesis unfolding Let_def by auto
  qed
qed

text \<open>C31: the extremes of the status are those of the live pipelines; a pipeline that is backfilling
  counts for none of them (the documentation of the server says they are over all pipelines). The
  reported maximal checkpoint lag bounds the lag of every live pipeline, is never negative, and when it
  is positive it is the lag of the pipeline that is named. The reported earliest checkpoint is that of
  some live pipeline and bounds the checkpoints of the others from below, where a checkpoint equal to
  the largest i64 counts as no checkpoint; without any it is 0. The reported maximal time lag is the
  greatest of the live pipelines, and 0 when there are none.\<close>

theorem status_extremes:
  "0 \<le> sr_max_checkpoint_lag (status_of_watermarks params latest now ws) \<and>
   (\<forall>p\<in>set (live_pipelines latest now ws).
      ps_checkpoint_lag p \<le> sr_max_checkpoint_lag (status_of_watermarks params latest now ws)) \<and>
   (0 < sr_max_checkpoint_lag (status_of_watermarks params latest now ws) \<longrightarrow>
      (\<exists>p\<in>set (live_pipelines latest now ws).
         ps_checkpoint_lag p = sr_max_checkpoint_lag (status_of_watermarks params latest now ws) \<and>
         ps_pipeline p = sr_max_lag_pipeline (status_of_watermarks params latest now ws))) \<and>
   (let earliest = sr_earliest_checkpoint (status_of_watermarks params latest now ws);
        cps = ps_indexed_checkpoint ` {p \<in> set (live_pipelines latest now ws). ps_indexed_checkpoint p < i64_max}
    in if cps = {} then earliest = 0 else earliest \<in> cps \<and> (\<forall>c\<in>cps. earliest \<le> c)) \<and>
   (let lag = sr_max_time_lag_seconds (status_of_watermarks params latest now ws);
        lags = ps_time_lag_seconds ` set (live_pipelines latest now ws)
    in if lags = {} then lag = 0 else lag \<in> lags \<and> (\<forall>l\<in>lags. l \<le> lag))"
proof -
  have time: "let lag = sr_max_time_lag_seconds (status_of_watermarks params latest now ws);
        lags = ps_time_lag_seconds ` set (live_pipelines latest now ws)
    in if lags = {} then lag = 0 else lag \<in> lags \<and> (\<forall>l\<in>lags. l \<le> lag)"
    by (simp add: status_of_watermarks_def max_or_zero_def live_pipelines_def [symmetric] Let_def del: Max_in) simp
  let ?ps = "map (pipeline_status_of latest now) ws"
  let ?sc = "fold status_scan_step ?ps status_scan_init"
  have live: "p \<in> set (live_pipelines latest now ws) \<longleftrightarrow> p \<in> set ?ps \<and> \<not> ps_is_backfill p" for p
    by (auto simp: live_pipelines_def)
  have sr: "sr_max_checkpoint_lag (status_of_watermarks params latest now ws) = sc_max_checkpoint_lag ?sc"
    "sr_max_lag_pipeline (status_of_watermarks params latest now ws) = sc_max_lag_pipeline ?sc"
    "sr_earliest_checkpoint (status_of_watermarks params latest now ws) =
      (if sc_min_checkpoint ?sc = i64_max then 0 else sc_min_checkpoint ?sc)"
    by (simp_all add: status_of_watermarks_def Let_def)
  have init: "sc_max_checkpoint_lag status_scan_init = 0" "sc_min_checkpoint status_scan_init = i64_max"
    by (simp_all add: status_scan_init_def)
  have max: "0 < sc_max_checkpoint_lag ?sc + 1 \<and>
      (\<forall>p\<in>set ?ps. \<not> ps_is_backfill p \<longrightarrow> ps_checkpoint_lag p < sc_max_checkpoint_lag ?sc + 1)"
    using scan_max_less [of ?ps status_scan_init "sc_max_checkpoint_lag ?sc + 1"] init by simp
  have "0 < sc_max_checkpoint_lag ?sc \<longrightarrow> (\<exists>p\<in>set (live_pipelines latest now ws).
      ps_checkpoint_lag p = sc_max_checkpoint_lag ?sc \<and> ps_pipeline p = sc_max_lag_pipeline ?sc)"
    using scan_max_attained [of ?ps status_scan_init] init live by auto
  moreover have "\<forall>p\<in>set (live_pipelines latest now ws). ps_checkpoint_lag p \<le> sc_max_checkpoint_lag ?sc"
    using max live by auto
  moreover have "let cps = ps_indexed_checkpoint ` {p \<in> set (live_pipelines latest now ws).
      ps_indexed_checkpoint p < i64_max} in
      if cps = {} then sc_min_checkpoint ?sc = i64_max
      else sc_min_checkpoint ?sc \<noteq> i64_max \<and> sc_min_checkpoint ?sc \<in> cps \<and>
        (\<forall>c\<in>cps. sc_min_checkpoint ?sc \<le> c)"
    using scan_earliest [of latest now ws] by (simp only: Let_def)
  ultimately show ?thesis unfolding sr using max time by (auto simp: Let_def)
qed

theorem status_extremes_witness:
  "sr_max_checkpoint_lag (status_of_watermarks \<lparr>max_checkpoint_lag_param = 100, max_time_lag_seconds_param = 60\<rparr>
     500 9000 example_watermarks) = 50 \<and>
   sr_earliest_checkpoint (status_of_watermarks \<lparr>max_checkpoint_lag_param = 100, max_time_lag_seconds_param = 60\<rparr>
     500 9000 example_watermarks) = 450"
  using status_extremes [of "\<lparr>max_checkpoint_lag_param = 100, max_time_lag_seconds_param = 60\<rparr>"
     500 9000 example_watermarks]
  by (auto simp: example_live_pipelines i64_max_def Let_def)

end
