(* ===== verification/Net_Deposits.thy ===== *)
theory Net_Deposits
  imports Hash_Map Params
begin

text \<open>
  Net deposits up to a time (\<^verbatim>\<open>get_net_deposits\<close> of \<^verbatim>\<open>server.rs\<close>, \<open>get_net_deposits_from_view\<close> of
  \<^verbatim>\<open>reader.rs\<close>): the sums of the hourly buckets before the hour of the time, from the materialized
  view, plus the signed amounts of that hour before the time, from the table. The view is refreshed first,
  which replaces it by \<open>hourly_view\<close>, the query that defines it
  (\<^verbatim>\<open>schema/migrations/2026-01-15-234908-0000_add_net_deposits_view/up.sql\<close>), of the table; a refresh that
  fails is ignored, and the query reads the view as it was.
\<close>

definition HOUR_MS :: i64 where "HOUR_MS = 3600000"

definition signed_amount :: "Balances \<Rightarrow> int" where
  "signed_amount r = (if balances_deposit r then balances_amount r else - balances_amount r)"

text \<open>The division of PostgreSQL rounds towards zero, as Rust's.\<close>

definition hour_bucket :: "i64 \<Rightarrow> i64" where "hour_bucket t = trunc_div t HOUR_MS * HOUR_MS"

definition hourly_view :: "Balances list \<Rightarrow> net_deposits_hourly_row list" where
  "hourly_view balances =
     map (\<lambda>((asset, bucket), total). \<lparr>hourly_asset = asset, hourly_hour_bucket_ms = bucket,
            hourly_net_amount_delta = total\<rparr>)
       (group_sum (\<lambda>r. (balances_asset r, hour_bucket (checkpoint_timestamp_ms r))) signed_amount balances)"

text \<open>\<open>REFRESH MATERIALIZED VIEW CONCURRENTLY net_deposits_hourly\<close>, its outcome discarded. The statement
  fails also on a total that does not fit in the \<open>BIGINT\<close> of the view.\<close>

definition refresh_net_deposits_hourly :: "string + Balances list \<Rightarrow> database \<Rightarrow> database" where
  "refresh_net_deposits_hourly outcome db =
     (case outcome of
        Inl _ \<Rightarrow> db
      | Inr balances \<Rightarrow>
          if list_all (\<lambda>r. in_i64 (hourly_net_amount_delta r)) (hourly_view balances)
          then db\<lparr>tb_net_deposits_hourly := hourly_view balances\<rparr> else db)"

text \<open>\<open>strip_prefix("0x").unwrap_or(a)\<close>, and the prefix put back on the answer.\<close>

definition clean_asset :: "string \<Rightarrow> string" where
  "clean_asset a = unwrap_or a (strip_prefix ''0x'' a)"

definition prefixed_asset :: "string \<Rightarrow> string" where
  "prefixed_asset a = (if starts_with a ''0x'' then a else ''0x'' @ a)"

text \<open>\<open>FULL OUTER JOIN\<close> of two tables of totals by asset.\<close>

definition full_outer_join :: "(string \<times> int) list \<Rightarrow> (string \<times> int) list \<Rightarrow> (string \<times> int) list" where
  "full_outer_join h p =
     map (\<lambda>(a, x). (a, x + unwrap_or 0 (map_of p a))) h @ filter (\<lambda>(a, _). map_of h a = None) p"

definition net_deposits_query :: "i64 \<Rightarrow> string list \<Rightarrow> i64 \<Rightarrow> database \<Rightarrow> (string \<times> int) list" where
  "net_deposits_query hour_bucket_ms assets ts_ms db =
     full_outer_join
       (group_sum hourly_asset hourly_net_amount_delta
          (filter (\<lambda>r. hourly_hour_bucket_ms r < hour_bucket_ms \<and> hourly_asset r \<in> set assets)
            (tb_net_deposits_hourly db)))
       (group_sum balances_asset signed_amount
          (filter (\<lambda>r. hour_bucket_ms \<le> checkpoint_timestamp_ms r \<and>
                       checkpoint_timestamp_ms r < ts_ms \<and> balances_asset r \<in> set assets)
            (tb_balances db)))"

text \<open>The cast \<open>::bigint\<close> of the query is an error on a total that does not fit.\<close>

definition get_net_deposits_from_view ::
  "db_env \<Rightarrow> string list \<Rightarrow> i64 \<Rightarrow> (string, i64) hash_map rpc" where
  "get_net_deposits_from_view env asset_ids ts_ms s =
     (let refreshed = refresh_net_deposits_hourly (refresh env (connections s));
          hour_bucket_ms = i64_mul (trunc_div ts_ms HOUR_MS) HOUR_MS;
          cleaned_assets = map clean_asset asset_ids
      in rpc_map (\<lambda>rows. hm_collect (map (\<lambda>(asset, net_amount). (prefixed_asset asset, net_amount)) rows))
           (db_request from_anyhow (\<lambda>e. database_error (''Error fetching net deposits: '' @ e)) env
             (\<lambda>db. let rows = net_deposits_query hour_bucket_ms cleaned_assets ts_ms (refreshed db)
                   in if list_all (\<lambda>(_, x). in_i64 x) rows then Inr rows else Inl ''bigint out of range'')) s)"

definition get_net_deposits :: "db_env \<Rightarrow> string \<Rightarrow> string \<Rightarrow> (string, i64) hash_map rpc" where
  "get_net_deposits env asset_ids timestamp =
     (case parse_i64 timestamp of
        None \<Rightarrow> rpc_fail (bad_request ''Invalid timestamp'')
      | Some t \<Rightarrow>
          (let ts_ms = i64_mul t 1000;
               assets = split_on (CHR '','') asset_ids
           in get_net_deposits_from_view env assets ts_ms))"

section \<open>The view and the partial hour\<close>

lemma hour_bucket_nonneg: "0 \<le> t \<Longrightarrow> hour_bucket t = t div HOUR_MS * HOUR_MS"
  by (simp add: hour_bucket_def trunc_div_nonneg HOUR_MS_def)

lemma div_less_iff_bucket: "t div 3600000 < b \<longleftrightarrow> t < b * (3600000::int)"
proof -
  have "(t + - b * 3600000) div 3600000 = t div 3600000 - b" by (subst div_mult_self1) simp_all
  then show ?thesis using pos_imp_zdiv_nonneg_iff [of 3600000 "t + - b * 3600000"] by linarith
qed

lemma bucket_less_iff:
  assumes "0 \<le> t" and "0 \<le> T"
  shows "hour_bucket t < hour_bucket T \<longleftrightarrow> t < hour_bucket T"
  using div_less_iff_bucket [of t "T div 3600000"]
  by (simp add: hour_bucket_nonneg assms HOUR_MS_def)

lemma hour_bucket_le: "0 \<le> T \<Longrightarrow> 0 \<le> hour_bucket T \<and> hour_bucket T \<le> T"
  using div_less_iff_bucket [of T "T div 3600000"]
  by (simp add: hour_bucket_nonneg HOUR_MS_def pos_imp_zdiv_nonneg_iff)

lemma map_of_full_outer_join:
  "map_of (full_outer_join h p) a =
     (case (map_of h a, map_of p a) of
        (None, None) \<Rightarrow> None
      | (x, y) \<Rightarrow> Some (unwrap_or 0 x + unwrap_or 0 y))"
proof -
  have h: "map_of (map (\<lambda>(a, x). (a, x + unwrap_or 0 (map_of p a))) hs) a =
      map_option (\<lambda>x. x + unwrap_or 0 (map_of p a)) (map_of hs a)" for hs :: "(string \<times> int) list"
    by (induction hs) auto
  have p: "map_of (filter (\<lambda>(a, _). map_of h a = None) ps) a =
      (if map_of h a = None then map_of ps a else None)" for ps :: "(string \<times> int) list"
    by (induction ps) auto
  show ?thesis
    by (cases "map_of h a"; cases "map_of p a")
      (simp_all add: full_outer_join_def map_add_def h p)
qed

text \<open>A sum over the groups of the view is a sum over its rows.\<close>

lemma sum_list_group_sum:
  fixes key :: "'r \<Rightarrow> 'k"
  shows "sum_list (map snd (filter (\<lambda>(k, _). P k) (group_sum key f rows))) =
    sum_list (map f (filter (\<lambda>r. P (key r)) rows))"
proof -
  have "sum_list (map (\<lambda>k. sum_list (map f (filter (\<lambda>r. key r = k) rows))) ks) =
      sum_list (map f (filter (\<lambda>r. key r \<in> set ks) rows))" if "distinct ks" for ks
    using that
  proof (induction ks)
    case (Cons k ks)
    have "sum_list (map f (filter (\<lambda>r. key r = k) xs)) + sum_list (map f (filter (\<lambda>r. key r \<in> set ks) xs)) =
        sum_list (map f (filter (\<lambda>r. key r \<in> set (k # ks)) xs))" for xs
      using Cons.prems by (induction xs) auto
    with Cons show ?case by simp
  qed simp
  from this [of "filter P (remdups (map key rows))"]
  have "sum_list (map (\<lambda>k. sum_list (map f (filter (\<lambda>r. key r = k) rows))) (filter P (remdups (map key rows)))) =
      sum_list (map f (filter (\<lambda>r. P (key r)) rows))"
    by (simp cong: filter_cong conj_cong)
  then show ?thesis by (simp add: group_sum_def filter_map comp_def)
qed

section \<open>The answer\<close>

text \<open>The deposits and withdrawals of an asset that satisfy a condition on their time.\<close>

definition asset_rows :: "Balances list \<Rightarrow> string \<Rightarrow> (i64 \<Rightarrow> bool) \<Rightarrow> Balances list" where
  "asset_rows balances a P =
     filter (\<lambda>r. balances_asset r = a \<and> P (checkpoint_timestamp_ms r)) balances"

definition total_of :: "Balances list \<Rightarrow> int option" where
  "total_of rows = (if rows = [] then None else Some (sum_list (map signed_amount rows)))"

lemma image_iff_filter: "a \<in> f ` set xs \<longleftrightarrow> filter (\<lambda>r. f r = a) xs \<noteq> []"
  by (induction xs) auto

lemma hourly_totals:
  assumes "a \<in> set assets"
  shows "map_of (group_sum hourly_asset hourly_net_amount_delta
      (filter (\<lambda>r. hourly_hour_bucket_ms r < b \<and> hourly_asset r \<in> set assets) (hourly_view bs))) a =
    total_of (asset_rows bs a (\<lambda>t. hour_bucket t < b))"
proof -
  let ?key = "\<lambda>r. (balances_asset r, hour_bucket (checkpoint_timestamp_ms r))"
  let ?g = "group_sum ?key signed_amount bs"
  let ?mk = "\<lambda>((asset, bucket), total). \<lparr>hourly_asset = asset, hourly_hour_bucket_ms = bucket,
            hourly_net_amount_delta = total\<rparr>"
  let ?P = "\<lambda>k. fst k = a \<and> snd k < b"
  have view: "filter (\<lambda>r. hourly_asset r = a) (filter (\<lambda>r. hourly_hour_bucket_ms r < b \<and>
      hourly_asset r \<in> set assets) (hourly_view bs)) = map ?mk (filter (\<lambda>(k, _). ?P k) ?g)"
    using assms by (auto simp: hourly_view_def filter_map comp_def split_def
        intro!: arg_cong [where f = "map _"] filter_cong)
  have "sum_list (map hourly_net_amount_delta (map ?mk xs)) = sum_list (map snd xs)" for xs
    by (induction xs) (auto split: prod.splits)
  then have sum: "sum_list (map hourly_net_amount_delta (map ?mk (filter (\<lambda>(k, _). ?P k) ?g))) =
      sum_list (map signed_amount (asset_rows bs a (\<lambda>t. hour_bucket t < b)))"
    by (simp add: sum_list_group_sum [of ?P] asset_rows_def)
  have "filter (\<lambda>(k, _). ?P k) ?g = [] \<longleftrightarrow> asset_rows bs a (\<lambda>t. hour_bucket t < b) = []"
    by (auto simp: group_sum_def filter_empty_conv asset_rows_def)
  moreover have "a \<in> hourly_asset ` set (filter (\<lambda>r. hourly_hour_bucket_ms r < b \<and>
      hourly_asset r \<in> set assets) (hourly_view bs)) \<longleftrightarrow> filter (\<lambda>(k, _). ?P k) ?g \<noteq> []"
    unfolding image_iff_filter view map_is_Nil_conv ..
  ultimately show ?thesis unfolding map_of_group_sum view sum total_of_def by simp
qed

lemma partial_totals:
  assumes "a \<in> set assets"
  shows "map_of (group_sum balances_asset signed_amount
      (filter (\<lambda>r. b \<le> checkpoint_timestamp_ms r \<and> checkpoint_timestamp_ms r < T \<and>
                   balances_asset r \<in> set assets) bs)) a =
    total_of (asset_rows bs a (\<lambda>t. b \<le> t \<and> t < T))"
proof -
  have "filter (\<lambda>r. balances_asset r = a) (filter (\<lambda>r. b \<le> checkpoint_timestamp_ms r \<and>
      checkpoint_timestamp_ms r < T \<and> balances_asset r \<in> set assets) bs) =
      asset_rows bs a (\<lambda>t. b \<le> t \<and> t < T)"
    using assms by (auto simp: asset_rows_def intro: filter_cong)
  then show ?thesis unfolding map_of_group_sum image_iff_filter total_of_def by simp
qed

lemma total_of_split:
  assumes "\<And>r. r \<in> set bs \<Longrightarrow> balances_asset r = a \<Longrightarrow> R (checkpoint_timestamp_ms r) \<longleftrightarrow>
      P (checkpoint_timestamp_ms r) \<or> Q (checkpoint_timestamp_ms r)"
    and "\<And>t. P t \<Longrightarrow> \<not> Q t"
  shows "(case (total_of (asset_rows bs a P), total_of (asset_rows bs a Q)) of
       (None, None) \<Rightarrow> None | (x, y) \<Rightarrow> Some (unwrap_or 0 x + unwrap_or 0 y)) =
     total_of (asset_rows bs a R)"
proof -
  have "sum_list (map signed_amount (asset_rows bs a R)) =
      sum_list (map signed_amount (asset_rows bs a P)) + sum_list (map signed_amount (asset_rows bs a Q))"
    using assms by (induction bs) (auto simp: asset_rows_def)
  moreover have "asset_rows bs a R = [] \<longleftrightarrow> asset_rows bs a P = [] \<and> asset_rows bs a Q = []"
    using assms by (auto simp: asset_rows_def filter_empty_conv)
  ultimately show ?thesis
    by (cases "asset_rows bs a P = []"; cases "asset_rows bs a Q = []") (simp_all add: total_of_def)
qed

lemma net_deposits_query_total:
  assumes "tb_net_deposits_hourly db = hourly_view (tb_balances db)" and "a \<in> set assets"
    and "0 \<le> T" and "\<forall>r\<in>set (tb_balances db). 0 \<le> checkpoint_timestamp_ms r"
  shows "map_of (net_deposits_query (hour_bucket T) assets T db) a =
    total_of (asset_rows (tb_balances db) a (\<lambda>t. t < T))"
proof -
  let ?b = "hour_bucket T"
  have "map_of (net_deposits_query ?b assets T db) a =
      (case (total_of (asset_rows (tb_balances db) a (\<lambda>t. hour_bucket t < ?b)),
             total_of (asset_rows (tb_balances db) a (\<lambda>t. ?b \<le> t \<and> t < T))) of
         (None, None) \<Rightarrow> None | (x, y) \<Rightarrow> Some (unwrap_or 0 x + unwrap_or 0 y))"
    unfolding net_deposits_query_def map_of_full_outer_join assms(1)
      hourly_totals [OF assms(2)] partial_totals [OF assms(2)] ..
  also have "asset_rows (tb_balances db) a (\<lambda>t. hour_bucket t < ?b) =
      asset_rows (tb_balances db) a (\<lambda>t. t < ?b)"
    using assms(3,4) by (auto simp: asset_rows_def bucket_less_iff intro!: filter_cong)
  also have "(case (total_of (asset_rows (tb_balances db) a (\<lambda>t. t < ?b)),
             total_of (asset_rows (tb_balances db) a (\<lambda>t. ?b \<le> t \<and> t < T))) of
         (None, None) \<Rightarrow> None | (x, y) \<Rightarrow> Some (unwrap_or 0 x + unwrap_or 0 y)) =
      total_of (asset_rows (tb_balances db) a (\<lambda>t. t < T))"
    using hour_bucket_le [OF assms(3)] by (intro total_of_split) auto
  finally show ?thesis .
qed

lemma net_deposits_query_keys:
  "k \<in> fst ` set (net_deposits_query b assets T db) \<Longrightarrow>
     k \<in> hourly_asset ` set (tb_net_deposits_hourly db) \<or> k \<in> balances_asset ` set (tb_balances db)"
  by (auto simp: net_deposits_query_def full_outer_join_def group_sum_def)

lemma net_deposits_query_distinct: "distinct (map fst (net_deposits_query b assets T db))"
proof -
  have "distinct (map fst (full_outer_join h p))" if d: "distinct (map fst h)" "distinct (map fst p)" for h p
  proof -
    let ?p = "filter (\<lambda>(a, _). map_of h a = None) p"
    have fst: "map fst (full_outer_join h p) = map fst h @ map fst ?p"
      by (simp add: full_outer_join_def comp_def split_def)
    have p: "distinct (map fst ?p)" using d(2) by (rule distinct_map_filter)
    have "set (map fst h) \<inter> set (map fst ?p) = {}"
      by (force simp: map_of_eq_None_iff)
    then show ?thesis unfolding fst distinct_append by (intro conjI d(1) p)
  qed
  from this [OF group_sum_keys group_sum_keys] show ?thesis unfolding net_deposits_query_def .
qed

lemma map_of_prefixed: "map_of (map (\<lambda>(k, x). (''0x'' @ k, x)) ps) (''0x'' @ a) = map_of ps a"
  by (induction ps) auto

lemma net_deposits_entry:
  assumes "get_net_deposits_from_view env ids T s = (Inr m, s')"
    and "case refresh env (connections s) of
        Inl _ \<Rightarrow> tb_net_deposits_hourly (contents env (connections s)) =
          hourly_view (tb_balances (contents env (connections s)))
      | Inr rows \<Rightarrow> rows = tb_balances (contents env (connections s)) \<and>
          list_all (\<lambda>r. in_i64 (hourly_net_amount_delta r)) (hourly_view rows)"
    and "0 \<le> T" and "in_i64 T"
    and "\<forall>r\<in>set (tb_balances (contents env (connections s))).
      0 \<le> checkpoint_timestamp_ms r \<and> \<not> starts_with (balances_asset r) ''0x''"
    and "a \<in> set ids"
  shows "hm_get m (''0x'' @ clean_asset a) =
    (let rows = filter (\<lambda>r. balances_asset r = clean_asset a \<and> checkpoint_timestamp_ms r < T)
                  (tb_balances (contents env (connections s)))
     in if rows = [] then None
        else Some (sum_list (map (\<lambda>r. if balances_deposit r then balances_amount r
                                      else - balances_amount r) rows)))"
proof -
  let ?db = "refresh_net_deposits_hourly (refresh env (connections s)) (contents env (connections s))"
  have bal: "tb_balances ?db = tb_balances (contents env (connections s))"
    by (simp add: refresh_net_deposits_hourly_def split: sum.split)
  have fresh: "tb_net_deposits_hourly ?db = hourly_view (tb_balances ?db)"
    unfolding bal using assms(2) by (auto simp: refresh_net_deposits_hourly_def split: sum.splits)
  let ?as = "map clean_asset ids"
  let ?rows = "net_deposits_query (hour_bucket T) ?as T ?db"
  have "in_i64 (hour_bucket T)"
    using hour_bucket_le [OF assms(3)] assms(4) by (auto simp: in_i64_def i64_min_def)
  then have hb: "i64_mul (trunc_div T HOUR_MS) HOUR_MS = hour_bucket T"
    by (simp add: i64_mul_def hour_bucket_def wrap_i64_id)
  have m: "m = hm_collect (map (\<lambda>(asset, x). (prefixed_asset asset, x)) ?rows)"
    using assms(1) by (auto simp: get_net_deposits_from_view_def hb rpc_map_Inr db_request_Inr Let_def
        split: if_splits)
  have plain: "\<not> starts_with k ''0x''" if "k \<in> fst ` set ?rows" for k
    using net_deposits_query_keys [OF that] assms(5) fresh bal
    by (auto simp: hourly_view_def group_sum_def)
  then have pre: "prefixed_asset k = ''0x'' @ k" if "k \<in> fst ` set ?rows" for k
    using that by (simp add: prefixed_asset_def)
  have rows: "map (\<lambda>(asset, x). (prefixed_asset asset, x)) ?rows = map (\<lambda>(k, x). (''0x'' @ k, x)) ?rows"
    using pre by (intro map_cong refl) (force simp: split_def)
  have "distinct (map fst (map (\<lambda>(k, x). (''0x'' @ k, x)) ?rows))"
    using net_deposits_query_distinct [of "hour_bucket T" ?as T ?db]
    by (simp add: comp_def split_def distinct_map inj_on_def)
  then have "hm_get m (''0x'' @ clean_asset a) =
      map_of (map (\<lambda>(k, x). (''0x'' @ k, x)) ?rows) (''0x'' @ clean_asset a)"
    unfolding m rows by (rule hm_get_collect_distinct)
  also have "\<dots> = map_of ?rows (clean_asset a)" by (rule map_of_prefixed)
  also have "\<dots> = total_of (asset_rows (tb_balances ?db) (clean_asset a) (\<lambda>t. t < T))"
    using assms(3,5,6) by (intro net_deposits_query_total) (auto simp: fresh bal)
  finally show ?thesis unfolding bal
    by (simp add: total_of_def asset_rows_def Let_def signed_amount_def [abs_def] cong: map_cong)
qed

text \<open>C7: the net deposits reported for a requested asset are the deposits minus the withdrawals of all
  its rows strictly before the requested time, although the query adds hourly totals of a view and a partial
  hour of the table; an asset without such rows is not reported. It assumes that the refresh of the view
  at the start of the request sees the rows that the query sees and every hourly total fits in 64 bits,
  or else, when the refresh fails, that the view was fresh before; that assets are stored without the prefix
  \<open>0x\<close>; and that times are not negative.\<close>

theorem net_deposits_exact:
  assumes "get_net_deposits_from_view env ids T s = (Inr m, s')"
    and "case refresh env (connections s) of
        Inl _ \<Rightarrow> tb_net_deposits_hourly (contents env (connections s)) =
          hourly_view (tb_balances (contents env (connections s)))
      | Inr rows \<Rightarrow> rows = tb_balances (contents env (connections s)) \<and>
          list_all (\<lambda>r. in_i64 (hourly_net_amount_delta r)) (hourly_view rows)"
    and "0 \<le> T" and "in_i64 T"
    and "\<forall>r\<in>set (tb_balances (contents env (connections s))).
      0 \<le> checkpoint_timestamp_ms r \<and> \<not> starts_with (balances_asset r) ''0x''"
    and "a \<in> set ids"
  shows "hm_get m (''0x'' @ clean_asset a) =
    (let rows = filter (\<lambda>r. balances_asset r = clean_asset a \<and> checkpoint_timestamp_ms r < T)
                  (tb_balances (contents env (connections s)))
     in if rows = [] then None
        else Some (sum_list (map (\<lambda>r. if balances_deposit r then balances_amount r
                                      else - balances_amount r) rows)))"
  by (rule net_deposits_entry [OF assms])

definition example_balances :: "Balances list" where
  "example_balances = map (\<lambda>(t, n, d). \<lparr>event_digest = show_int t, digest = ''d'', sender = ''s'', checkpoint = 1,
     checkpoint_timestamp_ms = t, package = ''p'', balances_balance_manager_id = ''m'',
     balances_asset = ''ab'', balances_amount = n, balances_deposit = d\<rparr>)
     [(1000, 70, True), (3600500, 20, False), (3601000, 5, True)]"

definition deposits_db :: database where
  "deposits_db = empty_database\<lparr>tb_balances := example_balances\<rparr>"

lemma example_deposits_request:
  "get_net_deposits_from_view (steady_env deposits_db) [''0xab''] 3601000 fresh_state =
     (Inr [(''0xab'', 50)], \<lparr>connections = 1, db_requests_succeeded = 1, db_requests_failed = 0\<rparr>)"
proof -
  have "i64_mul (trunc_div 3601000 HOUR_MS) HOUR_MS = 3600000" by code_simp
  moreover have "net_deposits_query 3600000 [clean_asset ''0xab''] 3601000
      (refresh_net_deposits_hourly (Inr (tb_balances deposits_db)) deposits_db) = [(''ab'', 50)]"
    by (simp add: refresh_net_deposits_hourly_def in_i64_def i64_min_def i64_max_def net_deposits_query_def full_outer_join_def group_sum_def deposits_db_def hourly_view_def
        example_balances_def hour_bucket_def HOUR_MS_def trunc_div_def signed_amount_def clean_asset_def
        strip_prefix_def empty_database_def)
  moreover have "prefixed_asset ''ab'' = ''0xab''" by code_simp
  ultimately show ?thesis
    by (simp add: get_net_deposits_from_view_def rpc_map_def rpc_bind_def rpc_return_def db_request_def
        run_query_def fresh_state_def hm_collect_def hm_insert_def in_i64_def i64_min_def i64_max_def)
qed

theorem net_deposits_exact_witness:
  "\<exists>m s'. get_net_deposits_from_view (steady_env deposits_db) [''0xab''] 3601000 fresh_state = (Inr m, s') \<and>
     hm_get m ''0xab'' = Some 50"
proof -
  obtain m s' where r: "get_net_deposits_from_view (steady_env deposits_db) [''0xab''] 3601000 fresh_state = (Inr m, s')"
    using example_deposits_request by blast
  have "hm_get m (''0x'' @ clean_asset ''0xab'') = Some 50"
    by (subst net_deposits_exact [OF r])
      (simp_all add: hourly_view_def group_sum_def hour_bucket_def HOUR_MS_def trunc_div_def signed_amount_def
        deposits_db_def example_balances_def empty_database_def clean_asset_def strip_prefix_def in_i64_def i64_min_def i64_max_def)
  with r show ?thesis by (simp add: clean_asset_def strip_prefix_def)
qed

end
