(* ===== verification/Market.thy ===== *)
theory Market
  imports Volume Chain
begin

text \<open>
  The market endpoints of \<^verbatim>\<open>server.rs\<close>: \<open>ticker\<close>, \<open>summary\<close> with \<open>price_change_24h\<close> and
  \<open>high_low_prices_24h\<close>, \<open>assets\<close> and \<open>ohclv\<close>. Requests that run concurrently (\<open>join!\<close>,
  \<open>join_all\<close>) are run in the order in which they are written, each to its end, whether or not
  another one fails; the clock is read once, \<open>now\<close>. The database function \<open>get_ohclv\<close> of the
  migrations is a parameter. An entry of an answer is the list of its members.
\<close>

section \<open>Arithmetic\<close>

definition wrap_i16 :: "int \<Rightarrow> i16" where "wrap_i16 x = (x + 2 ^ 15) mod 2 ^ 16 - 2 ^ 15"

definition price_exponent_i16 :: "i16 \<Rightarrow> i16 \<Rightarrow> i16" where
  "price_exponent_i16 base_decimals quote_decimals = wrap_i16 (wrap_i16 (9 - base_decimals) + quote_decimals)"

text \<open>\<open>10u64.pow(k as u32)\<close>\<close>

definition pow10_i16 :: "i16 \<Rightarrow> u64" where "pow10_i16 k = 10 ^ nat (k mod 2 ^ 32)"

text \<open>\<open>10f64.powi(k)\<close>: repeated squaring, the reciprocal for a negative exponent.\<close>

fun powi_loop :: "nat \<Rightarrow> f64 \<Rightarrow> f64 \<Rightarrow> f64" where
  "powi_loop b a r =
     (if b = 0 then r
      else powi_loop (b div 2) (f64_mul a a) (if odd b then f64_mul r a else r))"

declare powi_loop.simps [simp del]

definition powi10 :: "int \<Rightarrow> f64" where
  "powi10 k =
     (let r = powi_loop (nat \<bar>k\<bar>) (F64 10) (F64 1) in if k < 0 then f64_div (F64 1) r else r)"

section \<open>Requests that do not stop at an error\<close>

definition rpc_try :: "'a rpc \<Rightarrow> (DeepBookError + 'a) rpc" where
  "rpc_try m s = (case m s of (r, s') \<Rightarrow> (Inr r, s'))"

fun rpc_mapM :: "('a \<Rightarrow> 'b rpc) \<Rightarrow> 'a list \<Rightarrow> 'b list rpc" where
  "rpc_mapM f [] = rpc_return []"
| "rpc_mapM f (x # xs) = rpc_bind (f x) (\<lambda>y. rpc_map ((#) y) (rpc_mapM f xs))"

section \<open>The ticker\<close>

definition fetch_historical_volume_with_pools ::
  "db_env \<Rightarrow> i64 \<Rightarrow> params \<Rightarrow> bool \<Rightarrow> Pools list \<Rightarrow> (string, u64) hash_map rpc" where
  "fetch_historical_volume_with_pools env now params volume_in_base pools =
     all_historical_volume_with_pools env now
       (params(''volume_in_base'' \<mapsto> (if volume_in_base then ''true'' else ''false''))) pools"

definition last_prices_query :: "i64 \<Rightarrow> i64 \<Rightarrow> (string \<times> i64) list query" where
  "last_prices_query start_time end_time db =
     Inr (map (\<lambda>r. (order_fills_pool_id r, order_fills_price r))
       (distinct_on order_fills_pool_id (order_desc checkpoint_timestamp_ms
         (filter (\<lambda>r. between (checkpoint_timestamp_ms r) start_time end_time) (tb_order_fills db)))))"

definition ticker_entry ::
  "(string, u64) hash_map \<Rightarrow> (string, u64) hash_map \<Rightarrow> (string, i64) hash_map \<Rightarrow> Pools \<Rightarrow> json_object" where
  "ticker_entry base_volumes quote_volumes last_price_map pool =
     (let base_volume = unwrap_or 0 (hm_get base_volumes (pools_pool_name pool));
          quote_volume = unwrap_or 0 (hm_get quote_volumes (pools_pool_name pool));
          last_price = hm_get last_price_map (pools_pool_id pool);
          base_factor = pow10_i16 (pools_base_asset_decimals pool);
          quote_factor = pow10_i16 (pools_quote_asset_decimals pool);
          price_factor = pow10_i16 (price_exponent_i16 (pools_base_asset_decimals pool)
            (pools_quote_asset_decimals pool))
      in [(''last_price'', json_of_f64 (case last_price of
             None \<Rightarrow> F64 0 | Some price \<Rightarrow> scaled_f64 price price_factor)),
          (''base_volume'', json_of_f64 (scaled_f64 (uint base_volume) base_factor)),
          (''quote_volume'', json_of_f64 (scaled_f64 (uint quote_volume) quote_factor)),
          (''isFrozen'', JInt 0)])"

definition ticker :: "db_env \<Rightarrow> i64 \<Rightarrow> params \<Rightarrow> (string, json_object) hash_map rpc" where
  "ticker env now params =
     rpc_bind (get_pools env) (\<lambda>pools.
     rpc_bind (rpc_try (fetch_historical_volume_with_pools env now params True pools)) (\<lambda>base_volumes.
     rpc_bind (rpc_try (fetch_historical_volume_with_pools env now params False pools)) (\<lambda>quote_volumes.
     rpc_bind (rpc_lift base_volumes) (\<lambda>base_volumes.
     rpc_bind (rpc_lift quote_volumes) (\<lambda>quote_volumes.
       let pool_map = hm_collect (map (\<lambda>p. (pools_pool_id p, p)) pools);
           end_time = now;
           start_time = i64_sub end_time DAY_MS
       in rpc_bind (results env (last_prices_query start_time end_time)) (\<lambda>last_prices.
            let last_price_map = hm_collect last_prices
            in rpc_return (fold (\<lambda>(_, pool). hm_insert (pools_pool_name pool)
                   (ticker_entry base_volumes quote_volumes last_price_map pool)) pool_map [])))))))"

section \<open>The prices of a day\<close>

definition get_price :: "db_env \<Rightarrow> i64 \<Rightarrow> i64 \<Rightarrow> string \<Rightarrow> i64 rpc" where
  "get_price env start_time end_time pool_id =
     first env (\<lambda>db. Inr (map order_fills_price (order_desc checkpoint_timestamp_ms
       (filter (\<lambda>r. between (checkpoint_timestamp_ms r) start_time end_time \<and>
                    order_fills_pool_id r = pool_id) (tb_order_fills db)))))"

type_synonym pool_metadata = "(string, string \<times> i16 \<times> i16) hash_map"

definition price_change_percent :: "i64 \<Rightarrow> i64 \<Rightarrow> u64 \<Rightarrow> f64" where
  "price_change_percent earliest_price most_recent_price price_factor =
     (let earliest_price_scaled = scaled_f64 earliest_price price_factor;
          most_recent_price_scaled = scaled_f64 most_recent_price price_factor
      in f64_mul (f64_sub (f64_div most_recent_price_scaled earliest_price_scaled) (F64 1)) (F64 100))"

definition pool_price_change ::
  "db_env \<Rightarrow> i64 \<Rightarrow> string \<times> string \<times> i16 \<times> i16 \<Rightarrow> (string \<times> f64) rpc" where
  "pool_price_change env now = (\<lambda>(pool_name, pool_id, base_decimals, quote_decimals).
     let timestamp_24h_ago = i64_sub now DAY_MS;
         timestamp_48h_ago = i64_sub now (2 * DAY_MS)
     in rpc_bind (rpc_try (get_price env timestamp_48h_ago timestamp_24h_ago pool_id)) (\<lambda>earliest_trade_24h.
        rpc_bind (rpc_try (get_price env timestamp_24h_ago now pool_id)) (\<lambda>most_recent_trade.
          rpc_return (pool_name,
            (case (earliest_trade_24h, most_recent_trade) of
               (Inr earliest_price, Inr most_recent_price) \<Rightarrow>
                 price_change_percent earliest_price most_recent_price
                   (pow10_i16 (price_exponent_i16 base_decimals quote_decimals))
             | _ \<Rightarrow> F64 0)))))"

definition price_change_24h :: "db_env \<Rightarrow> i64 \<Rightarrow> pool_metadata \<Rightarrow> (string, f64) hash_map rpc" where
  "price_change_24h env now metadata =
     rpc_map hm_collect (rpc_mapM (pool_price_change env now) metadata)"

definition high_low_query :: "i64 \<Rightarrow> i64 \<Rightarrow> (string \<times> i64 option \<times> i64 option) list query" where
  "high_low_query start_time end_time db =
     (let rows = filter (\<lambda>r. between (checkpoint_timestamp_ms r) start_time end_time) (tb_order_fills db)
      in Inr (map (\<lambda>pool_id.
             let prices = map order_fills_price (filter (\<lambda>r. order_fills_pool_id r = pool_id) rows)
             in (pool_id, Some (Max (set prices)), Some (Min (set prices))))
           (remdups (map order_fills_pool_id rows))))"

definition high_low_prices_24h ::
  "db_env \<Rightarrow> i64 \<Rightarrow> (string, i16 \<times> i16) hash_map \<Rightarrow> (string, f64 \<times> f64) hash_map rpc" where
  "high_low_prices_24h env now pool_decimals =
     (let end_time = now; start_time = i64_sub end_time DAY_MS
      in rpc_map (\<lambda>rows. fold (\<lambda>(pool_id, max_price_opt, min_price_opt) price_map.
             case hm_get pool_decimals pool_id of
               None \<Rightarrow> price_map
             | Some (base_decimals, quote_decimals) \<Rightarrow>
                 (let scaling_factor = powi10 (price_exponent_i16 base_decimals quote_decimals)
                  in hm_insert pool_id
                       (f64_div (f64_of_int (unwrap_or 0 max_price_opt)) scaling_factor,
                        f64_div (f64_of_int (unwrap_or 0 min_price_opt)) scaling_factor) price_map)) rows [])
           (results env (high_low_query start_time end_time)))"

section \<open>The summary\<close>

definition as_f64 :: "json \<Rightarrow> f64 option" where
  "as_f64 j = (case j of JFloat x \<Rightarrow> Some x | JInt n \<Rightarrow> Some (f64_of_int n) | _ \<Rightarrow> None)"

definition number_or_zero :: "string \<Rightarrow> json_object \<Rightarrow> f64" where
  "number_or_zero key obj = unwrap_or (F64 0) (Option.bind (map_of obj key) as_f64)"

definition best_price :: "(f64 \<times> f64) list \<Rightarrow> f64" where
  "best_price levels = (case levels of [] \<Rightarrow> F64 0 | (price, _) # _ \<Rightarrow> price)"

definition summary_entry ::
  "pool_metadata \<Rightarrow> (string, f64) hash_map \<Rightarrow> (string, f64 \<times> f64) hash_map \<Rightarrow>
   (string \<times> json_object) \<times> (DeepBookError + orderbook_data) \<Rightarrow> json_object list" where
  "summary_entry metadata price_change_map high_low_map = (\<lambda>((pool_name, ticker_info), orderbook_result).
     case hm_get metadata pool_name of
       None \<Rightarrow> []
     | Some (pool_id, _) \<Rightarrow>
         (let (highest_price, lowest_price) = unwrap_or (F64 0, F64 0) (hm_get high_low_map pool_id);
              parts = split_on (CHR ''_'') pool_name
          in [[(''trading_pairs'', JString pool_name),
               (''base_currency'', JString (case parts of b # _ \<Rightarrow> b | [] \<Rightarrow> ''Unknown'')),
               (''quote_currency'', JString (case parts of _ # q # _ \<Rightarrow> q | _ \<Rightarrow> ''Unknown'')),
               (''last_price'', json_of_f64 (number_or_zero ''last_price'' ticker_info)),
               (''base_volume'', json_of_f64 (number_or_zero ''base_volume'' ticker_info)),
               (''quote_volume'', json_of_f64 (number_or_zero ''quote_volume'' ticker_info)),
               (''price_change_percent_24h'', json_of_f64 (unwrap_or (F64 0) (hm_get price_change_map pool_name))),
               (''highest_price_24h'', json_of_f64 highest_price),
               (''lowest_price_24h'', json_of_f64 lowest_price),
               (''highest_bid'', json_of_f64 (case orderbook_result of
                   Inl _ \<Rightarrow> F64 0 | Inr ob \<Rightarrow> best_price (ob_bids ob))),
               (''lowest_ask'', json_of_f64 (case orderbook_result of
                   Inl _ \<Rightarrow> F64 0 | Inr ob \<Rightarrow> best_price (ob_asks ob)))]]))"

definition summary_metadata :: "Pools list \<Rightarrow> pool_metadata" where
  "summary_metadata pools = hm_collect (map (\<lambda>p. (pools_pool_name p,
     (pools_pool_id p, (pools_base_asset_decimals p, pools_quote_asset_decimals p)))) pools)"

definition summary_decimals :: "pool_metadata \<Rightarrow> (string, i16 \<times> i16) hash_map" where
  "summary_decimals metadata = hm_collect (map (\<lambda>(_, (pool_id, decimals)). (pool_id, decimals)) metadata)"

definition summary :: "'t chain_lib \<Rightarrow> 't chain \<Rightarrow> app_config \<Rightarrow> db_env \<Rightarrow> i64 \<Rightarrow> json_object list rpc" where
  "summary lib ch cfg env now =
     rpc_bind (get_pools env) (\<lambda>pools.
       let metadata = summary_metadata pools
       in rpc_bind (rpc_try (ticker env now Map.empty)) (\<lambda>ticker_result.
          rpc_bind (rpc_try (price_change_24h env now metadata)) (\<lambda>price_change_result.
          rpc_bind (rpc_try (high_low_prices_24h env now (summary_decimals metadata))) (\<lambda>high_low_result.
          rpc_bind (rpc_lift ticker_result) (\<lambda>ticker_map.
          rpc_bind (rpc_lift price_change_result) (\<lambda>price_change_map.
          rpc_bind (rpc_lift high_low_result) (\<lambda>high_low_map.
          rpc_bind (rpc_mapM (\<lambda>(pool_name, _). rpc_try (orderbook lib ch cfg env now pool_name
              [''level'' \<mapsto> ''1''])) ticker_map) (\<lambda>orderbook_results.
            rpc_return (concat (map (summary_entry metadata price_change_map high_low_map)
              (zip ticker_map orderbook_results)))))))))))"

section \<open>Assets and candles\<close>

definition asset_info :: "asset_row \<Rightarrow> json_object" where
  "asset_info a =
     [(''name'', JString (assets_name a)),
      (''asset_type'', JString (assets_asset_type a)),
      (''can_withdraw'', JString ''true''),
      (''can_deposit'', JString ''true'')] @
     (case assets_ucid a of None \<Rightarrow> [] | Some ucid \<Rightarrow> [(''unified_cryptoasset_id'', JString (show_int ucid))]) @
     (case assets_package_address_url a of None \<Rightarrow> [] | Some u \<Rightarrow> [(''contractAddressUrl'', JString u)]) @
     (case assets_package_id a of None \<Rightarrow> [] | Some i \<Rightarrow> [(''contractAddress'', JString i)])"

text \<open>\<open>map_err\<close> turns the error of the connection or the query into an error of the node.\<close>

definition assets :: "db_env \<Rightarrow> (string, json_object) hash_map rpc" where
  "assets env =
     (let e = (\<lambda>err. rpc_error (''Failed to query assets: '' @ err))
      in rpc_map (\<lambda>rows. hm_collect (map (\<lambda>a. (assets_symbol a, asset_info a)) rows))
           (db_request e e env (\<lambda>db. Inr (tb_assets db))))"

definition valid_intervals :: "string list" where
  "valid_intervals = [''1m'', ''5m'', ''15m'', ''30m'', ''1h'', ''4h'', ''1d'', ''1w'']"

type_synonym candle = "i64 \<times> f64 \<times> f64 \<times> f64 \<times> f64 \<times> f64"
type_synonym ohclv_function =
  "string \<Rightarrow> string \<Rightarrow> i64 option \<Rightarrow> i64 option \<Rightarrow> i32 \<Rightarrow> candle list query"

definition get_ohclv ::
  "ohclv_function \<Rightarrow> db_env \<Rightarrow> string \<Rightarrow> string \<Rightarrow> i64 option \<Rightarrow> i64 option \<Rightarrow> i32 option \<Rightarrow> candle list rpc" where
  "get_ohclv f env pool_id interval start_time end_time limit =
     (let limit_val = unwrap_or 1000 limit;
          start_secs = map_option (\<lambda>ts. trunc_div ts 1000) start_time;
          end_secs = map_option (\<lambda>ts. trunc_div ts 1000) end_time
      in db_request from_anyhow (\<lambda>e. database_error (''Error fetching OHCLV data: '' @ e)) env
           (f interval pool_id start_secs end_secs limit_val))"

definition candle_json :: "candle \<Rightarrow> json" where
  "candle_json = (\<lambda>(timestamp, o1, high, low, close, volume).
     JArray [JInt timestamp, json_of_f64 o1, json_of_f64 high, json_of_f64 low, json_of_f64 close,
             json_of_f64 volume])"

definition ohclv :: "ohclv_function \<Rightarrow> db_env \<Rightarrow> string \<Rightarrow> params \<Rightarrow> json_object rpc" where
  "ohclv f env pool_name params =
     rpc_bind (get_pools env) (\<lambda>pools.
     rpc_bind (rpc_lift (ok_or (not_found (''Pool '' @ quoted pool_name))
         (find (\<lambda>p. pools_pool_name p = pool_name) pools))) (\<lambda>pool.
       let interval = unwrap_or ''1m'' (params ''interval'');
           start_time = param_i64 ''start_time'' params;
           end_time = param_i64 ''end_time'' params;
           limit = Option.bind (params ''limit'') parse_i32
       in if interval \<notin> set valid_intervals then
            rpc_fail (bad_request (''Invalid interval: '' @ interval @ ''. Valid intervals are: ['' @
              join '', '' (map (\<lambda>v. CHR 0x22 # v @ [CHR 0x22]) valid_intervals) @ '']''))
          else rpc_map (\<lambda>candles. [(''candles'', JArray (map candle_json candles))])
                 (get_ohclv f env (pools_pool_id pool) interval start_time end_time limit)))"

section \<open>Properties\<close>

lemma rpc_try_Inr: "rpc_try m s = (Inr r, s') \<longleftrightarrow> m s = (r, s')"
  by (auto simp: rpc_try_def split: prod.split)

lemma fold_insert_collect:
  "fold (\<lambda>(_, p). hm_insert (f p) (g p)) xs [] = hm_collect (map (\<lambda>(_, p). (f p, g p)) xs)"
proof -
  have "fold (\<lambda>(_, p). hm_insert (f p) (g p)) xs m =
      fold (\<lambda>(k, v). hm_insert k v) (map (\<lambda>(_, p). (f p, g p)) xs) m" for m
    by (induction xs arbitrary: m) auto
  then show ?thesis by (simp add: hm_collect_def)
qed

text \<open>The newest fill of a pool, or one of them.\<close>

definition newest_price :: "OrderFill list \<Rightarrow> i64 option \<Rightarrow> bool" where
  "newest_price fills price \<longleftrightarrow>
     (case price of
        None \<Rightarrow> fills = []
      | Some x \<Rightarrow> \<exists>f\<in>set fills. x = order_fills_price f \<and>
          (\<forall>g\<in>set fills. checkpoint_timestamp_ms g \<le> checkpoint_timestamp_ms f))"

lemma last_prices_newest:
  assumes "last_prices_query a b db = Inr rows"
  shows "newest_price (pool_fills db a b i) (hm_get (hm_collect rows) i)"
proof -
  let ?sel = "filter (\<lambda>r. between (checkpoint_timestamp_ms r) a b) (tb_order_fills db)"
  let ?d = "distinct_on order_fills_pool_id (order_desc checkpoint_timestamp_ms ?sel)"
  have fills: "r \<in> set (pool_fills db a b i) \<longleftrightarrow> r \<in> set ?sel \<and> order_fills_pool_id r = i" for r
    by (auto simp: pool_fills_def)
  have rows: "rows = map (\<lambda>r. (order_fills_pool_id r, order_fills_price r)) ?d"
    using assms by (simp add: last_prices_query_def)
  have "distinct (map fst rows)" by (simp add: rows comp_def distinct_on_keys)
  then have get: "hm_get (hm_collect rows) i = map_of rows i" by (rule hm_get_collect_distinct)
  show ?thesis
  proof (cases "map_of rows i")
    case None
    then have "i \<notin> order_fills_pool_id ` set ?d" by (force simp: rows map_of_eq_None_iff)
    then have "i \<notin> order_fills_pool_id ` set ?sel" by (simp add: distinct_on_key_set)
    then have "pool_fills db a b i = []" using fills by (metis image_eqI list.set_intros(1) neq_Nil_conv)
    with None get show ?thesis by (simp add: newest_price_def)
  next
    case (Some x)
    then have "(i, x) \<in> set rows" by (rule map_of_SomeD)
    then obtain f where f: "f \<in> set ?d" "order_fills_pool_id f = i" "x = order_fills_price f"
      by (auto simp: rows)
    then have "f \<in> set ?sel" using set_distinct_on by fastforce
    moreover have "checkpoint_timestamp_ms g \<le> checkpoint_timestamp_ms f"
      if "g \<in> set ?sel" "order_fills_pool_id g = i" for g
      using that f by (intro distinct_on_sorted [OF order_desc_sorted _ f(1)]) auto
    ultimately show ?thesis using f Some get fills by (auto simp: newest_price_def)
  qed
qed

lemma volume_in_base_params:
  "param_end_time now (params(''volume_in_base'' \<mapsto> v)) = param_end_time now params"
  "window_start (params(''volume_in_base'' \<mapsto> v)) e = window_start params e"
  "param_volume_in_base (params(''volume_in_base'' \<mapsto> v)) \<longleftrightarrow> v = ''true''"
  by (simp_all add: param_end_time_def window_start_def param_start_time_def param_i64_def param_volume_in_base_def)

text \<open>The parts of a ticker: one member per pool, made of the volumes and of the last prices.\<close>

definition window_volume :: "bool \<Rightarrow> database \<Rightarrow> i64 \<Rightarrow> params \<Rightarrow> Pools \<Rightarrow> int" where
  "window_volume base db now params p =
     (let e = param_end_time now params
      in uint (as_u64 (sum_list (map (fill_volume base) (pool_fills db (window_start params e) e (pools_pool_id p))))))"

lemma volumes_some_pool:
  "fetch_historical_volume_with_pools env now params base pools s = (Inr v, s') \<Longrightarrow> pools \<noteq> []"
  by (auto simp: fetch_historical_volume_with_pools_def all_historical_volume_with_pools_def
      historical_volume_with_pools_def requested_pool_ids_def pool_name_to_id_def hm_collect_def
      List.map_filter_def hm_get_def rpc_fail_def Let_def)

lemma ticker_parts:
  assumes "ticker env now params s = (Inr m, s')"
    and "pools_wf (tb_pools (contents env (connections s)))"
    and "list_all (\<lambda>q. CHR '','' \<notin> set (pools_pool_name q)) (tb_pools (contents env (connections s)))"
  obtains bv qv prices where
    "m = hm_collect (map (\<lambda>(_, p). (pools_pool_name p, ticker_entry bv qv prices p))
       (hm_collect (map (\<lambda>p. (pools_pool_id p, p)) (tb_pools (contents env (connections s))))))"
    "\<forall>p\<in>set (tb_pools (contents env (connections s))).
       uint (unwrap_or 0 (hm_get bv (pools_pool_name p))) =
         window_volume True (contents env (connections s + 1)) now params p \<and>
       uint (unwrap_or 0 (hm_get qv (pools_pool_name p))) =
         window_volume False (contents env (connections s + 2)) now params p"
    "\<forall>i. newest_price (pool_fills (contents env (connections s + 3)) (i64_sub now DAY_MS) now i) (hm_get prices i)"
proof -
  let ?pools = "tb_pools (contents env (connections s))"
  let ?s1 = "s\<lparr>connections := connections s + 1, db_requests_succeeded := db_requests_succeeded s + 1\<rparr>"
  obtain s2 s3 bv qv rows where
      b: "fetch_historical_volume_with_pools env now params True ?pools ?s1 = (Inr bv, s2)"
    and q: "fetch_historical_volume_with_pools env now params False ?pools s2 = (Inr qv, s3)"
    and l: "last_prices_query (i64_sub now DAY_MS) now (contents env (connections s3)) = Inr rows"
    and m: "m = fold (\<lambda>(_, pool). hm_insert (pools_pool_name pool) (ticker_entry bv qv (hm_collect rows) pool))
         (hm_collect (map (\<lambda>p. (pools_pool_id p, p)) ?pools)) []"
    using assms(1)
    by (auto simp: ticker_def get_pools_def rpc_bind_Inr results_Inr rpc_try_Inr rpc_lift_Inr rpc_return_Inr Let_def)
  note b' = all_historical_volume_entry [OF b [unfolded fetch_historical_volume_with_pools_def] assms(2) _ assms(3)]
  note q' = all_historical_volume_entry [OF q [unfolded fetch_historical_volume_with_pools_def] assms(2) _ assms(3)]
  have "\<exists>p. p \<in> set ?pools" using volumes_some_pool [OF b] by (auto simp: neq_Nil_conv)
  then have conn: "connections s2 = connections s + 2" "connections s3 = connections s + 3"
    using b'(2) q'(2) by auto
  show ?thesis
  proof (rule that [of bv qv "hm_collect rows"])
    show "m = hm_collect (map (\<lambda>(_, p). (pools_pool_name p, ticker_entry bv qv (hm_collect rows) p))
       (hm_collect (map (\<lambda>p. (pools_pool_id p, p)) ?pools)))"
      unfolding m by (rule fold_insert_collect)
  next
    show "\<forall>p\<in>set ?pools. uint (unwrap_or 0 (hm_get bv (pools_pool_name p))) =
         window_volume True (contents env (connections s + 1)) now params p \<and>
       uint (unwrap_or 0 (hm_get qv (pools_pool_name p))) =
         window_volume False (contents env (connections s + 2)) now params p"
    proof
      fix p assume "p \<in> set ?pools"
      from b'(1) [OF this] q'(1) [OF this] show "uint (unwrap_or 0 (hm_get bv (pools_pool_name p))) =
           window_volume True (contents env (connections s + 1)) now params p \<and>
         uint (unwrap_or 0 (hm_get qv (pools_pool_name p))) =
           window_volume False (contents env (connections s + 2)) now params p"
        by (simp_all add: window_volume_def volume_in_base_params Let_def conn as_u64_def split: if_splits)
    qed
  next
    show "\<forall>i. newest_price (pool_fills (contents env (connections s + 3)) (i64_sub now DAY_MS) now i)
      (hm_get (hm_collect rows) i)"
      using last_prices_newest [OF l] by (simp add: conn)
  qed
qed

text \<open>A map from the names of pools, collected over a map of pools by their ids.\<close>

lemma named_collect:
  assumes "pools_wf pools"
    and m: "m = hm_collect (map (\<lambda>(_, p). (pools_pool_name p, f p)) (hm_collect (map (\<lambda>p. (pools_pool_id p, p)) pools)))"
  shows "hm_get m k = map_of (map (\<lambda>p. (pools_pool_name p, f p)) pools) k"
proof -
  let ?map = "hm_collect (map (\<lambda>p. (pools_pool_id p, p)) pools)"
  have ids: "distinct (map fst (map (\<lambda>p. (pools_pool_id p, p)) pools))"
    using assms(1) by (simp add: pools_wf_def comp_def)
  have wf: "hm_wf ?map" by (rule hm_wf_collect)
  then have mem: "(i, x) \<in> set ?map \<longleftrightarrow> x \<in> set pools \<and> i = pools_pool_id x" for i x
    using hm_get_collect_distinct [OF ids, of i] ids
    by (auto simp flip: hm_get_Some_iff)
  let ?es = "map (\<lambda>(_, p). (pools_pool_name p, f p)) ?map"
  have "inj_on (pools_pool_name \<circ> snd) (set ?map)"
    using assms(1) by (intro inj_onI) (auto simp: mem pools_wf_def distinct_map dest: inj_onD)
  moreover have "distinct ?map" using wf by (simp add: hm_wf_def distinct_map)
  ultimately have "distinct (map (pools_pool_name \<circ> snd) ?map)" by (simp add: distinct_map)
  then have d: "distinct (map fst ?es)" by (simp add: comp_def split_def)
  have "set ?map = (\<lambda>p. (pools_pool_id p, p)) ` set pools" using mem by (intro set_eqI) (auto simp: image_iff)
  then have "set ?es = set (map (\<lambda>p. (pools_pool_name p, f p)) pools)"
    unfolding set_map by (simp only: image_image prod.case)
  moreover have "distinct (map fst (map (\<lambda>p. (pools_pool_name p, f p)) pools))"
    using assms(1) by (simp add: pools_wf_def comp_def)
  ultimately have "map_of ?es = map_of (map (\<lambda>p. (pools_pool_name p, f p)) pools)"
    using map_of_inject_set [OF d] by blast
  then show ?thesis unfolding m hm_get_collect_distinct [OF d] by (rule fun_cong)
qed

text \<open>C27: the ticker has an entry for every pool. Its volumes are the sums over the fills of the pool
  in the requested window, scaled by the decimals of their asset; its last price is the price of a
  newest fill of the last 24 hours, and 0 when there is none. It assumes that names and ids of pools
  are unique and that no name has a comma.\<close>

theorem ticker_entries:
  assumes "ticker env now params s = (Inr m, s')"
    and "pools_wf (tb_pools (contents env (connections s)))"
    and "list_all (\<lambda>q. CHR '','' \<notin> set (pools_pool_name q)) (tb_pools (contents env (connections s)))"
    and "p \<in> set (tb_pools (contents env (connections s)))"
  shows "\<exists>entry price. hm_get m (pools_pool_name p) = Some entry \<and>
    (let e = param_end_time now params;
         volume = (\<lambda>base n. uint (as_u64 (sum_list (map (fill_volume base)
           (pool_fills (contents env n) (window_start params e) e (pools_pool_id p))))))
     in map_of entry ''base_volume'' = Some (scaled (volume True (connections s + 1))
          (pow10_i16 (pools_base_asset_decimals p))) \<and>
        map_of entry ''quote_volume'' = Some (scaled (volume False (connections s + 2))
          (pow10_i16 (pools_quote_asset_decimals p)))) \<and>
    newest_price (pool_fills (contents env (connections s + 3)) (i64_sub now DAY_MS) now (pools_pool_id p)) price \<and>
    map_of entry ''last_price'' = Some (json_of_f64 (case price of None \<Rightarrow> F64 0
      | Some x \<Rightarrow> scaled_f64 x (pow10_i16 (price_exponent_i16 (pools_base_asset_decimals p)
          (pools_quote_asset_decimals p)))))"
proof -
  let ?pools = "tb_pools (contents env (connections s))"
  obtain bv qv prices where m: "m = hm_collect (map (\<lambda>(_, p). (pools_pool_name p, ticker_entry bv qv prices p))
       (hm_collect (map (\<lambda>p. (pools_pool_id p, p)) ?pools)))"
    and vols: "\<forall>p\<in>set ?pools.
       uint (unwrap_or 0 (hm_get bv (pools_pool_name p))) =
         window_volume True (contents env (connections s + 1)) now params p \<and>
       uint (unwrap_or 0 (hm_get qv (pools_pool_name p))) =
         window_volume False (contents env (connections s + 2)) now params p"
    and price: "\<forall>i. newest_price (pool_fills (contents env (connections s + 3)) (i64_sub now DAY_MS) now i)
         (hm_get prices i)"
    by (rule ticker_parts [OF assms(1-3)])
  note vol = bspec [OF vols assms(4)]
  have "distinct (map fst (map (\<lambda>p. (pools_pool_name p, ticker_entry bv qv prices p)) ?pools))"
    using assms(2) by (simp add: pools_wf_def comp_def)
  then have get: "hm_get m (pools_pool_name p) = Some (ticker_entry bv qv prices p)"
    unfolding named_collect [OF assms(2) m] using assms(4) by (intro map_of_is_SomeI) auto
  show ?thesis
    by (rule exI [of _ "ticker_entry bv qv prices p"], rule exI [of _ "hm_get prices (pools_pool_id p)"])
      (simp add: get price ticker_entry_def scaled_def vol window_volume_def Let_def)
qed

theorem ticker_entries_witness:
  "\<exists>m s' entry. ticker (steady_env trades_db) 4000 Map.empty fresh_state = (Inr m, s') \<and>
     hm_get m ''SUI_USDC'' = Some entry \<and> (\<exists>x. map_of entry ''last_price'' = Some (json_of_f64 x))"
proof -
  let ?p = "hd (tb_pools trades_db)"
  have volumes: "\<exists>v. all_historical_volume_with_pools (steady_env trades_db) 4000 params (tb_pools trades_db) s = (Inr v,
      s\<lparr>connections := connections s + 1, db_requests_succeeded := db_requests_succeeded s + 1\<rparr>)" for params s
  proof -
    have "pools_wf (tb_pools trades_db)" "?p \<in> set (tb_pools trades_db)"
      "pools_pool_name ?p \<in> set (split_on (CHR '','') (join '','' (map pools_pool_name (tb_pools trades_db))))"
      by (simp_all add: pools_wf_def trades_db_def)
    from requested_pool_ids_member [OF this] show ?thesis
      by (auto simp: all_historical_volume_with_pools_def historical_volume_with_pools_def Let_def rpc_map_Inr
          get_historical_volume_def results_Inr)
  qed
  then obtain f where "all_historical_volume_with_pools (steady_env trades_db) 4000 params (tb_pools trades_db) s =
      (Inr (f params s), s\<lparr>connections := connections s + 1, db_requests_succeeded := db_requests_succeeded s + 1\<rparr>)"
    for params s by metis
  then have "\<exists>m s'. ticker (steady_env trades_db) 4000 Map.empty fresh_state = (Inr m, s')"
    by (simp add: ticker_def rpc_bind_def get_pools_def results_def db_request_def run_query_def rpc_try_def
        rpc_lift_def rpc_return_def fetch_historical_volume_with_pools_def Let_def last_prices_query_def)
  then obtain m s' where r: "ticker (steady_env trades_db) 4000 Map.empty fresh_state = (Inr m, s')" by blast
  have "pools_wf (tb_pools trades_db)" "list_all (\<lambda>q. CHR '','' \<notin> set (pools_pool_name q)) (tb_pools trades_db)"
    "?p \<in> set (tb_pools trades_db)" "pools_pool_name ?p = ''SUI_USDC''"
    by (simp_all add: trades_db_def pools_wf_def empty_database_def)
  with ticker_entries [OF r, of ?p] r show ?thesis by auto
qed

end
