(* ===== verification/Accounts.thy ===== *)
theory Accounts
  imports Hash_Map Params "HOL-Library.List_Lexorder"
begin

text \<open>
  The endpoints of \<^verbatim>\<open>server.rs\<close> about accounts and their queries in \<^verbatim>\<open>reader.rs\<close>: \<open>deposited_assets\<close>,
  \<open>get_points\<close>, \<open>margin_managers_info\<close>, \<open>margin_manager_states\<close>, \<open>pool_created\<close> and
  \<open>book_params_updated\<close>. A panic is the result \<open>None\<close>. Parameters: reading a floating-point number
  and printing it in the shortest decimal form.
\<close>

section \<open>Deposited assets\<close>

definition get_deposited_assets_by_balance_managers ::
  "db_env \<Rightarrow> string list \<Rightarrow> (string \<times> string) list rpc" where
  "get_deposited_assets_by_balance_managers env ids =
     db_request from_anyhow (\<lambda>_. database_error ''Error fetching deposited assets'') env
       (\<lambda>db. Inr (remdups (map (\<lambda>r. (balances_balance_manager_id r, balances_asset r))
         (filter (\<lambda>r. balances_balance_manager_id r \<in> set ids \<and> balances_deposit r) (tb_balances db)))))"

definition push_asset ::
  "string \<times> string \<Rightarrow> (string, string list) hash_map \<Rightarrow> (string, string list) hash_map" where
  "push_asset = (\<lambda>(i, asset) m. hm_insert i (unwrap_or [] (hm_get m i) @ [asset]) m)"

text \<open>The response takes the entry of each id out of the map.\<close>

fun take_entries :: "string list \<Rightarrow> (string, string list) hash_map \<Rightarrow> (string \<times> string list) list" where
  "take_entries [] m = []"
| "take_entries (i # ids) m = (i, unwrap_or [] (hm_get m i)) # take_entries ids (hm_remove i m)"

definition split_ids :: "string \<Rightarrow> string list" where
  "split_ids s = filter (\<lambda>t. t \<noteq> []) (map trim (split_on (CHR '','') s))"

definition deposited_assets :: "db_env \<Rightarrow> string \<Rightarrow> (string \<times> string list) list rpc" where
  "deposited_assets env balance_manager_ids =
     (let ids = split_ids balance_manager_ids
      in if ids = [] then rpc_fail (bad_request ''No balance manager IDs provided'')
         else rpc_map (\<lambda>rows. take_entries ids (fold push_asset rows []))
                (get_deposited_assets_by_balance_managers env ids))"

section \<open>Points\<close>

text \<open>The cast \<open>::bigint\<close> is an error on a total that does not fit.\<close>

definition points_query :: "string list option \<Rightarrow> (string \<times> i64) list query" where
  "points_query addr_filter db =
     (let totals = group_sum points_address points_amount
            (filter (\<lambda>r. case addr_filter of None \<Rightarrow> True | Some as \<Rightarrow> points_address r \<in> set as) (tb_points db))
      in if list_all (\<lambda>(_, x). in_i64 x) totals then Inr totals else Inl ''bigint out of range'')"

definition reader_get_points :: "db_env \<Rightarrow> string list option \<Rightarrow> (string \<times> i64) list rpc" where
  "reader_get_points env addresses =
     (let addr_filter = (case addresses of None \<Rightarrow> None | Some as \<Rightarrow> if as = [] then None else Some as)
      in db_request from_anyhow (\<lambda>e. database_error (''Error fetching points: '' @ e)) env (points_query addr_filter))"

definition get_points :: "db_env \<Rightarrow> string option \<Rightarrow> (string \<times> i64) list rpc" where
  "get_points env addresses =
     (case Option.bind (map_option split_ids addresses) (\<lambda>v. if v = [] then None else Some v) of
        None \<Rightarrow> rpc_return []
      | Some requested \<Rightarrow>
          rpc_map (\<lambda>rows. let results_map = hm_collect rows
              in map (\<lambda>addr. (addr, unwrap_or 0 (hm_get results_map addr))) requested)
            (reader_get_points env (Some requested)))"

section \<open>Margin managers\<close>

record manager_info =
  mi_margin_manager_id :: string
  mi_deepbook_pool_id :: "string option"
  mi_base_asset_id :: "string option"
  mi_base_asset_symbol :: "string option"
  mi_quote_asset_id :: "string option"
  mi_quote_asset_symbol :: "string option"
  mi_base_margin_pool_id :: "string option"
  mi_quote_margin_pool_id :: "string option"

text \<open>\<open>LEFT JOIN\<close>: the matching rows, or one absent row.\<close>

definition left_join :: "('a \<Rightarrow> bool) \<Rightarrow> 'a list \<Rightarrow> 'a option list" where
  "left_join on rows = (case filter on rows of [] \<Rightarrow> [None] | rs \<Rightarrow> map Some rs)"

definition same_asset :: "string option \<Rightarrow> MarginPoolCreated \<Rightarrow> bool" where
  "same_asset asset_id mp =
     (case asset_id of
        None \<Rightarrow> False
      | Some a \<Rightarrow> ''0x'' @ margin_pool_created_asset_type mp = a \<or> margin_pool_created_asset_type mp = a)"

definition manager_infos :: "database \<Rightarrow> MarginManagerCreated \<Rightarrow> manager_info list" where
  "manager_infos db mmc =
     concat (map (\<lambda>p. concat (map (\<lambda>base_mp. map (\<lambda>quote_mp.
         \<lparr>mi_margin_manager_id = margin_manager_created_margin_manager_id mmc,
          mi_deepbook_pool_id = margin_manager_created_deepbook_pool_id mmc,
          mi_base_asset_id = map_option pools_base_asset_id p,
          mi_base_asset_symbol = map_option pools_base_asset_symbol p,
          mi_quote_asset_id = map_option pools_quote_asset_id p,
          mi_quote_asset_symbol = map_option pools_quote_asset_symbol p,
          mi_base_margin_pool_id = map_option margin_pool_created_margin_pool_id base_mp,
          mi_quote_margin_pool_id = map_option margin_pool_created_margin_pool_id quote_mp\<rparr>)
       (left_join (same_asset (map_option pools_quote_asset_id p)) (tb_margin_pool_created db)))
       (left_join (same_asset (map_option pools_base_asset_id p)) (tb_margin_pool_created db))))
       (left_join (\<lambda>p. margin_manager_created_deepbook_pool_id mmc = Some (pools_pool_id p)) (tb_pools db)))"

definition string_key :: "string \<Rightarrow> nat list" where "string_key s = map of_char s"

definition get_margin_managers_info :: "db_env \<Rightarrow> manager_info list rpc" where
  "get_margin_managers_info env =
     db_request from_anyhow (\<lambda>_. database_error ''Error fetching margin managers info'') env
       (\<lambda>db. Inr (sort_key (\<lambda>i. string_key (mi_margin_manager_id i))
          (remdups (concat (map (manager_infos db) (tb_margin_manager_created db))))))"

definition manager_info_json :: "manager_info \<Rightarrow> (string \<times> json) list" where
  "manager_info_json i =
     [(''margin_manager_id'', JString (mi_margin_manager_id i)),
      (''deepbook_pool_id'', json_of_option JString (mi_deepbook_pool_id i)),
      (''base_asset_id'', json_of_option JString (mi_base_asset_id i)),
      (''base_asset_symbol'', json_of_option JString (mi_base_asset_symbol i)),
      (''quote_asset_id'', json_of_option JString (mi_quote_asset_id i)),
      (''quote_asset_symbol'', json_of_option JString (mi_quote_asset_symbol i)),
      (''base_margin_pool_id'', json_of_option JString (mi_base_margin_pool_id i)),
      (''quote_margin_pool_id'', json_of_option JString (mi_quote_margin_pool_id i))]"

definition margin_managers_info :: "db_env \<Rightarrow> (string \<times> json) list list rpc" where
  "margin_managers_info env = rpc_map (map manager_info_json) (get_margin_managers_info env)"

text \<open>\<open>BigDecimal::from_str(&x.to_string())\<close>: an error on a text that is not a number.\<close>

record number_lib =
  f64_from_str :: "string \<Rightarrow> f64 option"
  shortest_decimal :: "rat \<Rightarrow> bigdecimal"

definition decimal_of_f64 :: "number_lib \<Rightarrow> f64 \<Rightarrow> bigdecimal option" where
  "decimal_of_f64 nl x = (case x of F64 r \<Rightarrow> Some (shortest_decimal nl r) | _ \<Rightarrow> None)"

definition state_selected ::
  "bigdecimal option \<Rightarrow> string option \<Rightarrow> string option \<Rightarrow> string option \<Rightarrow> MarginManagerState \<Rightarrow> bool" where
  "state_selected max_ratio pool_id base_symbol quote_symbol r \<longleftrightarrow>
     (case max_ratio of
        None \<Rightarrow> True
      | Some m \<Rightarrow> (case margin_manager_state_risk_ratio r of None \<Rightarrow> True | Some x \<Rightarrow> x \<le> m)) \<and>
     (case pool_id of None \<Rightarrow> True | Some i \<Rightarrow> margin_manager_state_deepbook_pool_id r = i) \<and>
     (case base_symbol of None \<Rightarrow> True | Some b \<Rightarrow> margin_manager_state_base_asset_symbol r = Some b) \<and>
     (case quote_symbol of None \<Rightarrow> True | Some q \<Rightarrow> margin_manager_state_quote_asset_symbol r = Some q)"

definition nulls_last :: "MarginManagerState list \<Rightarrow> MarginManagerState list" where
  "nulls_last rows =
     sort_key (\<lambda>r. the (margin_manager_state_risk_ratio r))
       (filter (\<lambda>r. margin_manager_state_risk_ratio r \<noteq> None) rows) @
     filter (\<lambda>r. margin_manager_state_risk_ratio r = None) rows"

type_synonym 'a may_panic = "rpc_state \<Rightarrow> (DeepBookError + 'a) option \<times> rpc_state"

definition get_margin_manager_states ::
  "number_lib \<Rightarrow> db_env \<Rightarrow> f64 option \<Rightarrow> string option \<Rightarrow> string option \<Rightarrow> string option \<Rightarrow>
   MarginManagerState list may_panic" where
  "get_margin_manager_states nl env max_risk_ratio pool_id base_symbol quote_symbol s =
     (let query = (\<lambda>max_ratio. db_request from_anyhow
            (\<lambda>_. database_error ''Error fetching margin manager states'') env
            (\<lambda>db. Inr (nulls_last (filter (state_selected max_ratio pool_id base_symbol quote_symbol)
              (tb_margin_manager_state db)))));
          run = (\<lambda>max_ratio. case query max_ratio s of (r, s') \<Rightarrow> (Some r, s'))
      in case max_risk_ratio of
           None \<Rightarrow> run None
         | Some x \<Rightarrow>
             (case connect_error env (connections s) of
                Some e \<Rightarrow> (Some (Inl (from_anyhow e)), s\<lparr>connections := connections s + 1\<rparr>)
              | None \<Rightarrow>
                  (case decimal_of_f64 nl x of
                     None \<Rightarrow> (None, s\<lparr>connections := connections s + 1\<rparr>)
                   | Some d \<Rightarrow> run (Some d))))"

definition pool_symbols :: "string option \<Rightarrow> string option \<times> string option" where
  "pool_symbols pool =
     (case pool of
        None \<Rightarrow> (None, None)
      | Some p \<Rightarrow> (case split_on (CHR ''_'') p of [b, q] \<Rightarrow> (Some b, Some q) | _ \<Rightarrow> (None, None)))"

definition margin_manager_states ::
  "number_lib \<Rightarrow> db_env \<Rightarrow> params \<Rightarrow> MarginManagerState list may_panic" where
  "margin_manager_states nl env params =
     (let max_risk_ratio = Option.bind (params ''max_risk_ratio'') (f64_from_str nl);
          (base_symbol, quote_symbol) = pool_symbols (params ''pool'')
      in get_margin_manager_states nl env max_risk_ratio (params ''deepbook_pool_id'') base_symbol quote_symbol)"

section \<open>Pools\<close>

definition get_pool_created :: "db_env \<Rightarrow> PoolCreated list rpc" where
  "get_pool_created env = results env (\<lambda>db. Inr (order_desc checkpoint_timestamp_ms (tb_pool_created db)))"

definition pool_created :: "db_env \<Rightarrow> PoolCreated list rpc" where "pool_created env = get_pool_created env"

definition get_book_params_updated :: "db_env \<Rightarrow> string \<Rightarrow> BookParamsUpdated option rpc" where
  "get_book_params_updated env pool_id =
     rpc_map (\<lambda>rows. case rows of [] \<Rightarrow> None | r # _ \<Rightarrow> Some r)
       (results env (\<lambda>db. select_newest checkpoint_timestamp_ms
          (\<lambda>r. book_params_updated_pool_id r = pool_id) 1 (tb_book_params_updated db)))"

definition book_params_updated :: "db_env \<Rightarrow> params \<Rightarrow> BookParamsUpdated option rpc" where
  "book_params_updated env params =
     (case params ''pool_id'' of
        None \<Rightarrow> rpc_fail (bad_request ''pool_id is required'')
      | Some i \<Rightarrow> if i = [] then rpc_fail (bad_request ''pool_id is required'') else get_book_params_updated env i)"

section \<open>Properties\<close>

lemma length_take_entries [simp]: "length (take_entries ids m) = length ids"
  by (induction ids arbitrary: m) auto

lemma fst_take_entries: "map fst (take_entries ids m) = ids"
  by (induction ids arbitrary: m) auto

lemma take_entries_nth:
  "i < length ids \<Longrightarrow> snd (take_entries ids m ! i) =
     (if ids ! i \<in> set (take i ids) then [] else unwrap_or [] (hm_get m (ids ! i)))"
proof (induction ids arbitrary: m i)
  case (Cons a ids)
  show ?case
  proof (cases i)
    case (Suc j)
    with Cons.prems Cons.IH [of j "hm_remove a m"] show ?thesis
      by (auto simp: hm_get_remove)
  qed simp
qed simp

lemma push_assets:
  "unwrap_or [] (hm_get (fold push_asset rows []) i) = map snd (filter (\<lambda>x. fst x = i) rows)"
proof -
  have step: "fold (\<lambda>x v. Some (unwrap_or [] v @ [snd x])) xs v =
      (if xs = [] then v else Some (unwrap_or [] v @ map snd xs))" for xs :: "(string \<times> string) list" and v
    by (induction xs arbitrary: v) auto
  have "hm_get (fold push_asset rows []) i =
      fold (\<lambda>x v. Some (unwrap_or [] v @ [snd x])) (filter (\<lambda>x. Some (fst x) = Some i) rows) (hm_get [] i)"
    by (rule hm.get_fold_group) (auto simp: push_asset_def)
  then show ?thesis by (simp add: step hm.get_empty)
qed

text \<open>C34: the deposited assets are reported for every requested balance manager in the order of the
  request; a manager requested for the first time is reported with exactly the assets it ever
  deposited, each once. A manager named a second time is reported as if it had none.\<close>

theorem deposited_assets_exact:
  assumes "deposited_assets env ids_text s = (Inr res, s')" and "i < length res"
  shows "map fst res = split_ids ids_text \<and> distinct (snd (res ! i)) \<and>
    set (snd (res ! i)) =
      (if fst (res ! i) \<in> set (take i (split_ids ids_text)) then {}
       else balances_asset ` {r \<in> set (tb_balances (contents env (connections s))).
              balances_balance_manager_id r = fst (res ! i) \<and> balances_deposit r})"
proof -
  let ?ids = "split_ids ids_text"
  let ?rows = "remdups (map (\<lambda>r. (balances_balance_manager_id r, balances_asset r))
         (filter (\<lambda>r. balances_balance_manager_id r \<in> set ?ids \<and> balances_deposit r)
           (tb_balances (contents env (connections s)))))"
  have res: "res = take_entries ?ids (fold push_asset ?rows [])"
    using assms(1) by (auto simp: deposited_assets_def Let_def rpc_fail_Inr rpc_map_Inr
        get_deposited_assets_by_balance_managers_def db_request_Inr split: if_splits)
  have ids: "map fst res = ?ids" unfolding res by (rule fst_take_entries)
  with assms(2) have i: "i < length ?ids" "fst (res ! i) = ?ids ! i" by (metis length_map, metis nth_map)
  have entry: "snd (res ! i) = (if ?ids ! i \<in> set (take i ?ids) then []
      else map snd (filter (\<lambda>x. fst x = ?ids ! i) ?rows))"
    unfolding res take_entries_nth [OF i(1)] push_assets ..
  have "distinct (filter (\<lambda>x. fst x = ?ids ! i) ?rows)" by simp
  moreover have "inj_on snd (set (filter (\<lambda>x. fst x = ?ids ! i) ?rows))"
    by (auto simp: inj_on_def)
  ultimately have "distinct (map snd (filter (\<lambda>x. fst x = ?ids ! i) ?rows))" by (simp add: distinct_map)
  moreover have "set (map snd (filter (\<lambda>x. fst x = ?ids ! i) ?rows)) =
      balances_asset ` {r \<in> set (tb_balances (contents env (connections s))).
        balances_balance_manager_id r = ?ids ! i \<and> balances_deposit r}"
    using nth_mem [OF i(1)] by force
  ultimately show ?thesis using ids unfolding i(2) entry by simp
qed

definition example_deposits :: database where
  "example_deposits = empty_database\<lparr>tb_balances := map (\<lambda>(t, m, a). \<lparr>event_digest = show_int t, digest = ''d'',
     sender = ''s'', checkpoint = 1, checkpoint_timestamp_ms = t, package = ''p'',
     balances_balance_manager_id = m, balances_asset = a, balances_amount = 5, balances_deposit = True\<rparr>)
     [(1, ''m1'', ''SUI''), (2, ''m1'', ''SUI''), (3, ''m2'', ''DEEP'')]\<rparr>"

theorem deposited_assets_exact_witness:
  "\<exists>res s'. deposited_assets (steady_env example_deposits) ''m1, m1'' fresh_state = (Inr res, s') \<and>
     length res = 2 \<and> set (snd (res ! 0)) = {''SUI''} \<and> set (snd (res ! 1)) = {}"
proof -
  have ids: "split_ids ''m1, m1'' = [''m1'', ''m1'']" by code_simp
  then have "\<exists>res s'. deposited_assets (steady_env example_deposits) ''m1, m1'' fresh_state = (Inr res, s')"
    by (auto simp: deposited_assets_def rpc_map_Inr get_deposited_assets_by_balance_managers_def db_request_Inr)
  then obtain res s' where r: "deposited_assets (steady_env example_deposits) ''m1, m1'' fresh_state = (Inr res, s')"
    by blast
  then have len: "length res = 2"
    by (auto simp: deposited_assets_def rpc_map_Inr ids)
  have bal: "balances_asset ` {r \<in> set (tb_balances example_deposits). balances_balance_manager_id r = ''m1'' \<and>
      balances_deposit r} = {''SUI''}"
    unfolding set_filter [symmetric] by (simp add: example_deposits_def empty_database_def)
  have fst: "map fst res = [''m1'', ''m1'']" using deposited_assets_exact [OF r, of 0] len ids by simp
  then have "fst (res ! 0) = ''m1''" "fst (res ! 1) = ''m1''"
    using len by (auto simp: numeral_2_eq_2 length_Suc_conv)
  with deposited_assets_exact [OF r, of 0] deposited_assets_exact [OF r, of 1] len r bal show ?thesis
    by (auto simp: ids)
qed

text \<open>The points endpoint reports every requested address once per request, in order, with the
  sum of its points, and 0 for an address without any; without an address it asks nothing.\<close>

theorem get_points_totals:
  assumes "get_points env (Some text) s = (Inr res, s')"
  shows "map fst res = split_ids text \<and>
    (\<forall>(a, total)\<in>set res. total = sum_list (map points_amount
       (filter (\<lambda>r. points_address r = a) (tb_points (contents env (connections s)))))) \<and>
    (split_ids text = [] \<longleftrightarrow> s' = s)"
proof (cases "split_ids text = []")
  case True
  with assms show ?thesis by (simp add: get_points_def rpc_return_Inr)
next
  case False
  let ?req = "split_ids text"
  let ?tbl = "tb_points (contents env (connections s))"
  let ?sel = "filter (\<lambda>r. points_address r \<in> set ?req) ?tbl"
  from assms False have res: "res = map (\<lambda>a. (a, unwrap_or 0 (hm_get (hm_collect
      (group_sum points_address points_amount ?sel)) a))) ?req" and s': "connections s' = connections s + 1"
    by (auto simp: get_points_def rpc_map_Inr reader_get_points_def db_request_Inr points_query_def Let_def
        split: if_splits)
  have "unwrap_or 0 (hm_get (hm_collect (group_sum points_address points_amount ?sel)) a) =
      sum_list (map points_amount (filter (\<lambda>r. points_address r = a) ?tbl))" if "a \<in> set ?req" for a
  proof -
    have f: "filter (\<lambda>r. points_address r = a) ?sel = filter (\<lambda>r. points_address r = a) ?tbl"
      using that by (auto intro: filter_cong)
    have "hm_get (hm_collect (group_sum points_address points_amount ?sel)) a =
        (if a \<in> points_address ` set ?sel
         then Some (sum_list (map points_amount (filter (\<lambda>r. points_address r = a) ?tbl))) else None)"
      unfolding hm_get_collect_distinct [OF group_sum_keys] map_of_group_sum f ..
    moreover have "filter (\<lambda>r. points_address r = a) ?tbl = []" if "a \<notin> points_address ` set ?sel"
      using that \<open>a \<in> set ?req\<close> by (auto simp: filter_empty_conv)
    ultimately show ?thesis by auto
  qed
  moreover have "s' \<noteq> s" using s' by auto
  ultimately show ?thesis using False by (auto simp: res comp_def)
qed

definition example_points :: database where
  "example_points = empty_database\<lparr>tb_points := map (\<lambda>(i, a, n). \<lparr>points_id = i, points_address = a,
     points_amount = n, points_week = 1, points_timestamp = 0\<rparr>) [(1, ''0xa'', 30), (2, ''0xa'', 12)]\<rparr>"

theorem get_points_totals_witness:
  "\<exists>res s'. get_points (steady_env example_points) (Some ''0xa,0xb'') fresh_state = (Inr res, s') \<and>
     res = [(''0xa'', 42), (''0xb'', 0)]"
proof -
  have ids: "split_ids ''0xa,0xb'' = [''0xa'', ''0xb'']" by code_simp
  have "\<exists>res s'. get_points (steady_env example_points) (Some ''0xa,0xb'') fresh_state = (Inr res, s')"
    by (simp add: get_points_def ids rpc_map_def rpc_bind_def rpc_return_def reader_get_points_def db_request_def
        run_query_def points_query_def group_sum_def example_points_def empty_database_def in_i64_def
        i64_min_def i64_max_def Let_def)
  then obtain res s' where r: "get_points (steady_env example_points) (Some ''0xa,0xb'') fresh_state = (Inr res, s')"
    by blast
  from get_points_totals [OF r] have p: "map fst res = [''0xa'', ''0xb'']"
    "list_all (\<lambda>(a, total). total = sum_list (map points_amount (filter (\<lambda>r. points_address r = a)
       (tb_points example_points)))) res" by (simp_all add: ids list_all_iff)
  then obtain x y where "res = [(''0xa'', x), (''0xb'', y)]" by auto
  with p(2) r show ?thesis by (simp add: example_points_def empty_database_def)
qed

text \<open>The endpoint of margin manager states panics on a risk ratio that reads as a number which
  is not finite, such as \<open>NaN\<close>, when its connection succeeds: its conversion to a decimal is unwrapped.
  It never panics otherwise.\<close>

theorem margin_manager_states_panics:
  "fst (margin_manager_states nl env params s) = None \<longleftrightarrow>
     connect_error env (connections s) = None \<and>
     (\<exists>x. Option.bind (params ''max_risk_ratio'') (f64_from_str nl) = Some x \<and> \<not> is_finite x)"
proof -
  have "decimal_of_f64 nl x = None \<longleftrightarrow> \<not> is_finite x" for x
    by (cases x) (simp_all add: decimal_of_f64_def)
  then show ?thesis
    by (auto simp: margin_manager_states_def get_margin_manager_states_def Let_def split_beta
        split: option.splits) (metis option.distinct(1))
qed

end
