(* ===== verification/Portfolio.thy ===== *)
theory Portfolio
  imports Net_Deposits Orders
begin

text \<open>
  The portfolio of a wallet (\<open>get_portfolio\<close> of \<^verbatim>\<open>crates/server/src/reader.rs\<close>): its three SQL queries
  over the pools, the margin managers and the balances, the prices they share, and the totals. The
  candle tables are filled by procedures of the database, so their rows are a parameter, with the
  time of the request in microseconds. \<open>NUMERIC\<close> values are rationals; the quotient of two of them,
  which PostgreSQL computes to a limited number of places, is the parameter \<open>numeric_div\<close>, and
  \<open>statement_error\<close> are the errors the database raises on the three statements. An SQL
  \<open>NULL\<close> is \<open>None\<close>; a \<open>NULL\<close> in a field of a row that is not optional is an error of the whole query.
\<close>

section \<open>Rows and results\<close>

record MarginPositionRow =
  mp_margin_manager_id :: string
  mp_pool_name :: string
  mp_base_asset_symbol :: string
  mp_quote_asset_symbol :: string
  mp_base_asset :: f64
  mp_quote_asset :: f64
  mp_base_debt :: f64
  mp_quote_debt :: f64
  mp_base_asset_usd :: f64
  mp_quote_asset_usd :: f64
  mp_base_debt_usd :: f64
  mp_quote_debt_usd :: f64
  mp_risk_ratio :: f64

record PortfolioMarginPosition = MarginPositionRow +
  pm_total_debt_usd :: f64
  pm_net_value_usd :: f64

record CollateralRow =
  cr_asset :: string
  cr_balance :: f64
  cr_balance_usd :: f64

record LpPositionRow =
  lp_margin_pool_id :: string
  lp_asset :: string
  lp_net_supplied :: f64
  lp_net_shares :: i64
  lp_supplied_usd :: f64

record PortfolioSummary =
  total_equity_usd :: f64
  total_debt_usd :: f64
  net_value_usd :: f64

record PortfolioQueryResult =
  margin_positions :: "PortfolioMarginPosition list"
  collateral_balances :: "CollateralRow list"
  lp_positions :: "LpPositionRow list"
  portfolio_summary :: PortfolioSummary

section \<open>Prices\<close>

record ohclv_row =
  oh_pool_id :: string
  oh_bucket_time :: int
  oh_close :: bigdecimal

record price_env =
  ohclv_1m :: "ohclv_row list"
  ohclv_1d :: "ohclv_row list"
  now_time :: int
  numeric_div :: "bigdecimal \<Rightarrow> bigdecimal \<Rightarrow> bigdecimal"
  statement_error :: "nat \<Rightarrow> string option"

definition TWO_HOURS :: int where "TWO_HOURS = 2 * 3600 * 1000000"

text \<open>The close of the newest candle of a symbol in a pool against USDC.\<close>

definition usdc_prices :: "Pools list \<Rightarrow> ohclv_row list \<Rightarrow> (string \<times> bigdecimal) list" where
  "usdc_prices pools candles =
     map (\<lambda>(p, o1). (pools_base_asset_symbol p, oh_close o1))
       (distinct_on (\<lambda>(p, _). pools_base_asset_symbol p)
         (order_desc (\<lambda>(_, o1). oh_bucket_time o1)
           (filter (\<lambda>(p, o1). pools_pool_id p = oh_pool_id o1 \<and> pools_quote_asset_symbol p = ''USDC'')
             (List.product pools candles))))"

definition hourly_prices :: "price_env \<Rightarrow> database \<Rightarrow> (string \<times> bigdecimal) list" where
  "hourly_prices pe db =
     usdc_prices (tb_pools db) (filter (\<lambda>o1. now_time pe - TWO_HOURS \<le> oh_bucket_time o1) (ohclv_1m pe))"

definition daily_prices :: "price_env \<Rightarrow> database \<Rightarrow> (string \<times> bigdecimal) list" where
  "daily_prices pe db = usdc_prices (tb_pools db) (ohclv_1d pe)"

definition latest_prices :: "price_env \<Rightarrow> database \<Rightarrow> (string \<times> bigdecimal) list" where
  "latest_prices pe db =
     map (\<lambda>(symbol, price). (symbol, unwrap_or price (map_of (hourly_prices pe db) symbol))) (daily_prices pe db)"

text \<open>The symbols of \<open>latest_prices\<close> are distinct, so \<open>LEFT JOIN latest_prices\<close> adds the one price or
  an absent one to a row.\<close>

definition price_of :: "price_env \<Rightarrow> database \<Rightarrow> string option \<Rightarrow> bigdecimal" where
  "price_of pe db symbol = unwrap_or 0 (Option.bind symbol (map_of (latest_prices pe db)))"

fun ascii_upper :: "char \<Rightarrow> char" where
  "ascii_upper c = (let n = of_char c :: nat in if 97 \<le> n \<and> n \<le> 122 then char_of (n - 32) else c)"

definition is_stablecoin :: "string option \<Rightarrow> bool" where
  "is_stablecoin symbol =
     (case symbol of None \<Rightarrow> False | Some s \<Rightarrow> map ascii_upper s \<in> {''USDC'', ''USDT'', ''AUSD''})"

definition usd_price :: "price_env \<Rightarrow> database \<Rightarrow> string option \<Rightarrow> bigdecimal" where
  "usd_price pe db symbol = (if is_stablecoin symbol then 1 else price_of pe db symbol)"

text \<open>\<open>ROUND(x, n)\<close> rounds half away from zero; \<open>::float8\<close> to the nearest double.\<close>

definition round_scale :: "nat \<Rightarrow> bigdecimal \<Rightarrow> bigdecimal" where
  "round_scale n x =
     (let y = x * 10 ^ n in of_int (if 0 \<le> y then \<lfloor>y + 1/2\<rfloor> else - \<lfloor>1/2 - y\<rfloor>) / 10 ^ n)"

definition rounded :: "nat \<Rightarrow> bigdecimal \<Rightarrow> f64" where
  "rounded n x = round_f64 (round_scale n x)"

definition not_null :: "string \<Rightarrow> 'a option \<Rightarrow> string + 'a" where
  "not_null field v =
     ok_or (''Error deserializing field '' @ quoted field @ '': Unexpected null for non-null column'') v"

section \<open>The queries\<close>

definition has_position :: "MarginManagerState \<Rightarrow> bool" where
  "has_position s \<longleftrightarrow> list_ex (\<lambda>v. case v of None \<Rightarrow> False | Some x \<Rightarrow> x \<noteq> 0)
     [margin_manager_state_base_asset s, margin_manager_state_quote_asset s,
      margin_manager_state_base_debt s, margin_manager_state_quote_debt s]"

definition margin_position ::
  "price_env \<Rightarrow> database \<Rightarrow> MarginManagerCreated \<times> MarginManagerState \<times> Pools \<Rightarrow> string + MarginPositionRow" where
  "margin_position pe db = (\<lambda>(c, s, p).
     let base_price = price_of pe db (margin_manager_state_base_asset_symbol s);
         quote_price = usd_price pe db (margin_manager_state_quote_asset_symbol s);
         value = (\<lambda>price v. map_option (\<lambda>x. rounded 2 (x * price)) v)
     in bind_result (not_null ''base_asset_symbol'' (margin_manager_state_base_asset_symbol s)) (\<lambda>base_symbol.
        bind_result (not_null ''quote_asset_symbol'' (margin_manager_state_quote_asset_symbol s)) (\<lambda>quote_symbol.
        bind_result (not_null ''base_asset'' (map_option (rounded 6) (margin_manager_state_base_asset s))) (\<lambda>base_asset.
        bind_result (not_null ''quote_asset'' (map_option (rounded 6) (margin_manager_state_quote_asset s))) (\<lambda>quote_asset.
        bind_result (not_null ''base_debt'' (map_option (rounded 6) (margin_manager_state_base_debt s))) (\<lambda>base_debt.
        bind_result (not_null ''quote_debt'' (map_option (rounded 6) (margin_manager_state_quote_debt s))) (\<lambda>quote_debt.
        bind_result (not_null ''base_asset_usd'' (value base_price (margin_manager_state_base_asset s))) (\<lambda>base_asset_usd.
        bind_result (not_null ''quote_asset_usd'' (value quote_price (margin_manager_state_quote_asset s))) (\<lambda>quote_asset_usd.
        bind_result (not_null ''base_debt_usd'' (value base_price (margin_manager_state_base_debt s))) (\<lambda>base_debt_usd.
        bind_result (not_null ''quote_debt_usd'' (value quote_price (margin_manager_state_quote_debt s))) (\<lambda>quote_debt_usd.
        bind_result (not_null ''risk_ratio'' (map_option (rounded 4) (margin_manager_state_risk_ratio s))) (\<lambda>risk_ratio.
          Inr \<lparr>mp_margin_manager_id = margin_manager_created_margin_manager_id c,
               mp_pool_name = pools_pool_name p,
               mp_base_asset_symbol = base_symbol,
               mp_quote_asset_symbol = quote_symbol,
               mp_base_asset = base_asset, mp_quote_asset = quote_asset,
               mp_base_debt = base_debt, mp_quote_debt = quote_debt,
               mp_base_asset_usd = base_asset_usd, mp_quote_asset_usd = quote_asset_usd,
               mp_base_debt_usd = base_debt_usd, mp_quote_debt_usd = quote_debt_usd,
               mp_risk_ratio = risk_ratio\<rparr>))))))))))))"

definition wallet_positions :: "string \<Rightarrow> database \<Rightarrow> (MarginManagerCreated \<times> MarginManagerState \<times> Pools) list" where
  "wallet_positions wallet db =
     filter (\<lambda>(c, s, p). margin_manager_created_owner c = wallet \<and>
         margin_manager_created_margin_manager_id c = margin_manager_state_margin_manager_id s \<and>
         margin_manager_state_deepbook_pool_id s = pools_pool_id p \<and> has_position s)
       (List.product (tb_margin_manager_created db) (List.product (tb_margin_manager_state db) (tb_pools db)))"

text \<open>One row per element, or the error of the first element that has none.\<close>

definition collect_each :: "('a \<Rightarrow> 'e + 'b) \<Rightarrow> 'a list \<Rightarrow> 'e + 'b list" where
  "collect_each f = collect_result (\<lambda>x. bind_result (f x) (\<lambda>y. Inr [y]))"

definition margin_query :: "price_env \<Rightarrow> string \<Rightarrow> MarginPositionRow list query" where
  "margin_query pe wallet db = collect_each (margin_position pe db) (wallet_positions wallet db)"

record asset_meta_row =
  am_asset_id :: string
  am_decimals :: i16
  am_symbol :: string

definition asset_meta :: "database \<Rightarrow> asset_meta_row list" where
  "asset_meta db = remdups
     (map (\<lambda>p. \<lparr>am_asset_id = pools_base_asset_id p, am_decimals = pools_base_asset_decimals p,
         am_symbol = pools_base_asset_symbol p\<rparr>) (tb_pools db) @
      map (\<lambda>p. \<lparr>am_asset_id = pools_quote_asset_id p, am_decimals = pools_quote_asset_decimals p,
         am_symbol = pools_quote_asset_symbol p\<rparr>) (tb_pools db))"

text \<open>\<open>asset LIKE '%' || SUBSTRING(asset_id FROM 3) || '%'\<close>\<close>

definition meta_matches :: "string \<Rightarrow> asset_meta_row \<Rightarrow> bool" where
  "meta_matches asset am \<longleftrightarrow> sql_like (''%'' @ drop 2 (am_asset_id am) @ ''%'') asset"

definition scaled_amount :: "price_env \<Rightarrow> i16 \<Rightarrow> int \<Rightarrow> bigdecimal" where
  "scaled_amount pe decimals amount = numeric_div pe (of_int amount) (10 powi decimals)"

definition wallet_bms :: "string \<Rightarrow> database \<Rightarrow> string list" where
  "wallet_bms wallet db = remdups (map margin_manager_created_balance_manager_id
     (filter (\<lambda>c. margin_manager_created_owner c = wallet) (tb_margin_manager_created db)))"

text \<open>The balances of the wallet joined with the assets they match. The price in the \<open>GROUP BY\<close> is a
  function of the symbol, so it splits no group.\<close>

definition collateral_join :: "string \<Rightarrow> database \<Rightarrow> (Balances \<times> string \<times> asset_meta_row) list" where
  "collateral_join wallet db =
     filter (\<lambda>(b, bm, am). balances_balance_manager_id b = bm \<and> meta_matches (balances_asset b) am)
       (List.product (tb_balances db) (List.product (wallet_bms wallet db) (asset_meta db)))"

definition am_key :: "asset_meta_row \<Rightarrow> string \<times> i16" where
  "am_key am = (am_symbol am, am_decimals am)"

definition collateral_query :: "price_env \<Rightarrow> string \<Rightarrow> CollateralRow list query" where
  "collateral_query pe wallet db =
     (let totals = group_sum (\<lambda>(_, _, am). am_key am) (\<lambda>(b, _, _). signed_amount b) (collateral_join wallet db)
      in Inr (map (\<lambda>((symbol, decimals), total).
             \<lparr>cr_asset = symbol,
              cr_balance = rounded 6 (scaled_amount pe decimals total),
              cr_balance_usd = rounded 2 (scaled_amount pe decimals total * usd_price pe db (Some symbol))\<rparr>)
           (filter (\<lambda>(_, total). 0 < total) totals)))"

definition lp_supplied :: "string \<Rightarrow> database \<Rightarrow> ((string \<times> string) \<times> int \<times> int) list" where
  "lp_supplied wallet db =
     (let rows = filter (\<lambda>r. sender r = wallet) (tb_asset_supplied db);
          key = (\<lambda>r. (asset_supplied_margin_pool_id r, asset_supplied_asset_type r))
      in map (\<lambda>(k, amount). (k, amount, unwrap_or 0 (map_of (group_sum key asset_supplied_shares rows) k)))
           (group_sum key asset_supplied_amount rows))"

definition lp_withdrawn :: "string \<Rightarrow> database \<Rightarrow> ((string \<times> string) \<times> int \<times> int) list" where
  "lp_withdrawn wallet db =
     (let rows = filter (\<lambda>r. sender r = wallet) (tb_asset_withdrawn db);
          key = (\<lambda>r. (asset_withdrawn_margin_pool_id r, asset_withdrawn_asset_type r))
      in map (\<lambda>(k, amount). (k, amount, unwrap_or 0 (map_of (group_sum key asset_withdrawn_shares rows) k)))
           (group_sum key asset_withdrawn_amount rows))"

definition lp_position ::
  "price_env \<Rightarrow> database \<Rightarrow> (string \<times> string) \<times> int \<times> int \<Rightarrow> asset_meta_row \<Rightarrow> string + LpPositionRow" where
  "lp_position pe db = (\<lambda>((pool_id, _), net, shares) am.
     if \<not> in_i64 shares then Inl ''bigint out of range''
     else Inr \<lparr>lp_margin_pool_id = pool_id, lp_asset = am_symbol am,
       lp_net_supplied = rounded 6 (scaled_amount pe (am_decimals am) net),
       lp_net_shares = shares,
       lp_supplied_usd = rounded 2 (scaled_amount pe (am_decimals am) net * usd_price pe db (Some (am_symbol am)))\<rparr>)"

definition lp_net :: "string \<Rightarrow> database \<Rightarrow> ((string \<times> string) \<times> int \<times> int) list" where
  "lp_net wallet db =
     map (\<lambda>(k, supplied, shares).
         case unwrap_or (0, 0) (map_of (lp_withdrawn wallet db) k) of
           (withdrawn, withdrawn_shares) \<Rightarrow> (k, supplied - withdrawn, shares - withdrawn_shares))
       (lp_supplied wallet db)"

definition lp_query :: "price_env \<Rightarrow> string \<Rightarrow> LpPositionRow list query" where
  "lp_query pe wallet db =
     collect_each (\<lambda>(position, am). lp_position pe db position am)
       (filter (\<lambda>(((_, asset_type), net, _), am). 0 < net \<and> meta_matches asset_type am)
         (List.product (lp_net wallet db) (asset_meta db)))"

section \<open>The request\<close>

definition is_ascii_hexdigit :: "char \<Rightarrow> bool" where
  "is_ascii_hexdigit c \<longleftrightarrow> (let n = (of_char c :: nat)
     in (48 \<le> n \<and> n \<le> 57) \<or> (65 \<le> n \<and> n \<le> 70) \<or> (97 \<le> n \<and> n \<le> 102))"

definition valid_wallet_address :: "string \<Rightarrow> bool" where
  "valid_wallet_address a \<longleftrightarrow> starts_with a ''0x'' \<and> length a = 66 \<and> list_all is_ascii_hexdigit (drop 2 a)"

definition f64_sum :: "f64 list \<Rightarrow> f64" where "f64_sum xs = foldl f64_add (F64 0) xs"

definition portfolio_position :: "MarginPositionRow \<Rightarrow> PortfolioMarginPosition" where
  "portfolio_position m = MarginPositionRow.extend m
     \<lparr>pm_total_debt_usd = f64_add (mp_base_debt_usd m) (mp_quote_debt_usd m),
      pm_net_value_usd = f64_sub (f64_sub (f64_add (mp_base_asset_usd m) (mp_quote_asset_usd m))
        (mp_base_debt_usd m)) (mp_quote_debt_usd m)\<rparr>"

definition portfolio_result ::
  "MarginPositionRow list \<Rightarrow> CollateralRow list \<Rightarrow> LpPositionRow list \<Rightarrow> PortfolioQueryResult" where
  "portfolio_result margin collateral lps =
     (let collateral_total_usd = f64_sum (map cr_balance_usd collateral);
          margin_equity_usd = f64_sum (map (\<lambda>m. f64_add (mp_base_asset_usd m) (mp_quote_asset_usd m)) margin);
          margin_debt_usd = f64_sum (map (\<lambda>m. f64_add (mp_base_debt_usd m) (mp_quote_debt_usd m)) margin);
          lp_total_usd = f64_sum (map lp_supplied_usd lps);
          equity = f64_add (f64_add collateral_total_usd margin_equity_usd) lp_total_usd
      in \<lparr>margin_positions = map portfolio_position margin,
          collateral_balances = collateral,
          lp_positions = lps,
          portfolio_summary = \<lparr>total_equity_usd = equity, total_debt_usd = margin_debt_usd,
            net_value_usd = f64_sub equity margin_debt_usd\<rparr>\<rparr>)"

text \<open>The outcome of one of the three queries, counted; the first that failed is reported, and the
  counters of the later ones are not touched.\<close>

definition count_query :: "string \<Rightarrow> string + 'a \<Rightarrow> 'a rpc" where
  "count_query what r s =
     (case r of
        Inl e \<Rightarrow> (Inl (database_error (what @ e)), s\<lparr>db_requests_failed := db_requests_failed s + 1\<rparr>)
      | Inr x \<Rightarrow> (Inr x, s\<lparr>db_requests_succeeded := db_requests_succeeded s + 1\<rparr>))"

definition run_statement :: "price_env \<Rightarrow> nat \<Rightarrow> 'a query \<Rightarrow> 'a query" where
  "run_statement pe i q db = (case statement_error pe i of Some e \<Rightarrow> Inl e | None \<Rightarrow> q db)"

definition get_portfolio :: "price_env \<Rightarrow> db_env \<Rightarrow> string \<Rightarrow> PortfolioQueryResult rpc" where
  "get_portfolio pe env wallet_address s =
     (if \<not> valid_wallet_address wallet_address then
        (Inl (bad_request ''Invalid wallet address: expected 0x-prefixed 64-character hex string''), s)
      else
        (let n = connections s; s1 = s\<lparr>connections := n + 1\<rparr>; db = contents env n
         in case connect_error env n of
              Some e \<Rightarrow> (Inl (from_anyhow e), s1)
            | None \<Rightarrow>
                rpc_bind (count_query ''Error fetching margin positions: '' (run_statement pe 0 (margin_query pe wallet_address) db)) (\<lambda>margin.
                rpc_bind (count_query ''Error fetching collateral: '' (run_statement pe 1 (collateral_query pe wallet_address) db)) (\<lambda>collateral.
                rpc_bind (count_query ''Error fetching LP positions: '' (run_statement pe 2 (lp_query pe wallet_address) db)) (\<lambda>lps.
                  rpc_return (portfolio_result margin collateral lps)))) s1))"

definition portfolio :: "price_env \<Rightarrow> db_env \<Rightarrow> string \<Rightarrow> PortfolioQueryResult rpc" where
  "portfolio pe env wallet_address = get_portfolio pe env wallet_address"

section \<open>When a portfolio is answered\<close>

text \<open>A position whose amounts and risk ratio are all known.\<close>

definition complete_position :: "MarginManagerState \<Rightarrow> bool" where
  "complete_position s \<longleftrightarrow>
     margin_manager_state_base_asset_symbol s \<noteq> None \<and> margin_manager_state_quote_asset_symbol s \<noteq> None \<and>
     margin_manager_state_base_asset s \<noteq> None \<and> margin_manager_state_quote_asset s \<noteq> None \<and>
     margin_manager_state_base_debt s \<noteq> None \<and> margin_manager_state_quote_debt s \<noteq> None \<and>
     margin_manager_state_risk_ratio s \<noteq> None"

definition lp_rows :: "string \<Rightarrow> database \<Rightarrow> (((string \<times> string) \<times> int \<times> int) \<times> asset_meta_row) list" where
  "lp_rows wallet db = filter (\<lambda>(((_, asset_type), net, _), am). 0 < net \<and> meta_matches asset_type am)
     (List.product (lp_net wallet db) (asset_meta db))"

lemma collect_each_Inr: "(\<exists>ys. collect_each f xs = Inr ys) \<longleftrightarrow> list_all (\<lambda>x. \<exists>y. f x = Inr y) xs"
  by (induction xs) (auto simp: collect_each_def result_simps)

lemma margin_position_Inr: "(\<exists>row. margin_position pe db z = Inr row) \<longleftrightarrow> complete_position (fst (snd z))"
  by (cases z) (auto simp: margin_position_def complete_position_def not_null_def ok_or_def result_simps Let_def
      split: option.splits)

lemma lp_position_Inr:
  "(\<exists>row. (case z of (position, am) \<Rightarrow> lp_position pe db position am) = Inr row) \<longleftrightarrow>
     (case z of ((_, _, shares), _) \<Rightarrow> in_i64 shares)"
  by (auto simp: lp_position_def split: prod.split)

lemma margin_query_Inr:
  "(\<exists>rows. margin_query pe w db = Inr rows) \<longleftrightarrow> list_all (\<lambda>(_, s, _). complete_position s) (wallet_positions w db)"
  by (simp add: margin_query_def collect_each_Inr margin_position_Inr list_all_iff split_beta)

lemma lp_query_Inr:
  "(\<exists>rows. lp_query pe w db = Inr rows) \<longleftrightarrow> list_all (\<lambda>((_, _, shares), _). in_i64 shares) (lp_rows w db)"
  unfolding lp_query_def lp_rows_def [symmetric] collect_each_Inr lp_position_Inr
  by (simp add: list_all_iff split_beta)

lemma run_statement_Inr:
  "run_statement pe i q db = Inr x \<longleftrightarrow> statement_error pe i = None \<and> q db = Inr x"
  by (auto simp: run_statement_def split: option.split)

lemma count_query_Inr: "count_query what r s = (Inr x, s') \<longleftrightarrow>
    r = Inr x \<and> s' = s\<lparr>db_requests_succeeded := db_requests_succeeded s + 1\<rparr>"
  by (auto simp: count_query_def split: sum.splits)

text \<open>C39: a portfolio is answered exactly when the address is well formed, the connection and the three
  statements succeed, every position of the wallet with an amount or a debt has all its amounts, symbols
  and its risk ratio, and no number of shares leaves 64 bits. One position without a risk ratio makes
  the whole portfolio an error.\<close>

theorem portfolio_answered:
  "(\<exists>res s'. get_portfolio pe env w s = (Inr res, s')) \<longleftrightarrow>
     valid_wallet_address w \<and> connect_error env (connections s) = None \<and>
     list_all (\<lambda>i. statement_error pe i = None) [0, 1, 2] \<and>
     list_all (\<lambda>(_, st, _). complete_position st) (wallet_positions w (contents env (connections s))) \<and>
     list_all (\<lambda>((_, _, shares), _). in_i64 shares) (lp_rows w (contents env (connections s)))"
proof -
  have c: "\<exists>rows. collateral_query pe w db = Inr rows" for db by (simp add: collateral_query_def Let_def)
  show ?thesis
    unfolding margin_query_Inr [of pe w "contents env (connections s)", symmetric]
      lp_query_Inr [of pe w "contents env (connections s)", symmetric]
    using c [of "contents env (connections s)"]
    by (auto simp: get_portfolio_def rpc_bind_Inr rpc_return_Inr count_query_Inr run_statement_Inr Let_def
        split: option.splits)
qed

section \<open>Collateral\<close>

text \<open>What the collateral of a wallet should be: the net deposits of its balance managers.\<close>

definition net_deposit :: "string \<Rightarrow> database \<Rightarrow> asset_meta_row \<Rightarrow> int" where
  "net_deposit wallet db am = sum_list (map signed_amount (filter (\<lambda>b.
     balances_asset b = drop 2 (am_asset_id am) \<and> balances_balance_manager_id b \<in> set (wallet_bms wallet db))
     (tb_balances db)))"

text \<open>Assets with one symbol and the same decimals are one row of the answer: the deposits of all of them.\<close>

definition key_deposit :: "string \<Rightarrow> database \<Rightarrow> string \<times> i16 \<Rightarrow> int" where
  "key_deposit wallet db k =
     sum_list (map (net_deposit wallet db) (filter (\<lambda>am. am_key am = k) (asset_meta db)))"

definition collateral_row :: "price_env \<Rightarrow> database \<Rightarrow> string \<times> i16 \<Rightarrow> int \<Rightarrow> CollateralRow" where
  "collateral_row pe db = (\<lambda>(symbol, decimals) amount.
     \<lparr>cr_asset = symbol,
      cr_balance = rounded 6 (scaled_amount pe decimals amount),
      cr_balance_usd = rounded 2 (scaled_amount pe decimals amount * usd_price pe db (Some symbol))\<rparr>)"

text \<open>The assumption of the comments in the query: an asset matches its own id only.\<close>

definition assets_unique :: "database \<Rightarrow> bool" where
  "assets_unique db \<longleftrightarrow> list_all (\<lambda>b. list_all (\<lambda>am. meta_matches (balances_asset b) am =
       (balances_asset b = drop 2 (am_asset_id am))) (asset_meta db)) (tb_balances db)"

lemma sum_list_product_filter:
  fixes g :: "'a \<times> 'b \<Rightarrow> int"
  shows "sum_list (map g (filter P (List.product xs ys))) =
     sum_list (map (\<lambda>x. sum_list (map (\<lambda>y. g (x, y)) (filter (\<lambda>y. P (x, y)) ys))) xs)"
  by (induction xs) (simp_all add: filter_map comp_def)

lemma sum_list_swap:
  fixes h :: "'a \<Rightarrow> 'b \<Rightarrow> int"
  shows "sum_list (map (\<lambda>x. sum_list (map (h x) ys)) xs) = sum_list (map (\<lambda>y. sum_list (map (\<lambda>x. h x y) xs)) ys)"
  by (induction xs) (simp_all add: sum_list_addf)

lemma sum_list_single:
  fixes c :: int
  shows "distinct zs \<Longrightarrow> sum_list (map (\<lambda>z. if z = a then c else 0) zs) = (if a \<in> set zs then c else 0)"
  by (induction zs) auto

lemma joined_total:
  assumes "assets_unique db"
  shows "sum_list (map (\<lambda>(b, _, _). signed_amount b)
      (filter (\<lambda>z. (case z of (_, _, am) \<Rightarrow> am_key am) = k) (collateral_join w db))) = key_deposit w db k"
proof -
  let ?metas = "filter (\<lambda>am. am_key am = k) (asset_meta db)"
  let ?own = "\<lambda>b am. balances_asset b = drop 2 (am_asset_id am)"
  let ?bm = "balances_balance_manager_id"
  have f: "filter (\<lambda>z. (case z of (_, _, am) \<Rightarrow> am_key am) = k) (collateral_join w db) =
      filter (\<lambda>(b, bm, am). bm = ?bm b \<and> am_key am = k \<and> ?own b am)
        (List.product (tb_balances db) (List.product (wallet_bms w db) (asset_meta db)))"
    unfolding collateral_join_def filter_filter
    using assms by (intro filter_cong) (auto simp: assets_unique_def list_all_iff)
  have one: "sum_list (map (\<lambda>bm. sum_list (map (\<lambda>_. signed_amount b)
      (filter (\<lambda>am. bm = ?bm b \<and> am_key am = k \<and> ?own b am) (asset_meta db)))) (wallet_bms w db)) =
      sum_list (map (\<lambda>am. if ?own b am \<and> ?bm b \<in> set (wallet_bms w db) then signed_amount b else 0) ?metas)" for b
  proof -
    let ?c = "sum_list (map (\<lambda>am. if ?own b am then signed_amount b else 0) ?metas)"
    have "sum_list (map (\<lambda>_. signed_amount b)
        (filter (\<lambda>am. bm = ?bm b \<and> am_key am = k \<and> ?own b am) (asset_meta db))) = (if bm = ?bm b then ?c else 0)" for bm
      by (simp add: sum_list_map_filter' if_distrib cong: if_cong) (intro impI arg_cong [of _ _ sum_list] map_cong, auto)
    then show ?thesis by (simp add: sum_list_single wallet_bms_def)
  qed
  have "sum_list (map (\<lambda>(b, _, _). signed_amount b)
      (filter (\<lambda>z. (case z of (_, _, am) \<Rightarrow> am_key am) = k) (collateral_join w db))) =
      sum_list (map (\<lambda>b. sum_list (map (\<lambda>am. if ?own b am \<and> ?bm b \<in> set (wallet_bms w db)
        then signed_amount b else 0) ?metas)) (tb_balances db))"
    unfolding f by (simp add: sum_list_product_filter split_beta one)
  also have "\<dots> = sum_list (map (\<lambda>am. sum_list (map (\<lambda>b. if ?own b am \<and> ?bm b \<in> set (wallet_bms w db)
        then signed_amount b else 0) (tb_balances db))) ?metas)" by (rule sum_list_swap)
  also have "\<dots> = key_deposit w db k" unfolding key_deposit_def net_deposit_def sum_list_map_filter' ..
  finally show ?thesis .
qed

text \<open>The groups with a positive sum: each key once.\<close>

lemma positive_groups:
  assumes keys: "\<And>z. z \<in> set zs \<Longrightarrow> key z \<in> K"
    and total: "\<And>k. sum_list (map g (filter (\<lambda>z. key z = k) zs)) = n k"
  shows "\<exists>ks. distinct ks \<and> set ks = {k \<in> K. 0 < n k} \<and>
    filter (\<lambda>(_, t). 0 < t) (group_sum key g zs) = map (\<lambda>k. (k, n k)) ks"
proof (intro exI conjI)
  let ?ks = "filter (\<lambda>k. 0 < n k) (remdups (map key zs))"
  show "distinct ?ks" by simp
  have "k \<in> key ` set zs" if "0 < n k" for k
  proof -
    have "filter (\<lambda>z. key z = k) zs \<noteq> []" using that total [of k] by (metis list.map(1) sum_list.Nil less_irrefl)
    then show ?thesis by (force simp: filter_empty_conv)
  qed
  then show "set ?ks = {k \<in> K. 0 < n k}" using keys by auto
  show "filter (\<lambda>(_, t). 0 < t) (group_sum key g zs) = map (\<lambda>k. (k, n k)) ?ks"
    by (simp add: group_sum_def filter_map comp_def total)
qed

text \<open>C22: when assets match their own ids only, the collateral of a wallet is exactly its net deposits:
  one row for every pair of a symbol and decimals of which the balance managers of the wallet hold a
  positive amount, with the deposits less the withdrawals over all of them, and over all assets
  with that symbol and these decimals, in units of the asset and in dollars.\<close>

theorem collateral_exact:
  assumes "assets_unique db"
  shows "\<exists>ks. distinct ks \<and> set ks = {k \<in> am_key ` set (asset_meta db). 0 < key_deposit w db k} \<and>
    collateral_query pe w db = Inr (map (\<lambda>k. collateral_row pe db k (key_deposit w db k)) ks)"
proof -
  have keys: "(case z of (_, _, am) \<Rightarrow> am_key am) \<in> am_key ` set (asset_meta db)"
    if "z \<in> set (collateral_join w db)" for z
    using that by (auto simp: collateral_join_def)
  obtain ks where ks: "distinct ks" "set ks = {k \<in> am_key ` set (asset_meta db). 0 < key_deposit w db k}"
    "filter (\<lambda>(_, t). 0 < t) (group_sum (\<lambda>(_, _, am). am_key am) (\<lambda>(b, _, _). signed_amount b) (collateral_join w db)) =
       map (\<lambda>k. (k, key_deposit w db k)) ks"
    using positive_groups [OF keys joined_total [OF assms]] by blast
  have "collateral_query pe w db = Inr (map (\<lambda>k. collateral_row pe db k (key_deposit w db k)) ks)"
    unfolding collateral_query_def Let_def ks(3) by (simp add: collateral_row_def split_beta comp_def)
  with ks show ?thesis by blast
qed

section \<open>Examples\<close>

definition wallet_pool :: "string \<Rightarrow> string \<Rightarrow> Pools" where
  "wallet_pool asset_id symbol = \<lparr>pools_pool_id = ''0x1'', pools_pool_name = ''P'', pools_base_asset_id = asset_id,
     pools_base_asset_decimals = 6, pools_base_asset_symbol = symbol, pools_base_asset_name = symbol,
     pools_quote_asset_id = ''0x9::usd::USDC'', pools_quote_asset_decimals = 6, pools_quote_asset_symbol = ''USDC'',
     pools_quote_asset_name = ''USDC'', pools_min_size = 1, pools_lot_size = 1, pools_tick_size = 1\<rparr>"

definition wallet_deposit :: "string \<Rightarrow> string \<Rightarrow> i64 \<Rightarrow> bool \<Rightarrow> Balances" where
  "wallet_deposit d asset amount deposit = \<lparr>event_digest = d, digest = ''d'', sender = ''s'', checkpoint = 1,
     checkpoint_timestamp_ms = 1, package = ''p'', balances_balance_manager_id = ''bm'', balances_asset = asset,
     balances_amount = amount, balances_deposit = deposit\<rparr>"

definition wallet_db :: "string \<Rightarrow> string \<Rightarrow> Balances list \<Rightarrow> database" where
  "wallet_db asset_id symbol bs = empty_database\<lparr>tb_pools := [wallet_pool asset_id symbol], tb_balances := bs,
     tb_margin_manager_created := [\<lparr>event_digest = ''e'', digest = ''d'', sender = ''s'', checkpoint = 1,
       checkpoint_timestamp_ms = 1, package = ''p'', margin_manager_created_margin_manager_id = ''mm'',
       margin_manager_created_balance_manager_id = ''bm'', margin_manager_created_deepbook_pool_id = None,
       margin_manager_created_owner = ''w'', margin_manager_created_onchain_timestamp = 1\<rparr>]\<rparr>"

definition sui_wallet :: database where
  "sui_wallet = wallet_db ''0x2::sui::SUI'' ''SUI''
     [wallet_deposit ''1'' ''2::sui::SUI'' 7 True, wallet_deposit ''2'' ''2::sui::SUI'' 3 False]"

definition no_prices :: price_env where
  "no_prices = \<lparr>ohclv_1m = [], ohclv_1d = [], now_time = 0, numeric_div = (\<lambda>x y. x / y),
     statement_error = (\<lambda>_. None)\<rparr>"

theorem collateral_exact_witness:
  "collateral_query no_prices ''w'' sui_wallet = Inr [collateral_row no_prices sui_wallet (''SUI'', 6) 4]"
proof -
  have "assets_unique sui_wallet" by code_simp
  then obtain ks where ks: "distinct ks"
    "set ks = {k \<in> am_key ` set (asset_meta sui_wallet). 0 < key_deposit ''w'' sui_wallet k}"
    "collateral_query no_prices ''w'' sui_wallet = Inr (map (\<lambda>k. collateral_row no_prices sui_wallet k
       (key_deposit ''w'' sui_wallet k)) ks)"
    using collateral_exact by blast
  have "filter (\<lambda>k. 0 < key_deposit ''w'' sui_wallet k) (map am_key (asset_meta sui_wallet)) = [(''SUI'', 6)]" by code_simp
  then have "set ks = set [(''SUI'', 6)]" unfolding ks(2) set_map [symmetric] by (metis set_filter)
  with ks(1) have "ks = [(''SUI'', 6)]" by (cases ks rule: remdups_adj.cases) auto
  moreover have "key_deposit ''w'' sui_wallet (''SUI'', 6) = 4" by code_simp
  ultimately show ?thesis using ks(3) by simp
qed

text \<open>Without the assumption a deposit is counted more than once: a deposit of \<open>9::usd::USDC\<close> is reported
  as a balance of \<open>9::usd::USD\<close> too.\<close>

definition usd_wallet :: database where
  "usd_wallet = wallet_db ''0x9::usd::USD'' ''USD'' [wallet_deposit ''1'' ''9::usd::USDC'' 5 True]"

lemma collateral_counted_twice:
  "\<exists>x y. collateral_query pe ''w'' usd_wallet = Inr [x, y] \<and> cr_asset x = ''USD'' \<and> cr_asset y = ''USDC'' \<and>
     cr_balance x = cr_balance y"
proof -
  have "group_sum (\<lambda>(_, _, am). am_key am) (\<lambda>(b, _, _). signed_amount b) (collateral_join ''w'' usd_wallet) =
      [((''USD'', 6), 5), ((''USDC'', 6), 5)]" by code_simp
  then show ?thesis by (simp add: collateral_query_def)
qed

text \<open>An asset that has traded in the last two hours but has no daily candle yet is worth nothing.\<close>

lemma price_needs_daily: "s \<notin> fst ` set (daily_prices pe db) \<Longrightarrow> price_of pe db (Some s) = 0"
proof -
  assume "s \<notin> fst ` set (daily_prices pe db)"
  then have "map_of (latest_prices pe db) s = None" by (force simp: latest_prices_def map_of_eq_None_iff)
  then show ?thesis by (simp add: price_of_def)
qed

end
