(* ===== verification/Routes.thy ===== *)
theory Routes
  imports Admin Event_Endpoints Intervals Status Net_Deposits Market Accounts Portfolio
begin

text \<open>
  The routes of the public API (\<^verbatim>\<open>make_router\<close> in \<^verbatim>\<open>crates/server/src/server.rs\<close>, with its path
  constants), matched as those of the administration. A route leads to an \<open>endpoint\<close>: the handler with
  the extractors its signature asks for, as a function of the surroundings of the request, the
  parameters of its path and the text of its query.

  An answer is a status and a body; what \<^verbatim>\<open>serde\<close> makes of rows is left out, a body holds the rows
  themselves. A handler that panics answers nothing, and one that does not return \<open>Hangs\<close>.
\<close>

section \<open>Answers\<close>

datatype answer_body =
    Plain string
  | Json json
  | Rows_Pools "Pools list"
  | Rows_MarginManagerCreated "MarginManagerCreated list"
  | Rows_LoanBorrowed "LoanBorrowed list"
  | Rows_LoanRepaid "LoanRepaid list"
  | Rows_Liquidation "Liquidation list"
  | Rows_AssetSupplied "AssetSupplied list"
  | Rows_AssetWithdrawn "AssetWithdrawn list"
  | Rows_MarginPoolCreated "MarginPoolCreated list"
  | Rows_DeepbookPoolUpdated "DeepbookPoolUpdated list"
  | Rows_InterestParamsUpdated "InterestParamsUpdated list"
  | Rows_MarginPoolConfigUpdated "MarginPoolConfigUpdated list"
  | Rows_MaintainerCapUpdated "MaintainerCapUpdated list"
  | Rows_MaintainerFeesWithdrawn "MaintainerFeesWithdrawn list"
  | Rows_ProtocolFeesWithdrawn "ProtocolFeesWithdrawn list"
  | Rows_SupplierCapMinted "SupplierCapMinted list"
  | Rows_SupplyReferralMinted "SupplyReferralMinted list"
  | Rows_PauseCapUpdated "PauseCapUpdated list"
  | Rows_ProtocolFeesIncreasedEvent "ProtocolFeesIncreasedEvent list"
  | Rows_ReferralFeesClaimedEvent "ReferralFeesClaimedEvent list"
  | Rows_ReferralFeeEvent "ReferralFeeEvent list"
  | Rows_DeepbookPoolRegistered "DeepbookPoolRegistered list"
  | Rows_DeepbookPoolUpdatedRegistry "DeepbookPoolUpdatedRegistry list"
  | Rows_DeepbookPoolConfigUpdated "DeepbookPoolConfigUpdated list"
  | Rows_MarginManagerState "MarginManagerState list"
  | Rows_CollateralEvent "CollateralEvent list"
  | Rows_PoolCreated "PoolCreated list"
  | Row_BookParamsUpdated "BookParamsUpdated option"
  | Portfolio_Body PortfolioQueryResult
  | Orderbook_Body orderbook_data
  | Status_Body status_report
  | Fees_Body "(string, PoolFees) hash_map"

datatype outcome = Answer nat answer_body | Panics | Hangs

type_synonym api = "rpc_state \<Rightarrow> outcome \<times> rpc_state"

definition answer_of_response :: "response \<Rightarrow> outcome" where
  "answer_of_response r = Answer (fst r) (Plain (snd r))"

text \<open>\<open>Result<Json<T>, DeepBookError>\<close>, for a handler that returns, one that may panic, and one that
  may not return.\<close>

definition result_outcome :: "('a \<Rightarrow> answer_body) \<Rightarrow> DeepBookError + 'a \<Rightarrow> outcome" where
  "result_outcome f r = (case r of Inl e \<Rightarrow> answer_of_response (into_response e) | Inr x \<Rightarrow> Answer 200 (f x))"

definition json_answer :: "('a \<Rightarrow> answer_body) \<Rightarrow> 'a rpc \<Rightarrow> api" where
  "json_answer f m s = (case m s of (r, s') \<Rightarrow> (result_outcome f r, s'))"

definition panic_answer :: "('a \<Rightarrow> answer_body) \<Rightarrow> 'a may_panic \<Rightarrow> api" where
  "panic_answer f m s =
     (case m s of (r, s') \<Rightarrow> (case r of None \<Rightarrow> Panics | Some r \<Rightarrow> result_outcome f r, s'))"

definition loop_answer ::
  "('a \<Rightarrow> answer_body) \<Rightarrow> (rpc_state \<Rightarrow> ((DeepBookError + 'a) \<times> rpc_state) option) \<Rightarrow> api" where
  "loop_answer f m s =
     (case m s of None \<Rightarrow> (Hangs, s) | Some (r, s') \<Rightarrow> (result_outcome f r, s'))"

definition map_json :: "('v \<Rightarrow> json) \<Rightarrow> (string, 'v) hash_map \<Rightarrow> answer_body" where
  "map_json f m = Json (JObject (map (\<lambda>(k, v). (k, f v)) m))"

definition volume_json :: "(string, u64) hash_map \<Rightarrow> answer_body" where
  "volume_json = map_json (\<lambda>v. JInt (uint v))"

definition fills_json :: "(string, i64 list) hash_map \<Rightarrow> answer_body" where
  "fills_json = map_json (\<lambda>vs. JArray (map JInt vs))"

definition intervals_json :: "interval_volumes \<Rightarrow> answer_body" where
  "intervals_json = map_json (\<lambda>m. JObject (map (\<lambda>(k, vs). (k, JArray (map JInt vs))) m))"

definition objects_json :: "json_object list \<Rightarrow> answer_body" where
  "objects_json os = Json (JArray (map JObject os))"

definition points_json :: "(string \<times> i64) list \<Rightarrow> answer_body" where
  "points_json ps = objects_json
     (map (\<lambda>(a, n). [(''address'', JString a), (''total_points'', JInt n)]) ps)"

definition deposited_json :: "(string \<times> string list) list \<Rightarrow> answer_body" where
  "deposited_json ds = objects_json
     (map (\<lambda>(i, as). [(''balance_manager_id'', JString i), (''assets'', JArray (map JString as))]) ds)"

section \<open>Extractors\<close>

text \<open>What the handlers use besides the database: the services of other crates, and what a request
  meets. The decoders of a query (\<open>serde_urlencoded\<close>) reject with a response of their own.\<close>

record 't services =
  chain_services :: "'t chain_lib"
  candles :: ohclv_function
  numbers :: number_lib
  decode_params :: "string \<Rightarrow> response + params"
  decode_status_query :: "string \<Rightarrow> response + i64 option \<times> i64 option"
  decode_points_query :: "string \<Rightarrow> response + string option"

record 't surroundings =
  db_around :: db_env
  node_around :: "'t chain"
  now_around :: i64
  prices_around :: price_env
  writes_around :: write_env

type_synonym 't endpoint = "'t surroundings \<Rightarrow> string list \<Rightarrow> string \<Rightarrow> api"

definition reject :: "response \<Rightarrow> api" where "reject r s = (answer_of_response r, s)"

definition with_query :: "(string \<Rightarrow> response + 'a) \<Rightarrow> ('a \<Rightarrow> api) \<Rightarrow> string list \<Rightarrow> string \<Rightarrow> api" where
  "with_query decode f args q = (case decode q of Inl r \<Rightarrow> reject r | Inr x \<Rightarrow> f x)"

definition plain :: "api \<Rightarrow> string list \<Rightarrow> string \<Rightarrow> api" where "plain f args q = f"

definition wrong_args :: response where "wrong_args = (500, ''Wrong number of path arguments for `Path`'')"

definition path1 :: "(string \<Rightarrow> string list \<Rightarrow> string \<Rightarrow> api) \<Rightarrow> string list \<Rightarrow> string \<Rightarrow> api" where
  "path1 f args q = (case args of [a] \<Rightarrow> f a args q | _ \<Rightarrow> reject wrong_args)"

definition path2 :: "(string \<Rightarrow> string \<Rightarrow> string list \<Rightarrow> string \<Rightarrow> api) \<Rightarrow> string list \<Rightarrow> string \<Rightarrow> api" where
  "path2 f args q = (case args of [a, b] \<Rightarrow> f a b args q | _ \<Rightarrow> reject wrong_args)"

text \<open>\<open>#[serde(default = ..)]\<close>\<close>

definition status_params :: "i64 option \<times> i64 option \<Rightarrow> StatusQueryParams" where
  "status_params = (\<lambda>(lag, time).
     \<lparr>max_checkpoint_lag_param = unwrap_or default_max_checkpoint_lag lag,
      max_time_lag_seconds_param = unwrap_or default_max_time_lag_seconds time\<rparr>)"

section \<open>The routes\<close>

definition segments :: "string \<Rightarrow> string list" where "segments path = tl (split_on (CHR ''/'') path)"

definition route :: "string \<Rightarrow> 'h \<Rightarrow> string list \<times> (http_method \<times> 'h) list" where
  "route path handler = (segments path, [(GET, handler)])"

definition health_check :: "'t endpoint" where
  "health_check w = plain (\<lambda>s. (Answer 200 (Plain []), s))"

definition db_routes :: "'t services \<Rightarrow> 't endpoint routes" where
  "db_routes sv = (let query = with_query (decode_params sv) in
    [route ''/'' health_check,
     route ''/get_pools'' (\<lambda>w. plain (json_answer Rows_Pools (get_pools (db_around w)))),
     route ''/historical_volume/:pool_names'' (\<lambda>w. path1 (\<lambda>a. query (\<lambda>p. json_answer volume_json (historical_volume (db_around w) (now_around w) a p)))),
     route ''/all_historical_volume'' (\<lambda>w. query (\<lambda>p. json_answer volume_json (all_historical_volume (db_around w) (now_around w) p))),
     route ''/historical_volume_by_balance_manager_id_with_interval/:pool_names/:balance_manager_id'' (\<lambda>w. path2 (\<lambda>a b. query (\<lambda>p. loop_answer intervals_json
        (get_historical_volume_by_balance_manager_id_with_interval (db_around w) (now_around w) a b p)))),
     route ''/historical_volume_by_balance_manager_id/:pool_names/:balance_manager_id'' (\<lambda>w. path2 (\<lambda>a b. query (\<lambda>p. json_answer fills_json
        (get_historical_volume_by_balance_manager_id (db_around w) (now_around w) a b p)))),
     route ''/get_net_deposits/:asset_ids/:timestamp'' (\<lambda>w. path2 (\<lambda>a b. plain (json_answer (map_json JInt) (get_net_deposits (db_around w) a b)))),
     route ''/ticker'' (\<lambda>w. query (\<lambda>p. json_answer (map_json JObject) (ticker (db_around w) (now_around w) p))),
     route ''/trades/:pool_name'' (\<lambda>w. path1 (\<lambda>a. query (\<lambda>p. json_answer objects_json (trades (db_around w) (now_around w) a p)))),
     route ''/trade_count'' (\<lambda>w. query (\<lambda>p. json_answer (\<lambda>n. Json (JInt n)) (trade_count (db_around w) (now_around w) p))),
     route ''/order_updates/:pool_name'' (\<lambda>w. path1 (\<lambda>a. query (\<lambda>p. json_answer objects_json (order_updates (db_around w) (now_around w) a p)))),
     route ''/orders/:pool_name/:balance_manager_id'' (\<lambda>w. path2 (\<lambda>a b. query (\<lambda>p. json_answer objects_json (orders (db_around w) (now_around w) a b p)))),
     route ''/assets'' (\<lambda>w. plain (json_answer (map_json JObject) (assets (db_around w)))),
     route ''/ohclv/:pool_name'' (\<lambda>w. path1 (\<lambda>a. query (\<lambda>p. json_answer (\<lambda>o1. Json (JObject o1))
        (ohclv (candles sv) (db_around w) a p)))),
     route ''/margin_manager_created'' (\<lambda>w. query (\<lambda>p. json_answer Rows_MarginManagerCreated (margin_manager_created (db_around w) p))),
     route ''/loan_borrowed'' (\<lambda>w. query (\<lambda>p. json_answer Rows_LoanBorrowed (loan_borrowed (db_around w) (now_around w) p))),
     route ''/loan_repaid'' (\<lambda>w. query (\<lambda>p. json_answer Rows_LoanRepaid (loan_repaid (db_around w) (now_around w) p))),
     route ''/liquidation'' (\<lambda>w. query (\<lambda>p. json_answer Rows_Liquidation (liquidation (db_around w) (now_around w) p))),
     route ''/asset_supplied'' (\<lambda>w. query (\<lambda>p. json_answer Rows_AssetSupplied (asset_supplied (db_around w) (now_around w) p))),
     route ''/asset_withdrawn'' (\<lambda>w. query (\<lambda>p. json_answer Rows_AssetWithdrawn (asset_withdrawn (db_around w) (now_around w) p))),
     route ''/margin_pool_created'' (\<lambda>w. query (\<lambda>p. json_answer Rows_MarginPoolCreated (margin_pool_created (db_around w) p))),
     route ''/deepbook_pool_updated'' (\<lambda>w. query (\<lambda>p. json_answer Rows_DeepbookPoolUpdated (deepbook_pool_updated (db_around w) (now_around w) p))),
     route ''/interest_params_updated'' (\<lambda>w. query (\<lambda>p. json_answer Rows_InterestParamsUpdated (interest_params_updated (db_around w) (now_around w) p))),
     route ''/margin_pool_config_updated'' (\<lambda>w. query (\<lambda>p. json_answer Rows_MarginPoolConfigUpdated (margin_pool_config_updated (db_around w) (now_around w) p))),
     route ''/maintainer_cap_updated'' (\<lambda>w. query (\<lambda>p. json_answer Rows_MaintainerCapUpdated (maintainer_cap_updated (db_around w) (now_around w) p))),
     route ''/maintainer_fees_withdrawn'' (\<lambda>w. query (\<lambda>p. json_answer Rows_MaintainerFeesWithdrawn (maintainer_fees_withdrawn (db_around w) (now_around w) p))),
     route ''/protocol_fees_withdrawn'' (\<lambda>w. query (\<lambda>p. json_answer Rows_ProtocolFeesWithdrawn (protocol_fees_withdrawn (db_around w) (now_around w) p))),
     route ''/supplier_cap_minted'' (\<lambda>w. query (\<lambda>p. json_answer Rows_SupplierCapMinted (supplier_cap_minted (db_around w) (now_around w) p))),
     route ''/supply_referral_minted'' (\<lambda>w. query (\<lambda>p. json_answer Rows_SupplyReferralMinted (supply_referral_minted (db_around w) (now_around w) p))),
     route ''/pause_cap_updated'' (\<lambda>w. query (\<lambda>p. json_answer Rows_PauseCapUpdated (pause_cap_updated (db_around w) (now_around w) p))),
     route ''/protocol_fees_increased'' (\<lambda>w. query (\<lambda>p. json_answer Rows_ProtocolFeesIncreasedEvent (protocol_fees_increased (db_around w) (now_around w) p))),
     route ''/referral_fees_claimed'' (\<lambda>w. query (\<lambda>p. json_answer Rows_ReferralFeesClaimedEvent (referral_fees_claimed (db_around w) (now_around w) p))),
     route ''/referral_fee_events'' (\<lambda>w. query (\<lambda>p. json_answer Rows_ReferralFeeEvent (referral_fee_events (db_around w) (now_around w) p))),
     route ''/deepbook_pool_registered'' (\<lambda>w. query (\<lambda>p. json_answer Rows_DeepbookPoolRegistered (deepbook_pool_registered (db_around w) (now_around w) p))),
     route ''/deepbook_pool_updated_registry'' (\<lambda>w. query (\<lambda>p. json_answer Rows_DeepbookPoolUpdatedRegistry (deepbook_pool_updated_registry (db_around w) (now_around w) p))),
     route ''/deepbook_pool_config_updated'' (\<lambda>w. query (\<lambda>p. json_answer Rows_DeepbookPoolConfigUpdated (deepbook_pool_config_updated (db_around w) (now_around w) p))),
     route ''/margin_managers_info'' (\<lambda>w. plain (json_answer objects_json (margin_managers_info (db_around w)))),
     route ''/margin_manager_states'' (\<lambda>w. query (\<lambda>p. panic_answer Rows_MarginManagerState (margin_manager_states (numbers sv) (db_around w) p))),
     route ''/deposited_assets/:balance_manager_ids'' (\<lambda>w. path1 (\<lambda>a. plain (json_answer deposited_json (deposited_assets (db_around w) a)))),
     route ''/collateral_events'' (\<lambda>w. query (\<lambda>p. json_answer Rows_CollateralEvent (collateral_events (db_around w) (now_around w) p))),
     route ''/get_points'' (\<lambda>w. with_query (decode_points_query sv) (\<lambda>a. json_answer points_json (get_points (db_around w) a))),
     route ''/portfolio/:wallet_address'' (\<lambda>w. path1 (\<lambda>a. plain (json_answer Portfolio_Body (portfolio (prices_around w) (db_around w) a)))),
     route ''/pool_created'' (\<lambda>w. plain (json_answer Rows_PoolCreated (pool_created (db_around w)))),
     route ''/book_params_updated'' (\<lambda>w. query (\<lambda>p. json_answer Row_BookParamsUpdated (book_params_updated (db_around w) p)))])"

definition rpc_routes :: "'t services \<Rightarrow> app_config \<Rightarrow> 't endpoint routes" where
  "rpc_routes sv cfg = (let query = with_query (decode_params sv) in
    [route ''/orderbook/:pool_name'' (\<lambda>w. path1 (\<lambda>a. query (\<lambda>p. json_answer Orderbook_Body
        (orderbook (chain_services sv) (node_around w) cfg (db_around w) (now_around w) a p)))),
     route ''/deep_supply'' (\<lambda>w. plain (json_answer (\<lambda>n. Json (JInt (uint n)))
        (rpc_lift (deep_supply (chain_services sv) (node_around w) cfg)))),
     route ''/margin_supply'' (\<lambda>w. plain (json_answer volume_json (margin_supply (chain_services sv) (node_around w) cfg (db_around w)))),
     route ''/summary'' (\<lambda>w. plain (json_answer objects_json
        (summary (chain_services sv) (node_around w) cfg (db_around w) (now_around w)))),
     route ''/status'' (\<lambda>w. with_query (decode_status_query sv) (\<lambda>q. json_answer Status_Body
        (status (db_around w) (node_around w) (now_around w) (status_params q)))),
     route ''/fees'' (\<lambda>w. plain (json_answer Fees_Body (fees (chain_services sv) (node_around w) cfg (db_around w))))])"

definition api_routes :: "'t services \<Rightarrow> app_config \<Rightarrow> 't endpoint routes" where
  "api_routes sv cfg = db_routes sv @ rpc_routes sv cfg"

section \<open>Which route a path takes\<close>

text \<open>The patterns of the routes, apart from their handlers.\<close>

definition api_patterns :: "string list list" where
  "api_patterns = map segments
    [''/'',
     ''/get_pools'',
     ''/historical_volume/:pool_names'',
     ''/all_historical_volume'',
     ''/historical_volume_by_balance_manager_id_with_interval/:pool_names/:balance_manager_id'',
     ''/historical_volume_by_balance_manager_id/:pool_names/:balance_manager_id'',
     ''/get_net_deposits/:asset_ids/:timestamp'',
     ''/ticker'',
     ''/trades/:pool_name'',
     ''/trade_count'',
     ''/order_updates/:pool_name'',
     ''/orders/:pool_name/:balance_manager_id'',
     ''/assets'',
     ''/ohclv/:pool_name'',
     ''/margin_manager_created'',
     ''/loan_borrowed'',
     ''/loan_repaid'',
     ''/liquidation'',
     ''/asset_supplied'',
     ''/asset_withdrawn'',
     ''/margin_pool_created'',
     ''/deepbook_pool_updated'',
     ''/interest_params_updated'',
     ''/margin_pool_config_updated'',
     ''/maintainer_cap_updated'',
     ''/maintainer_fees_withdrawn'',
     ''/protocol_fees_withdrawn'',
     ''/supplier_cap_minted'',
     ''/supply_referral_minted'',
     ''/pause_cap_updated'',
     ''/protocol_fees_increased'',
     ''/referral_fees_claimed'',
     ''/referral_fee_events'',
     ''/deepbook_pool_registered'',
     ''/deepbook_pool_updated_registry'',
     ''/deepbook_pool_config_updated'',
     ''/margin_managers_info'',
     ''/margin_manager_states'',
     ''/deposited_assets/:balance_manager_ids'',
     ''/collateral_events'',
     ''/get_points'',
     ''/portfolio/:wallet_address'',
     ''/pool_created'',
     ''/book_params_updated'',
     ''/orderbook/:pool_name'',
     ''/deep_supply'',
     ''/margin_supply'',
     ''/summary'',
     ''/status'',
     ''/fees'']"

lemma api_routes_patterns: "map fst (api_routes sv cfg) = api_patterns"
  by (simp add: api_routes_def db_routes_def rpc_routes_def route_def api_patterns_def Let_def)

text \<open>The first segment of every route is literal and differs from that of every other route.\<close>

lemma api_pattern_heads:
  "distinct (map hd api_patterns) \<and>
   list_all (\<lambda>p. p \<noteq> [] \<and> \<not> starts_with (hd p) '':'') api_patterns"
  by code_simp

lemma match_head:
  "match_segments p path = Some args \<Longrightarrow> p \<noteq> [] \<Longrightarrow> \<not> starts_with (hd p) '':'' \<Longrightarrow> path \<noteq> [] \<and> hd path = hd p"
  by (cases p; cases path) (auto split: if_splits)

lemma api_route_pattern: "(p, hs) \<in> set (api_routes sv cfg) \<Longrightarrow> p \<in> set api_patterns"
  using api_routes_patterns [of sv cfg] by (metis fst_conv image_eqI set_map)

lemma api_routes_inj:
  assumes "r \<in> set (api_routes sv cfg)" and "r' \<in> set (api_routes sv cfg)" and "hd (fst r) = hd (fst r')"
  shows "r = r'"
proof -
  have "distinct (map (hd \<circ> fst) (api_routes sv cfg))"
    using api_pattern_heads by (simp flip: api_routes_patterns [of sv cfg])
  then have "inj_on (hd \<circ> fst) (set (api_routes sv cfg))" by (simp add: distinct_map)
  from inj_onD [OF this _ assms(1,2)] assms(3) show ?thesis by simp
qed

lemma api_routes_unambiguous:
  assumes "(p, hs) \<in> set (api_routes sv cfg)" and "(q, ks) \<in> set (api_routes sv cfg)"
    and "match_segments p path \<noteq> None" and "match_segments q path \<noteq> None"
  shows "(p, hs) = (q, ks)"
proof (rule api_routes_inj [OF assms(1,2)])
  show "hd (fst (p, hs)) = hd (fst (q, ks))"
    using assms api_pattern_heads by (auto simp: list_all_iff dest!: api_route_pattern match_head)
qed

lemma find_route_Some:
  "find_route rs path = Some (hs, args) \<Longrightarrow> \<exists>p. (p, hs) \<in> set rs \<and> match_segments p path = Some args"
  by (induction rs path rule: find_route.induct) (auto split: option.splits)

lemma find_route_None: "find_route rs path = None \<longleftrightarrow> (\<forall>(p, hs)\<in>set rs. match_segments p path = None)"
  by (induction rs path rule: find_route.induct) (auto split: option.splits)

end
