(* ===== verification/Server.thy ===== *)
theory Server
  imports Routes
begin

text \<open>
  The server as a whole (\<^verbatim>\<open>make_router\<close> in \<^verbatim>\<open>crates/server/src/server.rs\<close>, \<^verbatim>\<open>metrics/middleware.rs\<close>): a request goes
  through the middleware that counts it to the administration, nested below \<^verbatim>\<open>/admin\<close>, or to a
  route of the API. \<open>serve\<close> is one request, as a function from the state of the server to an outcome
  and the rest state; requests are served one after another, each in surroundings of its own. The queries of a request
  that hangs are not added to the state. CORS answers \<open>OPTIONS\<close> before the router; that
  method and \<open>HEAD\<close> are not modelled. A counter with labels is the multiset of the labels it was
  increased with.
\<close>

section \<open>Request metrics\<close>

record request_metrics =
  requests_received :: "string multiset"
  requests_succeeded :: "string multiset"
  requests_failed :: "(string \<times> nat) multiset"

definition no_requests :: request_metrics where
  "no_requests = \<lparr>requests_received = {#}, requests_succeeded = {#}, requests_failed = {#}\<rparr>"

text \<open>\<open>StatusCode::is_success\<close>\<close>

definition is_success :: "nat \<Rightarrow> bool" where "is_success code \<longleftrightarrow> 200 \<le> code \<and> code < 300"

text \<open>\<open>rest\<close> is the rest of the server. When it panics or does not return, what follows it is not run.\<close>

definition track_metrics ::
  "string option \<Rightarrow> ('s \<Rightarrow> outcome \<times> 's) \<Rightarrow> request_metrics \<times> 's \<Rightarrow> outcome \<times> request_metrics \<times> 's" where
  "track_metrics matched_path rest = (\<lambda>(m, st).
     let axum_route = unwrap_or ''/UNSUPPORTED'' matched_path;
         m = m\<lparr>requests_received := add_mset axum_route (requests_received m)\<rparr>;
         (response, st') = rest st
     in (response,
         (case response of
            Answer code _ \<Rightarrow>
              if is_success code
              then m\<lparr>requests_succeeded := add_mset axum_route (requests_succeeded m)\<rparr>
              else m\<lparr>requests_failed := add_mset (axum_route, code) (requests_failed m)\<rparr>
          | _ \<Rightarrow> m),
         st'))"

section \<open>The router\<close>

text \<open>\<open>AppState\<close>, with the parameters of the services it uses: \<open>app_check\<close> is the rate limiter, \<open>app_bodies\<close>
  decodes JSON bodies.\<close>

record ('t, 'l) app_state =
  app_services :: "'t services"
  app_config_of :: app_config
  app_admin_tokens :: "string list"
  app_check :: "'l \<Rightarrow> bool \<times> 'l"
  app_bodies :: body_lib

record request = admin_request +
  req_query :: string

record 'l server_state =
  administration :: "'l admin_state"
  rpc_side :: rpc_state
  counters :: request_metrics

definition not_found_answer :: outcome where "not_found_answer = Answer 404 (Plain [])"
definition method_not_allowed :: outcome where "method_not_allowed = Answer 405 (Plain [])"

definition api_request ::
  "('t, 'l) app_state \<Rightarrow> 't surroundings \<Rightarrow> request \<Rightarrow> api" where
  "api_request app w req s =
     (case find_route (api_routes (app_services app) (app_config_of app)) (req_path req) of
        None \<Rightarrow> (not_found_answer, s)
      | Some (hs, args) \<Rightarrow>
          (case map_of hs (req_method req) of
             None \<Rightarrow> (method_not_allowed, s)
           | Some h \<Rightarrow> h w args (req_query req) s))"

definition below_admin :: "string list \<Rightarrow> bool" where
  "below_admin path \<longleftrightarrow> (case path of [] \<Rightarrow> False | p # _ \<Rightarrow> p = ''admin'')"

definition make_router ::
  "('t, 'l) app_state \<Rightarrow> 't surroundings \<Rightarrow> request \<Rightarrow> 'l admin_state \<times> rpc_state \<Rightarrow>
   outcome \<times> 'l admin_state \<times> rpc_state" where
  "make_router app w req = (\<lambda>(ad, s).
     if below_admin (req_path req) then
       (case admin_routes (writes_around w) (app_bodies app) (app_admin_tokens app) (app_check app)
               (admin_request.truncate (req\<lparr>req_path := tl (req_path req)\<rparr>)) ad of
          (r, ad') \<Rightarrow> (answer_of_response r, ad', s))
     else (case api_request app w req s of (r, s') \<Rightarrow> (r, ad, s')))"

text \<open>\<open>MatchedPath\<close>: the pattern of the route.\<close>

definition pattern_string :: "string list \<Rightarrow> string" where
  "pattern_string p = concat (map (\<lambda>s. CHR ''/'' # s) p)"

definition matching :: "string list list \<Rightarrow> string list \<Rightarrow> string option" where
  "matching patterns path = map_option pattern_string (find (\<lambda>p. match_segments p path \<noteq> None) patterns)"

definition matched_path :: "('t, 'l) app_state \<Rightarrow> string list \<Rightarrow> string option" where
  "matched_path app path =
     (if below_admin path
      then map_option (\<lambda>p. ''/admin'' @ p) (matching ([''health''] # map fst protected_routes) (tl path))
      else matching (map fst (api_routes (app_services app) (app_config_of app))) path)"

definition serve ::
  "('t, 'l) app_state \<Rightarrow> 't surroundings \<times> request \<Rightarrow> 'l server_state \<Rightarrow> outcome \<times> 'l server_state" where
  "serve app = (\<lambda>(w, req) st.
     case track_metrics (matched_path app (req_path req)) (make_router app w req)
            (counters st, administration st, rpc_side st) of
       (r, m, ad, s) \<Rightarrow> (r, \<lparr>administration = ad, rpc_side = s, counters = m\<rparr>))"

section \<open>Runs of a machine\<close>

fun run_steps :: "('i \<Rightarrow> 's \<Rightarrow> 'o \<times> 's) \<Rightarrow> 'i list \<Rightarrow> 's \<Rightarrow> ('i \<times> 'o) list \<times> 's" where
  "run_steps step [] st = ([], st)"
| "run_steps step (i # is) st =
     (case step i st of (out, st') \<Rightarrow> (case run_steps step is st' of (tr, st'') \<Rightarrow> ((i, out) # tr, st'')))"

text \<open>A machine whose view \<open>view\<close> of its state is kept by \<open>note\<close> from the inputs and outputs alone, and
  one whose steps respect a preorder.\<close>

locale logged_machine =
  fixes step :: "'i \<Rightarrow> 's \<Rightarrow> 'o \<times> 's" and view :: "'s \<Rightarrow> 'v" and note_step :: "'i \<Rightarrow> 'o \<Rightarrow> 'v \<Rightarrow> 'v"
  assumes step_view: "step i st = (out, st') \<Longrightarrow> view st' = note_step i out (view st)"
begin

lemma run_view:
  "run_steps step is st = (tr, st') \<Longrightarrow>
   view st' = fold (\<lambda>(i, out). note_step i out) tr (view st) \<and> map fst tr = is"
  by (induction "is" arbitrary: st tr) (auto split: prod.splits dest: step_view)

end

locale growing_machine =
  fixes step :: "'i \<Rightarrow> 's \<Rightarrow> 'o \<times> 's" and below :: "'s \<Rightarrow> 's \<Rightarrow> bool"
  assumes below_refl: "below st st"
    and below_trans: "below st st' \<Longrightarrow> below st' st'' \<Longrightarrow> below st st''"
    and step_below: "step i st = (out, st') \<Longrightarrow> below st st'"
begin

lemma run_below: "run_steps step is st = (tr, st') \<Longrightarrow> below st st'"
proof (induction "is" arbitrary: st tr)
  case Nil
  then show ?case by (simp add: below_refl)
next
  case (Cons i "is")
  then show ?case by (auto split: prod.splits intro: below_trans dest: step_below)
qed

end

section \<open>The counters are the statistics of the log\<close>

definition route_label :: "('t, 'l) app_state \<Rightarrow> 't surroundings \<times> request \<Rightarrow> string" where
  "route_label app i = unwrap_or ''/UNSUPPORTED'' (matched_path app (req_path (snd i)))"

text \<open>The middleware around a handler whose outcome is known.\<close>

definition note_request ::
  "('t, 'l) app_state \<Rightarrow> 't surroundings \<times> request \<Rightarrow> outcome \<Rightarrow> request_metrics \<Rightarrow> request_metrics" where
  "note_request app i out m =
     fst (snd (track_metrics (matched_path app (req_path (snd i))) (\<lambda>u. (out, u)) (m, ())))"

lemma track_metrics_rest:
  "track_metrics path rest (m, st) = (r, m', st') \<Longrightarrow>
   rest st = (r, st') \<and> m' = fst (snd (track_metrics path (\<lambda>u. (r, u)) (m, ())))"
  by (auto simp: track_metrics_def Let_def split: prod.splits)

interpretation counted: logged_machine "serve app" counters "note_request app"
proof
  fix i st out st'
  assume "serve app i st = (out, st')"
  then show "counters st' = note_request app i out (counters st)"
    by (cases i) (auto simp: serve_def note_request_def split: prod.splits dest!: track_metrics_rest)
qed

fun answered_with :: "(nat \<Rightarrow> bool) \<Rightarrow> outcome \<Rightarrow> bool" where
  "answered_with P (Answer code _) \<longleftrightarrow> P code"
| "answered_with P _ \<longleftrightarrow> False"

text \<open>How many requests of a log went to a route with an outcome that fulfils \<open>P\<close>.\<close>

definition requests_of ::
  "('t, 'l) app_state \<Rightarrow> string \<Rightarrow> (outcome \<Rightarrow> bool) \<Rightarrow> (('t surroundings \<times> request) \<times> outcome) list \<Rightarrow> nat" where
  "requests_of app r P tr = length (filter (\<lambda>(i, out). route_label app i = r \<and> P out) tr)"

lemma note_request_counts:
  "count (requests_received (note_request app i out m)) r =
     count (requests_received m) r + (if route_label app i = r then 1 else 0)"
  "count (requests_succeeded (note_request app i out m)) r =
     count (requests_succeeded m) r + (if route_label app i = r \<and> answered_with is_success out then 1 else 0)"
  "count (requests_failed (note_request app i out m)) (r, c) =
     count (requests_failed m) (r, c) +
       (if route_label app i = r \<and> answered_with (\<lambda>code. code = c \<and> \<not> is_success code) out then 1 else 0)"
  by (cases out; auto simp: note_request_def track_metrics_def route_label_def Let_def)+

lemma fold_note_request_counts:
  "count (requests_received (fold (\<lambda>(i, out). note_request app i out) tr m)) r =
     count (requests_received m) r + requests_of app r (\<lambda>_. True) tr"
  "count (requests_succeeded (fold (\<lambda>(i, out). note_request app i out) tr m)) r =
     count (requests_succeeded m) r + requests_of app r (answered_with is_success) tr"
  "count (requests_failed (fold (\<lambda>(i, out). note_request app i out) tr m)) (r, c) =
     count (requests_failed m) (r, c) +
       requests_of app r (answered_with (\<lambda>code. code = c \<and> \<not> is_success code)) tr"
  unfolding requests_of_def
  by (induction tr arbitrary: m; auto simp: note_request_counts split_beta)+

text \<open>C14: the request metrics are the statistics of the requests: after any run of requests, whatever
  each of them met, a route has been received as often as a request took it, succeeded as often as
  such a request was answered with a 2xx status, and failed with a code as often as one was answered with
  that code. Requests whose handler panics or hangs are received and nothing else; requests without a
  route are counted together.\<close>

theorem request_counters:
  assumes "run_steps (serve app) inputs st = (tr, st')" and "counters st = no_requests"
  shows "map fst tr = inputs \<and>
    count (requests_received (counters st')) r = requests_of app r (\<lambda>_. True) tr \<and>
    count (requests_succeeded (counters st')) r = requests_of app r (answered_with is_success) tr \<and>
    count (requests_failed (counters st')) (r, c) =
      requests_of app r (answered_with (\<lambda>code. code = c \<and> \<not> is_success code)) tr"
  using counted.run_view [OF assms(1)] assms(2)
  by (simp add: fold_note_request_counts no_requests_def)

section \<open>Which requests are answered\<close>

text \<open>\<open>avoids bad m\<close>: the outcome \<open>bad\<close>, which is no answer, does not occur.\<close>

definition avoids :: "outcome \<Rightarrow> api \<Rightarrow> bool" where
  "avoids bad m \<longleftrightarrow> bad \<in> {Panics, Hangs} \<longrightarrow> (\<forall>s. fst (m s) \<noteq> bad)"

lemma result_outcome_answers [simp]: "result_outcome f r \<noteq> Panics" "result_outcome f r \<noteq> Hangs"
  by (simp_all add: result_outcome_def answer_of_response_def split: sum.split)

lemma avoids_json [simp]: "avoids bad (json_answer f m)"
  by (auto simp: avoids_def json_answer_def split_beta)

lemma avoids_panic [simp]: "avoids Hangs (panic_answer f m)"
  by (simp add: avoids_def panic_answer_def split_beta split: option.split)

lemma avoids_loop [simp]: "avoids Panics (loop_answer f m)"
  by (simp add: avoids_def loop_answer_def split: option.split prod.split)

lemma avoids_reject [simp]: "avoids bad (reject r)"
  by (auto simp: avoids_def reject_def answer_of_response_def)

lemma avoids_query [simp]: "(\<And>x. avoids bad (f x)) \<Longrightarrow> avoids bad (with_query decode f args q)"
  by (simp add: with_query_def split: sum.split)

lemma avoids_plain [simp]: "avoids bad f \<Longrightarrow> avoids bad (plain f args q)"
  by (simp add: plain_def)

lemma avoids_path1 [simp]: "(\<And>a args. avoids bad (f a args q)) \<Longrightarrow> avoids bad (path1 f args q)"
  by (simp add: path1_def split: list.split)

lemma avoids_path2 [simp]: "(\<And>a b args. avoids bad (f a b args q)) \<Longrightarrow> avoids bad (path2 f args q)"
  by (simp add: path2_def split: list.split)

lemma avoids_health [simp]: "avoids bad (health_check w args q)"
  by (auto simp: health_check_def avoids_def plain_def)

definition panicking_route :: string where "panicking_route = ''margin_manager_states''"
definition looping_route :: string where
  "looping_route = ''historical_volume_by_balance_manager_id_with_interval''"

text \<open>Only one route may panic, and only one may hang.\<close>

definition route_ok :: "string list \<times> (http_method \<times> 't endpoint) list \<Rightarrow> bool" where
  "route_ok = (\<lambda>(p, hs). \<forall>(m, h)\<in>set hs. \<forall>w args q.
     (hd p = panicking_route \<or> avoids Panics (h w args q)) \<and> (hd p = looping_route \<or> avoids Hangs (h w args q)))"

lemma route_ok_route:
  "route_ok (route path h) \<longleftrightarrow> (\<forall>w args q.
     (hd (segments path) = panicking_route \<or> avoids Panics (h w args q)) \<and>
     (hd (segments path) = looping_route \<or> avoids Hangs (h w args q)))"
  by (simp add: route_ok_def route_def)

lemma api_routes_ok: "list_all route_ok (api_routes sv cfg)"
proof -
  have "hd (segments ''/margin_manager_states'') = panicking_route"
    "hd (segments ''/historical_volume_by_balance_manager_id_with_interval/:pool_names/:balance_manager_id'') = looping_route"
    by code_simp+
  then show ?thesis
    by (simp add: api_routes_def db_routes_def rpc_routes_def Let_def route_ok_route)
qed

lemma api_routes_get: "list_all (\<lambda>r. \<forall>mh\<in>set (snd r). fst mh = GET) (api_routes sv cfg)"
  by (simp add: api_routes_def db_routes_def rpc_routes_def Let_def route_def)

lemma matched_head:
  assumes "(p, hs) \<in> set (api_routes sv cfg)" and "match_segments p path = Some args"
  shows "hd p = hd path"
proof -
  have "p \<noteq> []" "\<not> starts_with (hd p) '':''"
    using api_route_pattern [OF assms(1)] api_pattern_heads by (auto simp: list_all_iff)
  from match_head [OF assms(2) this] show ?thesis by simp
qed

lemma api_request_handler:
  assumes "fst (api_request app w req s) = bad" and "bad = Panics \<or> bad = Hangs"
  shows "\<exists>p hs args h. (p, hs) \<in> set (api_routes (app_services app) (app_config_of app)) \<and>
     match_segments p (req_path req) = Some args \<and> (req_method req, h) \<in> set hs \<and>
     fst (h w args (req_query req) s) = bad"
proof -
  obtain hs args where r: "find_route (api_routes (app_services app) (app_config_of app)) (req_path req) = Some (hs, args)"
    using assms by (auto simp: api_request_def not_found_answer_def split: option.splits)
  moreover obtain h where "map_of hs (req_method req) = Some h" "fst (h w args (req_query req) s) = bad"
    using assms r by (auto simp: api_request_def method_not_allowed_def split: option.splits)
  ultimately show ?thesis using find_route_Some map_of_SomeD by fast
qed

lemma api_request_outcome:
  assumes "fst (api_request app w req s) = bad" and "bad = Panics \<or> bad = Hangs"
  shows "hd (req_path req) = (if bad = Panics then panicking_route else looping_route) \<and> req_method req = GET"
proof -
  obtain p hs args h where p: "(p, hs) \<in> set (api_routes (app_services app) (app_config_of app))"
    "match_segments p (req_path req) = Some args" and m: "(req_method req, h) \<in> set hs"
    and h: "fst (h w args (req_query req) s) = bad"
    using api_request_handler [OF assms] by blast
  from p(1) have "route_ok (p, hs)" using api_routes_ok [of "app_services app" "app_config_of app"]
    by (auto simp: list_all_iff)
  with m have "hd p = (if bad = Panics then panicking_route else looping_route)"
    using h assms(2) by (fastforce simp: route_ok_def avoids_def)
  moreover have "hd p = hd (req_path req)" using p by (rule matched_head)
  moreover have "req_method req = GET"
    using p(1) m api_routes_get [of "app_services app" "app_config_of app"] by (fastforce simp: list_all_iff)
  ultimately show ?thesis by simp
qed

text \<open>The handlers of the two routes.\<close>

lemma handler_of:
  assumes "route path h \<in> set (api_routes sv cfg)" and "(p, hs) \<in> set (api_routes sv cfg)"
    and "hd p = hd (segments path)"
  shows "hs = [(GET, h)]"
  using api_routes_inj [OF assms(2,1)] assms(3) by (simp add: route_def)

lemma panicking_handler:
  assumes "(p, hs) \<in> set (api_routes sv cfg)" and "hd p = panicking_route"
  shows "hs = [(GET, \<lambda>w. with_query (decode_params sv)
      (\<lambda>p. panic_answer Rows_MarginManagerState (margin_manager_states (numbers sv) (db_around w) p)))]"
proof (rule handler_of [OF _ assms(1)])
  show "hd p = hd (segments ''/margin_manager_states'')" unfolding assms(2) by code_simp
qed (simp add: api_routes_def db_routes_def Let_def)

lemma looping_handler:
  assumes "(p, hs) \<in> set (api_routes sv cfg)" and "hd p = looping_route"
  shows "hs = [(GET, \<lambda>w. path2 (\<lambda>a b. with_query (decode_params sv) (\<lambda>p. loop_answer intervals_json
      (get_historical_volume_by_balance_manager_id_with_interval (db_around w) (now_around w) a b p))))]"
proof (rule handler_of [OF _ assms(1)])
  show "hd p = hd (segments ''/historical_volume_by_balance_manager_id_with_interval/:pool_names/:balance_manager_id'')"
    unfolding assms(2) by code_simp
qed (simp add: api_routes_def db_routes_def Let_def)

text \<open>C10: every request is answered, with two exceptions, and neither touches the administration. The
  handler panics only on the route of margin manager states, with a risk ratio that reads as a number
  which is not finite. A request hangs only on the route of volumes by interval, with a positive
  interval whose milliseconds wrap to 0 or below, or reach from the end of the window past 64 bits.\<close>

theorem server_answers:
  assumes "serve app (w, req) st = (out, st')" and "out = Panics \<or> out = Hangs"
  shows "req_method req = GET \<and> administration st' = administration st \<and>
    (\<exists>p. decode_params (app_services app) (req_query req) = Inr p \<and>
      (if out = Panics
       then hd (req_path req) = panicking_route \<and>
         (\<exists>x. Option.bind (p ''max_risk_ratio'') (f64_from_str (numbers (app_services app))) = Some x \<and> \<not> is_finite x)
       else hd (req_path req) = looping_route \<and>
         (let interval = unwrap_or 3600 (param_i64 ''interval'' p); d = i64_mul interval 1000
          in 0 < interval \<and> (d \<le> 0 \<or> \<not> in_i64 (param_end_time (now_around w) p + d)))))"
proof -
  let ?sv = "app_services app" and ?cfg = "app_config_of app"
  have "make_router app w req (administration st, rpc_side st) = (out, administration st', rpc_side st')"
    using assms(1) by (auto simp: serve_def split: prod.splits dest!: track_metrics_rest)
  then have r: "fst (api_request app w req (rpc_side st)) = out" "administration st' = administration st"
    using assms(2) by (auto simp: make_router_def answer_of_response_def split: prod.splits if_splits)
  then obtain p hs args h where h: "(p, hs) \<in> set (api_routes ?sv ?cfg)" "match_segments p (req_path req) = Some args"
    "(req_method req, h) \<in> set hs" "fst (h w args (req_query req) (rpc_side st)) = out"
    using api_request_handler [OF r(1) assms(2)] by blast
  from matched_head [OF h(1,2)] have hd: "hd p = hd (req_path req)" .
  note o = api_request_outcome [OF r(1) assms(2)]
  show ?thesis
  proof (cases "out = Panics")
    case True
    then have "hd p = panicking_route" using o hd by simp
    from panicking_handler [OF h(1) this] h(3,4) True show ?thesis
      using o r(2) margin_manager_states_panics [of "numbers ?sv" "db_around w" _ "rpc_side st"]
      by (auto simp: with_query_def panic_answer_def reject_def answer_of_response_def split_beta
          split: sum.splits option.splits)
  next
    case False
    then have "hd p = looping_route" using o hd assms(2) by simp
    from looping_handler [OF h(1) this] h(3,4) False assms(2) show ?thesis
      using o r(2) interval_request_terminates [of "db_around w" "now_around w" _ _ _ "rpc_side st"]
      by (auto simp: with_query_def path2_def loop_answer_def reject_def answer_of_response_def Let_def
          split: sum.splits option.splits list.splits)
  qed
qed

section \<open>A request for a route\<close>

lemma find_api_route:
  assumes "(p, hs) \<in> set (api_routes sv cfg)" and "match_segments p path = Some args"
  shows "find_route (api_routes sv cfg) path = Some (hs, args)"
proof -
  obtain hs' args' where r: "find_route (api_routes sv cfg) path = Some (hs', args')"
    using assms find_route_None [of "api_routes sv cfg" path] by (cases "find_route (api_routes sv cfg) path") auto
  then obtain q where q: "(q, hs') \<in> set (api_routes sv cfg)" "match_segments q path = Some args'"
    using find_route_Some by blast
  with assms api_routes_unambiguous [OF assms(1) q(1), of path] r show ?thesis by simp
qed

lemma api_request_route:
  assumes "route path h \<in> set (api_routes (app_services app) (app_config_of app))"
    and "match_segments (segments path) (req_path req) = Some args" and "req_method req = GET"
  shows "api_request app w req s = h w args (req_query req) s"
  using find_api_route [OF assms(1) [unfolded route_def] assms(2)] assms(3)
  by (simp add: api_request_def)

lemma serve_api:
  assumes "\<not> below_admin (req_path req)"
  shows "fst (serve app (w, req) st) = fst (api_request app w req (rpc_side st))"
    and "administration (snd (serve app (w, req) st)) = administration st"
  using assms by (simp_all add: serve_def make_router_def track_metrics_def Let_def split_beta)

lemma serve_admin:
  assumes "below_admin (req_path req)"
    and "admin_routes (writes_around w) (app_bodies app) (app_admin_tokens app) (app_check app)
       (admin_request.truncate (req\<lparr>req_path := tl (req_path req)\<rparr>)) (administration st) = (r, ad)"
  shows "fst (serve app (w, req) st) = answer_of_response r"
    and "administration (snd (serve app (w, req) st)) = ad"
  using assms by (simp_all add: serve_def make_router_def track_metrics_def Let_def split_beta)

section \<open>What a server does to the tables\<close>

abbreviation tables_of :: "'l server_state \<Rightarrow> database" where
  "tables_of st \<equiv> tables (administration st)"

lemma serve_only_adds: "serve app i st = (out, st') \<Longrightarrow> only_adds (tables_of st) (tables_of st')"
proof -
  assume r: "serve app i st = (out, st')"
  obtain w req where i: "i = (w, req)" by fastforce
  show ?thesis
  proof (cases "below_admin (req_path req)")
    case True
    obtain resp ad where a: "admin_routes (writes_around w) (app_bodies app) (app_admin_tokens app) (app_check app)
       (admin_request.truncate (req\<lparr>req_path := tl (req_path req)\<rparr>)) (administration st) = (resp, ad)" by fastforce
    from serve_admin(2) [OF True a] r i have "administration st' = ad" by (simp add: i)
    with admin_only_adds [OF a] show ?thesis by simp
  next
    case False
    from serve_api(2) [OF this, of app w st] r i show ?thesis by simp
  qed
qed

interpretation growing: growing_machine "serve app" "\<lambda>st st'. only_adds (tables_of st) (tables_of st')"
  by unfold_locales (auto intro: only_adds_trans serve_only_adds)

text \<open>A request that may write: one below \<open>/admin\<close> that carries a configured token.\<close>

definition may_write :: "('t, 'l) app_state \<Rightarrow> 't surroundings \<times> request \<Rightarrow> bool" where
  "may_write app i \<longleftrightarrow> below_admin (req_path (snd i)) \<and>
     authorized (app_admin_tokens app) (admin_request.truncate (snd i))"

lemma serve_unauthorized:
  assumes "\<not> may_write app i"
  shows "tables_of (snd (serve app i st)) = tables_of st"
proof (cases "below_admin (req_path (snd i))")
  case True
  let ?req = "admin_request.truncate ((snd i)\<lparr>req_path := tl (req_path (snd i))\<rparr>)"
  obtain resp ad where a: "admin_routes (writes_around (fst i)) (app_bodies app) (app_admin_tokens app) (app_check app)
     ?req (administration st) = (resp, ad)" by fastforce
  have "\<not> authorized (app_admin_tokens app) ?req"
    using assms True by (simp add: may_write_def authorized_def admin_request.truncate_def)
  from admin_unauthorized [OF a this] serve_admin(2) [OF True a] show ?thesis by simp
next
  case False
  from serve_api(2) [OF this, of app "fst i" st] show ?thesis by simp
qed

lemma run_unauthorized:
  assumes "run_steps (serve app) inputs st = (tr, st')" and "\<forall>i\<in>set inputs. \<not> may_write app i"
  shows "tables_of st' = tables_of st"
  using assms
proof (induction inputs arbitrary: st tr)
  case (Cons i inputs)
  obtain o1 st1 where s: "serve app i st = (o1, st1)" by fastforce
  with Cons.prems obtain tr1 where "run_steps (serve app) inputs st1 = (tr1, st')"
    by (auto split: prod.splits)
  with Cons serve_unauthorized [of app i st] s show ?case by auto
qed simp

text \<open>C12: whatever requests are sent, in whatever order and with whatever tokens, the server only ever
  adds pools and assets: no pool or asset is changed or removed, no other table is touched, and the
  keys stay unique. If no request for the administration carries a configured token, no
  table changes at all.\<close>

theorem server_only_adds:
  assumes "run_steps (serve app) inputs st = (tr, st')"
  shows "only_adds (tables_of st) (tables_of st') \<and>
    ((\<forall>i\<in>set inputs. \<not> may_write app i) \<longrightarrow> tables_of st' = tables_of st)"
  using growing.run_below [OF assms] run_unauthorized [OF assms] by blast

section \<open>A pool that was created is served\<close>

text \<open>The server and the other writers of the database: a request reads the tables as they are while
  it is served, and between two requests the indexer changes event tables.\<close>

definition reads_tables :: "'t surroundings \<Rightarrow> 'l server_state \<Rightarrow> bool" where
  "reads_tables w st \<longleftrightarrow> contents (db_around w) = (\<lambda>_. tables_of st)"

definition set_tables :: "database \<Rightarrow> 'l server_state \<Rightarrow> 'l server_state" where
  "set_tables db st = st\<lparr>administration := (administration st)\<lparr>tables := db\<rparr>\<rparr>"

inductive world_step :: "('t, 'l) app_state \<Rightarrow> 'l server_state \<Rightarrow> 'l server_state \<Rightarrow> bool" for app where
  requested: "reads_tables w st \<Longrightarrow> world_step app st (snd (serve app (w, req) st))"
| indexed: "tb_pools db = tb_pools (tables_of st) \<Longrightarrow> tb_assets db = tb_assets (tables_of st) \<Longrightarrow>
    world_step app st (set_tables db st)"

lemma world_step_pools:
  "(world_step app)\<^sup>*\<^sup>* st st' \<Longrightarrow> keys_unique (tables_of st) \<Longrightarrow>
   keys_unique (tables_of st') \<and> (\<exists>ps. tb_pools (tables_of st') = tb_pools (tables_of st) @ ps)"
proof (induction rule: rtranclp_induct)
  case (step st1 st2)
  from step.hyps(2) show ?case
  proof (cases rule: world_step.cases)
    case (requested w req)
    then have "serve app (w, req) st1 = (fst (serve app (w, req) st1), st2)" by simp
    from serve_only_adds [OF this] step.IH step.prems show ?thesis by (auto simp: only_adds_def)
  next
    case (indexed db)
    with step.IH step.prems show ?thesis by (auto simp: set_tables_def keys_unique_def)
  qed
qed simp

lemma admin_create_pool:
  assumes "req_method req = POST" and "req_path req = [''pools'']" and "decode_create_pool lib (req_body req) = Inr cp"
  shows "admin_routes env lib tokens check req st =
    (if authorized tokens req then respond ''created'' (writer_create_pool env cp st)
     else auth_failure_rate_limited check st)"
  using assms by (simp add: admin_routes_def protected_routes_def require_admin_auth_cases with_body_def)

lemma serve_create_pool:
  assumes "req_method req = POST" and "req_path req = [''admin'', ''pools'']"
    and "decode_create_pool (app_bodies app) (req_body req) = Inr cp"
    and "serve app (w, req) st = (Answer 200 body, st')"
  shows "tb_pools (tables_of st') = tb_pools (tables_of st) @ [new_pool cp]"
proof -
  let ?req = "admin_request.truncate (req\<lparr>req_path := tl (req_path req)\<rparr>)"
  obtain r ad where a: "admin_routes (writes_around w) (app_bodies app) (app_admin_tokens app) (app_check app) ?req
      (administration st) = (r, ad)" by fastforce
  have "below_admin (req_path req)" by (simp add: assms(2) below_admin_def)
  note s = serve_admin [OF this a]
  have r: "fst r = 200" "tables_of st' = tables ad" using s assms(4) by (auto simp: answer_of_response_def)
  have "req_method ?req = POST" "req_path ?req = [''pools'']" "decode_create_pool (app_bodies app) (req_body ?req) = Inr cp"
    using assms(1-3) by (simp_all add: admin_request.truncate_def)
  note admin_create_pool [OF this, of "writes_around w" "app_admin_tokens app" "app_check app" "administration st"]
  with a r show ?thesis
    by (auto simp: auth_failure_rate_limited_def respond_def admin_response_def into_response_def
        writer_create_pool_def write_request_def Let_def insert_pool_def error_constructors
        split: if_splits option.splits sum.splits prod.splits DeepBookError.splits)
qed

lemma serve_get_pools:
  assumes "req_method req = GET" and "req_path req = [''get_pools'']" and "reads_tables w st"
    and "serve app (w, req) st = (Answer 200 body, st')"
  shows "body = Rows_Pools (tb_pools (tables_of st))"
proof -
  let ?h = "\<lambda>w :: 'a surroundings. plain (json_answer Rows_Pools (get_pools (db_around w)))"
  have "route ''/get_pools'' ?h \<in> set (api_routes (app_services app) (app_config_of app))"
    by (simp add: api_routes_def db_routes_def Let_def)
  moreover have "match_segments (segments ''/get_pools'') [''get_pools''] = Some []" by code_simp
  ultimately have "api_request app w req s = json_answer Rows_Pools (get_pools (db_around w)) s" for s
    using api_request_route [of "''/get_pools''" ?h app req "[]"] assms(1,2) by (simp add: plain_def)
  moreover have "\<not> below_admin (req_path req)" by (simp add: assms(2) below_admin_def)
  ultimately have "fst (json_answer Rows_Pools (get_pools (db_around w)) (rpc_side st)) = Answer 200 body"
    using serve_api(1) [of req app w st] assms(4) by simp
  moreover have "fst (into_response e) \<noteq> 200" for e by (cases e) (simp_all add: into_response_def)
  ultimately show ?thesis using assms(3)
    by (auto simp: json_answer_def get_pools_def results_def db_request_def run_query_def Let_def
        result_outcome_def answer_of_response_def reads_tables_def split: option.splits)
qed

lemma filter_own_key:
  assumes "distinct (map f (xs @ x # ys))"
  shows "filter (\<lambda>y. f y = f x) (xs @ x # ys) = [x]"
proof -
  have "f x \<notin> f ` set xs" "f x \<notin> f ` set ys" using assms by auto
  then have "filter (\<lambda>y. f y = f x) xs = []" "filter (\<lambda>y. f y = f x) ys = []"
    by (simp_all add: filter_empty_conv) (metis image_eqI)+
  then show ?thesis by simp
qed

lemma new_pool_id [simp]: "pools_pool_id (new_pool cp) = cp_pool_id cp"
  by (simp add: new_pool_def)

text \<open>C5: a pool that the administration created is served from then on: when a request to create it
  was answered with 200, then after any further requests, and whatever the indexer does meanwhile,
  every answer of \<open>get_pools\<close> with 200 holds exactly one pool of that id, with the values of the
  request.\<close>

theorem created_pool_listed:
  assumes "keys_unique (tables_of st)"
    and "req_method create = POST" and "req_path create = [''admin'', ''pools'']"
    and "decode_create_pool (app_bodies app) (req_body create) = Inr cp"
    and "serve app (w, create) st = (Answer 200 body, st1)"
    and "(world_step app)\<^sup>*\<^sup>* st1 st2"
    and "req_method query = GET" and "req_path query = [''get_pools'']" and "reads_tables w' st2"
    and "serve app (w', query) st2 = (Answer 200 body', st3)"
  shows "\<exists>ps. body' = Rows_Pools ps \<and> filter (\<lambda>p. pools_pool_id p = cp_pool_id cp) ps = [new_pool cp]"
proof (intro exI conjI)
  show "body' = Rows_Pools (tb_pools (tables_of st2))" using assms(7-10) by (rule serve_get_pools)
  have k1: "keys_unique (tables_of st1)"
    using serve_only_adds [OF assms(5)] assms(1) by (simp add: only_adds_def)
  from world_step_pools [OF assms(6) k1] obtain ps where
    "tb_pools (tables_of st2) = tb_pools (tables_of st) @ new_pool cp # ps" and k2: "keys_unique (tables_of st2)"
    using serve_create_pool [OF assms(2-5)] by auto
  then show "filter (\<lambda>p. pools_pool_id p = cp_pool_id cp) (tb_pools (tables_of st2)) = [new_pool cp]"
    using filter_own_key [of pools_pool_id "tb_pools (tables_of st)" "new_pool cp" ps]
    by (simp only: keys_unique_def new_pool_id)
qed

section \<open>Examples\<close>

definition example_services :: "string services" where
  "example_services = \<lparr>chain_services = example_lib, candles = (\<lambda>_ _ _ _ _ _. Inr []),
     numbers = \<lparr>f64_from_str = (\<lambda>_. Some F64_NaN), shortest_decimal = id\<rparr>,
     decode_params = (\<lambda>_. Inr [''max_risk_ratio'' \<mapsto> ''NaN'']),
     decode_status_query = (\<lambda>_. Inr (None, None)), decode_points_query = (\<lambda>_. Inr None)\<rparr>"

definition example_app :: "(string, nat) app_state" where
  "example_app = \<lparr>app_services = example_services, app_config_of = example_config,
     app_admin_tokens = [''secret''], app_check = count_down, app_bodies = example_bodies\<rparr>"

definition example_around :: "database \<Rightarrow> string surroundings" where
  "example_around db = \<lparr>db_around = steady_env db, node_around = example_chain, now_around = 0,
     prices_around = \<lparr>ohclv_1m = [], ohclv_1d = [], now_time = 0, numeric_div = (/),
       statement_error = (\<lambda>_. None)\<rparr>, writes_around = no_write_errors\<rparr>"

definition example_get :: "string list \<Rightarrow> request" where
  "example_get path = \<lparr>req_method = GET, req_path = path, req_authorization = None, req_body = [], req_query = []\<rparr>"

definition example_post :: "string \<Rightarrow> request" where
  "example_post token = \<lparr>req_method = POST, req_path = [''admin'', ''pools''],
     req_authorization = Some (''Bearer '' @ token), req_body = [], req_query = []\<rparr>"

definition example_server :: "nat server_state" where
  "example_server = \<lparr>administration = example_admin, rpc_side = fresh_state, counters = no_requests\<rparr>"

theorem request_counters_witness:
  "count (requests_succeeded (counters (snd (run_steps (serve example_app)
     [(example_around empty_database, example_get [''admin'', ''health''])] example_server)))) ''/admin/health'' = 1"
proof -
  let ?i = "(example_around empty_database, example_get [''admin'', ''health''])"
  obtain tr st' where r: "run_steps (serve example_app) [?i] example_server = (tr, st')" by fastforce
  have "fst (serve example_app ?i example_server) = Answer 200 (Plain ''admin_ok'')"
    by (simp add: serve_def track_metrics_def make_router_def below_admin_def example_get_def admin_routes_def
        admin_request.truncate_def answer_of_response_def Let_def split_beta)
  then have tr: "tr = [(?i, Answer 200 (Plain ''admin_ok''))]" using r by (auto split: prod.splits)
  have "route_label example_app ?i = ''/admin/health''"
    by (simp add: route_label_def matched_path_def below_admin_def example_get_def matching_def pattern_string_def)
  with tr have "requests_of example_app ''/admin/health'' (answered_with is_success) tr = 1"
    by (simp add: requests_of_def is_success_def)
  with request_counters [OF r] show ?thesis unfolding r by (simp add: example_server_def)
qed

theorem server_answers_witness:
  "\<exists>p. decode_params example_services [] = Inr p \<and>
     (\<exists>x. Option.bind (p ''max_risk_ratio'') (f64_from_str (numbers example_services)) = Some x \<and> \<not> is_finite x)"
proof -
  let ?w = "example_around empty_database" and ?req = "example_get [''margin_manager_states'']"
  let ?h = "\<lambda>w :: string surroundings. with_query (decode_params example_services)
      (\<lambda>p. panic_answer Rows_MarginManagerState (margin_manager_states (numbers example_services) (db_around w) p))"
  have s: "app_services example_app = example_services" by (simp add: example_app_def)
  have "route ''/margin_manager_states'' ?h \<in> set (api_routes (app_services example_app) (app_config_of example_app))"
    by (simp add: api_routes_def db_routes_def Let_def s)
  moreover have "match_segments (segments ''/margin_manager_states'') (req_path ?req) = Some []"
    unfolding example_get_def by code_simp
  moreover have "req_method ?req = GET" by (simp add: example_get_def)
  ultimately have "api_request example_app ?w ?req fresh_state = ?h ?w [] [] fresh_state"
    using api_request_route [of "''/margin_manager_states''" ?h example_app ?req "[]" ?w fresh_state]
    by (simp add: example_get_def)
  moreover have "fst (?h ?w [] [] fresh_state) = Panics"
    using margin_manager_states_panics [of "numbers example_services" "steady_env empty_database"
        "[''max_risk_ratio'' \<mapsto> ''NaN'']" fresh_state]
    by (simp add: with_query_def panic_answer_def example_services_def example_around_def split_beta)
  moreover have "\<not> below_admin (req_path ?req)" by (simp add: below_admin_def example_get_def)
  ultimately have "fst (serve example_app (?w, ?req) example_server) = Panics"
    using serve_api(1) [of ?req example_app ?w example_server] by (simp add: example_server_def)
  then obtain st' where "serve example_app (?w, ?req) example_server = (Panics, st')" by (metis prod.collapse)
  from server_answers [OF this] show ?thesis by (auto simp: s example_get_def)
qed

lemma example_created:
  "serve example_app (example_around empty_database, example_post ''secret'') example_server =
     (Answer 200 (Plain ''{\"status\":\"created\"}''),
      snd (serve example_app (example_around empty_database, example_post ''secret'') example_server))"
proof -
  let ?w = "example_around empty_database" and ?req = "example_post ''secret''"
  let ?ar = "admin_request.truncate (?req\<lparr>req_path := tl (req_path ?req)\<rparr>)"
  have a: "authorized [''secret''] ?ar"
    by (simp add: authorized_def example_post_def admin_request.truncate_def trim_bearer [simplified] trim_bearer_other)
  have "admin_routes no_write_errors example_bodies [''secret''] count_down ?ar example_admin =
      respond ''created'' (writer_create_pool no_write_errors example_create example_admin)"
    using a by (subst admin_create_pool [of _ _ example_create])
      (simp_all add: example_post_def admin_request.truncate_def example_bodies_def)
  moreover have "fst (respond ''created'' (writer_create_pool no_write_errors example_create example_admin)) =
      (200, ''{\"status\":\"created\"}'')"
    by (simp add: respond_def writer_create_pool_def write_request_def no_write_errors_def insert_pool_def
        example_admin_def empty_database_def admin_response_def Let_def)
  ultimately have "fst (serve example_app (?w, ?req) example_server) = Answer 200 (Plain ''{\"status\":\"created\"}'')"
    by (simp add: serve_def track_metrics_def make_router_def below_admin_def example_app_def example_around_def
        example_server_def answer_of_response_def Let_def split_beta example_post_def)
  then show ?thesis by (metis prod.collapse)
qed

theorem server_only_adds_witness:
  "tables_of (snd (run_steps (serve example_app) [(example_around empty_database, example_post ''guess'')] example_server)) =
     empty_database"
proof -
  let ?i = "(example_around empty_database, example_post ''guess'')"
  obtain tr st' where r: "run_steps (serve example_app) [?i] example_server = (tr, st')" by fastforce
  have "\<not> may_write example_app ?i"
    by (simp add: may_write_def authorized_def example_post_def admin_request.truncate_def example_app_def
        trim_bearer [simplified] trim_bearer_other)
  with server_only_adds [OF r] show ?thesis unfolding r by (simp add: example_server_def example_admin_def)
qed

theorem created_pool_listed_witness:
  "\<exists>body ps. fst (serve example_app
       (example_around (tables_of (snd (serve example_app (example_around empty_database, example_post ''secret'') example_server))),
        example_get [''get_pools''])
       (snd (serve example_app (example_around empty_database, example_post ''secret'') example_server))) = Answer 200 body \<and>
     body = Rows_Pools ps \<and> filter (\<lambda>p. pools_pool_id p = ''0x1'') ps = [new_pool example_create]"
proof -
  let ?st1 = "snd (serve example_app (example_around empty_database, example_post ''secret'') example_server)"
  let ?w = "example_around (tables_of ?st1)" and ?req = "example_get [''get_pools'']"
  let ?h = "\<lambda>w :: string surroundings. plain (json_answer Rows_Pools (get_pools (db_around w)))"
  have "route ''/get_pools'' ?h \<in> set (api_routes (app_services example_app) (app_config_of example_app))"
    by (simp add: api_routes_def db_routes_def Let_def)
  moreover have "match_segments (segments ''/get_pools'') [''get_pools''] = Some []" by code_simp
  ultimately have "api_request example_app ?w ?req s = json_answer Rows_Pools (get_pools (db_around ?w)) s" for s
    using api_request_route [of "''/get_pools''" ?h example_app ?req "[]"] by (simp add: plain_def example_get_def)
  moreover have "\<not> below_admin (req_path ?req)" by (simp add: below_admin_def example_get_def)
  ultimately obtain body where b: "fst (serve example_app (?w, ?req) ?st1) = Answer 200 body"
    using serve_api(1) [of ?req example_app ?w ?st1]
    by (simp add: json_answer_def get_pools_def results_def db_request_def run_query_def Let_def
        result_outcome_def example_around_def)
  then obtain st3 where s3: "serve example_app (?w, ?req) ?st1 = (Answer 200 body, st3)" by (metis prod.collapse)
  have "\<exists>ps. body = Rows_Pools ps \<and> filter (\<lambda>p. pools_pool_id p = cp_pool_id example_create) ps = [new_pool example_create]"
  proof (rule created_pool_listed [OF _ _ _ _ example_created rtranclp.rtrancl_refl _ _ _ s3])
    show "keys_unique (tables_of example_server)"
      by (simp add: keys_unique_def example_server_def example_admin_def empty_database_def)
    show "reads_tables ?w ?st1" by (simp add: reads_tables_def example_around_def steady_env_def)
  qed (simp_all add: example_post_def example_get_def example_app_def example_bodies_def)
  then show ?thesis using b by (auto simp: example_create_def)
qed

end
