(* ===== verification/Margin_Poller.thy ===== *)
theory Margin_Poller
  imports Market
begin

text \<open>
  The poller of margin pools (\<^verbatim>\<open>crates/server/src/margin_metrics\<close>): every interval it reads the
  margin pools and the decimals of their assets from the database, asks the node for the state of
  each pool in one transaction, sets the gauges and saves a snapshot. A failure of one pool is logged
  and skipped. The loop of \<open>run\<close> is the step relation \<open>poller_step\<close>, which takes the node's answers
  from any \<open>chain\<close>, a new one for each poll. Errors are the texts of \<^verbatim>\<open>anyhow\<close>. A gauge is named by its metric and its
  labels, the pool and the asset type.
\<close>

section \<open>The node's answer\<close>

record MarginPoolState =
  ms_pool_id :: string
  ms_asset_type :: string
  ms_total_supply :: u64
  ms_total_borrow :: u64
  ms_vault_balance :: u64
  ms_supply_cap :: u64
  ms_interest_rate :: u64
  ms_available_withdrawal :: u64

definition SUI_CLOCK_OBJECT_ID :: string where
  "SUI_CLOCK_OBJECT_ID = ''0x0000000000000000000000000000000000000000000000000000000000000006''"

definition extract_u64 :: "'t chain_lib \<Rightarrow> bytes list list \<Rightarrow> nat \<Rightarrow> string \<Rightarrow> string + u64" where
  "extract_u64 lib res index func_name =
     (if length res \<le> index then Inl (''Missing result for '' @ func_name)
      else
        (case res ! index of
           [] \<Rightarrow> Inl (''No return value for '' @ func_name)
         | bs # _ \<Rightarrow> ok_or (''Failed to deserialize '' @ func_name @ '' result'') (bcs_u64 lib bs)))"

definition pool_call :: "object_id \<Rightarrow> 't \<Rightarrow> string \<Rightarrow> u16 list \<Rightarrow> 't move_call" where
  "pool_call pkg type_arg function args =
     \<lparr>mc_package = pkg, mc_module = ''margin_pool'', mc_function = function, mc_types = [type_arg],
      mc_args = args\<rparr>"

definition query_pool_state ::
  "'t chain_lib \<Rightarrow> 't chain \<Rightarrow> object_id \<Rightarrow> object_id \<Rightarrow> u64 \<Rightarrow> 't \<Rightarrow>
   string + u64 \<times> u64 \<times> u64 \<times> u64 \<times> u64 \<times> u64" where
  "query_pool_state lib ch pkg pool_id version type_arg =
     bind_result (ptb_input lib (SharedInput pool_id version) empty_ptb) (\<lambda>p.
     bind_result (object_id_from_hex_literal lib SUI_CLOCK_OBJECT_ID) (\<lambda>clock_id.
     bind_result (ptb_input lib (SharedInput clock_id 1) p) (\<lambda>p.
       let p = foldl (\<lambda>p (function, args). ptb_command (pool_call pkg type_arg function args) p) p
             [(''total_supply'', [0]), (''total_borrow'', [0]), (''vault_balance'', [0]), (''supply_cap'', [0]),
              (''interest_rate'', [0]), (''get_available_withdrawal'', [0, 1])]
       in bind_result (dev_inspect ch p) (\<lambda>r.
          bind_result (ok_or ''No results from dev_inspect_transaction_block'' r) (\<lambda>res.
          bind_result (extract_u64 lib res 0 ''total_supply'') (\<lambda>total_supply.
          bind_result (extract_u64 lib res 1 ''total_borrow'') (\<lambda>total_borrow.
          bind_result (extract_u64 lib res 2 ''vault_balance'') (\<lambda>vault_balance.
          bind_result (extract_u64 lib res 3 ''supply_cap'') (\<lambda>supply_cap.
          bind_result (extract_u64 lib res 4 ''interest_rate'') (\<lambda>interest_rate.
          bind_result (extract_u64 lib res 5 ''get_available_withdrawal'') (\<lambda>available_withdrawal.
            Inr (total_supply, total_borrow, vault_balance, supply_cap, interest_rate,
                 available_withdrawal))))))))))))"

definition map_error :: "('e \<Rightarrow> 'f) \<Rightarrow> 'e + 'a \<Rightarrow> 'f + 'a" where
  "map_error f r = (case r of Inl e \<Rightarrow> Inl (f e) | Inr x \<Rightarrow> Inr x)"

text \<open>A client of the node is its package id; the connection is the parameter \<open>chain\<close>.\<close>

definition MarginRpcClient_new :: "'t chain_lib \<Rightarrow> string \<Rightarrow> string + object_id" where
  "MarginRpcClient_new lib margin_package =
     map_error (\<lambda>e. ''Invalid margin package ID: '' @ e) (object_id_from_hex_literal lib margin_package)"

definition get_pool_state ::
  "'t chain_lib \<Rightarrow> (object_id \<Rightarrow> string) \<Rightarrow> 't chain \<Rightarrow> object_id \<Rightarrow> string \<Rightarrow> string \<Rightarrow> string + MarginPoolState" where
  "get_pool_state lib to_hex_literal ch pkg pool_id asset_type =
     bind_result (map_error (\<lambda>e. ''Invalid pool ID '' @ quoted pool_id @ '': '' @ e)
         (object_id_from_hex_literal lib pool_id)) (\<lambda>pool_object_id.
     bind_result (node_object ch pool_object_id) (\<lambda>obj.
     bind_result (ok_or (''Pool '' @ pool_id @ '' not found'') obj) (\<lambda>pool_data.
     bind_result (ok_or (''Pool '' @ pool_id @ '' is not a shared object'') (od_shared_version pool_data)) (\<lambda>version.
       let normalized_asset_type = normalize_asset_type asset_type
       in bind_result (map_error (\<lambda>e. ''Invalid asset type '' @ quoted normalized_asset_type @ '': '' @ e)
              (type_from_str lib normalized_asset_type)) (\<lambda>type_tag.
          bind_result (query_pool_state lib ch pkg pool_object_id version type_tag)
            (\<lambda>(supply, borrow, vault, cap, rate, available).
               Inr \<lparr>ms_pool_id = to_hex_literal pool_object_id,
                    ms_asset_type = normalized_asset_type,
                    ms_total_supply = supply,
                    ms_total_borrow = borrow,
                    ms_vault_balance = vault,
                    ms_supply_cap = cap,
                    ms_interest_rate = rate,
                    ms_available_withdrawal = available\<rparr>))))))"

section \<open>Gauges\<close>

type_synonym gauges = "string \<times> string \<times> string \<rightharpoonup> f64"

definition update_pool_metrics :: "MarginPoolState \<Rightarrow> i16 \<Rightarrow> gauges \<Rightarrow> gauges" where
  "update_pool_metrics st decimals g =
     (let set_gauge = (\<lambda>metric x (g :: gauges). g((metric, ms_pool_id st, ms_asset_type st) \<mapsto> x));
          num = (\<lambda>w :: u64. f64_of_int (uint w));
          divisor = powi10 decimals;
          g = set_gauge ''total_supply'' (f64_div (num (ms_total_supply st)) divisor) g;
          g = set_gauge ''total_borrow'' (f64_div (num (ms_total_borrow st)) divisor) g;
          g = set_gauge ''vault_balance'' (f64_div (num (ms_vault_balance st)) divisor) g;
          g = set_gauge ''supply_cap'' (f64_div (num (ms_supply_cap st)) divisor) g;
          g = set_gauge ''interest_rate'' (f64_div (num (ms_interest_rate st)) (F64 1000000000)) g;
          g = set_gauge ''available_withdrawal'' (f64_div (num (ms_available_withdrawal st)) divisor) g;
          utilization = (if 0 < ms_total_supply st
            then f64_div (num (ms_total_borrow st)) (num (ms_total_supply st)) else F64 0);
          g = set_gauge ''utilization_rate'' utilization g;
          solvency = (if 0 < ms_total_borrow st
            then f64_div (num (ms_vault_balance st)) (num (ms_total_borrow st)) else F64_Inf False);
          g = (if is_finite solvency then set_gauge ''solvency_ratio'' solvency g else g);
          liquidity_pct = (if 0 < ms_total_supply st
            then f64_mul (f64_div (num (ms_vault_balance st)) (num (ms_total_supply st))) (F64 100)
            else F64 100)
      in set_gauge ''available_liquidity_pct'' liquidity_pct g)"

section \<open>One poll\<close>

record MarginPoolInfo =
  mpi_pool_id :: string
  mpi_asset_type :: string
  mpi_decimals :: i16

record poller_state =
  po_connections :: nat
  po_gauges :: gauges
  po_snapshots :: "NewMarginPoolSnapshot list"
  po_errors :: nat
  po_success :: nat

definition strip_0x :: "string \<Rightarrow> string" where
  "strip_0x s = (if starts_with s ''0x'' \<or> starts_with s ''0X'' then drop 2 s else s)"

definition margin_pool_infos :: "database \<Rightarrow> MarginPoolInfo list" where
  "margin_pool_infos db =
     (let pools = remdups (map (\<lambda>r. (margin_pool_created_margin_pool_id r, margin_pool_created_asset_type r))
            (tb_margin_pool_created db));
          decimals_map = hm_collect (map (\<lambda>a. (strip_0x (assets_asset_type a), assets_decimals a)) (tb_assets db))
      in List.map_filter (\<lambda>(pool_id, asset_type).
           map_option (\<lambda>decimals. \<lparr>mpi_pool_id = pool_id, mpi_asset_type = asset_type, mpi_decimals = decimals\<rparr>)
             (hm_get decimals_map (strip_0x asset_type))) pools)"

text \<open>Connect and run; the error is that of the connection or of the statement.\<close>

definition with_connection ::
  "db_env \<Rightarrow> (database \<Rightarrow> poller_state \<Rightarrow> 'a \<times> poller_state) \<Rightarrow> poller_state \<Rightarrow> (string + 'a) \<times> poller_state" where
  "with_connection env f st =
     (let n = po_connections st; st1 = st\<lparr>po_connections := n + 1\<rparr>
      in case connect_error env n of
           Some e \<Rightarrow> (Inl e, st1)
         | None \<Rightarrow>
             (case query_error env n of
                Some e \<Rightarrow> (Inl e, st1)
              | None \<Rightarrow> (case f (contents env n) st1 of (x, st2) \<Rightarrow> (Inr x, st2))))"

definition get_margin_pools :: "db_env \<Rightarrow> poller_state \<Rightarrow> (string + MarginPoolInfo list) \<times> poller_state" where
  "get_margin_pools env = with_connection env (\<lambda>db st. (margin_pool_infos db, st))"

definition snapshot_of :: "MarginPoolState \<Rightarrow> NewMarginPoolSnapshot" where
  "snapshot_of st =
     (let num = (\<lambda>w :: u64. f64_of_int (uint w));
          utilization_rate = (if 0 < ms_total_supply st
            then f64_div (num (ms_total_borrow st)) (num (ms_total_supply st)) else F64 0);
          solvency_ratio = (if 0 < ms_total_borrow st
            then Some (f64_div (num (ms_vault_balance st)) (num (ms_total_borrow st))) else None);
          available_liquidity_pct = (if 0 < ms_total_supply st
            then Some (f64_mul (f64_div (num (ms_vault_balance st)) (num (ms_total_supply st))) (F64 100))
            else None)
      in \<lparr>new_margin_pool_snapshots_margin_pool_id = ms_pool_id st,
          new_margin_pool_snapshots_asset_type = ms_asset_type st,
          new_margin_pool_snapshots_total_supply = as_i64 (ms_total_supply st),
          new_margin_pool_snapshots_total_borrow = as_i64 (ms_total_borrow st),
          new_margin_pool_snapshots_vault_balance = as_i64 (ms_vault_balance st),
          new_margin_pool_snapshots_supply_cap = as_i64 (ms_supply_cap st),
          new_margin_pool_snapshots_interest_rate = as_i64 (ms_interest_rate st),
          new_margin_pool_snapshots_available_withdrawal = as_i64 (ms_available_withdrawal st),
          new_margin_pool_snapshots_utilization_rate = utilization_rate,
          new_margin_pool_snapshots_solvency_ratio = solvency_ratio,
          new_margin_pool_snapshots_available_liquidity_pct = available_liquidity_pct\<rparr>)"

definition save_snapshot :: "db_env \<Rightarrow> MarginPoolState \<Rightarrow> poller_state \<Rightarrow> (string + unit) \<times> poller_state" where
  "save_snapshot env ms =
     with_connection env (\<lambda>_ st. ((), st\<lparr>po_snapshots := po_snapshots st @ [snapshot_of ms]\<rparr>))"

definition poll_pool ::
  "'t chain_lib \<Rightarrow> (object_id \<Rightarrow> string) \<Rightarrow> 't chain \<Rightarrow> db_env \<Rightarrow> object_id \<Rightarrow> MarginPoolInfo \<Rightarrow>
   poller_state \<Rightarrow> poller_state" where
  "poll_pool lib hex ch env pkg info st =
     (case get_pool_state lib hex ch pkg (mpi_pool_id info) (mpi_asset_type info) of
        Inl _ \<Rightarrow> st
      | Inr ms \<Rightarrow>
          snd (save_snapshot env ms (st\<lparr>po_gauges := update_pool_metrics ms (mpi_decimals info) (po_gauges st)\<rparr>)))"

definition poll_once ::
  "'t chain_lib \<Rightarrow> (object_id \<Rightarrow> string) \<Rightarrow> 't chain \<Rightarrow> db_env \<Rightarrow> string \<Rightarrow> poller_state \<Rightarrow>
   (string + unit) \<times> poller_state" where
  "poll_once lib hex ch env margin_package st =
     (case get_margin_pools env st of
        (Inl e, st1) \<Rightarrow> (Inl e, st1)
      | (Inr pools, st1) \<Rightarrow>
          if pools = [] then (Inr (), st1)
          else
            (case client_error ch of
               Some e \<Rightarrow> (Inl e, st1)
             | None \<Rightarrow>
                 (case MarginRpcClient_new lib margin_package of
                    Inl e \<Rightarrow> (Inl e, st1)
                  | Inr pkg \<Rightarrow> (Inr (), fold (poll_pool lib hex ch env pkg) pools st1))))"

section \<open>The loop\<close>

datatype poller = Running poller_state | Stopped poller_state

definition count_poll :: "(string + unit) \<times> poller_state \<Rightarrow> poller_state" where
  "count_poll = (\<lambda>(r, st). case r of
     Inl _ \<Rightarrow> st\<lparr>po_errors := po_errors st + 1\<rparr>
   | Inr _ \<Rightarrow> st\<lparr>po_success := po_success st + 1\<rparr>)"

inductive poller_step ::
  "'t chain_lib \<Rightarrow> (object_id \<Rightarrow> string) \<Rightarrow> db_env \<Rightarrow> string \<Rightarrow> poller \<Rightarrow> poller \<Rightarrow> bool"
  for lib hex env margin_package where
  cancelled: "poller_step lib hex env margin_package (Running st) (Stopped st)"
| polled: "poller_step lib hex env margin_package (Running st)
    (Running (count_poll (poll_once lib hex ch env margin_package st)))"

inductive_cases poller_stepE: "poller_step lib hex env pkg p q"

inductive_simps poller_step_stopped: "poller_step lib hex env pkg (Stopped st) q"

fun poller_state_of :: "poller \<Rightarrow> poller_state" where
  "poller_state_of (Running st) = st"
| "poller_state_of (Stopped st) = st"

definition new_poller :: poller_state where
  "new_poller = \<lparr>po_connections = 0, po_gauges = Map.empty, po_snapshots = [], po_errors = 0, po_success = 0\<rparr>"

section \<open>What a poll keeps\<close>

lemma with_connection_cases:
  "with_connection env f st = (r, st') \<Longrightarrow>
     st' = st\<lparr>po_connections := po_connections st + 1\<rparr> \<or>
     (\<exists>x. r = Inr x \<and> f (contents env (po_connections st)) (st\<lparr>po_connections := po_connections st + 1\<rparr>) = (x, st'))"
  by (auto simp: with_connection_def Let_def split: option.splits prod.splits)

lemma with_connection_state:
  "snd (with_connection env f st) = st\<lparr>po_connections := po_connections st + 1\<rparr> \<or>
   snd (with_connection env f st) =
     snd (f (contents env (po_connections st)) (st\<lparr>po_connections := po_connections st + 1\<rparr>))"
  by (simp add: with_connection_def Let_def split: option.split prod.split)

lemma get_margin_pools_state:
  "snd (get_margin_pools env st) = st\<lparr>po_connections := po_connections st + 1\<rparr>"
  using with_connection_state [of env "\<lambda>db st. (margin_pool_infos db, st)" st]
  by (simp add: get_margin_pools_def)

lemma save_snapshot_state:
  "snd (save_snapshot env ms st) = st\<lparr>po_connections := po_connections st + 1\<rparr> \<or>
   snd (save_snapshot env ms st) = st\<lparr>po_connections := po_connections st + 1,
     po_snapshots := po_snapshots st @ [snapshot_of ms]\<rparr>"
  using with_connection_state [of env "\<lambda>_ st. ((), st\<lparr>po_snapshots := po_snapshots st @ [snapshot_of ms]\<rparr>)" st]
  by (simp add: save_snapshot_def)

text \<open>A poll appends snapshots of states the node reported, and changes no counter.\<close>

definition extends :: "poller_state \<Rightarrow> poller_state \<Rightarrow> bool" where
  "extends st st' \<longleftrightarrow> (\<exists>mss. po_snapshots st' = po_snapshots st @ map snapshot_of mss) \<and>
     po_errors st' = po_errors st \<and> po_success st' = po_success st"

lemma extends_refl [simp]: "extends st st"
  by (auto simp: extends_def intro: exI [of _ "[]"])

lemma extends_trans: "extends a b \<Longrightarrow> extends b c \<Longrightarrow> extends a c"
  by (auto simp: extends_def simp flip: map_append)

lemma extends_poll_pool: "extends st (poll_pool lib hex ch env pkg info st)"
proof (cases "get_pool_state lib hex ch pkg (mpi_pool_id info) (mpi_asset_type info)")
  case (Inr ms)
  let ?st = "st\<lparr>po_gauges := update_pool_metrics ms (mpi_decimals info) (po_gauges st)\<rparr>"
  from save_snapshot_state [of env ms ?st] show ?thesis
  proof
    assume "snd (save_snapshot env ms ?st) = ?st\<lparr>po_connections := po_connections ?st + 1\<rparr>"
    with Inr show ?thesis by (simp add: poll_pool_def extends_def exI [of _ "[]"])
  next
    assume "snd (save_snapshot env ms ?st) = ?st\<lparr>po_connections := po_connections ?st + 1,
        po_snapshots := po_snapshots ?st @ [snapshot_of ms]\<rparr>"
    with Inr show ?thesis by (auto simp: poll_pool_def extends_def intro: exI [of _ "[ms]"])
  qed
qed (simp add: poll_pool_def)

lemma extends_fold: "extends st (fold (poll_pool lib hex ch env pkg) infos st)"
proof (induction infos arbitrary: st)
  case (Cons i infos)
  show ?case unfolding fold_Cons comp_def by (rule extends_trans [OF extends_poll_pool Cons.IH])
qed simp

lemma extends_poll_once: "extends st (snd (poll_once lib hex ch env mp st))"
proof -
  obtain r st1 where g: "get_margin_pools env st = (r, st1)" by (metis surj_pair)
  have "extends st st1" using get_margin_pools_state [of env st] g by (simp add: extends_def exI [of _ "[]"])
  then show ?thesis
    by (auto simp: poll_once_def g split: sum.split option.split intro: extends_trans [OF _ extends_fold])
qed

section \<open>Properties\<close>

text \<open>The derived columns of a snapshot, read off the stored ones. A stored amount is the signed
  reading of the unsigned one.\<close>

definition snapshot_ok :: "NewMarginPoolSnapshot \<Rightarrow> bool" where
  "snapshot_ok s \<longleftrightarrow>
     (let supply = uint (as_u64 (new_margin_pool_snapshots_total_supply s));
          borrow = uint (as_u64 (new_margin_pool_snapshots_total_borrow s));
          vault = uint (as_u64 (new_margin_pool_snapshots_vault_balance s))
      in new_margin_pool_snapshots_utilization_rate s =
           (if supply = 0 then F64 0 else f64_div (f64_of_int borrow) (f64_of_int supply)) \<and>
         new_margin_pool_snapshots_solvency_ratio s =
           (if borrow = 0 then None else Some (f64_div (f64_of_int vault) (f64_of_int borrow))) \<and>
         new_margin_pool_snapshots_available_liquidity_pct s =
           (if supply = 0 then None
            else Some (f64_mul (f64_div (f64_of_int vault) (f64_of_int supply)) (F64 100))))"

lemma snapshot_of_ok: "snapshot_ok (snapshot_of ms)"
  by (simp add: snapshot_ok_def snapshot_of_def Let_def word_gt_0 unsigned_eq_0_iff)

lemma poller_step_extends:
  assumes "poller_step lib hex env pkg p q"
  shows "\<exists>mss. po_snapshots (poller_state_of q) = po_snapshots (poller_state_of p) @ map snapshot_of mss"
  using assms
proof (cases rule: poller_step.cases)
  case (cancelled st)
  then show ?thesis by (simp add: exI [of _ "[]"])
next
  case (polled st ch)
  then show ?thesis
    using extends_poll_once [of st lib hex ch env pkg]
    by (auto simp: extends_def count_poll_def split_beta split: sum.split)
qed

text \<open>C15: in every state the poller can reach, whatever the node answers and whichever connections
  fail, each saved snapshot is consistent: its utilization is the quotient of its stored debt and supply,
  its solvency the quotient of its balance and debt, its liquidity 100 times the quotient of its balance
  and supply, as 64-bit floats; a ratio with denominator 0 is absent (the utilization 0), although
  the amounts are stored as signed numbers; and a stopped poller stays stopped.\<close>

theorem poller_snapshots_ok:
  assumes "(poller_step lib hex env pkg)\<^sup>*\<^sup>* (Running new_poller) p"
  shows "list_all snapshot_ok (po_snapshots (poller_state_of p)) \<and>
    (\<forall>st q. p = Stopped st \<longrightarrow> \<not> poller_step lib hex env pkg p q)"
proof
  show "list_all snapshot_ok (po_snapshots (poller_state_of p))"
    using assms
  proof (induction rule: rtranclp_induct)
    case base
    then show ?case by (simp add: new_poller_def)
  next
    case (step p q)
    then show ?case
      using poller_step_extends [OF step.hyps(2)] by (auto simp: list_all_iff snapshot_of_ok)
  qed
  show "\<forall>st q. p = Stopped st \<longrightarrow> \<not> poller_step lib hex env pkg p q"
    by (auto simp: poller_step_stopped)
qed

definition example_margin_state :: MarginPoolState where
  "example_margin_state = \<lparr>ms_pool_id = ''0x1'', ms_asset_type = ''0x2::sui::SUI'', ms_total_supply = 4,
     ms_total_borrow = 3, ms_vault_balance = 1, ms_supply_cap = 9, ms_interest_rate = 5,
     ms_available_withdrawal = 1\<rparr>"

theorem poller_snapshots_ok_witness:
  "\<exists>st. (poller_step example_lib (\<lambda>_. ''0x1'') (steady_env empty_database) ''0xabcd'')\<^sup>*\<^sup>* (Running new_poller) (Running st) \<and>
     po_success st = 1 \<and> list_all snapshot_ok (po_snapshots st)"
proof -
  let ?step = "poller_step example_lib (\<lambda>_. ''0x1'') (steady_env empty_database) ''0xabcd''"
  let ?st = "count_poll (poll_once example_lib (\<lambda>_. ''0x1'') example_chain (steady_env empty_database) ''0xabcd'' new_poller)"
  have s: "?step\<^sup>*\<^sup>* (Running new_poller) (Running ?st)" by (rule r_into_rtranclp) (rule polled)
  moreover have "po_success ?st = 1"
    by (simp add: poll_once_def MarginRpcClient_new_def map_error_def get_margin_pools_def with_connection_def margin_pool_infos_def empty_database_def
        new_poller_def count_poll_def Let_def List.map_filter_def)
  ultimately show ?thesis using poller_snapshots_ok [OF s] by auto
qed

text \<open>When a poll succeeds: the pools can be read, and if there are any, the node can be reached and the margin
  package has a valid id. The pools that cannot be read or saved do not matter.\<close>

definition poll_ok :: "'t chain_lib \<Rightarrow> db_env \<Rightarrow> string \<Rightarrow> 't chain \<Rightarrow> poller_state \<Rightarrow> bool" where
  "poll_ok lib env margin_package ch st \<longleftrightarrow>
     connect_error env (po_connections st) = None \<and> query_error env (po_connections st) = None \<and>
     (margin_pool_infos (contents env (po_connections st)) = [] \<or>
      client_error ch = None \<and> (\<exists>i. object_id_from_hex_literal lib margin_package = Inr i))"

lemma poll_once_ok: "(\<exists>u. fst (poll_once lib hex ch env mp st) = Inr u) \<longleftrightarrow> poll_ok lib env mp ch st"
  by (auto simp: poll_once_def poll_ok_def get_margin_pools_def with_connection_def MarginRpcClient_new_def
      map_error_def Let_def split: option.splits sum.splits)

text \<open>The state after a poll: one success or one error more.\<close>

definition after_poll ::
  "'t chain_lib \<Rightarrow> (object_id \<Rightarrow> string) \<Rightarrow> db_env \<Rightarrow> string \<Rightarrow> 't chain \<Rightarrow> poller_state \<Rightarrow> poller_state" where
  "after_poll lib hex env mp ch st =
     (let st' = snd (poll_once lib hex ch env mp st)
      in if poll_ok lib env mp ch st then st'\<lparr>po_success := po_success st + 1\<rparr>
         else st'\<lparr>po_errors := po_errors st + 1\<rparr>)"

text \<open>The states \<open>f 0, f 1, ...\<close> of \<open>m\<close> polls in a row, the \<open>k\<close>-th of which meets the node \<open>ch k\<close>.\<close>

definition poll_history ::
  "'t chain_lib \<Rightarrow> (object_id \<Rightarrow> string) \<Rightarrow> db_env \<Rightarrow> string \<Rightarrow> (nat \<Rightarrow> 't chain) \<Rightarrow> (nat \<Rightarrow> poller_state) \<Rightarrow> nat \<Rightarrow> bool" where
  "poll_history lib hex env mp ch f m \<longleftrightarrow>
     f 0 = new_poller \<and> (\<forall>k<m. f (Suc k) = after_poll lib hex env mp (ch k) (f k))"

lemma count_poll_once: "count_poll (poll_once lib hex ch env mp st) = after_poll lib hex env mp ch st"
  using extends_poll_once [of st lib hex ch env mp] poll_once_ok [of lib hex ch env mp st]
  by (auto simp: after_poll_def count_poll_def extends_def split_beta Let_def split: sum.split)

lemma after_poll_counts:
  "po_success (after_poll lib hex env mp ch st) = po_success st + (if poll_ok lib env mp ch st then 1 else 0)"
  "po_errors (after_poll lib hex env mp ch st) = po_errors st + (if poll_ok lib env mp ch st then 0 else 1)"
  using extends_poll_once [of st lib hex ch env mp] by (auto simp: after_poll_def Let_def extends_def)

lemma poll_history_counts:
  assumes "poll_history lib hex env mp ch f m" and "k \<le> m"
  shows "po_success (f k) = card {i. i < k \<and> poll_ok lib env mp (ch i) (f i)} \<and>
    po_errors (f k) = card {i. i < k \<and> \<not> poll_ok lib env mp (ch i) (f i)}"
  using assms(2)
proof (induction k)
  case 0
  then show ?case using assms(1) by (simp add: poll_history_def new_poller_def)
next
  case (Suc k)
  have count: "card {i. i < Suc k \<and> P i} = card {i. i < k \<and> P i} + (if P k then 1 else 0)" for P
  proof -
    have "{i. i < Suc k \<and> P i} = {i. i < k \<and> P i} \<union> (if P k then {k} else {})" by (auto simp: less_Suc_eq)
    then show ?thesis by simp
  qed
  have "f (Suc k) = after_poll lib hex env mp (ch k) (f k)"
    using assms(1) Suc.prems by (simp add: poll_history_def)
  then show ?case using Suc by (simp add: count after_poll_counts)
qed

lemma poller_run:
  "((poller_step lib hex env mp) ^^ n) (Running new_poller) p \<Longrightarrow>
     \<exists>ch f. let m = (case p of Running _ \<Rightarrow> n | Stopped _ \<Rightarrow> n - 1)
       in poll_history lib hex env mp ch f m \<and> poller_state_of p = f m"
proof (induction n arbitrary: p)
  case 0
  then show ?case by (auto simp: poll_history_def Let_def intro!: exI [of _ "\<lambda>_. new_poller"])
next
  case (Suc n)
  then obtain q where q: "((poller_step lib hex env mp) ^^ n) (Running new_poller) q"
    "poller_step lib hex env mp q p" by auto
  from q(2) obtain st where st: "q = Running st" by (auto elim: poller_stepE)
  with Suc.IH [OF q(1)] obtain ch f where f: "poll_history lib hex env mp ch f n" "st = f n"
    by (auto simp: Let_def)
  from q(2) [unfolded st] show ?case
  proof (cases rule: poller_step.cases)
    case cancelled
    then show ?thesis using f by (intro exI [of _ ch] exI [of _ f]) simp
  next
    case (polled c)
    let ?f = "f(Suc n := count_poll (poll_once lib hex c env mp st))"
    have "poll_history lib hex env mp (ch(n := c)) ?f (Suc n)"
      using f by (auto simp: poll_history_def less_Suc_eq count_poll_once)
    moreover have "poller_state_of p = ?f (Suc n)" "(case p of Running _ \<Rightarrow> Suc n | Stopped _ \<Rightarrow> Suc n - 1) = Suc n"
      using polled by simp_all
    ultimately show ?thesis unfolding Let_def by metis
  qed
qed

text \<open>C33: every poll is counted exactly once, and rightly. A poller that has made \<open>n\<close> steps has polled
  \<open>n\<close> times, or \<open>n - 1\<close> times when it was stopped; its counter of successes is the number of those polls at
  which the pools could be read from the database and, unless there were none, the node could be
  reached and the margin package is a valid id; its counter of errors is the number of the others.\<close>

theorem poller_counts:
  assumes "((poller_step lib hex env mp) ^^ n) (Running new_poller) p"
  shows "\<exists>ch f. let m = (case p of Running _ \<Rightarrow> n | Stopped _ \<Rightarrow> n - 1) in
    poll_history lib hex env mp ch f m \<and> poller_state_of p = f m \<and>
    po_success (poller_state_of p) = card {k. k < m \<and> poll_ok lib env mp (ch k) (f k)} \<and>
    po_errors (poller_state_of p) = card {k. k < m \<and> \<not> poll_ok lib env mp (ch k) (f k)}"
proof -
  obtain ch f where f: "poll_history lib hex env mp ch f (case p of Running _ \<Rightarrow> n | Stopped _ \<Rightarrow> n - 1)"
    "poller_state_of p = f (case p of Running _ \<Rightarrow> n | Stopped _ \<Rightarrow> n - 1)"
    using poller_run [OF assms] by (auto simp: Let_def)
  from poll_history_counts [OF this(1) order_refl] f show ?thesis
    by (intro exI [of _ ch] exI [of _ f]) (simp only: Let_def simp_thms)
qed

text \<open>A poll that succeeds, one that fails because the database refuses the connection, and the end.\<close>

definition flaky_env :: db_env where
  "flaky_env = (steady_env empty_database)\<lparr>connect_error := (\<lambda>n. if n = 1 then Some ''refused'' else None)\<rparr>"

theorem poller_counts_witness:
  "\<exists>p. ((poller_step example_lib (\<lambda>_. ''0x1'') flaky_env ''0xabcd'') ^^ 3) (Running new_poller) p \<and>
     po_success (poller_state_of p) = 1 \<and> po_errors (poller_state_of p) = 1"
proof -
  let ?step = "poller_step example_lib (\<lambda>_. ''0x1'') flaky_env ''0xabcd''"
  let ?poll = "\<lambda>st. count_poll (poll_once example_lib (\<lambda>_. ''0x1'') example_chain flaky_env ''0xabcd'' st)"
  have "?step (Running new_poller) (Running (?poll new_poller))"
    "?step (Running (?poll new_poller)) (Running (?poll (?poll new_poller)))" by (rule polled)+
  moreover have "?step (Running (?poll (?poll new_poller))) (Stopped (?poll (?poll new_poller)))" by (rule cancelled)
  ultimately have s: "(?step ^^ 3) (Running new_poller) (Stopped (?poll (?poll new_poller)))"
    by (auto simp: numeral_3_eq_3)
  obtain ch f where f: "poll_history example_lib (\<lambda>_. ''0x1'') flaky_env ''0xabcd'' ch f 2"
    "po_success (?poll (?poll new_poller)) = card {k. k < 2 \<and> poll_ok example_lib flaky_env ''0xabcd'' (ch k) (f k)}"
    "po_errors (?poll (?poll new_poller)) = card {k. k < 2 \<and> \<not> poll_ok example_lib flaky_env ''0xabcd'' (ch k) (f k)}"
    using poller_counts [OF s] by (auto simp: Let_def)
  have none: "margin_pool_infos empty_database = []"
    by (simp add: margin_pool_infos_def empty_database_def List.map_filter_def Let_def)
  have "f 0 = new_poller" using f(1) by (simp add: poll_history_def)
  then have ok: "poll_ok example_lib flaky_env ''0xabcd'' (ch 0) (f 0)"
    by (simp add: poll_ok_def flaky_env_def new_poller_def none)
  have "po_connections (f 1) = 1"
    using f(1) ok \<open>f 0 = new_poller\<close>
    by (simp add: poll_history_def after_poll_def Let_def poll_once_def get_margin_pools_def with_connection_def flaky_env_def
        none new_poller_def)
  then have "\<not> poll_ok example_lib flaky_env ''0xabcd'' (ch 1) (f 1)" by (simp add: poll_ok_def flaky_env_def)
  with ok have "{k. k < 2 \<and> poll_ok example_lib flaky_env ''0xabcd'' (ch k) (f k)} = {0}"
    "{k. k < 2 \<and> \<not> poll_ok example_lib flaky_env ''0xabcd'' (ch k) (f k)} = {1}"
    by (auto simp: less_2_cases_iff)
  with f s show ?thesis by (intro exI [of _ "Stopped (?poll (?poll new_poller))"]) simp
qed

text \<open>The solvency gauge is not touched when the debt is 0, so it keeps the ratio of an earlier poll,
  while the snapshot of the same poll has none.\<close>

lemma solvency_gauge_stale:
  assumes "ms_total_borrow ms = 0"
  shows "update_pool_metrics ms d g (''solvency_ratio'', ms_pool_id ms, ms_asset_type ms) =
      g (''solvency_ratio'', ms_pool_id ms, ms_asset_type ms) \<and>
    new_margin_pool_snapshots_solvency_ratio (snapshot_of ms) = None"
  using assms by (simp add: update_pool_metrics_def snapshot_of_def Let_def)

end
