(* ===== verification/Float_Order.thy ===== *)
theory Float_Order
  imports Float64
begin

text \<open>
  The order of \<open>f64\<close> (\<open><=\<close> of Rust, false on a NaN), and that rounding and scaling respect it: the lemmas
  behind every statement that compares prices after their conversion.
\<close>

fun f64_le :: "f64 \<Rightarrow> f64 \<Rightarrow> bool" where
  "f64_le (F64 x) (F64 y) \<longleftrightarrow> x \<le> y"
| "f64_le (F64_Inf s) (F64_Inf t) \<longleftrightarrow> s \<or> \<not> t"
| "f64_le (F64_Inf s) (F64 y) \<longleftrightarrow> s"
| "f64_le (F64 x) (F64_Inf t) \<longleftrightarrow> \<not> t"
| "f64_le _ _ \<longleftrightarrow> False"

instantiation f64 :: ord
begin

definition less_eq_f64 :: "f64 \<Rightarrow> f64 \<Rightarrow> bool" where "x \<le> y \<longleftrightarrow> f64_le x y"
definition less_f64 :: "f64 \<Rightarrow> f64 \<Rightarrow> bool" where "x < y \<longleftrightarrow> f64_le x y \<and> \<not> f64_le y x"

instance ..

end

section \<open>Rounding to an integer\<close>

lemma round_half_even_near: "\<lfloor>x\<rfloor> \<le> round_half_even x \<and> round_half_even x \<le> \<lfloor>x\<rfloor> + 1"
  by (simp add: round_half_even_def Let_def)

lemma round_half_even_mono: "x \<le> y \<Longrightarrow> round_half_even x \<le> round_half_even y"
proof -
  assume xy: "x \<le> y"
  then have "\<lfloor>x\<rfloor> \<le> \<lfloor>y\<rfloor>" by (rule floor_mono)
  then consider "\<lfloor>x\<rfloor> + 1 \<le> \<lfloor>y\<rfloor>" | "\<lfloor>x\<rfloor> = \<lfloor>y\<rfloor>" by linarith
  then show ?thesis
  proof cases
    case 1
    with round_half_even_near [of x] round_half_even_near [of y] show ?thesis by linarith
  next
    case 2
    with xy show ?thesis by (auto simp: round_half_even_def Let_def)
  qed
qed

lemma round_half_even_minus: "round_half_even (- x) = - round_half_even x"
proof (cases "x = of_int \<lfloor>x\<rfloor>")
  case True
  then show ?thesis by (metis of_int_minus round_half_even_int)
next
  case False
  then have f: "\<lfloor>- x\<rfloor> = - \<lfloor>x\<rfloor> - 1" by (simp add: floor_minus ceiling_altdef)
  show ?thesis unfolding round_half_even_def Let_def f by (auto simp: algebra_simps)
qed

section \<open>Rounding to a float\<close>

lemma rat_log2_mono:
  assumes "0 < x" and "x \<le> y"
  shows "rat_log2 x \<le> rat_log2 y"
proof (rule ccontr)
  assume "\<not> rat_log2 x \<le> rat_log2 y"
  then have "(2::rat) powi (rat_log2 y + 1) \<le> 2 powi rat_log2 x" by (intro power_int_increasing) simp_all
  with rat_log2_bounds [of x] rat_log2_bounds [of y] assms show False by simp
qed

lemma rat_log2_minus: "rat_log2 (- x) = rat_log2 x"
  by (simp add: rat_log2_def)

lemma ulp_exp_mono: "0 < x \<Longrightarrow> x \<le> y \<Longrightarrow> ulp_exp x \<le> ulp_exp y"
  unfolding ulp_exp_def by (intro max.mono diff_mono rat_log2_mono) simp_all

lemma round_rat_minus: "round_rat (- x) = - round_rat x"
  by (simp add: round_rat_def ulp_exp_def rat_log2_minus round_half_even_minus Let_def)

lemma round_rat_nonneg: "0 \<le> x \<Longrightarrow> 0 \<le> round_rat x"
proof -
  assume "0 \<le> x"
  then have "round_half_even 0 \<le> round_half_even (x / 2 powi ulp_exp x)"
    by (intro round_half_even_mono) simp
  moreover have "round_half_even 0 = 0" using round_half_even_int [of 0] by simp
  ultimately show ?thesis by (simp add: round_rat_def Let_def)
qed

text \<open>A power of two that is a multiple of the last place bounds the rounded value as it bounds the
  exact one.\<close>

lemma power_is_integer:
  assumes "e \<le> k"
  shows "2 powi k / 2 powi e = (of_int (2 ^ nat (k - e)) :: rat)"
proof -
  have "(2::rat) powi k = 2 powi (k - e) * 2 powi e" by (simp flip: power_int_add)
  then have "(2::rat) powi k / 2 powi e = 2 powi (k - e)" by simp
  also have "\<dots> = 2 ^ nat (k - e)" using assms by (simp add: power_int_def)
  finally show ?thesis by simp
qed

lemma round_rat_le_power:
  assumes "0 < x" and "x \<le> 2 powi k" and "ulp_exp x \<le> k"
  shows "round_rat x \<le> 2 powi k"
proof -
  let ?u = "2 powi ulp_exp x :: rat"
  have "round_half_even (x / ?u) \<le> round_half_even (2 powi k / ?u)"
    using assms(2) by (intro round_half_even_mono divide_right_mono) simp_all
  also have "\<dots> = 2 ^ nat (k - ulp_exp x)"
    unfolding power_is_integer [OF assms(3)] by (rule round_half_even_int)
  finally have "of_int (round_half_even (x / ?u)) \<le> (of_int (2 ^ nat (k - ulp_exp x)) :: rat)"
    by (simp only: of_int_le_iff)
  also have "\<dots> = 2 powi k / ?u" by (rule power_is_integer [OF assms(3), symmetric])
  finally have "of_int (round_half_even (x / ?u)) * ?u \<le> 2 powi k / ?u * ?u"
    by (rule mult_right_mono) simp
  then show ?thesis using assms(1) by (simp add: round_rat_def Let_def)
qed

lemma power_le_round_rat:
  assumes "0 < x" and "2 powi k \<le> x" and "ulp_exp x \<le> k"
  shows "2 powi k \<le> round_rat x"
proof -
  let ?u = "2 powi ulp_exp x :: rat"
  have "2 ^ nat (k - ulp_exp x) = round_half_even (2 powi k / ?u)"
    unfolding power_is_integer [OF assms(3)] by (rule round_half_even_int [symmetric])
  also have "\<dots> \<le> round_half_even (x / ?u)"
    using assms(2) by (intro round_half_even_mono divide_right_mono) simp_all
  finally have "(of_int (2 ^ nat (k - ulp_exp x)) :: rat) \<le> of_int (round_half_even (x / ?u))"
    by (simp only: of_int_le_iff)
  then have "2 powi k / ?u \<le> of_int (round_half_even (x / ?u))"
    by (simp only: power_is_integer [OF assms(3)])
  then have "2 powi k / ?u * ?u \<le> of_int (round_half_even (x / ?u)) * ?u"
    by (rule mult_right_mono) simp
  then show ?thesis using assms(1) by (simp add: round_rat_def Let_def)
qed

lemma round_rat_mono_pos:
  assumes "0 < x" and "x \<le> y"
  shows "round_rat x \<le> round_rat y"
proof (cases "ulp_exp x = ulp_exp y")
  case True
  have "round_half_even (x / 2 powi ulp_exp x) \<le> round_half_even (y / 2 powi ulp_exp x)"
    using assms by (intro round_half_even_mono divide_right_mono) simp_all
  then show ?thesis using assms True by (simp add: round_rat_def Let_def mult_right_mono)
next
  case False
  with ulp_exp_mono [OF assms] have lt: "ulp_exp x < ulp_exp y" by simp
  then have y: "ulp_exp y = rat_log2 y - 52" and l: "rat_log2 x + 1 \<le> rat_log2 y" "ulp_exp x \<le> rat_log2 y"
    unfolding ulp_exp_def by linarith+
  have "(2::rat) powi (rat_log2 x + 1) \<le> 2 powi rat_log2 y" using l(1) by (intro power_int_increasing) simp_all
  then have "x \<le> 2 powi rat_log2 y" using rat_log2_bounds [of x] assms(1) by simp
  with assms(1) l(2) have "round_rat x \<le> 2 powi rat_log2 y" by (intro round_rat_le_power)
  also have "\<dots> \<le> round_rat y"
    using assms y rat_log2_bounds [of y] by (intro power_le_round_rat) simp_all
  finally show ?thesis .
qed

lemma round_rat_mono: "x \<le> y \<Longrightarrow> round_rat x \<le> round_rat y"
proof -
  assume xy: "x \<le> y"
  consider "0 < x" | "x \<le> 0" "0 \<le> y" | "y < 0" by linarith
  then show ?thesis
  proof cases
    case 1
    then show ?thesis using xy by (rule round_rat_mono_pos)
  next
    case 2
    then have "0 \<le> round_rat (- x)" "0 \<le> round_rat y" by (auto intro!: round_rat_nonneg)
    then show ?thesis by (simp add: round_rat_minus)
  next
    case 3
    then have "round_rat (- y) \<le> round_rat (- x)" using xy by (intro round_rat_mono_pos) simp_all
    then show ?thesis by (simp add: round_rat_minus)
  qed
qed

lemma round_f64_mono: "x \<le> y \<Longrightarrow> round_f64 x \<le> round_f64 y"
  using round_rat_mono [of x y] by (auto simp: less_eq_f64_def round_f64_def Let_def)

lemma f64_div_mono: "0 < d \<Longrightarrow> x \<le> y \<Longrightarrow> f64_div x (F64 d) \<le> f64_div y (F64 d)"
proof (cases x; cases y)
  fix a b assume "0 < d" "x \<le> y" and xy: "x = F64 a" "y = F64 b"
  then have "a / d \<le> b / d" by (simp add: less_eq_f64_def divide_right_mono)
  with xy \<open>0 < d\<close> show ?thesis by (simp add: round_f64_mono)
next
  have range: "round_f64 z \<noteq> F64_NaN" for z by (simp add: round_f64_def Let_def)
  fix a t assume "0 < d" "x \<le> y" and "x = F64 a" "y = F64_Inf t"
  with range [of "a / d"] show ?thesis by (cases "round_f64 (a / d)") (simp_all add: less_eq_f64_def)
next
  have range: "round_f64 z \<noteq> F64_NaN" for z by (simp add: round_f64_def Let_def)
  fix t b assume "0 < d" "x \<le> y" and "x = F64_Inf t" "y = F64 b"
  with range [of "b / d"] show ?thesis by (cases "round_f64 (b / d)") (simp_all add: less_eq_f64_def)
qed (simp_all add: less_eq_f64_def)

lemma scaled_int_mono: "m \<le> n \<Longrightarrow> 0 < d \<Longrightarrow> f64_div (f64_of_int m) (F64 d) \<le> f64_div (f64_of_int n) (F64 d)"
  unfolding f64_of_int_def by (intro f64_div_mono round_f64_mono) simp_all

end
