(* ===== verification/Summary.thy ===== *)
theory Summary
  imports Market Float_Order
begin

text \<open>
  What the summary of the exchange tells: its prices enclose the prices of the day, and on a working
  database every pool is reported once, with the values of its fills.
\<close>

section \<open>Powers of ten\<close>

lemma round_f64_int: "\<bar>n\<bar> \<le> 2 ^ 53 \<Longrightarrow> round_f64 (of_int n) = F64 (of_int n)"
  using f64_of_int_exact [of n] by (simp add: f64_of_int_def)

lemma f64_mul_ten: "i + j \<le> 15 \<Longrightarrow> f64_mul (F64 (10 ^ i)) (F64 (10 ^ j)) = F64 (10 ^ (i + j))"
proof -
  assume "i + j \<le> 15"
  then have "(10 :: int) ^ (i + j) \<le> 10 ^ 15" by (rule power_increasing) simp
  then have "round_f64 (of_int (10 ^ (i + j))) = F64 (of_int (10 ^ (i + j)))" by (intro round_f64_int) simp
  then show ?thesis by (simp add: power_add)
qed

lemma powi_loop_ten:
  "i + b * j \<le> 15 \<Longrightarrow> powi_loop b (F64 (10 ^ j)) (F64 (10 ^ i)) = F64 (10 ^ (i + b * j))"
proof (induction b arbitrary: i j rule: less_induct)
  case (less b)
  define r where "r = i + (if odd b then j else 0)"
  show ?case
  proof (cases "b = 0")
    case False
    have r: "(if odd b then f64_mul (F64 (10 ^ i)) (F64 (10 ^ j)) else F64 (10 ^ i)) = F64 (10 ^ r)"
    proof (cases "odd b")
      case True
      then have "1 * j \<le> b * j" by (intro mult_right_mono) (auto elim: oddE)
      with less.prems have "i + j \<le> 15" by linarith
      with True show ?thesis by (simp add: r_def f64_mul_ten del: f64_mul.simps)
    qed (simp add: r_def)
    have e: "r + (b div 2) * (j + j) = i + b * j"
    proof -
      have "b * j = (2 * (b div 2) + b mod 2) * j" by simp
      then show ?thesis by (auto simp: r_def algebra_simps mod_2_eq_odd)
    qed
    have step: "powi_loop b (F64 (10 ^ j)) (F64 (10 ^ i)) =
        powi_loop (b div 2) (f64_mul (F64 (10 ^ j)) (F64 (10 ^ j))) (F64 (10 ^ r))"
      using False r by (subst powi_loop.simps) (simp del: f64_mul.simps)
    show ?thesis
    proof (cases "b div 2 = 0")
      case True
      then show ?thesis using step e by (simp add: powi_loop.simps)
    next
      case nz: False
      then have "1 * (j + j) \<le> b div 2 * (j + j)" by (intro mult_right_mono) auto
      also have "\<dots> \<le> i + b * j" unfolding e [symmetric] by (rule le_add2)
      also have "\<dots> \<le> 15" by (rule less.prems)
      finally have "j + j \<le> 15" by (simp only: mult_1)
      moreover have "b div 2 < b" using False by simp
      ultimately show ?thesis
        unfolding step using less.IH [of "b div 2" r "j + j"] e less.prems
        by (simp add: f64_mul_ten del: f64_mul.simps)
    qed
  qed (simp add: powi_loop.simps)
qed

lemma powi10_exact: "0 \<le> k \<Longrightarrow> k \<le> 15 \<Longrightarrow> powi10 k = F64 (10 ^ nat k)"
  using powi_loop_ten [of 0 "nat k" 1] by (simp add: powi10_def Let_def)

section \<open>The prices of a day\<close>

definition day_fills :: "database \<Rightarrow> i64 \<Rightarrow> string \<Rightarrow> OrderFill list" where
  "day_fills db now i = pool_fills db (i64_sub now DAY_MS) now i"

definition scaled_price :: "i16 \<Rightarrow> i16 \<Rightarrow> i64 \<Rightarrow> f64" where
  "scaled_price base quote price = f64_div (f64_of_int price) (powi10 (price_exponent_i16 base quote))"

definition day_high_low :: "database \<Rightarrow> i64 \<Rightarrow> string \<Rightarrow> i16 \<times> i16 \<Rightarrow> (f64 \<times> f64) option" where
  "day_high_low db now i = (\<lambda>(base, quote).
     let prices = order_fills_price ` set (day_fills db now i)
     in if prices = {} then None
        else Some (scaled_price base quote (Max prices), scaled_price base quote (Min prices)))"

lemma high_low_rows:
  "high_low_query a b db = Inr (map (\<lambda>i. let prices = order_fills_price ` set (pool_fills db a b i)
       in (i, Some (Max prices), Some (Min prices)))
     (remdups (map order_fills_pool_id (filter (\<lambda>r. between (checkpoint_timestamp_ms r) a b) (tb_order_fills db)))))"
  unfolding high_low_query_def Let_def filter_filter pool_fills_def set_map ..

lemma high_low_get:
  assumes "high_low_prices_24h env now decimals s = (Inr m, s')" and "hm_get decimals i = Some d"
  shows "hm_get m i = day_high_low (contents env (connections s)) now i d"
    and "s' = s\<lparr>connections := connections s + 1, db_requests_succeeded := db_requests_succeeded s + 1\<rparr>"
proof -
  let ?db = "contents env (connections s)"
  let ?rows = "filter (\<lambda>r. between (checkpoint_timestamp_ms r) (i64_sub now DAY_MS) now) (tb_order_fills ?db)"
  let ?prices = "\<lambda>k. order_fills_price ` set (day_fills ?db now k)"
  let ?row = "\<lambda>k. (k, Some (Max (?prices k)), Some (Min (?prices k)))"
  let ?f = "\<lambda>(k, hi, lo) acc. case hm_get decimals k of None \<Rightarrow> acc | Some (base, quote) \<Rightarrow>
    hm_insert k (scaled_price base quote (unwrap_or 0 hi), scaled_price base quote (unwrap_or 0 lo)) acc"
  obtain rows where q: "high_low_query (i64_sub now DAY_MS) now ?db = Inr rows"
    and f: "m = fold ?f rows []"
    and s': "s' = s\<lparr>connections := connections s + 1, db_requests_succeeded := db_requests_succeeded s + 1\<rparr>"
    using assms(1) unfolding high_low_prices_24h_def Let_def rpc_map_Inr results_Inr scaled_price_def [symmetric] by blast
  have m: "m = fold ?f (map ?row (remdups (map order_fills_pool_id ?rows))) []"
    using q unfolding f high_low_rows by (simp add: day_fills_def Let_def)
  let ?key = "\<lambda>x :: string \<times> i64 option \<times> i64 option. if hm_get decimals (fst x) = None then None else Some (fst x)"
  let ?g = "\<lambda>x (_ :: (f64 \<times> f64) option). case (x, hm_get decimals (fst x)) of ((_, hi, lo), Some (base, quote)) \<Rightarrow>
      (scaled_price base quote (unwrap_or 0 hi), scaled_price base quote (unwrap_or 0 lo))"
  have "hm_get m i = fold (\<lambda>x v. Some (?g x v)) (filter (\<lambda>x. ?key x = Some i)
      (map ?row (remdups (map order_fills_pool_id ?rows)))) (hm_get [] i)"
    unfolding m by (rule hm.get_fold_group) (auto split: option.split)
  also have "filter (\<lambda>x. ?key x = Some i) (map ?row (remdups (map order_fills_pool_id ?rows))) =
      (if ?prices i = {} then [] else [?row i])"
  proof -
    have "filter (\<lambda>x. ?key x = Some i) (map ?row (remdups (map order_fills_pool_id ?rows))) =
        map ?row (filter (\<lambda>k. k = i) (remdups (map order_fills_pool_id ?rows)))"
      using assms(2) by (auto simp: filter_map comp_def intro!: arg_cong [where f = "map _"] filter_cong)
    also have "filter (\<lambda>k. k = i) (remdups (map order_fills_pool_id ?rows)) = (if ?prices i = {} then [] else [i])"
    proof -
      have "?prices i \<noteq> {} \<longleftrightarrow> i \<in> order_fills_pool_id ` set ?rows"
        by (auto simp: day_fills_def pool_fills_def)
      moreover have "filter (\<lambda>k. k = i) ks = (if i \<in> set ks then [i] else [])" if "distinct ks" for ks :: "string list"
        using that by (induction ks) auto
      ultimately show ?thesis by simp
    qed
    finally show ?thesis by simp
  qed
  finally show "hm_get m i = day_high_low ?db now i d"
    using assms(2) by (simp add: day_high_low_def Let_def hm.get_empty split: prod.split)
  show "s' = s\<lparr>connections := connections s + 1, db_requests_succeeded := db_requests_succeeded s + 1\<rparr>" by (rule s')
qed

lemma price_exponent_small:
  assumes "0 \<le> 9 - base + quote" and "9 - base + quote \<le> 15"
  shows "price_exponent_i16 base quote = 9 - base + quote"
proof -
  have "price_exponent_i16 base quote = wrap_i16 (9 - base + quote)"
    unfolding price_exponent_i16_def wrap_i16_def by (simp add: mod_simps algebra_simps)
  with assms show ?thesis by (simp add: wrap_i16_def)
qed

text \<open>C35: the highest and the lowest price of a day really enclose the prices of the day: when the price
  exponent of the pool is between 0 and 15, every fill of the pool in the last 24 hours has a price,
  as the quotient of floating-point numbers, between the two that are reported, and both are prices of
  such fills.\<close>

theorem day_prices_enclose:
  assumes "high_low_prices_24h env now decimals s = (Inr m, s')"
    and "hm_get decimals i = Some (base, quote)"
    and "0 \<le> 9 - base + quote" and "9 - base + quote \<le> 15"
    and "f \<in> set (day_fills (contents env (connections s)) now i)"
  shows "\<exists>hi lo. hm_get m i = Some (hi, lo) \<and>
    (let price = (\<lambda>f. f64_div (f64_of_int (order_fills_price f)) (F64 (10 ^ nat (9 - base + quote))))
     in lo \<le> price f \<and> price f \<le> hi \<and>
        {lo, hi} \<subseteq> price ` set (day_fills (contents env (connections s)) now i))"
proof -
  let ?fills = "day_fills (contents env (connections s)) now i"
  let ?prices = "order_fills_price ` set ?fills"
  have p: "scaled_price base quote x = f64_div (f64_of_int x) (F64 (10 ^ nat (9 - base + quote)))" for x
    unfolding scaled_price_def price_exponent_small [OF assms(3,4)] powi10_exact [OF assms(3,4)] ..
  have ne: "?prices \<noteq> {}" using assms(5) by auto
  then have "hm_get m i = Some (scaled_price base quote (Max ?prices), scaled_price base quote (Min ?prices))"
    using high_low_get(1) [OF assms(1,2)] by (simp add: day_high_low_def)
  moreover have "Min ?prices \<le> order_fills_price f" "order_fills_price f \<le> Max ?prices"
    using assms(5) by simp_all
  moreover have "Max ?prices \<in> ?prices" "Min ?prices \<in> ?prices" using ne by (intro Max_in Min_in; simp)+
  ultimately show ?thesis
    by (auto simp: p Let_def intro!: scaled_int_mono)
qed

theorem day_prices_enclose_witness:
  "\<exists>m s' hi lo. high_low_prices_24h (steady_env trades_db) 4000 [(''0x1'', (9, 6))] fresh_state = (Inr m, s') \<and>
     hm_get m ''0x1'' = Some (hi, lo) \<and> lo \<le> f64_div (f64_of_int 3) (F64 1000000)"
proof -
  obtain m s' where r: "high_low_prices_24h (steady_env trades_db) 4000 [(''0x1'', (9, 6))] fresh_state = (Inr m, s')"
    unfolding high_low_prices_24h_def by (simp add: Let_def rpc_map_def rpc_bind_def rpc_return_def results_def
        db_request_def run_query_def high_low_rows)
  have "i64_sub 4000 DAY_MS = - 86396000" by (simp add: i64_sub_def DAY_MS_def wrap_i64_def)
  then have f: "hd (tb_order_fills trades_db) \<in>
      set (day_fills (contents (steady_env trades_db) (connections fresh_state)) 4000 ''0x1'')"
    by (simp add: trades_db_def day_fills_def pool_fills_def between_def)
  have g: "hm_get [(''0x1'', (9, 6))] ''0x1'' = Some (9, 6)" by (simp add: hm_get_def)
  show ?thesis using day_prices_enclose [OF r g _ _ f] r by (auto simp: Let_def trades_db_def)
qed

section \<open>The change of a price\<close>

definition price_change :: "i16 \<times> i16 \<Rightarrow> i64 option \<Rightarrow> i64 option \<Rightarrow> f64" where
  "price_change = (\<lambda>(base, quote) old new.
     case (old, new) of
       (Some a, Some b) \<Rightarrow> price_change_percent a b (pow10_i16 (price_exponent_i16 base quote))
     | _ \<Rightarrow> F64 0)"

definition change_of_day :: "database \<Rightarrow> i64 \<Rightarrow> string \<Rightarrow> i16 \<times> i16 \<Rightarrow> f64 \<Rightarrow> bool" where
  "change_of_day db now i d v \<longleftrightarrow>
     (\<exists>old new. newest_price (pool_fills db (i64_sub now (2 * DAY_MS)) (i64_sub now DAY_MS) i) old \<and>
        newest_price (day_fills db now i) new \<and> v = price_change d old new)"

lemma get_price_steady:
  assumes "get_price (steady_env db) a b i s = (r, s')"
  shows "newest_price (pool_fills db a b i) (case r of Inl _ \<Rightarrow> None | Inr x \<Rightarrow> Some x)"
proof (cases "order_desc checkpoint_timestamp_ms (pool_fills db a b i)")
  case Nil
  then have "pool_fills db a b i = []" by (metis length_order_desc length_0_conv)
  moreover have "\<exists>e. r = Inl e"
    using assms Nil by (simp add: get_price_def first_def db_request_def run_query_def first_row_def
        pool_fills_def Let_def) blast
  ultimately show ?thesis by (auto simp: newest_price_def)
next
  case (Cons f rest)
  then have "r = Inr (order_fills_price f)"
    using assms by (simp add: get_price_def first_def db_request_def run_query_def first_row_def
        pool_fills_def Let_def)
  then show ?thesis using order_desc_hd [OF Cons] by (auto simp: newest_price_def)
qed

lemma pool_price_change_steady:
  "\<exists>v s'. pool_price_change (steady_env db) now (n, i, d) s = (Inr (n, v), s') \<and> change_of_day db now i d v"
proof -
  let ?env = "steady_env db"
  obtain r1 s1 where p1: "get_price ?env (i64_sub now (2 * DAY_MS)) (i64_sub now DAY_MS) i s = (r1, s1)"
    by (metis surj_pair)
  obtain r2 s2 where p2: "get_price ?env (i64_sub now DAY_MS) now i s1 = (r2, s2)" by (metis surj_pair)
  show ?thesis using get_price_steady [OF p1] get_price_steady [OF p2] p1 p2
    by (cases d; cases r1; cases r2)
      (auto simp: pool_price_change_def rpc_bind_def rpc_try_def rpc_return_def Let_def change_of_day_def
        day_fills_def price_change_def intro!: exI)
qed

lemma rpc_mapM_all2:
  assumes "\<And>x s. x \<in> set xs \<Longrightarrow> \<exists>y s'. f x s = (Inr y, s') \<and> R x y"
  shows "\<exists>ys s'. rpc_mapM f xs s = (Inr ys, s') \<and> list_all2 R xs ys"
  using assms
proof (induction xs arbitrary: s)
  case (Cons x xs)
  then obtain y s1 where y: "f x s = (Inr y, s1)" "R x y" by (meson list.set_intros(1))
  obtain ys s2 where "rpc_mapM f xs s1 = (Inr ys, s2)" "list_all2 R xs ys"
    using Cons.IH [of s1] Cons.prems by (meson list.set_intros(2))
  with y show ?case by (simp add: rpc_bind_def rpc_map_def rpc_return_def)
qed (simp add: rpc_return_def)

lemma list_all2_member: "list_all2 R xs ys \<Longrightarrow> x \<in> set xs \<Longrightarrow> \<exists>y\<in>set ys. R x y"
  by (induction rule: list_all2_induct) auto

lemma price_changes_steady:
  assumes "hm_wf md"
  shows "\<exists>pc s'. price_change_24h (steady_env db) now md s = (Inr pc, s') \<and>
    (\<forall>(n, i, d)\<in>set md. \<exists>v. hm_get pc n = Some v \<and> change_of_day db now i d v)"
proof -
  let ?R = "\<lambda>(n, i, d) (n', v). n' = n \<and> change_of_day db now i d v"
  obtain ys s' where ys: "rpc_mapM (pool_price_change (steady_env db) now) md s = (Inr ys, s')" "list_all2 ?R md ys"
    using rpc_mapM_all2 [of md "pool_price_change (steady_env db) now" ?R s] pool_price_change_steady by fastforce
  have keys: "map fst ys = map fst md" using ys(2) by (induction rule: list_all2_induct) auto
  have "\<exists>v. hm_get (hm_collect ys) n = Some v \<and> change_of_day db now i d v" if md: "(n, i, d) \<in> set md" for n i d
  proof -
    obtain y where "y \<in> set ys" "?R (n, i, d) y" using list_all2_member [OF ys(2) md] by blast
    then obtain v where "(n, v) \<in> set ys" "change_of_day db now i d v" by (cases y) auto
    moreover have "distinct (map fst ys)" using assms by (simp add: keys hm_wf_def)
    ultimately show ?thesis by (auto simp: hm_get_collect_distinct)
  qed
  then show ?thesis using ys(1) by (auto simp: price_change_24h_def rpc_map_def rpc_bind_def rpc_return_def)
qed

section \<open>The summary\<close>

text \<open>A working database with at least one pool.\<close>

definition market_db :: "database \<Rightarrow> bool" where
  "market_db db \<longleftrightarrow> tb_pools db \<noteq> [] \<and> pools_wf (tb_pools db) \<and>
     list_all (\<lambda>q. CHR '','' \<notin> set (pools_pool_name q)) (tb_pools db)"

lemma ticker_steady:
  assumes "market_db db"
  shows "\<exists>m s'. ticker (steady_env db) now params s = (Inr m, s')"
proof -
  obtain f g where "\<And>params s. all_historical_volume_with_pools (steady_env db) now params (tb_pools db) s =
      (Inr (f params s), g params s)"
    using volumes_steady [of "tb_pools db" db now] assms unfolding market_db_def by metis
  then show ?thesis
    by (simp add: ticker_def rpc_bind_def get_pools_def results_def db_request_def run_query_def rpc_try_def
        rpc_lift_def rpc_return_def fetch_historical_volume_with_pools_def Let_def last_prices_query_def)
qed

lemma high_low_steady: "\<exists>m s'. high_low_prices_24h (steady_env db) now decimals s = (Inr m, s')"
  unfolding high_low_prices_24h_def
  by (simp add: Let_def rpc_map_def rpc_bind_def rpc_return_def results_def db_request_def run_query_def high_low_rows)

lemma summary_metadata_get:
  assumes "pools_wf pools" and "p \<in> set pools"
  shows "hm_get (summary_metadata pools) (pools_pool_name p) =
    Some (pools_pool_id p, pools_base_asset_decimals p, pools_quote_asset_decimals p)"
proof -
  let ?ps = "map (\<lambda>p. (pools_pool_name p, (pools_pool_id p, pools_base_asset_decimals p, pools_quote_asset_decimals p))) pools"
  have d: "distinct (map fst ?ps)" using assms(1) by (simp add: pools_wf_def comp_def)
  then have "map_of ?ps (pools_pool_name p) =
      Some (pools_pool_id p, pools_base_asset_decimals p, pools_quote_asset_decimals p)"
    using assms(2) by (intro map_of_is_SomeI) auto
  then show ?thesis by (simp only: summary_metadata_def hm_get_collect_distinct [OF d])
qed

lemma summary_decimals_get:
  assumes "pools_wf pools" and "p \<in> set pools"
  shows "hm_get (summary_decimals (summary_metadata pools)) (pools_pool_id p) =
    Some (pools_base_asset_decimals p, pools_quote_asset_decimals p)"
proof -
  let ?md = "summary_metadata pools"
  let ?ps = "map (\<lambda>(_, (i, d)). (i, d)) ?md"
  have wf: "hm_wf ?md" by (simp add: summary_metadata_def hm_wf_collect)
  have md: "(n, i, d) \<in> set ?md \<longleftrightarrow> (\<exists>q\<in>set pools. n = pools_pool_name q \<and> i = pools_pool_id q \<and>
      d = (pools_base_asset_decimals q, pools_quote_asset_decimals q))" for n i d
  proof
    assume m: "(n, i, d) \<in> set ?md"
    then have "n \<in> fst ` set ?md" by force
    then obtain q where q: "q \<in> set pools" "n = pools_pool_name q"
      unfolding summary_metadata_def hm_collect_keys by auto
    moreover have "hm_get ?md n = Some (i, d)" using m wf by (simp add: hm_get_Some_iff)
    ultimately show "\<exists>q\<in>set pools. n = pools_pool_name q \<and> i = pools_pool_id q \<and>
      d = (pools_base_asset_decimals q, pools_quote_asset_decimals q)"
      using summary_metadata_get [OF assms(1) q(1)] by auto
  next
    assume "\<exists>q\<in>set pools. n = pools_pool_name q \<and> i = pools_pool_id q \<and>
      d = (pools_base_asset_decimals q, pools_quote_asset_decimals q)"
    then show "(n, i, d) \<in> set ?md" using summary_metadata_get [OF assms(1)] wf by (auto simp: hm_get_Some_iff)
  qed
  have uniq: "q = q'" if "q \<in> set pools" "q' \<in> set pools" "pools_pool_id q = pools_pool_id q'" for q q'
    using assms(1) that by (auto simp: pools_wf_def distinct_map dest: inj_onD)
  have "inj_on (\<lambda>(_, (i, _)). i) (set ?md)"
    by (rule inj_onI) (auto simp: md dest: uniq)
  then have "distinct (map fst ?ps)"
    using wf by (auto simp: hm_wf_def distinct_map comp_def split_def)
  moreover from this have "map_of ?ps (pools_pool_id p) =
      Some (pools_base_asset_decimals p, pools_quote_asset_decimals p)"
    using assms(2) md by (intro map_of_is_SomeI) force+
  ultimately show ?thesis by (simp only: summary_decimals_def hm_get_collect_distinct)
qed

text \<open>What a summary tells of a pool: the volumes and the last price of the last 24 hours (a value that is not
  finite is shown as 0), the change against the day before, and the highest and the lowest price.\<close>

definition shown :: "f64 \<Rightarrow> json" where
  "shown x = json_of_f64 (if is_finite x then x else F64 0)"

definition day_volume :: "bool \<Rightarrow> database \<Rightarrow> i64 \<Rightarrow> Pools \<Rightarrow> int" where
  "day_volume base db now p = uint (as_u64 (sum_list (map (fill_volume base) (day_fills db now (pools_pool_id p)))))"

definition summary_of :: "database \<Rightarrow> i64 \<Rightarrow> Pools \<Rightarrow> json_object \<Rightarrow> bool" where
  "summary_of db now p e \<longleftrightarrow>
     (let base = pools_base_asset_decimals p; quote = pools_quote_asset_decimals p;
          (high, low) = unwrap_or (F64 0, F64 0) (day_high_low db now (pools_pool_id p) (base, quote))
      in map_of e ''trading_pairs'' = Some (JString (pools_pool_name p)) \<and>
         map_of e ''base_volume'' = Some (shown (scaled_f64 (day_volume True db now p) (pow10_i16 base))) \<and>
         map_of e ''quote_volume'' = Some (shown (scaled_f64 (day_volume False db now p) (pow10_i16 quote))) \<and>
         map_of e ''highest_price_24h'' = Some (json_of_f64 high) \<and>
         map_of e ''lowest_price_24h'' = Some (json_of_f64 low) \<and>
         (\<exists>v. change_of_day db now (pools_pool_id p) (base, quote) v \<and>
            map_of e ''price_change_percent_24h'' = Some (json_of_f64 v)) \<and>
         (\<exists>price. newest_price (day_fills db now (pools_pool_id p)) price \<and>
            map_of e ''last_price'' = Some (shown (case price of None \<Rightarrow> F64 0
              | Some x \<Rightarrow> scaled_f64 x (pow10_i16 (price_exponent_i16 base quote))))))"

lemma number_or_zero_shown:
  "map_of obj key = Some (json_of_f64 x) \<Longrightarrow> json_of_f64 (number_or_zero key obj) = shown x"
  by (simp add: number_or_zero_def json_of_f64_def as_f64_def unwrap_or_def shown_def)

lemma no_params: "param_end_time now Map.empty = now" "window_start Map.empty e = i64_sub e DAY_MS"
  by (simp_all add: param_end_time_def window_start_def param_start_time_def param_i64_def unwrap_or_def)

lemma concat_singletons:
  assumes "list_all2 (\<lambda>_ _. True) xs rs" and "\<And>x r. x \<in> set xs \<Longrightarrow> \<exists>e. g (x, r) = [e] \<and> Q x e"
  shows "list_all2 Q xs (concat (map g (zip xs rs)))"
  using assms
proof (induction rule: list_all2_induct)
  case (Cons x xs r rs)
  then obtain e where "g (x, r) = [e]" "Q x e" by (meson list.set_intros(1))
  with Cons show ?case by simp
qed simp

lemma summary_entry_of:
  assumes "market_db db" and p: "p \<in> set (tb_pools db)"
    and "ticker (steady_env db) now Map.empty s = (Inr m, s')"
    and "(pools_pool_name p, info) \<in> set m"
    and "\<exists>v. hm_get pc (pools_pool_name p) = Some v \<and>
      change_of_day db now (pools_pool_id p) (pools_base_asset_decimals p, pools_quote_asset_decimals p) v"
    and "hm_get hl (pools_pool_id p) =
      day_high_low db now (pools_pool_id p) (pools_base_asset_decimals p, pools_quote_asset_decimals p)"
  shows "\<exists>e. summary_entry (summary_metadata (tb_pools db)) pc hl ((pools_pool_name p, info), r) = [e] \<and>
    summary_of db now p e"
proof -
  have wf: "pools_wf (tb_pools db)"
    and names: "list_all (\<lambda>q. CHR '','' \<notin> set (pools_pool_name q)) (tb_pools db)"
    using assms(1) by (simp_all add: market_db_def)
  from ticker_parts [OF assms(3), simplified, OF wf names] obtain bv qv prices where
      m: "m = hm_collect (map (\<lambda>(_, p). (pools_pool_name p, ticker_entry bv qv prices p))
         (hm_collect (map (\<lambda>p. (pools_pool_id p, p)) (tb_pools db))))"
    and vol: "\<forall>p\<in>set (tb_pools db).
       uint (unwrap_or 0 (hm_get bv (pools_pool_name p))) = window_volume True db now Map.empty p \<and>
       uint (unwrap_or 0 (hm_get qv (pools_pool_name p))) = window_volume False db now Map.empty p"
    and price: "\<forall>i. newest_price (pool_fills db (i64_sub now DAY_MS) now i) (hm_get prices i)"
    by blast
  have "hm_get m (pools_pool_name p) = Some info" using assms(4) m by (simp add: hm_get_Some_iff hm_wf_collect)
  moreover have "distinct (map fst (map (\<lambda>p. (pools_pool_name p, ticker_entry bv qv prices p)) (tb_pools db)))"
    using wf by (simp add: pools_wf_def comp_def)
  ultimately have info: "info = ticker_entry bv qv prices p"
    using named_collect [OF wf m, of "pools_pool_name p"] p
      map_of_is_SomeI [of _ "pools_pool_name p" "ticker_entry bv qv prices p"] by fastforce
  have n: "json_of_f64 (number_or_zero ''base_volume'' info) =
        shown (scaled_f64 (day_volume True db now p) (pow10_i16 (pools_base_asset_decimals p)))"
      "json_of_f64 (number_or_zero ''quote_volume'' info) =
        shown (scaled_f64 (day_volume False db now p) (pow10_i16 (pools_quote_asset_decimals p)))"
      "json_of_f64 (number_or_zero ''last_price'' info) = shown (case hm_get prices (pools_pool_id p) of
         None \<Rightarrow> F64 0 | Some x \<Rightarrow> scaled_f64 x (pow10_i16 (price_exponent_i16
           (pools_base_asset_decimals p) (pools_quote_asset_decimals p))))"
    using bspec [OF vol p]
    by (intro number_or_zero_shown; simp add: info ticker_entry_def Let_def window_volume_def no_params
        day_volume_def day_fills_def)+
  obtain v where v: "hm_get pc (pools_pool_name p) = Some v"
    "change_of_day db now (pools_pool_id p) (pools_base_asset_decimals p, pools_quote_asset_decimals p) v"
    using assms(5) by blast
  have pr: "newest_price (day_fills db now (pools_pool_id p)) (hm_get prices (pools_pool_id p))"
    using price by (simp add: day_fills_def)
  show ?thesis
    unfolding summary_entry_def prod.case summary_metadata_get [OF wf p] option.case Let_def assms(6)
    by (auto simp: summary_of_def n v(1) Let_def unwrap_or_def split: prod.splits intro!: exI v(2) pr)
qed

lemma ticker_keys:
  assumes "market_db db" and "ticker (steady_env db) now params s = (Inr m, s')"
  shows "fst ` set m = pools_pool_name ` set (tb_pools db)" and "hm_wf m"
proof -
  have wf: "pools_wf (tb_pools db)"
    and names: "list_all (\<lambda>q. CHR '','' \<notin> set (pools_pool_name q)) (tb_pools db)"
    using assms(1) by (simp_all add: market_db_def)
  from ticker_parts [OF assms(2), simplified, OF wf names] obtain bv qv prices where
      m: "m = hm_collect (map (\<lambda>(_, p). (pools_pool_name p, ticker_entry bv qv prices p))
         (hm_collect (map (\<lambda>p. (pools_pool_id p, p)) (tb_pools db))))" by blast
  show "hm_wf m" unfolding m by (rule hm_wf_collect)
  have "k \<in> fst ` set m \<longleftrightarrow> k \<in> pools_pool_name ` set (tb_pools db)" for k
  proof -
    have "k \<in> fst ` set m \<longleftrightarrow> hm_get m k \<noteq> None" by (simp add: hm_get_def map_of_eq_None_iff)
    also have "\<dots> \<longleftrightarrow> k \<in> pools_pool_name ` set (tb_pools db)"
      unfolding named_collect [OF wf m] map_of_eq_None_iff by (simp add: image_image)
    finally show ?thesis .
  qed
  then show "fst ` set m = pools_pool_name ` set (tb_pools db)" by blast
qed

text \<open>The members of a map from the names of the pools are the pools.\<close>

lemma named_pools:
  assumes "pools_wf pools" and "fst ` set m = pools_pool_name ` set pools" and "hm_wf m"
  shows "mset (map (inv_into (set pools) pools_pool_name \<circ> fst) m) = mset pools"
proof (rule set_eq_iff_mset_eq_distinct [THEN iffD1])
  let ?pool = "inv_into (set pools) pools_pool_name"
  have inj: "inj_on pools_pool_name (set pools)" using assms(1) by (simp add: pools_wf_def distinct_map)
  show "distinct pools" using assms(1) by (auto simp: pools_wf_def distinct_map)
  have "inj_on ?pool (fst ` set m)" unfolding assms(2) by (rule inj_on_inv_into) simp
  then show "distinct (map (?pool \<circ> fst) m)" using assms(3)
    by (simp add: hm_wf_def distinct_map comp_inj_on flip: map_map)
  have "set (map (?pool \<circ> fst) m) = ?pool ` (fst ` set m)" by (simp only: set_map image_comp)
  then show "set (map (?pool \<circ> fst) m) = set pools"
    unfolding assms(2) inv_into_image_cancel [OF inj order_refl] .
qed

text \<open>C21: the summary reports every pool of the exchange exactly once, whatever the node answers. On a
  database that works, has a pool and whose pool names are unique and have no comma, a request for the
  summary succeeds: for each pool it has one entry, with the volumes of the pool in the last 24 hours,
  the newest price, the highest and the lowest one, and the change of the newest price against the day
  before.\<close>

theorem summary_entries:
  assumes "market_db db"
  shows "\<exists>es s' pools. summary lib ch cfg (steady_env db) now s = (Inr es, s') \<and>
    mset pools = mset (tb_pools db) \<and> list_all2 (summary_of db now) pools es"
proof -
  let ?pools = "tb_pools db" and ?env = "steady_env db"
  let ?md = "summary_metadata ?pools"
  have wf: "pools_wf ?pools" using assms by (simp add: market_db_def)
  obtain s1 where pools: "get_pools ?env s = (Inr ?pools, s1)"
    by (simp add: get_pools_def results_def db_request_def run_query_def)
  obtain m s2 where m: "ticker ?env now Map.empty s1 = (Inr m, s2)" using ticker_steady [OF assms] by blast
  obtain pc s3 where pc: "price_change_24h ?env now ?md s2 = (Inr pc, s3)"
    "\<forall>(n, i, d)\<in>set ?md. \<exists>v. hm_get pc n = Some v \<and> change_of_day db now i d v"
    using price_changes_steady [of ?md db now s2] by (auto simp: summary_metadata_def hm_wf_collect)
  obtain hl s4 where hl: "high_low_prices_24h ?env now (summary_decimals ?md) s3 = (Inr hl, s4)"
    using high_low_steady by blast
  obtain rs s5 where rs: "rpc_mapM (\<lambda>(pool_name, _). rpc_try (orderbook lib ch cfg ?env now pool_name
      [''level'' \<mapsto> ''1''])) m s4 = (Inr rs, s5)" "list_all2 (\<lambda>_ _. True) m rs"
    using rpc_mapM_all2 [of m "\<lambda>(pool_name, _). rpc_try (orderbook lib ch cfg ?env now pool_name
      [''level'' \<mapsto> ''1''])" "\<lambda>_ _. True" s4] by (force simp: rpc_try_def split: prod.splits)
  let ?es = "concat (map (summary_entry ?md pc hl) (zip m rs))"
  have sum: "summary lib ch cfg ?env now s = (Inr ?es, s5)"
    by (simp add: summary_def rpc_bind_def pools rpc_try_def m pc(1) hl rpc_lift_def rs(1)
        rpc_return_def Let_def)
  note keys = ticker_keys [OF assms m]
  let ?pool = "inv_into (set ?pools) pools_pool_name"
  have "\<exists>e. summary_entry ?md pc hl ((n, info), r) = [e] \<and> summary_of db now (?pool n) e"
    if "(n, info) \<in> set m" for n info r
  proof -
    have "n \<in> pools_pool_name ` set ?pools" using that keys(1) by force
    then have p: "?pool n \<in> set ?pools" "pools_pool_name (?pool n) = n"
      by (simp_all add: inv_into_into f_inv_into_f)
    have "\<exists>v. hm_get pc (pools_pool_name (?pool n)) = Some v \<and> change_of_day db now (pools_pool_id (?pool n))
        (pools_base_asset_decimals (?pool n), pools_quote_asset_decimals (?pool n)) v"
      using pc(2) summary_metadata_get [OF wf p(1)] by (auto simp: hm_get_Some_iff summary_metadata_def hm_wf_collect)
    from summary_entry_of [OF assms p(1) m _ this high_low_get(1) [OF hl summary_decimals_get [OF wf p(1)], simplified]]
    show ?thesis using that p(2) by simp
  qed
  then have "list_all2 (\<lambda>x. summary_of db now (?pool (fst x))) m ?es"
    by (intro concat_singletons [OF rs(2)]) auto
  then have "list_all2 (summary_of db now) (map (?pool \<circ> fst) m) ?es" by (simp add: list_all2_map1 comp_def)
  moreover have "mset (map (?pool \<circ> fst) m) = mset ?pools" by (rule named_pools [OF wf keys])
  ultimately show ?thesis using sum by blast
qed

theorem summary_entries_witness:
  "\<forall>(lib :: unit chain_lib) ch cfg. \<exists>e s'. summary lib ch cfg (steady_env trades_db) 4000 fresh_state = (Inr [e], s') \<and>
     map_of e ''trading_pairs'' = Some (JString ''SUI_USDC'')"
proof (intro allI)
  fix lib :: "unit chain_lib" and ch cfg
  have "market_db trades_db" by (simp add: market_db_def pools_wf_def trades_db_def)
  then obtain es s' pools where r: "summary lib ch cfg (steady_env trades_db) 4000 fresh_state = (Inr es, s')"
    "mset pools = mset (tb_pools trades_db)" "list_all2 (summary_of trades_db 4000) pools es"
    using summary_entries by blast
  obtain p where p: "tb_pools trades_db = [p]" "pools_pool_name p = ''SUI_USDC''" by (simp add: trades_db_def)
  with r(2) have "pools = [p]" by simp
  with r(3) obtain e where "es = [e]" "summary_of trades_db 4000 p e" by (auto simp: list_all2_Cons1)
  with r(1) p(2) show "\<exists>e s'. summary lib ch cfg (steady_env trades_db) 4000 fresh_state = (Inr [e], s') \<and>
      map_of e ''trading_pairs'' = Some (JString ''SUI_USDC'')"
    by (auto simp: summary_of_def Let_def split: prod.splits)
qed

end
