(* ===== verification/End_To_End.thy ===== *)
theory End_To_End
  imports Handlers_Core Handlers_Margin Event_Endpoints Volume Net_Deposits
begin

text \<open>
  From the chain to the answer of the server. The checkpoints of the chain are processed by a handler,
  its batches of rows are committed by the concurrent pipeline, and the server answers a request from
  the table. The lemmas hold for every handler of an event (the locale \<open>event_handler\<close>); the properties
  instantiate them for the borrowed loans, for the volume of the fills and for the net deposits.
\<close>

section \<open>Events on the chain\<close>

definition checkpoint_txs :: "Checkpoint list \<Rightarrow> (Checkpoint \<times> ExecutedTransaction) list" where
  "checkpoint_txs cps = concat (map (\<lambda>cp. map (Pair cp) (transactions cp)) cps)"

text \<open>
  The keys of the events of a type on the chain, one for every event: the text of the digest of its
  transaction and its index, without a separator. That no two of these events have the same key is a
  hypothesis of the properties of this theory; it holds for all events when the digests are different
  and none of their texts is another one followed by digits.
\<close>

definition event_keys ::
  "sui_lib \<Rightarrow> sandbox_state \<Rightarrow> DeepbookEnv \<Rightarrow> MoveStruct \<Rightarrow> Checkpoint list \<Rightarrow> string list" where
  "event_keys lib st env ms cps = concat (map (\<lambda>(_, tx).
     map (\<lambda>(i, _). event_key (digest_to_string lib (tx_effects_digest tx)) i) (tx_matches lib st env ms tx))
     (checkpoint_txs cps))"

definition unique_keys ::
  "sui_lib \<Rightarrow> sandbox_state \<Rightarrow> DeepbookEnv \<Rightarrow> MoveStruct \<Rightarrow> Checkpoint list \<Rightarrow> bool" where
  "unique_keys lib st env ms cps \<longleftrightarrow> distinct (event_keys lib st env ms cps)"

definition digests_apart :: "string list \<Rightarrow> bool" where
  "digests_apart ds \<longleftrightarrow> distinct ds \<and>
     (\<forall>d\<in>set ds. \<forall>d'\<in>set ds. \<forall>s. d' = d @ s \<longrightarrow> list_all is_digit s \<longrightarrow> s = [])"

lemma event_key_apart:
  assumes "digests_apart ds" and "d \<in> set ds" and "d' \<in> set ds" and "event_key d i = event_key d' j"
  shows "d = d' \<and> i = j"
proof -
  from assms(4) obtain us where "d = d' @ us \<and> us @ show_nat i = show_nat j \<or> d @ us = d' \<and> show_nat i = us @ show_nat j"
    by (auto simp: event_key_def append_eq_append_conv2)
  then have "us = [] \<and> d = d'"
    using assms(1-3) show_nat_digits [of i] show_nat_digits [of j]
    unfolding digests_apart_def by (metis append_Nil2 list_all_append)
  with assms(4) show ?thesis by (simp add: event_key_inj_index)
qed

lemma distinct_concat_mapI:
  assumes "distinct xs" and "\<And>x. x \<in> set xs \<Longrightarrow> distinct (f x)"
    and "\<And>x y k. x \<in> set xs \<Longrightarrow> y \<in> set xs \<Longrightarrow> k \<in> set (f x) \<Longrightarrow> k \<in> set (f y) \<Longrightarrow> x = y"
  shows "distinct (concat (map f xs))"
  using assms
proof (induction xs)
  case (Cons x xs)
  have "distinct (concat (map f xs))" by (rule Cons.IH) (use Cons.prems in auto)
  moreover have "set (f x) \<inter> set (f y) = {}" if "y \<in> set xs" for y
    using Cons.prems(1) Cons.prems(3) [of x y] that by auto
  ultimately show ?case using Cons.prems(2) [of x] by auto
qed simp

lemma distinct_concat_mapD:
  "distinct (concat (map f xs)) \<Longrightarrow> x \<in> set xs \<Longrightarrow> y \<in> set xs \<Longrightarrow> k \<in> set (f x) \<Longrightarrow> k \<in> set (f y) \<Longrightarrow> x = y"
  by (induction xs) auto

lemma distinct_concat_map_each: "distinct (concat (map f xs)) \<Longrightarrow> x \<in> set xs \<Longrightarrow> distinct (f x)"
  by (induction xs) auto

lemma tx_matches_distinct: "distinct (map fst (tx_matches lib st env ms tx))"
  by (auto simp: tx_matches_def map_fst_enumerate distinct_map_filter split: option.split)

lemma digests_apart_unique_keys:
  assumes "digests_apart (map (\<lambda>(_, tx). digest_to_string lib (tx_effects_digest tx)) (checkpoint_txs cps))"
  shows "unique_keys lib st env ms cps"
  unfolding unique_keys_def event_keys_def
proof (rule distinct_concat_mapI)
  let ?d = "\<lambda>(_ :: Checkpoint, tx). digest_to_string lib (tx_effects_digest tx)"
  have d: "inj_on ?d (set (checkpoint_txs cps))" "distinct (checkpoint_txs cps)"
    using assms by (simp_all add: digests_apart_def distinct_map)
  then show "distinct (checkpoint_txs cps)" by blast
  fix x assume x: "x \<in> set (checkpoint_txs cps)"
  show "distinct ((\<lambda>(_, tx). map (\<lambda>(i, _). event_key (digest_to_string lib (tx_effects_digest tx)) i)
      (tx_matches lib st env ms tx)) x)"
    using tx_matches_distinct [of lib st env ms "snd x"]
    by (cases x) (simp add: distinct_map inj_on_def event_key_inj_index split_beta)
  fix y k assume y: "y \<in> set (checkpoint_txs cps)"
    and "k \<in> set ((\<lambda>(_, tx). map (\<lambda>(i, _). event_key (digest_to_string lib (tx_effects_digest tx)) i)
      (tx_matches lib st env ms tx)) x)"
    and "k \<in> set ((\<lambda>(_, tx). map (\<lambda>(i, _). event_key (digest_to_string lib (tx_effects_digest tx)) i)
      (tx_matches lib st env ms tx)) y)"
  then obtain i j where "event_key (?d x) i = k" "event_key (?d y) j = k"
    by (auto simp: split_beta)
  then have "event_key (?d x) i = event_key (?d y) j" by simp
  then have "?d x = ?d y" using event_key_apart [OF assms, of "?d x" "?d y" i j] x y by simp
  with d(1) show "x = y" using x y by (rule inj_onD)
qed

text \<open>The events of a type on the chain, each with its checkpoint, its transaction and its index there, and
  their rows.\<close>

definition chain_events ::
  "sui_lib \<Rightarrow> sandbox_state \<Rightarrow> DeepbookEnv \<Rightarrow> MoveStruct \<Rightarrow> (bytes \<Rightarrow> 'ev option) \<Rightarrow> Checkpoint list \<Rightarrow>
   (Checkpoint \<times> ExecutedTransaction \<times> nat \<times> 'ev) set" where
  "chain_events lib st env ms decode cps =
     {(cp, tx, i, e). (cp, tx) \<in> set (checkpoint_txs cps) \<and>
        (\<exists>ev. (i, ev) \<in> set (tx_matches lib st env ms tx) \<and> decode (event_contents ev) = Some e)}"

definition row_of ::
  "sui_lib \<Rightarrow> ('ev \<Rightarrow> EventMeta \<Rightarrow> 'row) \<Rightarrow> Checkpoint \<times> ExecutedTransaction \<times> nat \<times> 'ev \<Rightarrow> 'row" where
  "row_of lib map_event = (\<lambda>(cp, tx, i, e). map_event e (with_index (from_checkpoint_tx lib cp tx) i))"

definition event_rows ::
  "sui_lib \<Rightarrow> sandbox_state \<Rightarrow> DeepbookEnv \<Rightarrow> MoveStruct \<Rightarrow> (bytes \<Rightarrow> 'ev option) \<Rightarrow>
   ('ev \<Rightarrow> EventMeta \<Rightarrow> 'row) \<Rightarrow> Checkpoint list \<Rightarrow> 'row set" where
  "event_rows lib st env ms decode map_event cps = row_of lib map_event ` chain_events lib st env ms decode cps"

lemma event_rows_eq:
  "event_rows lib st env ms decode map_event cps =
     {map_event e (with_index (from_checkpoint_tx lib cp tx) i) | cp tx i ev e.
        (cp, tx) \<in> set (checkpoint_txs cps) \<and> (i, ev) \<in> set (tx_matches lib st env ms tx) \<and>
        decode (event_contents ev) = Some e}"
  unfolding event_rows_def chain_events_def row_of_def by (rule set_eqI) (auto simp: image_iff, blast+)

lemma set_checkpoint_txs: "set (checkpoint_txs cps) = {(cp, tx). cp \<in> set cps \<and> tx \<in> set (transactions cp)}"
  by (auto simp: checkpoint_txs_def)

lemma unique_keysD:
  assumes "unique_keys lib st env ms cps"
    and "(cp, tx) \<in> set (checkpoint_txs cps)" and "(i, ev) \<in> set (tx_matches lib st env ms tx)"
    and "(cp', tx') \<in> set (checkpoint_txs cps)" and "(j, ev') \<in> set (tx_matches lib st env ms tx')"
    and "event_key (digest_to_string lib (tx_effects_digest tx)) i =
      event_key (digest_to_string lib (tx_effects_digest tx')) j"
  shows "cp = cp' \<and> tx = tx' \<and> i = j"
proof -
  have "(cp, tx) = (cp', tx')"
    by (rule distinct_concat_mapD [OF assms(1) [unfolded unique_keys_def event_keys_def] assms(2,4)])
      (use assms(3,5,6) in force)+
  then show ?thesis using assms(6) by (simp add: event_key_inj_index)
qed

lemma event_rows_Cons:
  "event_rows lib st env ms decode map_event (cp # cps) =
     event_rows lib st env ms decode map_event [cp] \<union> event_rows lib st env ms decode map_event cps"
  unfolding event_rows_eq set_checkpoint_txs by (rule set_eqI) (simp, blast)

lemma tx_matches_index:
  "(i, ev) \<in> set (tx_matches lib st env ms tx) \<Longrightarrow> (i, ev') \<in> set (tx_matches lib st env ms tx) \<Longrightarrow> ev = ev'"
  by (cases "tx_events tx") (auto simp: tx_matches_def in_set_enumerate_eq)

lemma collect_result_elem: "collect_result f xs = Inr ys \<Longrightarrow> x \<in> set xs \<Longrightarrow> \<exists>zs. f x = Inr zs"
  by (induction xs arbitrary: ys) (auto simp: result_simps)

context event_handler begin

lemma rows_keys:
  assumes "unique_keys lib st env ms cps"
  shows "inj_on (event_digest \<circ> row_of lib map_event) (chain_events lib st env ms decode cps)"
proof (rule inj_onI)
  fix x y assume x: "x \<in> chain_events lib st env ms decode cps" and y: "y \<in> chain_events lib st env ms decode cps"
    and k: "(event_digest \<circ> row_of lib map_event) x = (event_digest \<circ> row_of lib map_event) y"
  obtain cp tx i e ev where x': "x = (cp, tx, i, e)" "(cp, tx) \<in> set (checkpoint_txs cps)"
    "(i, ev) \<in> set (tx_matches lib st env ms tx)" "decode (event_contents ev) = Some e"
    using x unfolding chain_events_def by blast
  obtain cp' tx' i' e' ev' where y': "y = (cp', tx', i', e')" "(cp', tx') \<in> set (checkpoint_txs cps)"
    "(i', ev') \<in> set (tx_matches lib st env ms tx')" "decode (event_contents ev') = Some e'"
    using y unfolding chain_events_def by blast
  have "event_key (digest_to_string lib (tx_effects_digest tx)) i =
      event_key (digest_to_string lib (tx_effects_digest tx')) i'"
    using k by (simp add: x'(1) y'(1) row_of_def key meta_event_digest_def with_index_def from_checkpoint_tx_def)
  then have "cp = cp' \<and> tx = tx' \<and> i = i'" by (rule unique_keysD [OF assms x'(2,3) y'(2,3)])
  with x' y' tx_matches_index show "x = y" by fastforce
qed

lemma rows_consistent:
  assumes "unique_keys lib st env ms cps"
  shows "inj_on event_digest (event_rows lib st env ms decode map_event cps)"
  unfolding event_rows_def by (rule inj_on_imageI) (rule rows_keys [OF assms])

lemma batches_rows:
  assumes "parsers_agree lib" and "full_packages st env" and "MODULE ms \<notin> set get_sui_modules"
    and "map (process_handler lib st env ms decode map_event) cps = map Inr batches"
  shows "batch_rows batches = event_rows lib st env ms decode map_event cps"
proof -
  have one: "set rows = event_rows lib st env ms decode map_event [cp]"
    if "process_handler lib st env ms decode map_event cp = Inr rows" for cp rows
  proof -
    have tx: "set rs = {map_event e (with_index (from_checkpoint_tx lib cp tx) i) | i ev e.
        (i, ev) \<in> set (tx_matches lib st env ms tx) \<and> decode (event_contents ev) = Some e}"
      if "collect_result (decode_event decode map_event (from_checkpoint_tx lib cp tx)) (tx_matches lib st env ms tx) = Inr rs"
      for tx rs
      unfolding collect_result_set [OF that] by (force simp: decode_event_def split: option.splits)
    from that have c: "collect_result (\<lambda>tx. collect_result (decode_event decode map_event (from_checkpoint_tx lib cp tx))
        (tx_matches lib st env ms tx)) (transactions cp) = Inr rows"
      by (simp only: process_handler_def process_tx_complete [OF assms(1-3)])
    have "\<exists>rs. collect_result (decode_event decode map_event (from_checkpoint_tx lib cp tx))
        (tx_matches lib st env ms tx) = Inr rs" if "tx \<in> set (transactions cp)" for tx
      using c that by (rule collect_result_elem)
    with tx show ?thesis
      unfolding collect_result_set [OF c] event_rows_eq set_checkpoint_txs by fastforce
  qed
  from assms(4) show ?thesis
  proof (induction cps arbitrary: batches)
    case Nil
    then show ?case by (simp add: batch_rows_def event_rows_eq set_checkpoint_txs)
  next
    case (Cons cp cps)
    then obtain b bs where "batches = b # bs" "process_handler lib st env ms decode map_event cp = Inr b"
      "map (process_handler lib st env ms decode map_event) cps = map Inr bs" by (cases batches) auto
    then show ?case using Cons.IH [of bs] one [of cp b]
      by (simp add: event_rows_Cons [of _ _ _ _ _ _ cp cps])
  qed
qed

lemma indexed:
  assumes "parsers_agree lib" and "full_packages st env" and "MODULE ms \<notin> set get_sui_modules"
    and "unique_keys lib st env ms cps"
    and "map (process_handler lib st env ms decode map_event) cps = map Inr batches"
    and "pipeline_reach batches s" and "waiting s = []"
  shows "set (stored s) = event_rows lib st env ms decode map_event cps \<and> distinct (map event_digest (stored s))"
  using drained_rows [OF pipeline_reach_inv [OF assms(6)] assms(7)] rows_consistent [OF assms(4)]
  by (simp add: consistent_batches_def batches_rows [OF assms(1-3,5)])

text \<open>A sum over rows of the table is a sum over events.\<close>

lemma event_sum:
  fixes g :: "'a event_row_scheme \<Rightarrow> int"
  assumes "unique_keys lib st env ms cps" and "distinct (map event_digest rows)"
    and "set rows = event_rows lib st env ms decode map_event cps"
  shows "sum_list (map g (filter P rows)) =
      (\<Sum>x\<in>{x \<in> chain_events lib st env ms decode cps. P (row_of lib map_event x)}. g (row_of lib map_event x))"
    and "filter P rows = [] \<longleftrightarrow> {x \<in> chain_events lib st env ms decode cps. P (row_of lib map_event x)} = {}"
proof -
  let ?row = "row_of lib map_event"
  let ?evs = "{x \<in> chain_events lib st env ms decode cps. P (?row x)}"
  have s: "set (filter P rows) = ?row ` ?evs" using assms(3) by (auto simp: event_rows_def)
  have "inj_on ?row (chain_events lib st env ms decode cps)"
    by (rule inj_on_imageI2 [OF rows_keys [OF assms(1)]])
  then have inj: "inj_on ?row ?evs" by (rule inj_on_subset) auto
  have "distinct (filter P rows)" using assms(2) by (simp add: distinct_map)
  then have "sum_list (map g (filter P rows)) = (\<Sum>r\<in>?row ` ?evs. g r)"
    by (simp only: sum_list_distinct_conv_sum_set s)
  then show "sum_list (map g (filter P rows)) = (\<Sum>x\<in>?evs. g (?row x))"
    by (simp add: sum.reindex [OF inj])
  show "filter P rows = [] \<longleftrightarrow> ?evs = {}" unfolding set_empty [symmetric] s image_is_empty ..
qed

end

section \<open>The answer of the server\<close>

text \<open>What a reader obtains from a table with a page that is large enough.\<close>

lemma select_newest_all:
  assumes "distinct (map event_digest t)" and "int (length t) \<le> limit"
  shows "\<exists>page. select_newest checkpoint_timestamp_ms sel limit t = Inr page \<and>
    distinct page \<and> set page = {r \<in> set t. sel r} \<and>
    sorted_wrt (\<lambda>r q. checkpoint_timestamp_ms q \<le> checkpoint_timestamp_ms r) page"
proof -
  let ?p = "order_desc checkpoint_timestamp_ms (filter sel t)"
  have "length ?p \<le> nat limit" using assms(2) le_trans [OF length_filter_le, of t "nat limit" sel] by simp
  then have "take (nat limit) ?p = ?p" by simp
  moreover have "distinct ?p" using assms(1) by (simp add: order_desc_def distinct_map)
  ultimately show ?thesis using order_desc_sorted [of checkpoint_timestamp_ms "filter sel t"] assms(2)
    by (auto simp: select_newest_def sql_limit_def)
qed

definition loans_within ::
  "sui_lib \<Rightarrow> sandbox_state \<Rightarrow> DeepbookEnv \<Rightarrow> (bytes \<Rightarrow> LoanBorrowedEvent_ev option) \<Rightarrow> Checkpoint list \<Rightarrow>
   i64 \<Rightarrow> i64 \<Rightarrow> LoanBorrowed set" where
  "loans_within lib st env decode cps a b =
     {r \<in> event_rows lib st env LoanBorrowedEvent_struct decode (LoanBorrowedHandler_map_event lib) cps.
        between (checkpoint_timestamp_ms r) a b}"

text \<open>C38: every loan the chain reports is served, exactly once. When the checkpoints decode, no two
  of their \<open>LoanBorrowedEvent\<close>s have the same key (digest and index, concatenated), and their
  batches were committed in any order, with any number of repetitions, then a request without filters for the
  borrowed loans of a time window whose limit is large enough, to a database that answers, is answered
  with the rows of exactly the \<open>LoanBorrowedEvent\<close>s of that window, without duplicates and newest first.\<close>

theorem loans_indexed_and_served:
  assumes "parsers_agree lib" and "full_packages st net" and "unique_keys lib st net LoanBorrowedEvent_struct cps"
    and "map (LoanBorrowedHandler_process lib st net decode) cps = map Inr batches"
    and "pipeline_reach batches s" and "waiting s = []"
    and "contents env (connections c) = db\<lparr>tb_loan_borrowed := stored s\<rparr>"
    and "connect_error env (connections c) = None" and "query_error env (connections c) = None"
    and "int (length (stored s)) \<le> param_limit params"
    and "params ''margin_manager_id'' = None" and "params ''margin_pool_id'' = None"
  shows "\<exists>page c'. loan_borrowed env now params c = (Inr page, c') \<and> distinct page \<and>
    set page = loans_within lib st net decode cps
      (window_start params (param_end_time now params)) (param_end_time now params) \<and>
    sorted_wrt (\<lambda>r q. checkpoint_timestamp_ms q \<le> checkpoint_timestamp_ms r) page"
proof -
  let ?b = "param_end_time now params" and ?a = "window_start params (param_end_time now params)"
  have "MODULE LoanBorrowedEvent_struct \<notin> set get_sui_modules"
    by (simp add: LoanBorrowedEvent_struct_def get_sui_modules_def SUI_MODULES_def)
  from loan_borrowed_handler.indexed [OF assms(1,2) this assms(3)
      assms(4) [unfolded LoanBorrowedHandler_process_def] assms(5,6)]
  have s: "set (stored s) = event_rows lib st net LoanBorrowedEvent_struct decode
      (LoanBorrowedHandler_map_event lib) cps" "distinct (map event_digest (stored s))" by auto
  obtain page where page: "select_newest checkpoint_timestamp_ms
      (\<lambda>r. between (checkpoint_timestamp_ms r) ?a ?b) (param_limit params) (stored s) = Inr page"
    "distinct page" "set page = {r \<in> set (stored s). between (checkpoint_timestamp_ms r) ?a ?b}"
    "sorted_wrt (\<lambda>r q. checkpoint_timestamp_ms q \<le> checkpoint_timestamp_ms r) page"
    using select_newest_all [OF s(2) assms(10)] by blast
  then have "loan_borrowed env now params c = (Inr page, c\<lparr>connections := connections c + 1,
      db_requests_succeeded := db_requests_succeeded c + 1\<rparr>)"
    using assms(7-9,11,12) by (simp add: loan_borrowed_def get_loan_borrowed_def param_or_empty_def
        unwrap_or_def results_Inr Let_def to_pattern_def sql_like_percent)
  with page s(1) show ?thesis by (auto simp: loans_within_def)
qed

text \<open>Two checkpoints with a loan each; the second batch is committed first.\<close>

definition margin_sandbox :: sandbox_state where
  "margin_sandbox = Some \<lparr>override_core = [''0x'' @ replicate 64 (CHR ''0'')],
     override_margin = [''0x'' @ replicate 64 (CHR ''1'')]\<rparr>"

definition loan_checkpoint :: "8 word \<Rightarrow> Checkpoint" where
  "loan_checkpoint n = \<lparr>sequence_number = ucast n, timestamp_ms = 1000 * ucast n, transactions =
     [\<lparr>tx_effects_digest = [n], tx_digest = [n], tx_sender = [], tx_events = Some
        [\<lparr>event_type = StructTag (replicate 32 17) ''margin_manager'' ''LoanBorrowedEvent'' [],
          event_contents = [n]\<rparr>],
        tx_commands = [], tx_input_objects = []\<rparr>]\<rparr>"

definition loan_event :: "bytes \<Rightarrow> LoanBorrowedEvent_ev option" where
  "loan_event bs = (case bs of [] \<Rightarrow> None | b # _ \<Rightarrow> Some
     \<lparr>ev_loan_borrowed_event_margin_manager_id = [], ev_loan_borrowed_event_margin_pool_id = [],
      ev_loan_borrowed_event_loan_amount = ucast b, ev_loan_borrowed_event_loan_shares = 1,
      ev_loan_borrowed_event_timestamp = ucast b\<rparr>)"

definition loan_row :: "string \<Rightarrow> int \<Rightarrow> LoanBorrowed" where
  "loan_row d n = \<lparr>event_digest = d @ ''0'', digest = d, sender = ''addr'', checkpoint = n,
     checkpoint_timestamp_ms = 1000 * n, package = [], loan_borrowed_margin_manager_id = ''id'',
     loan_borrowed_margin_pool_id = ''id'', loan_borrowed_loan_amount = n, loan_borrowed_loan_shares = 1,
     loan_borrowed_onchain_timestamp = n\<rparr>"

lemma two_batches:
  "\<exists>s. pipeline_reach [b, b'] s \<and> waiting s = [] \<and> stored s = fst (commit b (fst (commit b' [])))"
proof -
  let ?s0 = "\<lparr>waiting = [b, b'], committed = [], stored = []\<rparr>"
  let ?s1 = "?s0\<lparr>waiting := [b] @ [], committed := b' # committed ?s0, stored := fst (commit b' (stored ?s0))\<rparr>"
  let ?s2 = "?s1\<lparr>waiting := [] @ [], committed := b # committed ?s1, stored := fst (commit b (stored ?s1))\<rparr>"
  have "pipeline_step ?s0 ?s1" by (rule commit_batch) simp
  then have "pipeline_reach [b, b'] ?s1" by (rule step [OF start])
  moreover have "pipeline_step ?s1 ?s2" by (rule commit_batch) simp
  ultimately have "pipeline_reach [b, b'] ?s2" by (rule step)
  moreover have "waiting ?s2 = []" "stored ?s2 = fst (commit b (fst (commit b' [])))" by simp_all
  ultimately show ?thesis by blast
qed

lemma loan_batches:
  "map (LoanBorrowedHandler_process ref_lib margin_sandbox Testnet loan_event) [loan_checkpoint 3, loan_checkpoint 5] =
     map Inr [[loan_row ''3'' 3], [loan_row ''5'' 5]]"
  by code_simp

theorem loans_indexed_and_served_witness:
  "let db = empty_database\<lparr>tb_loan_borrowed := [loan_row ''5'' 5, loan_row ''3'' 3]\<rparr>
   in \<exists>c'. loan_borrowed (steady_env db) 4000 [''limit'' \<mapsto> ''2''] fresh_state = (Inr [loan_row ''3'' 3], c') \<and>
      {loan_row ''3'' 3} =
        loans_within ref_lib margin_sandbox Testnet loan_event [loan_checkpoint 3, loan_checkpoint 5] (-86396000) 4000"
proof -
  let ?b3 = "[loan_row ''3'' 3]" and ?b5 = "[loan_row ''5'' 5]"
  let ?db = "empty_database\<lparr>tb_loan_borrowed := ?b5 @ ?b3\<rparr>"
  have "fst (commit ?b3 (fst (commit ?b5 []))) = ?b5 @ ?b3" by code_simp
  then obtain t where t: "pipeline_reach [?b3, ?b5] t" "waiting t = []" and st: "stored t = ?b5 @ ?b3"
    using two_batches by metis
  have packages: "full_packages margin_sandbox Testnet"
    by (simp add: full_packages_def get_all_package_strings_def margin_sandbox_def core_packages_def
        margin_packages_def full_package_id_def list_all_iff is_hex_digit_chars)
  have digests: "unique_keys ref_lib margin_sandbox Testnet LoanBorrowedEvent_struct [loan_checkpoint 3, loan_checkpoint 5]" by code_simp
  have "show_int 2 = ''2''" by code_simp
  then have "parse_i64 ''2'' = Some 2" using parse_i64_show [of 2] by (simp add: in_i64_def i64_min_def i64_max_def)
  then have lim: "param_limit [''limit'' \<mapsto> ''2''] = 2"
    by (simp add: param_limit_def param_i64_def unwrap_or_def)
  have win: "window_start [''limit'' \<mapsto> ''2''] (param_end_time 4000 [''limit'' \<mapsto> ''2'']) = -86396000"
    "param_end_time 4000 [''limit'' \<mapsto> ''2''] = 4000"
    by (simp_all add: window_start_def param_start_time_def param_end_time_def param_i64_def unwrap_or_def
        DAY_MS_def i64_sub_def wrap_i64_id in_i64_def i64_min_def i64_max_def)
  let ?p = "[''limit'' \<mapsto> ''2'']"
  have "contents (steady_env ?db) (connections fresh_state) = empty_database\<lparr>tb_loan_borrowed := stored t\<rparr>"
    unfolding st by (simp only: steady_env_simps)
  moreover have "int (length (stored t)) \<le> param_limit ?p" unfolding st lim by simp
  moreover have "?p ''margin_manager_id'' = None" "?p ''margin_pool_id'' = None" by simp_all
  ultimately obtain page c' where page: "loan_borrowed (steady_env ?db) 4000 ?p fresh_state = (Inr page, c')"
    "set page = loans_within ref_lib margin_sandbox Testnet loan_event [loan_checkpoint 3, loan_checkpoint 5]
       (window_start ?p (param_end_time 4000 ?p)) (param_end_time 4000 ?p)"
    using loans_indexed_and_served [OF parsers_agree_ref_lib packages digests loan_batches t _ steady_env_simps(1,2)]
    by blast
  have "select_newest checkpoint_timestamp_ms (\<lambda>r. between (checkpoint_timestamp_ms r) (-86396000) 4000) 2
      (?b5 @ ?b3) = Inr ?b3"
    by (simp add: select_newest_def sql_limit_def between_def loan_row_def order_desc_def)
  then have "fst (loan_borrowed (steady_env ?db) 4000 ?p fresh_state) = Inr ?b3"
    by (simp add: loan_borrowed_def get_loan_borrowed_def lim win win(1) [unfolded win(2)] param_or_empty_def unwrap_or_def results_def
        db_request_def run_query_def Let_def to_pattern_def sql_like_percent del: append.simps)
  with page(1) have "page = ?b3" by (simp only: fst_conv sum.inject)
  with page have "loan_borrowed (steady_env ?db) 4000 ?p fresh_state = (Inr ?b3, c')"
    "set ?b3 = loans_within ref_lib margin_sandbox Testnet loan_event [loan_checkpoint 3, loan_checkpoint 5]
       (-86396000) 4000" by (simp_all only: win win(1) [unfolded win(2)])
  then show ?thesis unfolding Let_def append.simps list.set by blast
qed

section \<open>The volume of the chain\<close>

text \<open>The fills the chain reports in a pool and a window.\<close>

definition chain_fills ::
  "sui_lib \<Rightarrow> sandbox_state \<Rightarrow> DeepbookEnv \<Rightarrow> (bytes \<Rightarrow> OrderFilled_ev option) \<Rightarrow> Checkpoint list \<Rightarrow>
   i64 \<Rightarrow> i64 \<Rightarrow> string \<Rightarrow> (Checkpoint \<times> ExecutedTransaction \<times> nat \<times> OrderFilled_ev) set" where
  "chain_fills lib st env decode cps a b pool_id =
     {(cp, tx, i, e) \<in> chain_events lib st env OrderFilled_struct decode cps.
        between (as_i64 (timestamp_ms cp)) a b \<and> object_id_to_string lib (ev_order_filled_pool_id e) = pool_id}"

definition fill_quantity :: "bool \<Rightarrow> Checkpoint \<times> ExecutedTransaction \<times> nat \<times> OrderFilled_ev \<Rightarrow> u64" where
  "fill_quantity base = (\<lambda>(_, _, _, e).
     if base then ev_order_filled_base_quantity e else ev_order_filled_quote_quantity e)"

lemma fill_row:
  "fill_volume base (row_of lib (OrderFillHandler_map_event lib) x) = as_i64 (fill_quantity base x)"
  "checkpoint_timestamp_ms (row_of lib (OrderFillHandler_map_event lib) x) = as_i64 (timestamp_ms (fst x))"
  "order_fills_pool_id (row_of lib (OrderFillHandler_map_event lib) x) =
     object_id_to_string lib (ev_order_filled_pool_id (snd (snd (snd x))))"
  by (cases x; simp add: row_of_def OrderFillHandler_map_event_def fill_volume_def fill_quantity_def
      from_checkpoint_tx_def with_index_def)+

lemma fill_rows_sum:
  assumes "unique_keys lib st net OrderFilled_struct cps" and "distinct rows"
    and "set rows = event_rows lib st net OrderFilled_struct decode (OrderFillHandler_map_event lib) cps"
    and "tb_order_fills db = rows"
  shows "set (pool_fills db a b i) = row_of lib (OrderFillHandler_map_event lib) ` chain_fills lib st net decode cps a b i"
    and "as_u64 (sum_list (map (fill_volume base) (pool_fills db a b i))) =
      (\<Sum>x\<in>chain_fills lib st net decode cps a b i. fill_quantity base x)"
proof -
  let ?row = "row_of lib (OrderFillHandler_map_event lib)"
  let ?fills = "chain_fills lib st net decode cps a b i"
  show s: "set (pool_fills db a b i) = ?row ` ?fills"
    unfolding pool_fills_def assms(4) chain_fills_def using assms(3)
    by (fastforce simp: event_rows_def fill_row)
  have "inj_on ?row (chain_events lib st net OrderFilled_struct decode cps)"
    by (rule inj_on_imageI2 [OF order_fill_handler.rows_keys [OF assms(1)]])
  then have inj: "inj_on ?row ?fills" by (rule inj_on_subset) (auto simp: chain_fills_def)
  have "distinct (pool_fills db a b i)" using assms(2,4) by (simp add: pool_fills_def)
  then have "as_u64 (sum_list (map (fill_volume base) (pool_fills db a b i))) =
      (\<Sum>r\<in>?row ` ?fills. as_u64 (fill_volume base r))"
    unfolding as_u64_sum map_map by (simp add: sum_list_distinct_conv_sum_set s comp_def)
  also have "\<dots> = (\<Sum>x\<in>?fills. fill_quantity base x)" by (simp add: sum.reindex [OF inj] fill_row)
  finally show "as_u64 (sum_list (map (fill_volume base) (pool_fills db a b i))) =
      (\<Sum>x\<in>?fills. fill_quantity base x)" .
qed

text \<open>C4: the volume the server reports is the volume traded on the chain. When the checkpoints decode, no two
  of their \<open>OrderFilled\<close> events have the same key (digest and index, concatenated: otherwise a fill is lost),
  their batches were committed in any order, with any number of repetitions, and the names and the ids of
  the pools are unique and no name has a comma, then the volume that an answered request reports for a pool is the sum, modulo 2^64, of the quantities of
  exactly the \<open>OrderFilled\<close> events of the pool in the window, each counted once; without such an event the
  pool has no entry.\<close>

theorem chain_volume_served:
  assumes "parsers_agree lib" and "full_packages st net" and "unique_keys lib st net OrderFilled_struct cps"
    and "map (OrderFillHandler_process lib st net decode) cps = map Inr batches"
    and "pipeline_reach batches t" and "waiting t = []"
    and "tb_order_fills (contents env (connections c)) = stored t"
    and "pools_wf pools" and "p \<in> set pools" and "list_all (\<lambda>q. CHR '','' \<notin> set (pools_pool_name q)) pools"
    and "all_historical_volume_with_pools env now params pools c = (Inr vol, c')"
  shows "hm_get vol (pools_pool_name p) =
    (let b = param_end_time now params;
         fills = chain_fills lib st net decode cps (window_start params b) b (pools_pool_id p)
     in if fills = {} then None
        else Some (\<Sum>x\<in>fills. fill_quantity (param_volume_in_base params) x))"
proof -
  have "MODULE OrderFilled_struct \<notin> set get_sui_modules"
    by (simp add: OrderFilled_struct_def get_sui_modules_def SUI_MODULES_def)
  from order_fill_handler.indexed [OF assms(1,2) this assms(3)
      assms(4) [unfolded OrderFillHandler_process_def] assms(5,6)]
  have "set (stored t) = event_rows lib st net OrderFilled_struct decode (OrderFillHandler_map_event lib) cps"
    and "distinct (stored t)" by (auto simp: distinct_map)
  note sums = fill_rows_sum [OF assms(3) this(2,1) assms(7)]
  show ?thesis
    unfolding all_historical_volume_entry(1) [OF assms(11,8-10)] Let_def sums(2) set_empty [symmetric] sums(1) image_is_empty ..
qed

text \<open>Two checkpoints with a fill each.\<close>

definition fill_checkpoint :: "8 word \<Rightarrow> Checkpoint" where
  "fill_checkpoint n = \<lparr>sequence_number = ucast n, timestamp_ms = 1000 * ucast n, transactions =
     [\<lparr>tx_effects_digest = [n], tx_digest = [n], tx_sender = [], tx_events = Some
        [\<lparr>event_type = StructTag (replicate 32 0) ''order_info'' ''OrderFilled'' [], event_contents = [n]\<rparr>],
        tx_commands = [], tx_input_objects = []\<rparr>]\<rparr>"

definition fill_event :: "bytes \<Rightarrow> OrderFilled_ev option" where
  "fill_event bs = (case bs of [] \<Rightarrow> None | b # _ \<Rightarrow> Some
     \<lparr>ev_order_filled_pool_id = [], ev_order_filled_maker_order_id = 1, ev_order_filled_taker_order_id = 1,
      ev_order_filled_maker_client_order_id = 1, ev_order_filled_taker_client_order_id = 1,
      ev_order_filled_price = 1, ev_order_filled_taker_is_bid = True, ev_order_filled_taker_fee = 1,
      ev_order_filled_taker_fee_is_deep = True, ev_order_filled_maker_fee = 1,
      ev_order_filled_maker_fee_is_deep = True, ev_order_filled_base_quantity = ucast b,
      ev_order_filled_quote_quantity = 1, ev_order_filled_maker_balance_manager_id = [],
      ev_order_filled_taker_balance_manager_id = [], ev_order_filled_timestamp = 1\<rparr>)"

definition fill_row_at :: "string \<Rightarrow> int \<Rightarrow> OrderFill" where
  "fill_row_at d n = \<lparr>event_digest = d @ ''0'', digest = d, sender = ''addr'', checkpoint = n,
     checkpoint_timestamp_ms = 1000 * n, package = [], order_fills_pool_id = ''id'',
     order_fills_maker_order_id = ''1'', order_fills_taker_order_id = ''1'',
     order_fills_maker_client_order_id = 1, order_fills_taker_client_order_id = 1, order_fills_price = 1,
     order_fills_taker_fee = 1, order_fills_taker_fee_is_deep = True, order_fills_maker_fee = 1,
     order_fills_maker_fee_is_deep = True, order_fills_taker_is_bid = True, order_fills_base_quantity = n,
     order_fills_quote_quantity = 1, order_fills_maker_balance_manager_id = ''id'',
     order_fills_taker_balance_manager_id = ''id'', order_fills_onchain_timestamp = 1\<rparr>"

definition fill_pool :: Pools where
  "fill_pool = \<lparr>pools_pool_id = ''id'', pools_pool_name = ''P'', pools_base_asset_id = ''b'',
     pools_base_asset_decimals = 9, pools_base_asset_symbol = ''B'', pools_base_asset_name = ''B'',
     pools_quote_asset_id = ''q'', pools_quote_asset_decimals = 6, pools_quote_asset_symbol = ''Q'',
     pools_quote_asset_name = ''Q'', pools_min_size = 1, pools_lot_size = 1, pools_tick_size = 1\<rparr>"

lemma fill_batches:
  "map (OrderFillHandler_process ref_lib margin_sandbox Testnet fill_event) [fill_checkpoint 3, fill_checkpoint 5] =
     map Inr [[fill_row_at ''3'' 3], [fill_row_at ''5'' 5]]"
  by code_simp

theorem chain_volume_served_witness:
  "(\<Sum>x\<in>chain_fills ref_lib margin_sandbox Testnet fill_event [fill_checkpoint 3, fill_checkpoint 5]
     (-86394000) 6000 ''id''. fill_quantity True x) = 8"
proof -
  let ?rows = "[fill_row_at ''5'' 5, fill_row_at ''3'' 3]"
  let ?db = "empty_database\<lparr>tb_order_fills := ?rows\<rparr>"
  let ?p = "[''volume_in_base'' \<mapsto> ''true'']"
  have "fst (commit [fill_row_at ''3'' 3] (fst (commit [fill_row_at ''5'' 5] []))) = ?rows" by code_simp
  then obtain t where t: "pipeline_reach [[fill_row_at ''3'' 3], [fill_row_at ''5'' 5]] t" "waiting t = []"
    "stored t = ?rows" using two_batches by metis
  have packages: "full_packages margin_sandbox Testnet"
    by (simp add: full_packages_def get_all_package_strings_def margin_sandbox_def core_packages_def
        margin_packages_def full_package_id_def list_all_iff is_hex_digit_chars)
  have digests: "unique_keys ref_lib margin_sandbox Testnet OrderFilled_struct [fill_checkpoint 3, fill_checkpoint 5]" by code_simp
  have pools: "pools_wf [fill_pool]" "fill_pool \<in> set [fill_pool]"
    "list_all (\<lambda>q. CHR '','' \<notin> set (pools_pool_name q)) [fill_pool]"
    by (simp_all add: pools_wf_def fill_pool_def)
  have win: "param_end_time 6000 ?p = 6000" "window_start ?p 6000 = -86394000"
    by (simp_all add: window_start_def param_start_time_def param_end_time_def param_i64_def unwrap_or_def
        DAY_MS_def i64_sub_def wrap_i64_id in_i64_def i64_min_def i64_max_def)
  have base: "param_volume_in_base ?p" unfolding param_volume_in_base_def unwrap_or_def by simp
  obtain vol c' where vol: "all_historical_volume_with_pools (steady_env ?db) 6000 ?p [fill_pool] fresh_state = (Inr vol, c')"
    using volumes_steady [OF _ pools(1,3)] by blast
  have fills: "tb_order_fills (contents (steady_env ?db) (connections fresh_state)) = stored t" using t(3) by simp
  have id: "pools_pool_id fill_pool = ''id''" by (simp add: fill_pool_def)
  note served = chain_volume_served [OF parsers_agree_ref_lib packages digests fill_batches t(1,2) fills pools vol,
    unfolded Let_def win id]
  have "hm_get vol (pools_pool_name fill_pool) = Some 8"
    unfolding all_historical_volume_entry(1) [OF vol pools] Let_def win id
    by (simp add: base pool_fills_def fill_row_at_def between_def fill_volume_def as_u64_def)
  with served show ?thesis by (simp add: base split: if_splits)
qed

section \<open>The net deposits of the chain\<close>

text \<open>The deposits and withdrawals of an asset on the chain before a time.\<close>

definition chain_balances ::
  "sui_lib \<Rightarrow> sandbox_state \<Rightarrow> DeepbookEnv \<Rightarrow> (bytes \<Rightarrow> BalanceEvent_ev option) \<Rightarrow> Checkpoint list \<Rightarrow>
   string \<Rightarrow> i64 \<Rightarrow> (Checkpoint \<times> ExecutedTransaction \<times> nat \<times> BalanceEvent_ev) set" where
  "chain_balances lib st env decode cps asset t =
     {(cp, tx, i, e) \<in> chain_events lib st env BalanceEvent_struct decode cps.
        ev_balance_event_asset e = asset \<and> as_i64 (timestamp_ms cp) < t}"

text \<open>A time and an amount that fit in a signed number, and an asset without the prefix \<open>0x\<close>.\<close>

definition plain_balance :: "Checkpoint \<times> ExecutedTransaction \<times> nat \<times> BalanceEvent_ev \<Rightarrow> bool" where
  "plain_balance = (\<lambda>(cp, _, _, e). uint (timestamp_ms cp) < 2 ^ 63 \<and>
     uint (ev_balance_event_amount e) < 2 ^ 63 \<and> \<not> starts_with (ev_balance_event_asset e) ''0x'')"

definition signed_balance :: "Checkpoint \<times> ExecutedTransaction \<times> nat \<times> BalanceEvent_ev \<Rightarrow> int" where
  "signed_balance = (\<lambda>(_, _, _, e).
     if ev_balance_event_deposit e then uint (ev_balance_event_amount e) else - uint (ev_balance_event_amount e))"

lemma balance_row:
  "checkpoint_timestamp_ms (row_of lib (BalancesHandler_map_event lib) (cp, tx, i, e)) = as_i64 (timestamp_ms cp)"
  "balances_asset (row_of lib (BalancesHandler_map_event lib) (cp, tx, i, e)) = ev_balance_event_asset e"
  "balances_amount (row_of lib (BalancesHandler_map_event lib) (cp, tx, i, e)) = as_i64 (ev_balance_event_amount e)"
  "balances_deposit (row_of lib (BalancesHandler_map_event lib) (cp, tx, i, e)) = ev_balance_event_deposit e"
  by (simp_all add: row_of_def BalancesHandler_map_event_def from_checkpoint_tx_def with_index_def)

lemma as_i64_small: "uint w < 2 ^ 63 \<Longrightarrow> as_i64 w = uint (w :: u64)"
  using signed_take_bit_int_eq_self [of 63 "uint w"] order_trans [of "- (2 ^ 63)" 0 "uint w"]
  by (simp add: as_i64_def sint_uint)

text \<open>C20: the net deposits the server reports are those of the chain. When the checkpoints decode, no two
  of their \<open>BalanceEvent\<close>s have the same key (digest and index, concatenated), their batches were committed
  in any order, with any number of repetitions, the refresh at the start of the request sees them all, its
  hourly totals fit in 64 bits, as the times and amounts fit in signed 64 bits, the requested time is not negative, and assets have no prefix \<open>0x\<close>,
  then the entry of a requested asset in an answer is the sum of the amounts deposited minus the amounts
  withdrawn by exactly the \<open>BalanceEvent\<close>s of the asset in checkpoints before the requested time, each
  counted once; without such an event the asset has no entry.\<close>

theorem chain_net_deposits_served:
  assumes "parsers_agree lib" and "full_packages st net" and "unique_keys lib st net BalanceEvent_struct cps"
    and "map (BalancesHandler_process lib st net decode) cps = map Inr batches"
    and "pipeline_reach batches t" and "waiting t = []"
    and "tb_balances (contents env (connections c)) = stored t" and "refresh env (connections c) = Inr (stored t)"
    and "list_all (\<lambda>r. in_i64 (hourly_net_amount_delta r)) (hourly_view (stored t))"
    and "0 \<le> time" and "in_i64 time"
    and "\<forall>x\<in>chain_events lib st net BalanceEvent_struct decode cps. plain_balance x"
    and "asset \<in> set ids" and "get_net_deposits_from_view env ids time c = (Inr m, c')"
  shows "hm_get m (''0x'' @ clean_asset asset) =
    (let events = chain_balances lib st net decode cps (clean_asset asset) time
     in if events = {} then None else Some (\<Sum>x\<in>events. signed_balance x))"
proof -
  let ?row = "row_of lib (BalancesHandler_map_event lib)"
  let ?evs = "chain_events lib st net BalanceEvent_struct decode cps"
  let ?P = "\<lambda>r. balances_asset r = clean_asset asset \<and> checkpoint_timestamp_ms r < time"
  let ?g = "\<lambda>r. if balances_deposit r then balances_amount r else - balances_amount r"
  have "MODULE BalanceEvent_struct \<notin> set get_sui_modules"
    by (simp add: BalanceEvent_struct_def get_sui_modules_def SUI_MODULES_def)
  from balances_handler.indexed [OF assms(1,2) this assms(3)
      assms(4) [unfolded BalancesHandler_process_def] assms(5,6)]
  have s: "set (stored t) = event_rows lib st net BalanceEvent_struct decode (BalancesHandler_map_event lib) cps"
    and d: "distinct (map event_digest (stored t))" by auto
  have rows: "0 \<le> checkpoint_timestamp_ms r \<and> \<not> starts_with (balances_asset r) ''0x''" if "r \<in> set (stored t)" for r
    using that assms(12) unfolding s event_rows_def
    by (force simp: balance_row plain_balance_def as_i64_small)
  have set: "{x \<in> ?evs. ?P (?row x)} = chain_balances lib st net decode cps (clean_asset asset) time"
    by (auto simp: chain_balances_def balance_row)
  have val: "?g (?row x) = signed_balance x" if "x \<in> chain_balances lib st net decode cps (clean_asset asset) time" for x
    using that assms(12) by (force simp: chain_balances_def balance_row signed_balance_def plain_balance_def as_i64_small)
  note sums = balances_handler.event_sum(1) [OF assms(3) d s, where g = ?g and P = ?P, unfolded set]
    balances_handler.event_sum(2) [OF assms(3) d s, where P = ?P, unfolded set]
  have "hm_get m (''0x'' @ clean_asset asset) =
      (let rows = filter ?P (stored t) in if rows = [] then None else Some (sum_list (map ?g rows)))"
    using net_deposits_entry [OF assms(14) _ assms(10,11) _ assms(13)] assms(7-9) rows by simp
  also have "\<dots> = (let events = chain_balances lib st net decode cps (clean_asset asset) time
      in if events = {} then None else Some (\<Sum>x\<in>events. signed_balance x))"
    unfolding Let_def sums using val by (simp cong: sum.cong)
  finally show ?thesis .
qed

text \<open>A withdrawal of 3 and a deposit of 5.\<close>

definition balance_checkpoint :: "8 word \<Rightarrow> Checkpoint" where
  "balance_checkpoint n = \<lparr>sequence_number = ucast n, timestamp_ms = 1000 * ucast n, transactions =
     [\<lparr>tx_effects_digest = [n], tx_digest = [n], tx_sender = [], tx_events = Some
        [\<lparr>event_type = StructTag (replicate 32 0) ''balance_manager'' ''BalanceEvent'' [], event_contents = [n]\<rparr>],
        tx_commands = [], tx_input_objects = []\<rparr>]\<rparr>"

definition balance_event :: "bytes \<Rightarrow> BalanceEvent_ev option" where
  "balance_event bs = (case bs of [] \<Rightarrow> None | b # _ \<Rightarrow> Some
     \<lparr>ev_balance_event_balance_manager_id = [], ev_balance_event_asset = ''ab'',
      ev_balance_event_amount = ucast b, ev_balance_event_deposit = (b \<noteq> 3)\<rparr>)"

definition balance_row_at :: "string \<Rightarrow> int \<Rightarrow> Balances" where
  "balance_row_at d n = \<lparr>event_digest = d @ ''0'', digest = d, sender = ''addr'', checkpoint = n,
     checkpoint_timestamp_ms = 1000 * n, package = [], balances_balance_manager_id = ''id'',
     balances_asset = ''ab'', balances_amount = n, balances_deposit = (n \<noteq> 3)\<rparr>"

lemma balance_batches:
  "map (BalancesHandler_process ref_lib margin_sandbox Testnet balance_event) [balance_checkpoint 3, balance_checkpoint 5] =
     map Inr [[balance_row_at ''3'' 3], [balance_row_at ''5'' 5]]"
  by code_simp

lemma balance_event_plain:
  assumes "balance_event bs = Some e"
  shows "uint (ev_balance_event_amount e) < 2 ^ 63" and "\<not> starts_with (ev_balance_event_asset e) ''0x''"
proof -
  let ?b = "hd bs"
  have e: "ev_balance_event_asset e = ''ab''" "ev_balance_event_amount e = ucast ?b"
    using assms by (cases bs; auto simp: balance_event_def)+
  have "uint (ucast ?b :: u64) = uint ?b" using uint_bounded [of ?b] by (simp add: unsigned_ucast_eq take_bit_int_eq_self)
  also have "uint ?b < 2 ^ 8" using uint_bounded [of ?b] by simp
  finally show "uint (ev_balance_event_amount e) < 2 ^ 63" by (simp add: e)
  show "\<not> starts_with (ev_balance_event_asset e) ''0x''" unfolding e by code_simp
qed

theorem chain_net_deposits_served_witness:
  "\<exists>m c'. get_net_deposits_from_view (steady_env (empty_database\<lparr>tb_balances :=
       [balance_row_at ''5'' 5, balance_row_at ''3'' 3]\<rparr>)) [''0xab''] 6000 fresh_state = (Inr m, c') \<and>
     hm_get m ''0xab'' = Some 2 \<and>
     (\<Sum>x\<in>chain_balances ref_lib margin_sandbox Testnet balance_event [balance_checkpoint 3, balance_checkpoint 5]
       ''ab'' 6000. signed_balance x) = 2"
proof -
  let ?rows = "[balance_row_at ''5'' 5, balance_row_at ''3'' 3]"
  let ?db = "empty_database\<lparr>tb_balances := ?rows\<rparr>"
  have "fst (commit [balance_row_at ''3'' 3] (fst (commit [balance_row_at ''5'' 5] []))) = ?rows" by code_simp
  then obtain t where t: "pipeline_reach [[balance_row_at ''3'' 3], [balance_row_at ''5'' 5]] t" "waiting t = []"
    "stored t = ?rows" using two_batches by metis
  have packages: "full_packages margin_sandbox Testnet"
    by (simp add: full_packages_def get_all_package_strings_def margin_sandbox_def core_packages_def
        margin_packages_def full_package_id_def list_all_iff is_hex_digit_chars)
  have keys: "unique_keys ref_lib margin_sandbox Testnet BalanceEvent_struct [balance_checkpoint 3, balance_checkpoint 5]"
    by code_simp
  have view: "hourly_view ?rows = [\<lparr>hourly_asset = ''ab'', hourly_hour_bucket_ms = 0, hourly_net_amount_delta = 2\<rparr>]"
    by code_simp
  have "get_net_deposits_from_view (steady_env ?db) [''0xab''] 6000 fresh_state =
      (Inr [(''0xab'', 2)], \<lparr>connections = 1, db_requests_succeeded = 1, db_requests_failed = 0\<rparr>)"
  proof -
    have "i64_mul (trunc_div 6000 HOUR_MS) HOUR_MS = 0" by code_simp
    moreover have "net_deposits_query 0 [clean_asset ''0xab''] 6000
        (refresh_net_deposits_hourly (Inr (tb_balances ?db)) ?db) = [(''ab'', 2)]"
      by code_simp
    moreover have "prefixed_asset ''ab'' = ''0xab''" by code_simp
    ultimately show ?thesis
      by (simp add: get_net_deposits_from_view_def rpc_map_def rpc_bind_def rpc_return_def db_request_def
          run_query_def fresh_state_def hm_collect_def hm_insert_def in_i64_def i64_min_def i64_max_def)
  qed
  then obtain m c' where m: "get_net_deposits_from_view (steady_env ?db) [''0xab''] 6000 fresh_state = (Inr m, c')"
    and two: "hm_get m ''0xab'' = Some 2" by (simp add: hm_get_def)
  have plain: "\<forall>x\<in>chain_events ref_lib margin_sandbox Testnet BalanceEvent_struct balance_event
      [balance_checkpoint 3, balance_checkpoint 5]. plain_balance x"
  proof
    fix x assume "x \<in> chain_events ref_lib margin_sandbox Testnet BalanceEvent_struct balance_event
        [balance_checkpoint 3, balance_checkpoint 5]"
    then obtain cp tx i e bs where x: "x = (cp, tx, i, e)" "cp \<in> {balance_checkpoint 3, balance_checkpoint 5}"
      "balance_event bs = Some e"
      by (auto simp: chain_events_def set_checkpoint_txs)
    from x(2) show "plain_balance x"
      using balance_event_plain [OF x(3)] by (auto simp: x(1) plain_balance_def balance_checkpoint_def)
  qed
  have clean: "clean_asset ''0xab'' = ''ab''" by code_simp
  have "hm_get m (''0x'' @ clean_asset ''0xab'') =
    (let events = chain_balances ref_lib margin_sandbox Testnet balance_event [balance_checkpoint 3, balance_checkpoint 5]
         (clean_asset ''0xab'') 6000
     in if events = {} then None else Some (\<Sum>x\<in>events. signed_balance x))"
    by (rule chain_net_deposits_served [OF parsers_agree_ref_lib packages keys balance_batches t(1,2) _ _ _ _ _ plain _ m])
      (simp_all add: t(3) view in_i64_def i64_min_def i64_max_def)
  with two have "(\<Sum>x\<in>chain_balances ref_lib margin_sandbox Testnet balance_event
      [balance_checkpoint 3, balance_checkpoint 5] ''ab'' 6000. signed_balance x) = 2"
    by (simp add: clean Let_def split: if_splits)
  with m two show ?thesis by blast
qed

end
