(* ===== verification/Tables.thy ===== *)
theory Tables
  imports Prelude
begin

text \<open>
  \<^verbatim>\<open>crates/schema/src/schema.rs\<close>: the tables as the server and the indexer declare them to diesel, with
  their columns, SQL types and primary keys. The migrations give the columns \<open>timestamp\<close> and \<open>id\<close> a
  default; every other column that is not nullable has to be inserted.
\<close>

datatype sql_type =
  Text | Varchar | Int2 | Int4 | Int8 | Bool | Float8 | Numeric | Jsonb | Timestamp | Date | Nullable sql_type

record sql_table =
  table_name :: string
  primary_key :: "string list"
  table_columns :: "(string \<times> sql_type) list"

fun is_nullable :: "sql_type \<Rightarrow> bool" where
  "is_nullable (Nullable _) \<longleftrightarrow> True"
| "is_nullable _ \<longleftrightarrow> False"

definition has_default :: "string \<Rightarrow> bool" where
  "has_default column \<longleftrightarrow> column \<in> {''timestamp'', ''id''}"

section \<open>The tables\<close>

definition asset_supplied_table :: sql_table where
  "asset_supplied_table = \<lparr>table_name = ''asset_supplied'', primary_key = [''event_digest''], table_columns =
    [(''event_digest'', Text),
     (''digest'', Text),
     (''sender'', Text),
     (''checkpoint'', Int8),
     (''timestamp'', Timestamp),
     (''checkpoint_timestamp_ms'', Int8),
     (''package'', Text),
     (''margin_pool_id'', Text),
     (''asset_type'', Text),
     (''supplier'', Text),
     (''amount'', Int8),
     (''shares'', Int8),
     (''onchain_timestamp'', Int8)]\<rparr>"

definition asset_withdrawn_table :: sql_table where
  "asset_withdrawn_table = \<lparr>table_name = ''asset_withdrawn'', primary_key = [''event_digest''], table_columns =
    [(''event_digest'', Text),
     (''digest'', Text),
     (''sender'', Text),
     (''checkpoint'', Int8),
     (''timestamp'', Timestamp),
     (''checkpoint_timestamp_ms'', Int8),
     (''package'', Text),
     (''margin_pool_id'', Text),
     (''asset_type'', Text),
     (''supplier'', Text),
     (''amount'', Int8),
     (''shares'', Int8),
     (''onchain_timestamp'', Int8)]\<rparr>"

definition assets_table :: sql_table where
  "assets_table = \<lparr>table_name = ''assets'', primary_key = [''asset_type''], table_columns =
    [(''asset_type'', Text),
     (''name'', Text),
     (''symbol'', Text),
     (''decimals'', Int2),
     (''ucid'', Nullable Int4),
     (''package_id'', Nullable Text),
     (''package_address_url'', Nullable Text)]\<rparr>"

definition balance_manager_created_table :: sql_table where
  "balance_manager_created_table = \<lparr>table_name = ''balance_manager_created'', primary_key = [''event_digest''], table_columns =
    [(''event_digest'', Text),
     (''digest'', Text),
     (''sender'', Text),
     (''checkpoint'', Int8),
     (''timestamp'', Timestamp),
     (''checkpoint_timestamp_ms'', Int8),
     (''package'', Text),
     (''balance_manager_id'', Text),
     (''owner'', Text)]\<rparr>"

definition balances_table :: sql_table where
  "balances_table = \<lparr>table_name = ''balances'', primary_key = [''event_digest''], table_columns =
    [(''event_digest'', Text),
     (''digest'', Text),
     (''sender'', Text),
     (''checkpoint'', Int8),
     (''timestamp'', Timestamp),
     (''checkpoint_timestamp_ms'', Int8),
     (''package'', Text),
     (''balance_manager_id'', Text),
     (''asset'', Text),
     (''amount'', Int8),
     (''deposit'', Bool)]\<rparr>"

definition collateral_events_table :: sql_table where
  "collateral_events_table = \<lparr>table_name = ''collateral_events'', primary_key = [''event_digest''], table_columns =
    [(''event_digest'', Text),
     (''digest'', Text),
     (''sender'', Text),
     (''checkpoint'', Int8),
     (''timestamp'', Timestamp),
     (''checkpoint_timestamp_ms'', Int8),
     (''package'', Text),
     (''event_type'', Text),
     (''margin_manager_id'', Text),
     (''amount'', Numeric),
     (''asset_type'', Text),
     (''pyth_decimals'', Int2),
     (''pyth_price'', Numeric),
     (''withdraw_base_asset'', Nullable Bool),
     (''base_pyth_decimals'', Nullable Int2),
     (''base_pyth_price'', Nullable Numeric),
     (''quote_pyth_decimals'', Nullable Int2),
     (''quote_pyth_price'', Nullable Numeric),
     (''remaining_base_asset'', Nullable Numeric),
     (''remaining_quote_asset'', Nullable Numeric),
     (''remaining_base_debt'', Nullable Numeric),
     (''remaining_quote_debt'', Nullable Numeric),
     (''onchain_timestamp'', Int8)]\<rparr>"

definition conditional_order_events_table :: sql_table where
  "conditional_order_events_table = \<lparr>table_name = ''conditional_order_events'', primary_key = [''event_digest''], table_columns =
    [(''event_digest'', Text),
     (''digest'', Text),
     (''sender'', Text),
     (''checkpoint'', Int8),
     (''timestamp'', Timestamp),
     (''checkpoint_timestamp_ms'', Int8),
     (''package'', Text),
     (''event_type'', Text),
     (''manager_id'', Text),
     (''pool_id'', Nullable Text),
     (''conditional_order_id'', Int8),
     (''trigger_below_price'', Bool),
     (''trigger_price'', Numeric),
     (''is_limit_order'', Bool),
     (''client_order_id'', Int8),
     (''order_type'', Int2),
     (''self_matching_option'', Int2),
     (''price'', Numeric),
     (''quantity'', Numeric),
     (''is_bid'', Bool),
     (''pay_with_deep'', Bool),
     (''expire_timestamp'', Int8),
     (''onchain_timestamp'', Int8)]\<rparr>"

definition deep_burned_table :: sql_table where
  "deep_burned_table = \<lparr>table_name = ''deep_burned'', primary_key = [''event_digest''], table_columns =
    [(''event_digest'', Text),
     (''digest'', Text),
     (''sender'', Text),
     (''checkpoint'', Int8),
     (''timestamp'', Timestamp),
     (''checkpoint_timestamp_ms'', Int8),
     (''package'', Text),
     (''pool_id'', Text),
     (''burned_amount'', Int8)]\<rparr>"

definition deepbook_pool_config_updated_table :: sql_table where
  "deepbook_pool_config_updated_table = \<lparr>table_name = ''deepbook_pool_config_updated'', primary_key = [''event_digest''], table_columns =
    [(''event_digest'', Text),
     (''digest'', Text),
     (''sender'', Text),
     (''checkpoint'', Int8),
     (''timestamp'', Timestamp),
     (''checkpoint_timestamp_ms'', Int8),
     (''package'', Text),
     (''pool_id'', Text),
     (''config_json'', Jsonb),
     (''onchain_timestamp'', Int8)]\<rparr>"

definition deepbook_pool_registered_table :: sql_table where
  "deepbook_pool_registered_table = \<lparr>table_name = ''deepbook_pool_registered'', primary_key = [''event_digest''], table_columns =
    [(''event_digest'', Text),
     (''digest'', Text),
     (''sender'', Text),
     (''checkpoint'', Int8),
     (''timestamp'', Timestamp),
     (''checkpoint_timestamp_ms'', Int8),
     (''package'', Text),
     (''pool_id'', Text),
     (''onchain_timestamp'', Int8),
     (''config_json'', Nullable Jsonb)]\<rparr>"

definition deepbook_pool_updated_table :: sql_table where
  "deepbook_pool_updated_table = \<lparr>table_name = ''deepbook_pool_updated'', primary_key = [''event_digest''], table_columns =
    [(''event_digest'', Text),
     (''digest'', Text),
     (''sender'', Text),
     (''checkpoint'', Int8),
     (''timestamp'', Timestamp),
     (''checkpoint_timestamp_ms'', Int8),
     (''package'', Text),
     (''margin_pool_id'', Text),
     (''deepbook_pool_id'', Text),
     (''pool_cap_id'', Text),
     (''enabled'', Bool),
     (''onchain_timestamp'', Int8)]\<rparr>"

definition deepbook_pool_updated_registry_table :: sql_table where
  "deepbook_pool_updated_registry_table = \<lparr>table_name = ''deepbook_pool_updated_registry'', primary_key = [''event_digest''], table_columns =
    [(''event_digest'', Text),
     (''digest'', Text),
     (''sender'', Text),
     (''checkpoint'', Int8),
     (''timestamp'', Timestamp),
     (''checkpoint_timestamp_ms'', Int8),
     (''package'', Text),
     (''pool_id'', Text),
     (''enabled'', Bool),
     (''onchain_timestamp'', Int8)]\<rparr>"

definition deepbook_referral_created_table :: sql_table where
  "deepbook_referral_created_table = \<lparr>table_name = ''deepbook_referral_created'', primary_key = [''event_digest''], table_columns =
    [(''event_digest'', Text),
     (''digest'', Text),
     (''sender'', Text),
     (''checkpoint'', Int8),
     (''timestamp'', Timestamp),
     (''checkpoint_timestamp_ms'', Int8),
     (''package'', Text),
     (''referral_id'', Text),
     (''owner'', Text)]\<rparr>"

definition deepbook_referral_set_table :: sql_table where
  "deepbook_referral_set_table = \<lparr>table_name = ''deepbook_referral_set'', primary_key = [''event_digest''], table_columns =
    [(''event_digest'', Text),
     (''digest'', Text),
     (''sender'', Text),
     (''checkpoint'', Int8),
     (''timestamp'', Timestamp),
     (''checkpoint_timestamp_ms'', Int8),
     (''package'', Text),
     (''referral_id'', Text),
     (''balance_manager_id'', Text)]\<rparr>"

definition flashloans_table :: sql_table where
  "flashloans_table = \<lparr>table_name = ''flashloans'', primary_key = [''event_digest''], table_columns =
    [(''event_digest'', Text),
     (''digest'', Text),
     (''sender'', Text),
     (''checkpoint'', Int8),
     (''timestamp'', Timestamp),
     (''checkpoint_timestamp_ms'', Int8),
     (''package'', Text),
     (''borrow'', Bool),
     (''pool_id'', Text),
     (''borrow_quantity'', Int8),
     (''type_name'', Text)]\<rparr>"

definition interest_params_updated_table :: sql_table where
  "interest_params_updated_table = \<lparr>table_name = ''interest_params_updated'', primary_key = [''event_digest''], table_columns =
    [(''event_digest'', Text),
     (''digest'', Text),
     (''sender'', Text),
     (''checkpoint'', Int8),
     (''timestamp'', Timestamp),
     (''checkpoint_timestamp_ms'', Int8),
     (''package'', Text),
     (''margin_pool_id'', Text),
     (''pool_cap_id'', Text),
     (''config_json'', Jsonb),
     (''onchain_timestamp'', Int8)]\<rparr>"

definition liquidation_table :: sql_table where
  "liquidation_table = \<lparr>table_name = ''liquidation'', primary_key = [''event_digest''], table_columns =
    [(''event_digest'', Text),
     (''digest'', Text),
     (''sender'', Text),
     (''checkpoint'', Int8),
     (''timestamp'', Timestamp),
     (''checkpoint_timestamp_ms'', Int8),
     (''package'', Text),
     (''margin_manager_id'', Text),
     (''margin_pool_id'', Text),
     (''liquidation_amount'', Int8),
     (''pool_reward'', Int8),
     (''pool_default'', Int8),
     (''risk_ratio'', Int8),
     (''onchain_timestamp'', Int8),
     (''remaining_base_asset'', Numeric),
     (''remaining_quote_asset'', Numeric),
     (''remaining_base_debt'', Numeric),
     (''remaining_quote_debt'', Numeric),
     (''base_pyth_price'', Int8),
     (''base_pyth_decimals'', Int2),
     (''quote_pyth_price'', Int8),
     (''quote_pyth_decimals'', Int2)]\<rparr>"

definition loan_borrowed_table :: sql_table where
  "loan_borrowed_table = \<lparr>table_name = ''loan_borrowed'', primary_key = [''event_digest''], table_columns =
    [(''event_digest'', Text),
     (''digest'', Text),
     (''sender'', Text),
     (''checkpoint'', Int8),
     (''timestamp'', Timestamp),
     (''checkpoint_timestamp_ms'', Int8),
     (''package'', Text),
     (''margin_manager_id'', Text),
     (''margin_pool_id'', Text),
     (''loan_amount'', Int8),
     (''onchain_timestamp'', Int8),
     (''loan_shares'', Int8)]\<rparr>"

definition loan_repaid_table :: sql_table where
  "loan_repaid_table = \<lparr>table_name = ''loan_repaid'', primary_key = [''event_digest''], table_columns =
    [(''event_digest'', Text),
     (''digest'', Text),
     (''sender'', Text),
     (''checkpoint'', Int8),
     (''timestamp'', Timestamp),
     (''checkpoint_timestamp_ms'', Int8),
     (''package'', Text),
     (''margin_manager_id'', Text),
     (''margin_pool_id'', Text),
     (''repay_amount'', Int8),
     (''repay_shares'', Int8),
     (''onchain_timestamp'', Int8)]\<rparr>"

definition maintainer_cap_updated_table :: sql_table where
  "maintainer_cap_updated_table = \<lparr>table_name = ''maintainer_cap_updated'', primary_key = [''event_digest''], table_columns =
    [(''event_digest'', Text),
     (''digest'', Text),
     (''sender'', Text),
     (''checkpoint'', Int8),
     (''timestamp'', Timestamp),
     (''checkpoint_timestamp_ms'', Int8),
     (''package'', Text),
     (''maintainer_cap_id'', Text),
     (''allowed'', Bool),
     (''onchain_timestamp'', Int8)]\<rparr>"

definition maintainer_fees_withdrawn_table :: sql_table where
  "maintainer_fees_withdrawn_table = \<lparr>table_name = ''maintainer_fees_withdrawn'', primary_key = [''event_digest''], table_columns =
    [(''event_digest'', Text),
     (''digest'', Text),
     (''sender'', Text),
     (''checkpoint'', Int8),
     (''timestamp'', Timestamp),
     (''checkpoint_timestamp_ms'', Int8),
     (''package'', Text),
     (''margin_pool_id'', Text),
     (''margin_pool_cap_id'', Text),
     (''maintainer_fees'', Int8),
     (''onchain_timestamp'', Int8)]\<rparr>"

definition margin_manager_created_table :: sql_table where
  "margin_manager_created_table = \<lparr>table_name = ''margin_manager_created'', primary_key = [''event_digest''], table_columns =
    [(''event_digest'', Text),
     (''digest'', Text),
     (''sender'', Text),
     (''checkpoint'', Int8),
     (''timestamp'', Timestamp),
     (''checkpoint_timestamp_ms'', Int8),
     (''package'', Text),
     (''margin_manager_id'', Text),
     (''balance_manager_id'', Text),
     (''owner'', Text),
     (''onchain_timestamp'', Int8),
     (''deepbook_pool_id'', Nullable Text)]\<rparr>"

definition margin_manager_state_table :: sql_table where
  "margin_manager_state_table = \<lparr>table_name = ''margin_manager_state'', primary_key = [''margin_manager_id''], table_columns =
    [(''margin_manager_id'', Varchar),
     (''deepbook_pool_id'', Varchar),
     (''base_margin_pool_id'', Nullable Varchar),
     (''quote_margin_pool_id'', Nullable Varchar),
     (''base_asset_id'', Nullable Varchar),
     (''base_asset_symbol'', Nullable Varchar),
     (''quote_asset_id'', Nullable Varchar),
     (''quote_asset_symbol'', Nullable Varchar),
     (''risk_ratio'', Nullable Numeric),
     (''base_asset'', Nullable Numeric),
     (''quote_asset'', Nullable Numeric),
     (''base_debt'', Nullable Numeric),
     (''quote_debt'', Nullable Numeric),
     (''base_pyth_price'', Nullable Int8),
     (''base_pyth_decimals'', Nullable Int4),
     (''quote_pyth_price'', Nullable Int8),
     (''quote_pyth_decimals'', Nullable Int4),
     (''created_at'', Timestamp),
     (''updated_at'', Timestamp),
     (''current_price'', Nullable Numeric),
     (''lowest_trigger_above_price'', Nullable Numeric),
     (''highest_trigger_below_price'', Nullable Numeric)]\<rparr>"

definition margin_pool_config_updated_table :: sql_table where
  "margin_pool_config_updated_table = \<lparr>table_name = ''margin_pool_config_updated'', primary_key = [''event_digest''], table_columns =
    [(''event_digest'', Text),
     (''digest'', Text),
     (''sender'', Text),
     (''checkpoint'', Int8),
     (''timestamp'', Timestamp),
     (''checkpoint_timestamp_ms'', Int8),
     (''package'', Text),
     (''margin_pool_id'', Text),
     (''pool_cap_id'', Text),
     (''config_json'', Jsonb),
     (''onchain_timestamp'', Int8)]\<rparr>"

definition margin_pool_created_table :: sql_table where
  "margin_pool_created_table = \<lparr>table_name = ''margin_pool_created'', primary_key = [''event_digest''], table_columns =
    [(''event_digest'', Text),
     (''digest'', Text),
     (''sender'', Text),
     (''checkpoint'', Int8),
     (''timestamp'', Timestamp),
     (''checkpoint_timestamp_ms'', Int8),
     (''package'', Text),
     (''margin_pool_id'', Text),
     (''maintainer_cap_id'', Text),
     (''asset_type'', Text),
     (''config_json'', Jsonb),
     (''onchain_timestamp'', Int8)]\<rparr>"

definition margin_pool_snapshots_table :: sql_table where
  "margin_pool_snapshots_table = \<lparr>table_name = ''margin_pool_snapshots'', primary_key = [''id''], table_columns =
    [(''id'', Int8),
     (''margin_pool_id'', Text),
     (''asset_type'', Text),
     (''timestamp'', Timestamp),
     (''total_supply'', Int8),
     (''total_borrow'', Int8),
     (''vault_balance'', Int8),
     (''supply_cap'', Int8),
     (''interest_rate'', Int8),
     (''available_withdrawal'', Int8),
     (''utilization_rate'', Float8),
     (''solvency_ratio'', Nullable Float8),
     (''available_liquidity_pct'', Nullable Float8)]\<rparr>"

definition ohclv_1d_table :: sql_table where
  "ohclv_1d_table = \<lparr>table_name = ''ohclv_1d'', primary_key = [''pool_id'', ''bucket_time''], table_columns =
    [(''pool_id'', Text),
     (''bucket_time'', Date),
     (''open'', Numeric),
     (''high'', Numeric),
     (''low'', Numeric),
     (''close'', Numeric),
     (''base_volume'', Numeric),
     (''quote_volume'', Numeric),
     (''trade_count'', Int4),
     (''first_trade_timestamp'', Int8),
     (''last_trade_timestamp'', Int8)]\<rparr>"

definition ohclv_1m_table :: sql_table where
  "ohclv_1m_table = \<lparr>table_name = ''ohclv_1m'', primary_key = [''pool_id'', ''bucket_time''], table_columns =
    [(''pool_id'', Text),
     (''bucket_time'', Timestamp),
     (''open'', Numeric),
     (''high'', Numeric),
     (''low'', Numeric),
     (''close'', Numeric),
     (''base_volume'', Numeric),
     (''quote_volume'', Numeric),
     (''trade_count'', Int4),
     (''first_trade_timestamp'', Int8),
     (''last_trade_timestamp'', Int8)]\<rparr>"

definition order_fills_table :: sql_table where
  "order_fills_table = \<lparr>table_name = ''order_fills'', primary_key = [''event_digest''], table_columns =
    [(''event_digest'', Text),
     (''digest'', Text),
     (''sender'', Text),
     (''checkpoint'', Int8),
     (''timestamp'', Timestamp),
     (''checkpoint_timestamp_ms'', Int8),
     (''package'', Text),
     (''pool_id'', Text),
     (''maker_order_id'', Text),
     (''taker_order_id'', Text),
     (''maker_client_order_id'', Int8),
     (''taker_client_order_id'', Int8),
     (''price'', Int8),
     (''taker_fee'', Int8),
     (''taker_fee_is_deep'', Bool),
     (''maker_fee'', Int8),
     (''maker_fee_is_deep'', Bool),
     (''taker_is_bid'', Bool),
     (''base_quantity'', Int8),
     (''quote_quantity'', Int8),
     (''maker_balance_manager_id'', Text),
     (''taker_balance_manager_id'', Text),
     (''onchain_timestamp'', Int8)]\<rparr>"

definition order_updates_table :: sql_table where
  "order_updates_table = \<lparr>table_name = ''order_updates'', primary_key = [''event_digest''], table_columns =
    [(''event_digest'', Text),
     (''digest'', Text),
     (''sender'', Text),
     (''checkpoint'', Int8),
     (''timestamp'', Timestamp),
     (''checkpoint_timestamp_ms'', Int8),
     (''package'', Text),
     (''status'', Text),
     (''pool_id'', Text),
     (''order_id'', Text),
     (''client_order_id'', Int8),
     (''price'', Int8),
     (''is_bid'', Bool),
     (''original_quantity'', Int8),
     (''quantity'', Int8),
     (''filled_quantity'', Int8),
     (''onchain_timestamp'', Int8),
     (''balance_manager_id'', Text),
     (''trader'', Text)]\<rparr>"

definition pause_cap_updated_table :: sql_table where
  "pause_cap_updated_table = \<lparr>table_name = ''pause_cap_updated'', primary_key = [''event_digest''], table_columns =
    [(''event_digest'', Text),
     (''digest'', Text),
     (''sender'', Text),
     (''checkpoint'', Int8),
     (''timestamp'', Timestamp),
     (''checkpoint_timestamp_ms'', Int8),
     (''package'', Text),
     (''pause_cap_id'', Text),
     (''allowed'', Bool),
     (''onchain_timestamp'', Int8)]\<rparr>"

definition book_params_updated_table :: sql_table where
  "book_params_updated_table = \<lparr>table_name = ''book_params_updated'', primary_key = [''event_digest''], table_columns =
    [(''event_digest'', Text),
     (''digest'', Text),
     (''sender'', Text),
     (''checkpoint'', Int8),
     (''timestamp'', Timestamp),
     (''checkpoint_timestamp_ms'', Int8),
     (''package'', Text),
     (''pool_id'', Text),
     (''tick_size'', Int8),
     (''lot_size'', Int8),
     (''min_size'', Int8),
     (''onchain_timestamp'', Int8)]\<rparr>"

definition pool_prices_table :: sql_table where
  "pool_prices_table = \<lparr>table_name = ''pool_prices'', primary_key = [''event_digest''], table_columns =
    [(''event_digest'', Text),
     (''digest'', Text),
     (''sender'', Text),
     (''checkpoint'', Int8),
     (''timestamp'', Timestamp),
     (''checkpoint_timestamp_ms'', Int8),
     (''package'', Text),
     (''target_pool'', Text),
     (''reference_pool'', Text),
     (''conversion_rate'', Int8)]\<rparr>"

definition pool_created_table :: sql_table where
  "pool_created_table = \<lparr>table_name = ''pool_created'', primary_key = [''event_digest''], table_columns =
    [(''event_digest'', Text),
     (''digest'', Text),
     (''sender'', Text),
     (''checkpoint'', Int8),
     (''timestamp'', Timestamp),
     (''checkpoint_timestamp_ms'', Int8),
     (''package'', Text),
     (''pool_id'', Text),
     (''taker_fee'', Int8),
     (''maker_fee'', Int8),
     (''tick_size'', Int8),
     (''lot_size'', Int8),
     (''min_size'', Int8),
     (''whitelisted_pool'', Bool),
     (''treasury_address'', Text)]\<rparr>"

definition pools_table :: sql_table where
  "pools_table = \<lparr>table_name = ''pools'', primary_key = [''pool_id''], table_columns =
    [(''pool_id'', Text),
     (''pool_name'', Text),
     (''base_asset_id'', Text),
     (''base_asset_decimals'', Int2),
     (''base_asset_symbol'', Text),
     (''base_asset_name'', Text),
     (''quote_asset_id'', Text),
     (''quote_asset_decimals'', Int2),
     (''quote_asset_symbol'', Text),
     (''quote_asset_name'', Text),
     (''min_size'', Int8),
     (''lot_size'', Int8),
     (''tick_size'', Int8)]\<rparr>"

definition proposals_table :: sql_table where
  "proposals_table = \<lparr>table_name = ''proposals'', primary_key = [''event_digest''], table_columns =
    [(''event_digest'', Text),
     (''digest'', Text),
     (''sender'', Text),
     (''checkpoint'', Int8),
     (''timestamp'', Timestamp),
     (''checkpoint_timestamp_ms'', Int8),
     (''package'', Text),
     (''pool_id'', Text),
     (''balance_manager_id'', Text),
     (''epoch'', Int8),
     (''taker_fee'', Int8),
     (''maker_fee'', Int8),
     (''stake_required'', Int8)]\<rparr>"

definition protocol_fees_increased_table :: sql_table where
  "protocol_fees_increased_table = \<lparr>table_name = ''protocol_fees_increased'', primary_key = [''event_digest''], table_columns =
    [(''event_digest'', Text),
     (''digest'', Text),
     (''sender'', Text),
     (''checkpoint'', Int8),
     (''timestamp'', Timestamp),
     (''checkpoint_timestamp_ms'', Int8),
     (''package'', Text),
     (''margin_pool_id'', Text),
     (''total_shares'', Int8),
     (''referral_fees'', Int8),
     (''maintainer_fees'', Int8),
     (''protocol_fees'', Int8),
     (''onchain_timestamp'', Int8)]\<rparr>"

definition protocol_fees_withdrawn_table :: sql_table where
  "protocol_fees_withdrawn_table = \<lparr>table_name = ''protocol_fees_withdrawn'', primary_key = [''event_digest''], table_columns =
    [(''event_digest'', Text),
     (''digest'', Text),
     (''sender'', Text),
     (''checkpoint'', Int8),
     (''timestamp'', Timestamp),
     (''checkpoint_timestamp_ms'', Int8),
     (''package'', Text),
     (''margin_pool_id'', Text),
     (''protocol_fees'', Int8),
     (''onchain_timestamp'', Int8)]\<rparr>"

definition rebates_table :: sql_table where
  "rebates_table = \<lparr>table_name = ''rebates'', primary_key = [''event_digest''], table_columns =
    [(''event_digest'', Text),
     (''digest'', Text),
     (''sender'', Text),
     (''checkpoint'', Int8),
     (''timestamp'', Timestamp),
     (''checkpoint_timestamp_ms'', Int8),
     (''package'', Text),
     (''pool_id'', Text),
     (''balance_manager_id'', Text),
     (''epoch'', Int8),
     (''claim_amount'', Int8)]\<rparr>"

definition referral_fee_events_table :: sql_table where
  "referral_fee_events_table = \<lparr>table_name = ''referral_fee_events'', primary_key = [''event_digest''], table_columns =
    [(''event_digest'', Text),
     (''digest'', Text),
     (''sender'', Text),
     (''checkpoint'', Int8),
     (''timestamp'', Timestamp),
     (''checkpoint_timestamp_ms'', Int8),
     (''package'', Text),
     (''pool_id'', Text),
     (''referral_id'', Text),
     (''base_fee'', Int8),
     (''quote_fee'', Int8),
     (''deep_fee'', Int8)]\<rparr>"

definition referral_fees_claimed_table :: sql_table where
  "referral_fees_claimed_table = \<lparr>table_name = ''referral_fees_claimed'', primary_key = [''event_digest''], table_columns =
    [(''event_digest'', Text),
     (''digest'', Text),
     (''sender'', Text),
     (''checkpoint'', Int8),
     (''timestamp'', Timestamp),
     (''checkpoint_timestamp_ms'', Int8),
     (''package'', Text),
     (''referral_id'', Text),
     (''owner'', Text),
     (''fees'', Int8),
     (''onchain_timestamp'', Int8)]\<rparr>"

definition stakes_table :: sql_table where
  "stakes_table = \<lparr>table_name = ''stakes'', primary_key = [''event_digest''], table_columns =
    [(''event_digest'', Text),
     (''digest'', Text),
     (''sender'', Text),
     (''checkpoint'', Int8),
     (''timestamp'', Timestamp),
     (''checkpoint_timestamp_ms'', Int8),
     (''package'', Text),
     (''pool_id'', Text),
     (''balance_manager_id'', Text),
     (''epoch'', Int8),
     (''amount'', Int8),
     (''stake'', Bool)]\<rparr>"

definition sui_error_transactions_table :: sql_table where
  "sui_error_transactions_table = \<lparr>table_name = ''sui_error_transactions'', primary_key = [''id''], table_columns =
    [(''id'', Int4),
     (''txn_digest'', Text),
     (''sender_address'', Text),
     (''timestamp_ms'', Int8),
     (''failure_status'', Text),
     (''package'', Text),
     (''cmd_idx'', Nullable Int8)]\<rparr>"

definition supplier_cap_minted_table :: sql_table where
  "supplier_cap_minted_table = \<lparr>table_name = ''supplier_cap_minted'', primary_key = [''event_digest''], table_columns =
    [(''event_digest'', Text),
     (''digest'', Text),
     (''sender'', Text),
     (''checkpoint'', Int8),
     (''timestamp'', Timestamp),
     (''checkpoint_timestamp_ms'', Int8),
     (''package'', Text),
     (''supplier_cap_id'', Text),
     (''onchain_timestamp'', Int8)]\<rparr>"

definition supply_referral_minted_table :: sql_table where
  "supply_referral_minted_table = \<lparr>table_name = ''supply_referral_minted'', primary_key = [''event_digest''], table_columns =
    [(''event_digest'', Text),
     (''digest'', Text),
     (''sender'', Text),
     (''checkpoint'', Int8),
     (''timestamp'', Timestamp),
     (''checkpoint_timestamp_ms'', Int8),
     (''package'', Text),
     (''margin_pool_id'', Text),
     (''supply_referral_id'', Text),
     (''owner'', Text),
     (''onchain_timestamp'', Int8)]\<rparr>"

definition trade_params_update_table :: sql_table where
  "trade_params_update_table = \<lparr>table_name = ''trade_params_update'', primary_key = [''event_digest''], table_columns =
    [(''event_digest'', Text),
     (''digest'', Text),
     (''sender'', Text),
     (''checkpoint'', Int8),
     (''timestamp'', Timestamp),
     (''checkpoint_timestamp_ms'', Int8),
     (''package'', Text),
     (''pool_id'', Text),
     (''taker_fee'', Int8),
     (''maker_fee'', Int8),
     (''stake_required'', Int8)]\<rparr>"

definition votes_table :: sql_table where
  "votes_table = \<lparr>table_name = ''votes'', primary_key = [''event_digest''], table_columns =
    [(''event_digest'', Text),
     (''digest'', Text),
     (''sender'', Text),
     (''checkpoint'', Int8),
     (''timestamp'', Timestamp),
     (''checkpoint_timestamp_ms'', Int8),
     (''package'', Text),
     (''pool_id'', Text),
     (''balance_manager_id'', Text),
     (''epoch'', Int8),
     (''from_proposal_id'', Nullable Text),
     (''to_proposal_id'', Text),
     (''stake'', Int8)]\<rparr>"

definition points_table :: sql_table where
  "points_table = \<lparr>table_name = ''points'', primary_key = [''id''], table_columns =
    [(''id'', Int8),
     (''address'', Text),
     (''amount'', Int8),
     (''week'', Int4),
     (''timestamp'', Timestamp)]\<rparr>"

definition referral_claimed_table :: sql_table where
  "referral_claimed_table = \<lparr>table_name = ''referral_claimed'', primary_key = [''event_digest''], table_columns =
    [(''event_digest'', Text),
     (''digest'', Text),
     (''sender'', Text),
     (''checkpoint'', Int8),
     (''timestamp'', Timestamp),
     (''checkpoint_timestamp_ms'', Int8),
     (''package'', Text),
     (''pool_id'', Text),
     (''referral_id'', Text),
     (''owner'', Text),
     (''base_amount'', Int8),
     (''quote_amount'', Int8),
     (''deep_amount'', Int8)]\<rparr>"

definition ewma_updates_table :: sql_table where
  "ewma_updates_table = \<lparr>table_name = ''ewma_updates'', primary_key = [''event_digest''], table_columns =
    [(''event_digest'', Text),
     (''digest'', Text),
     (''sender'', Text),
     (''checkpoint'', Int8),
     (''timestamp'', Timestamp),
     (''checkpoint_timestamp_ms'', Int8),
     (''package'', Text),
     (''pool_id'', Text),
     (''gas_price'', Int8),
     (''mean'', Int8),
     (''variance'', Int8),
     (''onchain_timestamp'', Int8)]\<rparr>"

definition taker_fee_penalty_applied_table :: sql_table where
  "taker_fee_penalty_applied_table = \<lparr>table_name = ''taker_fee_penalty_applied'', primary_key = [''event_digest''], table_columns =
    [(''event_digest'', Text),
     (''digest'', Text),
     (''sender'', Text),
     (''checkpoint'', Int8),
     (''timestamp'', Timestamp),
     (''checkpoint_timestamp_ms'', Int8),
     (''package'', Text),
     (''pool_id'', Text),
     (''balance_manager_id'', Text),
     (''order_id'', Text),
     (''taker_fee_without_penalty'', Int8),
     (''taker_fee'', Int8)]\<rparr>"

definition watermarks_table :: sql_table where
  "watermarks_table = \<lparr>table_name = ''watermarks'', primary_key = [''pipeline''], table_columns =
    [(''pipeline'', Text),
     (''epoch_hi_inclusive'', Int8),
     (''checkpoint_hi_inclusive'', Int8),
     (''tx_hi'', Int8),
     (''timestamp_ms_hi_inclusive'', Int8),
     (''reader_lo'', Int8),
     (''pruner_timestamp'', Timestamp),
     (''pruner_hi'', Int8)]\<rparr>"

text \<open>The tables that may appear in one query: all of them.\<close>

definition queried_tables :: "sql_table list" where
  "queried_tables =
    [asset_supplied_table, asset_withdrawn_table, assets_table,
     balance_manager_created_table, balances_table, book_params_updated_table,
     collateral_events_table, conditional_order_events_table, deep_burned_table,
     deepbook_pool_config_updated_table, deepbook_pool_registered_table, deepbook_pool_updated_table,
     deepbook_pool_updated_registry_table, deepbook_referral_created_table, deepbook_referral_set_table,
     ewma_updates_table, flashloans_table, interest_params_updated_table,
     liquidation_table, loan_borrowed_table, loan_repaid_table,
     maintainer_cap_updated_table, maintainer_fees_withdrawn_table, margin_manager_created_table,
     margin_manager_state_table, margin_pool_config_updated_table, margin_pool_created_table,
     margin_pool_snapshots_table, ohclv_1d_table, ohclv_1m_table,
     order_fills_table, order_updates_table, pause_cap_updated_table,
     points_table, pool_created_table, pool_prices_table,
     pools_table, proposals_table, protocol_fees_increased_table,
     protocol_fees_withdrawn_table, rebates_table, referral_claimed_table,
     referral_fee_events_table, referral_fees_claimed_table, stakes_table,
     sui_error_transactions_table, supplier_cap_minted_table, supply_referral_minted_table,
     taker_fee_penalty_applied_table, trade_params_update_table, votes_table,
     watermarks_table]"

lemmas table_defs =
  asset_supplied_table_def asset_withdrawn_table_def assets_table_def
  balance_manager_created_table_def balances_table_def book_params_updated_table_def
  collateral_events_table_def conditional_order_events_table_def deep_burned_table_def
  deepbook_pool_config_updated_table_def deepbook_pool_registered_table_def deepbook_pool_updated_table_def
  deepbook_pool_updated_registry_table_def deepbook_referral_created_table_def deepbook_referral_set_table_def
  ewma_updates_table_def flashloans_table_def interest_params_updated_table_def
  liquidation_table_def loan_borrowed_table_def loan_repaid_table_def
  maintainer_cap_updated_table_def maintainer_fees_withdrawn_table_def margin_manager_created_table_def
  margin_manager_state_table_def margin_pool_config_updated_table_def margin_pool_created_table_def
  margin_pool_snapshots_table_def ohclv_1d_table_def ohclv_1m_table_def
  order_fills_table_def order_updates_table_def pause_cap_updated_table_def
  points_table_def pool_created_table_def pool_prices_table_def
  pools_table_def proposals_table_def protocol_fees_increased_table_def
  protocol_fees_withdrawn_table_def rebates_table_def referral_claimed_table_def
  referral_fee_events_table_def referral_fees_claimed_table_def stakes_table_def
  sui_error_transactions_table_def supplier_cap_minted_table_def supply_referral_minted_table_def
  taker_fee_penalty_applied_table_def trade_params_update_table_def votes_table_def
  watermarks_table_def

section \<open>Keys\<close>

text \<open>A table is well formed when its columns have different names and its key consists of columns that are
  not nullable.\<close>

definition table_wf :: "sql_table \<Rightarrow> bool" where
  "table_wf t \<longleftrightarrow> distinct (map fst (table_columns t)) \<and> primary_key t \<noteq> [] \<and>
     list_all (\<lambda>k. case map_of (table_columns t) k of None \<Rightarrow> False | Some ty \<Rightarrow> \<not> is_nullable ty) (primary_key t)"

definition is_event_table :: "sql_table \<Rightarrow> bool" where
  "is_event_table t \<longleftrightarrow> list_ex (\<lambda>(c, _). c = ''event_digest'') (table_columns t)"

lemma tables_wf: "list_all table_wf queried_tables"
  by code_simp

lemma table_names_distinct: "distinct (map table_name queried_tables)"
  by code_simp

lemma event_tables_keyed: "list_all (\<lambda>t. is_event_table t \<longrightarrow> primary_key t = [''event_digest'']) queried_tables"
  by code_simp

end
