(* ===== verification/Stored_Rows.thy ===== *)
theory Stored_Rows
  imports Tables End_To_End Orders Handlers_Orders Margin_Poller
begin

text \<open>
  What diesel inserts for a row (\<open>Insertable\<close> of \<^verbatim>\<open>crates/schema/src/models.rs\<close>): \<open>X_to_sql\<close> are the columns
  of a row of type \<open>X\<close> with their values. \<open>fits\<close> is the condition under which the database accepts
  them: the columns exist, the values have their types, and the columns left out have a default or
  are nullable. The interpretations of \<open>stored_event\<close> show that every row of every generated handler
  fits its table.
\<close>

datatype sql_value =
    VNull
  | VText string
  | VInt int
  | VBool bool
  | VFloat f64
  | VNumeric bigdecimal
  | VJson json
  | VTimestamp naive_datetime

type_synonym sql_row = "(string \<times> sql_value) list"

definition sql_option :: "('a \<Rightarrow> sql_value) \<Rightarrow> 'a option \<Rightarrow> sql_value" where
  "sql_option f x = (case x of None \<Rightarrow> VNull | Some y \<Rightarrow> f y)"

definition int_fits :: "sql_type \<Rightarrow> int \<Rightarrow> bool" where
  "int_fits ty n \<longleftrightarrow>
     (case ty of
        Int2 \<Rightarrow> - (2 ^ 15) \<le> n \<and> n < 2 ^ 15
      | Int4 \<Rightarrow> - (2 ^ 31) \<le> n \<and> n < 2 ^ 31
      | Int8 \<Rightarrow> in_i64 n
      | _ \<Rightarrow> False)"

fun has_type :: "sql_value \<Rightarrow> sql_type \<Rightarrow> bool" where
  "has_type v (Nullable ty) \<longleftrightarrow> v = VNull \<or> has_type v ty"
| "has_type (VText _) ty \<longleftrightarrow> ty = Text \<or> ty = Varchar"
| "has_type (VInt n) ty \<longleftrightarrow> int_fits ty n"
| "has_type (VBool _) ty \<longleftrightarrow> ty = Bool"
| "has_type (VFloat _) ty \<longleftrightarrow> ty = Float8"
| "has_type (VNumeric _) ty \<longleftrightarrow> ty = Numeric"
| "has_type (VJson _) ty \<longleftrightarrow> ty = Jsonb"
| "has_type (VTimestamp _) ty \<longleftrightarrow> ty = Timestamp"
| "has_type VNull ty \<longleftrightarrow> False"

definition fits :: "sql_table \<Rightarrow> sql_row \<Rightarrow> bool" where
  "fits t row \<longleftrightarrow>
     distinct (map fst row) \<and>
     list_all (\<lambda>(c, v). case map_of (table_columns t) c of None \<Rightarrow> False | Some ty \<Rightarrow> has_type v ty) row \<and>
     list_all (\<lambda>(c, ty). list_ex (\<lambda>(c', _). c' = c) row \<or> has_default c \<or> is_nullable ty) (table_columns t)"

section \<open>What is inserted\<close>

definition meta_to_sql :: "'a event_row_scheme \<Rightarrow> sql_row" where
  "meta_to_sql r =
     [(''event_digest'', VText (event_digest r)),
      (''digest'', VText (digest r)),
      (''sender'', VText (sender r)),
      (''checkpoint'', VInt (checkpoint r)),
      (''checkpoint_timestamp_ms'', VInt (checkpoint_timestamp_ms r)),
      (''package'', VText (package r))]"

definition OrderUpdate_to_sql :: "OrderUpdate \<Rightarrow> sql_row" where
  "OrderUpdate_to_sql r =
     meta_to_sql r @
     [(''status'', VText (status_to_sql (order_updates_status r))),
      (''pool_id'', VText (order_updates_pool_id r)),
      (''order_id'', VText (order_updates_order_id r)),
      (''client_order_id'', VInt (order_updates_client_order_id r)),
      (''price'', VInt (order_updates_price r)),
      (''is_bid'', VBool (order_updates_is_bid r)),
      (''original_quantity'', VInt (order_updates_original_quantity r)),
      (''quantity'', VInt (order_updates_quantity r)),
      (''filled_quantity'', VInt (order_updates_filled_quantity r)),
      (''onchain_timestamp'', VInt (order_updates_onchain_timestamp r)),
      (''trader'', VText (order_updates_trader r)),
      (''balance_manager_id'', VText (order_updates_balance_manager_id r))]"

definition OrderFill_to_sql :: "OrderFill \<Rightarrow> sql_row" where
  "OrderFill_to_sql r =
     meta_to_sql r @
     [(''pool_id'', VText (order_fills_pool_id r)),
      (''maker_order_id'', VText (order_fills_maker_order_id r)),
      (''taker_order_id'', VText (order_fills_taker_order_id r)),
      (''maker_client_order_id'', VInt (order_fills_maker_client_order_id r)),
      (''taker_client_order_id'', VInt (order_fills_taker_client_order_id r)),
      (''price'', VInt (order_fills_price r)),
      (''taker_fee'', VInt (order_fills_taker_fee r)),
      (''taker_fee_is_deep'', VBool (order_fills_taker_fee_is_deep r)),
      (''maker_fee'', VInt (order_fills_maker_fee r)),
      (''maker_fee_is_deep'', VBool (order_fills_maker_fee_is_deep r)),
      (''taker_is_bid'', VBool (order_fills_taker_is_bid r)),
      (''base_quantity'', VInt (order_fills_base_quantity r)),
      (''quote_quantity'', VInt (order_fills_quote_quantity r)),
      (''maker_balance_manager_id'', VText (order_fills_maker_balance_manager_id r)),
      (''taker_balance_manager_id'', VText (order_fills_taker_balance_manager_id r)),
      (''onchain_timestamp'', VInt (order_fills_onchain_timestamp r))]"

definition Flashloan_to_sql :: "Flashloan \<Rightarrow> sql_row" where
  "Flashloan_to_sql r =
     meta_to_sql r @
     [(''pool_id'', VText (flashloans_pool_id r)),
      (''borrow_quantity'', VInt (flashloans_borrow_quantity r)),
      (''borrow'', VBool (flashloans_borrow r)),
      (''type_name'', VText (flashloans_type_name r))]"

definition PoolPrice_to_sql :: "PoolPrice \<Rightarrow> sql_row" where
  "PoolPrice_to_sql r =
     meta_to_sql r @
     [(''target_pool'', VText (pool_prices_target_pool r)),
      (''reference_pool'', VText (pool_prices_reference_pool r)),
      (''conversion_rate'', VInt (pool_prices_conversion_rate r))]"

definition Balances_to_sql :: "Balances \<Rightarrow> sql_row" where
  "Balances_to_sql r =
     meta_to_sql r @
     [(''balance_manager_id'', VText (balances_balance_manager_id r)),
      (''asset'', VText (balances_asset r)),
      (''amount'', VInt (balances_amount r)),
      (''deposit'', VBool (balances_deposit r))]"

definition DeepBurned_to_sql :: "DeepBurned \<Rightarrow> sql_row" where
  "DeepBurned_to_sql r =
     meta_to_sql r @
     [(''pool_id'', VText (deep_burned_pool_id r)),
      (''burned_amount'', VInt (deep_burned_burned_amount r))]"

definition PoolCreated_to_sql :: "PoolCreated \<Rightarrow> sql_row" where
  "PoolCreated_to_sql r =
     meta_to_sql r @
     [(''pool_id'', VText (pool_created_pool_id r)),
      (''taker_fee'', VInt (pool_created_taker_fee r)),
      (''maker_fee'', VInt (pool_created_maker_fee r)),
      (''tick_size'', VInt (pool_created_tick_size r)),
      (''lot_size'', VInt (pool_created_lot_size r)),
      (''min_size'', VInt (pool_created_min_size r)),
      (''whitelisted_pool'', VBool (pool_created_whitelisted_pool r)),
      (''treasury_address'', VText (pool_created_treasury_address r))]"

definition BookParamsUpdated_to_sql :: "BookParamsUpdated \<Rightarrow> sql_row" where
  "BookParamsUpdated_to_sql r =
     meta_to_sql r @
     [(''pool_id'', VText (book_params_updated_pool_id r)),
      (''tick_size'', VInt (book_params_updated_tick_size r)),
      (''lot_size'', VInt (book_params_updated_lot_size r)),
      (''min_size'', VInt (book_params_updated_min_size r)),
      (''onchain_timestamp'', VInt (book_params_updated_onchain_timestamp r))]"

definition Proposals_to_sql :: "Proposals \<Rightarrow> sql_row" where
  "Proposals_to_sql r =
     meta_to_sql r @
     [(''pool_id'', VText (proposals_pool_id r)),
      (''balance_manager_id'', VText (proposals_balance_manager_id r)),
      (''epoch'', VInt (proposals_epoch r)),
      (''taker_fee'', VInt (proposals_taker_fee r)),
      (''maker_fee'', VInt (proposals_maker_fee r)),
      (''stake_required'', VInt (proposals_stake_required r))]"

definition Rebates_to_sql :: "Rebates \<Rightarrow> sql_row" where
  "Rebates_to_sql r =
     meta_to_sql r @
     [(''pool_id'', VText (rebates_pool_id r)),
      (''balance_manager_id'', VText (rebates_balance_manager_id r)),
      (''epoch'', VInt (rebates_epoch r)),
      (''claim_amount'', VInt (rebates_claim_amount r))]"

definition ReferralFeeEvent_to_sql :: "ReferralFeeEvent \<Rightarrow> sql_row" where
  "ReferralFeeEvent_to_sql r =
     meta_to_sql r @
     [(''pool_id'', VText (referral_fee_events_pool_id r)),
      (''referral_id'', VText (referral_fee_events_referral_id r)),
      (''base_fee'', VInt (referral_fee_events_base_fee r)),
      (''quote_fee'', VInt (referral_fee_events_quote_fee r)),
      (''deep_fee'', VInt (referral_fee_events_deep_fee r))]"

definition ReferralClaimed_to_sql :: "ReferralClaimed \<Rightarrow> sql_row" where
  "ReferralClaimed_to_sql r =
     meta_to_sql r @
     [(''pool_id'', VText (referral_claimed_pool_id r)),
      (''referral_id'', VText (referral_claimed_referral_id r)),
      (''owner'', VText (referral_claimed_owner r)),
      (''base_amount'', VInt (referral_claimed_base_amount r)),
      (''quote_amount'', VInt (referral_claimed_quote_amount r)),
      (''deep_amount'', VInt (referral_claimed_deep_amount r))]"

definition EwmaUpdate_to_sql :: "EwmaUpdate \<Rightarrow> sql_row" where
  "EwmaUpdate_to_sql r =
     meta_to_sql r @
     [(''pool_id'', VText (ewma_updates_pool_id r)),
      (''gas_price'', VInt (ewma_updates_gas_price r)),
      (''mean'', VInt (ewma_updates_mean r)),
      (''variance'', VInt (ewma_updates_variance r)),
      (''onchain_timestamp'', VInt (ewma_updates_onchain_timestamp r))]"

definition TakerFeePenaltyApplied_to_sql :: "TakerFeePenaltyApplied \<Rightarrow> sql_row" where
  "TakerFeePenaltyApplied_to_sql r =
     meta_to_sql r @
     [(''pool_id'', VText (taker_fee_penalty_applied_pool_id r)),
      (''balance_manager_id'', VText (taker_fee_penalty_applied_balance_manager_id r)),
      (''order_id'', VText (taker_fee_penalty_applied_order_id r)),
      (''taker_fee_without_penalty'', VInt (taker_fee_penalty_applied_taker_fee_without_penalty r)),
      (''taker_fee'', VInt (taker_fee_penalty_applied_taker_fee r))]"

definition Stakes_to_sql :: "Stakes \<Rightarrow> sql_row" where
  "Stakes_to_sql r =
     meta_to_sql r @
     [(''pool_id'', VText (stakes_pool_id r)),
      (''balance_manager_id'', VText (stakes_balance_manager_id r)),
      (''epoch'', VInt (stakes_epoch r)),
      (''amount'', VInt (stakes_amount r)),
      (''stake'', VBool (stakes_stake r))]"

definition TradeParamsUpdate_to_sql :: "TradeParamsUpdate \<Rightarrow> sql_row" where
  "TradeParamsUpdate_to_sql r =
     meta_to_sql r @
     [(''pool_id'', VText (trade_params_update_pool_id r)),
      (''taker_fee'', VInt (trade_params_update_taker_fee r)),
      (''maker_fee'', VInt (trade_params_update_maker_fee r)),
      (''stake_required'', VInt (trade_params_update_stake_required r))]"

definition Votes_to_sql :: "Votes \<Rightarrow> sql_row" where
  "Votes_to_sql r =
     meta_to_sql r @
     [(''pool_id'', VText (votes_pool_id r)),
      (''balance_manager_id'', VText (votes_balance_manager_id r)),
      (''epoch'', VInt (votes_epoch r)),
      (''from_proposal_id'', sql_option VText (votes_from_proposal_id r)),
      (''to_proposal_id'', VText (votes_to_proposal_id r)),
      (''stake'', VInt (votes_stake r))]"

definition Pools_to_sql :: "Pools \<Rightarrow> sql_row" where
  "Pools_to_sql r =
     [(''pool_id'', VText (pools_pool_id r)),
      (''pool_name'', VText (pools_pool_name r)),
      (''base_asset_id'', VText (pools_base_asset_id r)),
      (''base_asset_decimals'', VInt (pools_base_asset_decimals r)),
      (''base_asset_symbol'', VText (pools_base_asset_symbol r)),
      (''base_asset_name'', VText (pools_base_asset_name r)),
      (''quote_asset_id'', VText (pools_quote_asset_id r)),
      (''quote_asset_decimals'', VInt (pools_quote_asset_decimals r)),
      (''quote_asset_symbol'', VText (pools_quote_asset_symbol r)),
      (''quote_asset_name'', VText (pools_quote_asset_name r)),
      (''min_size'', VInt (pools_min_size r)),
      (''lot_size'', VInt (pools_lot_size r)),
      (''tick_size'', VInt (pools_tick_size r))]"

definition SuiErrorTransactions_to_sql :: "SuiErrorTransactions \<Rightarrow> sql_row" where
  "SuiErrorTransactions_to_sql r =
     [(''txn_digest'', VText (sui_error_transactions_txn_digest r)),
      (''sender_address'', VText (sui_error_transactions_sender_address r)),
      (''timestamp_ms'', VInt (sui_error_transactions_timestamp_ms r)),
      (''failure_status'', VText (sui_error_transactions_failure_status r)),
      (''package'', VText (sui_error_transactions_package r)),
      (''cmd_idx'', sql_option VInt (sui_error_transactions_cmd_idx r))]"

definition MarginManagerCreated_to_sql :: "MarginManagerCreated \<Rightarrow> sql_row" where
  "MarginManagerCreated_to_sql r =
     meta_to_sql r @
     [(''margin_manager_id'', VText (margin_manager_created_margin_manager_id r)),
      (''balance_manager_id'', VText (margin_manager_created_balance_manager_id r)),
      (''deepbook_pool_id'', sql_option VText (margin_manager_created_deepbook_pool_id r)),
      (''owner'', VText (margin_manager_created_owner r)),
      (''onchain_timestamp'', VInt (margin_manager_created_onchain_timestamp r))]"

definition LoanBorrowed_to_sql :: "LoanBorrowed \<Rightarrow> sql_row" where
  "LoanBorrowed_to_sql r =
     meta_to_sql r @
     [(''margin_manager_id'', VText (loan_borrowed_margin_manager_id r)),
      (''margin_pool_id'', VText (loan_borrowed_margin_pool_id r)),
      (''loan_amount'', VInt (loan_borrowed_loan_amount r)),
      (''loan_shares'', VInt (loan_borrowed_loan_shares r)),
      (''onchain_timestamp'', VInt (loan_borrowed_onchain_timestamp r))]"

definition LoanRepaid_to_sql :: "LoanRepaid \<Rightarrow> sql_row" where
  "LoanRepaid_to_sql r =
     meta_to_sql r @
     [(''margin_manager_id'', VText (loan_repaid_margin_manager_id r)),
      (''margin_pool_id'', VText (loan_repaid_margin_pool_id r)),
      (''repay_amount'', VInt (loan_repaid_repay_amount r)),
      (''repay_shares'', VInt (loan_repaid_repay_shares r)),
      (''onchain_timestamp'', VInt (loan_repaid_onchain_timestamp r))]"

definition Liquidation_to_sql :: "Liquidation \<Rightarrow> sql_row" where
  "Liquidation_to_sql r =
     meta_to_sql r @
     [(''margin_manager_id'', VText (liquidation_margin_manager_id r)),
      (''margin_pool_id'', VText (liquidation_margin_pool_id r)),
      (''liquidation_amount'', VInt (liquidation_liquidation_amount r)),
      (''pool_reward'', VInt (liquidation_pool_reward r)),
      (''pool_default'', VInt (liquidation_pool_default r)),
      (''risk_ratio'', VInt (liquidation_risk_ratio r)),
      (''onchain_timestamp'', VInt (liquidation_onchain_timestamp r)),
      (''remaining_base_asset'', VNumeric (liquidation_remaining_base_asset r)),
      (''remaining_quote_asset'', VNumeric (liquidation_remaining_quote_asset r)),
      (''remaining_base_debt'', VNumeric (liquidation_remaining_base_debt r)),
      (''remaining_quote_debt'', VNumeric (liquidation_remaining_quote_debt r)),
      (''base_pyth_price'', VInt (liquidation_base_pyth_price r)),
      (''base_pyth_decimals'', VInt (liquidation_base_pyth_decimals r)),
      (''quote_pyth_price'', VInt (liquidation_quote_pyth_price r)),
      (''quote_pyth_decimals'', VInt (liquidation_quote_pyth_decimals r))]"

definition AssetSupplied_to_sql :: "AssetSupplied \<Rightarrow> sql_row" where
  "AssetSupplied_to_sql r =
     meta_to_sql r @
     [(''margin_pool_id'', VText (asset_supplied_margin_pool_id r)),
      (''asset_type'', VText (asset_supplied_asset_type r)),
      (''supplier'', VText (asset_supplied_supplier r)),
      (''amount'', VInt (asset_supplied_amount r)),
      (''shares'', VInt (asset_supplied_shares r)),
      (''onchain_timestamp'', VInt (asset_supplied_onchain_timestamp r))]"

definition AssetWithdrawn_to_sql :: "AssetWithdrawn \<Rightarrow> sql_row" where
  "AssetWithdrawn_to_sql r =
     meta_to_sql r @
     [(''margin_pool_id'', VText (asset_withdrawn_margin_pool_id r)),
      (''asset_type'', VText (asset_withdrawn_asset_type r)),
      (''supplier'', VText (asset_withdrawn_supplier r)),
      (''amount'', VInt (asset_withdrawn_amount r)),
      (''shares'', VInt (asset_withdrawn_shares r)),
      (''onchain_timestamp'', VInt (asset_withdrawn_onchain_timestamp r))]"

definition MarginPoolCreated_to_sql :: "MarginPoolCreated \<Rightarrow> sql_row" where
  "MarginPoolCreated_to_sql r =
     meta_to_sql r @
     [(''margin_pool_id'', VText (margin_pool_created_margin_pool_id r)),
      (''maintainer_cap_id'', VText (margin_pool_created_maintainer_cap_id r)),
      (''asset_type'', VText (margin_pool_created_asset_type r)),
      (''config_json'', VJson (margin_pool_created_config_json r)),
      (''onchain_timestamp'', VInt (margin_pool_created_onchain_timestamp r))]"

definition DeepbookPoolUpdated_to_sql :: "DeepbookPoolUpdated \<Rightarrow> sql_row" where
  "DeepbookPoolUpdated_to_sql r =
     meta_to_sql r @
     [(''margin_pool_id'', VText (deepbook_pool_updated_margin_pool_id r)),
      (''deepbook_pool_id'', VText (deepbook_pool_updated_deepbook_pool_id r)),
      (''pool_cap_id'', VText (deepbook_pool_updated_pool_cap_id r)),
      (''enabled'', VBool (deepbook_pool_updated_enabled r)),
      (''onchain_timestamp'', VInt (deepbook_pool_updated_onchain_timestamp r))]"

definition InterestParamsUpdated_to_sql :: "InterestParamsUpdated \<Rightarrow> sql_row" where
  "InterestParamsUpdated_to_sql r =
     meta_to_sql r @
     [(''margin_pool_id'', VText (interest_params_updated_margin_pool_id r)),
      (''pool_cap_id'', VText (interest_params_updated_pool_cap_id r)),
      (''config_json'', VJson (interest_params_updated_config_json r)),
      (''onchain_timestamp'', VInt (interest_params_updated_onchain_timestamp r))]"

definition MarginPoolConfigUpdated_to_sql :: "MarginPoolConfigUpdated \<Rightarrow> sql_row" where
  "MarginPoolConfigUpdated_to_sql r =
     meta_to_sql r @
     [(''margin_pool_id'', VText (margin_pool_config_updated_margin_pool_id r)),
      (''pool_cap_id'', VText (margin_pool_config_updated_pool_cap_id r)),
      (''config_json'', VJson (margin_pool_config_updated_config_json r)),
      (''onchain_timestamp'', VInt (margin_pool_config_updated_onchain_timestamp r))]"

definition MaintainerCapUpdated_to_sql :: "MaintainerCapUpdated \<Rightarrow> sql_row" where
  "MaintainerCapUpdated_to_sql r =
     meta_to_sql r @
     [(''maintainer_cap_id'', VText (maintainer_cap_updated_maintainer_cap_id r)),
      (''allowed'', VBool (maintainer_cap_updated_allowed r)),
      (''onchain_timestamp'', VInt (maintainer_cap_updated_onchain_timestamp r))]"

definition DeepbookPoolRegistered_to_sql :: "DeepbookPoolRegistered \<Rightarrow> sql_row" where
  "DeepbookPoolRegistered_to_sql r =
     meta_to_sql r @
     [(''pool_id'', VText (deepbook_pool_registered_pool_id r)),
      (''config_json'', sql_option VJson (deepbook_pool_registered_config_json r)),
      (''onchain_timestamp'', VInt (deepbook_pool_registered_onchain_timestamp r))]"

definition DeepbookPoolUpdatedRegistry_to_sql :: "DeepbookPoolUpdatedRegistry \<Rightarrow> sql_row" where
  "DeepbookPoolUpdatedRegistry_to_sql r =
     meta_to_sql r @
     [(''pool_id'', VText (deepbook_pool_updated_registry_pool_id r)),
      (''enabled'', VBool (deepbook_pool_updated_registry_enabled r)),
      (''onchain_timestamp'', VInt (deepbook_pool_updated_registry_onchain_timestamp r))]"

definition DeepbookPoolConfigUpdated_to_sql :: "DeepbookPoolConfigUpdated \<Rightarrow> sql_row" where
  "DeepbookPoolConfigUpdated_to_sql r =
     meta_to_sql r @
     [(''pool_id'', VText (deepbook_pool_config_updated_pool_id r)),
      (''config_json'', VJson (deepbook_pool_config_updated_config_json r)),
      (''onchain_timestamp'', VInt (deepbook_pool_config_updated_onchain_timestamp r))]"

definition MaintainerFeesWithdrawn_to_sql :: "MaintainerFeesWithdrawn \<Rightarrow> sql_row" where
  "MaintainerFeesWithdrawn_to_sql r =
     meta_to_sql r @
     [(''margin_pool_id'', VText (maintainer_fees_withdrawn_margin_pool_id r)),
      (''margin_pool_cap_id'', VText (maintainer_fees_withdrawn_margin_pool_cap_id r)),
      (''maintainer_fees'', VInt (maintainer_fees_withdrawn_maintainer_fees r)),
      (''onchain_timestamp'', VInt (maintainer_fees_withdrawn_onchain_timestamp r))]"

definition ProtocolFeesWithdrawn_to_sql :: "ProtocolFeesWithdrawn \<Rightarrow> sql_row" where
  "ProtocolFeesWithdrawn_to_sql r =
     meta_to_sql r @
     [(''margin_pool_id'', VText (protocol_fees_withdrawn_margin_pool_id r)),
      (''protocol_fees'', VInt (protocol_fees_withdrawn_protocol_fees r)),
      (''onchain_timestamp'', VInt (protocol_fees_withdrawn_onchain_timestamp r))]"

definition SupplierCapMinted_to_sql :: "SupplierCapMinted \<Rightarrow> sql_row" where
  "SupplierCapMinted_to_sql r =
     meta_to_sql r @
     [(''supplier_cap_id'', VText (supplier_cap_minted_supplier_cap_id r)),
      (''onchain_timestamp'', VInt (supplier_cap_minted_onchain_timestamp r))]"

definition SupplyReferralMinted_to_sql :: "SupplyReferralMinted \<Rightarrow> sql_row" where
  "SupplyReferralMinted_to_sql r =
     meta_to_sql r @
     [(''margin_pool_id'', VText (supply_referral_minted_margin_pool_id r)),
      (''supply_referral_id'', VText (supply_referral_minted_supply_referral_id r)),
      (''owner'', VText (supply_referral_minted_owner r)),
      (''onchain_timestamp'', VInt (supply_referral_minted_onchain_timestamp r))]"

definition PauseCapUpdated_to_sql :: "PauseCapUpdated \<Rightarrow> sql_row" where
  "PauseCapUpdated_to_sql r =
     meta_to_sql r @
     [(''pause_cap_id'', VText (pause_cap_updated_pause_cap_id r)),
      (''allowed'', VBool (pause_cap_updated_allowed r)),
      (''onchain_timestamp'', VInt (pause_cap_updated_onchain_timestamp r))]"

definition ProtocolFeesIncreasedEvent_to_sql :: "ProtocolFeesIncreasedEvent \<Rightarrow> sql_row" where
  "ProtocolFeesIncreasedEvent_to_sql r =
     meta_to_sql r @
     [(''margin_pool_id'', VText (protocol_fees_increased_margin_pool_id r)),
      (''total_shares'', VInt (protocol_fees_increased_total_shares r)),
      (''referral_fees'', VInt (protocol_fees_increased_referral_fees r)),
      (''maintainer_fees'', VInt (protocol_fees_increased_maintainer_fees r)),
      (''protocol_fees'', VInt (protocol_fees_increased_protocol_fees r)),
      (''onchain_timestamp'', VInt (protocol_fees_increased_onchain_timestamp r))]"

definition ReferralFeesClaimedEvent_to_sql :: "ReferralFeesClaimedEvent \<Rightarrow> sql_row" where
  "ReferralFeesClaimedEvent_to_sql r =
     meta_to_sql r @
     [(''referral_id'', VText (referral_fees_claimed_referral_id r)),
      (''owner'', VText (referral_fees_claimed_owner r)),
      (''fees'', VInt (referral_fees_claimed_fees r)),
      (''onchain_timestamp'', VInt (referral_fees_claimed_onchain_timestamp r))]"

definition MarginPoolSnapshot_to_sql :: "MarginPoolSnapshot \<Rightarrow> sql_row" where
  "MarginPoolSnapshot_to_sql r =
     [(''id'', VInt (margin_pool_snapshots_id r)),
      (''margin_pool_id'', VText (margin_pool_snapshots_margin_pool_id r)),
      (''asset_type'', VText (margin_pool_snapshots_asset_type r)),
      (''timestamp'', VTimestamp (margin_pool_snapshots_timestamp r)),
      (''total_supply'', VInt (margin_pool_snapshots_total_supply r)),
      (''total_borrow'', VInt (margin_pool_snapshots_total_borrow r)),
      (''vault_balance'', VInt (margin_pool_snapshots_vault_balance r)),
      (''supply_cap'', VInt (margin_pool_snapshots_supply_cap r)),
      (''interest_rate'', VInt (margin_pool_snapshots_interest_rate r)),
      (''available_withdrawal'', VInt (margin_pool_snapshots_available_withdrawal r)),
      (''utilization_rate'', VFloat (margin_pool_snapshots_utilization_rate r)),
      (''solvency_ratio'', sql_option VFloat (margin_pool_snapshots_solvency_ratio r)),
      (''available_liquidity_pct'', sql_option VFloat (margin_pool_snapshots_available_liquidity_pct r))]"

definition NewMarginPoolSnapshot_to_sql :: "NewMarginPoolSnapshot \<Rightarrow> sql_row" where
  "NewMarginPoolSnapshot_to_sql r =
     [(''margin_pool_id'', VText (new_margin_pool_snapshots_margin_pool_id r)),
      (''asset_type'', VText (new_margin_pool_snapshots_asset_type r)),
      (''total_supply'', VInt (new_margin_pool_snapshots_total_supply r)),
      (''total_borrow'', VInt (new_margin_pool_snapshots_total_borrow r)),
      (''vault_balance'', VInt (new_margin_pool_snapshots_vault_balance r)),
      (''supply_cap'', VInt (new_margin_pool_snapshots_supply_cap r)),
      (''interest_rate'', VInt (new_margin_pool_snapshots_interest_rate r)),
      (''available_withdrawal'', VInt (new_margin_pool_snapshots_available_withdrawal r)),
      (''utilization_rate'', VFloat (new_margin_pool_snapshots_utilization_rate r)),
      (''solvency_ratio'', sql_option VFloat (new_margin_pool_snapshots_solvency_ratio r)),
      (''available_liquidity_pct'', sql_option VFloat (new_margin_pool_snapshots_available_liquidity_pct r))]"

definition CollateralEvent_to_sql :: "CollateralEvent \<Rightarrow> sql_row" where
  "CollateralEvent_to_sql r =
     meta_to_sql r @
     [(''event_type'', VText (collateral_events_event_type r)),
      (''margin_manager_id'', VText (collateral_events_margin_manager_id r)),
      (''amount'', VNumeric (collateral_events_amount r)),
      (''asset_type'', VText (collateral_events_asset_type r)),
      (''pyth_decimals'', VInt (collateral_events_pyth_decimals r)),
      (''pyth_price'', VNumeric (collateral_events_pyth_price r)),
      (''withdraw_base_asset'', sql_option VBool (collateral_events_withdraw_base_asset r)),
      (''base_pyth_decimals'', sql_option VInt (collateral_events_base_pyth_decimals r)),
      (''base_pyth_price'', sql_option VNumeric (collateral_events_base_pyth_price r)),
      (''quote_pyth_decimals'', sql_option VInt (collateral_events_quote_pyth_decimals r)),
      (''quote_pyth_price'', sql_option VNumeric (collateral_events_quote_pyth_price r)),
      (''remaining_base_asset'', sql_option VNumeric (collateral_events_remaining_base_asset r)),
      (''remaining_quote_asset'', sql_option VNumeric (collateral_events_remaining_quote_asset r)),
      (''remaining_base_debt'', sql_option VNumeric (collateral_events_remaining_base_debt r)),
      (''remaining_quote_debt'', sql_option VNumeric (collateral_events_remaining_quote_debt r)),
      (''onchain_timestamp'', VInt (collateral_events_onchain_timestamp r))]"

definition ConditionalOrderEvent_to_sql :: "ConditionalOrderEvent \<Rightarrow> sql_row" where
  "ConditionalOrderEvent_to_sql r =
     meta_to_sql r @
     [(''event_type'', VText (conditional_order_events_event_type r)),
      (''manager_id'', VText (conditional_order_events_manager_id r)),
      (''pool_id'', sql_option VText (conditional_order_events_pool_id r)),
      (''conditional_order_id'', VInt (conditional_order_events_conditional_order_id r)),
      (''trigger_below_price'', VBool (conditional_order_events_trigger_below_price r)),
      (''trigger_price'', VNumeric (conditional_order_events_trigger_price r)),
      (''is_limit_order'', VBool (conditional_order_events_is_limit_order r)),
      (''client_order_id'', VInt (conditional_order_events_client_order_id r)),
      (''order_type'', VInt (conditional_order_events_order_type r)),
      (''self_matching_option'', VInt (conditional_order_events_self_matching_option r)),
      (''price'', VNumeric (conditional_order_events_price r)),
      (''quantity'', VNumeric (conditional_order_events_quantity r)),
      (''is_bid'', VBool (conditional_order_events_is_bid r)),
      (''pay_with_deep'', VBool (conditional_order_events_pay_with_deep r)),
      (''expire_timestamp'', VInt (conditional_order_events_expire_timestamp r)),
      (''onchain_timestamp'', VInt (conditional_order_events_onchain_timestamp r))]"

definition BalanceManagerEvent_to_sql :: "BalanceManagerEvent \<Rightarrow> sql_row" where
  "BalanceManagerEvent_to_sql r =
     meta_to_sql r @
     [(''balance_manager_id'', VText (balance_manager_created_balance_manager_id r)),
      (''owner'', VText (balance_manager_created_owner r))]"

definition DeepBookReferralCreatedEvent_to_sql :: "DeepBookReferralCreatedEvent \<Rightarrow> sql_row" where
  "DeepBookReferralCreatedEvent_to_sql r =
     meta_to_sql r @
     [(''referral_id'', VText (deepbook_referral_created_referral_id r)),
      (''owner'', VText (deepbook_referral_created_owner r))]"

definition DeepBookReferralSetEvent_to_sql :: "DeepBookReferralSetEvent \<Rightarrow> sql_row" where
  "DeepBookReferralSetEvent_to_sql r =
     meta_to_sql r @
     [(''referral_id'', VText (deepbook_referral_set_referral_id r)),
      (''balance_manager_id'', VText (deepbook_referral_set_balance_manager_id r))]"

definition Points_to_sql :: "Points \<Rightarrow> sql_row" where
  "Points_to_sql r =
     [(''id'', VInt (points_id r)),
      (''address'', VText (points_address r)),
      (''amount'', VInt (points_amount r)),
      (''week'', VInt (points_week r)),
      (''timestamp'', VTimestamp (points_timestamp r))]"

section \<open>The contract of a stored event\<close>

text \<open>Every row of a table is the row of some event with some metadata.\<close>

lemma collect_result_mem:
  "collect_result f xs = Inr ys \<Longrightarrow> y \<in> set ys \<Longrightarrow> \<exists>x\<in>set xs. \<exists>zs. f x = Inr zs \<and> y \<in> set zs"
  by (drule collect_result_set) (auto split: sum.splits)

lemma process_handler_rows:
  assumes "process_handler lib st env ms decode map_event cp = Inr rows" and "r \<in> set rows"
  shows "\<exists>e m. r = map_event e m \<and> meta_checkpoint m = as_i64 (sequence_number cp) \<and>
    meta_checkpoint_timestamp_ms m = as_i64 (timestamp_ms cp)"
proof -
  obtain tx zs where tx: "process_tx lib st env (process_event lib st env ms decode map_event (from_checkpoint_tx lib cp tx)) tx = Inr zs"
    "r \<in> set zs" using collect_result_mem [OF assms(1) [unfolded process_handler_def] assms(2)] by blast
  then obtain events where "collect_result (process_event lib st env ms decode map_event (from_checkpoint_tx lib cp tx))
      (enumerate 0 events) = Inr zs"
    by (auto simp: process_tx_def split: option.split_asm bool.split_asm)
  from collect_result_mem [OF this tx(2)] show ?thesis
    by (force simp: process_event_def from_checkpoint_tx_def with_index_def split: if_splits option.split_asm)
qed

lemma pipeline_rows:
  assumes "map (process_handler lib st env ms decode map_event) cps = map Inr batches"
    and "pipeline_reach batches s" and "r \<in> set (stored s)"
  shows "\<exists>e m (cp :: Checkpoint). r = map_event e m \<and> meta_checkpoint m = as_i64 (sequence_number cp) \<and>
    meta_checkpoint_timestamp_ms m = as_i64 (timestamp_ms cp)"
proof -
  have inv: "pipeline_inv batches s" using assms(2) by (rule pipeline_reach_inv)
  then have "set (committed s) \<subseteq> set batches"
    unfolding pipeline_inv_def by (metis Un_upper2 set_mset_mset set_mset_union)
  then obtain b where b: "b \<in> set batches" "r \<in> set b"
  proof -
    have "r \<in> batch_rows (committed s)" using inv assms(3) unfolding pipeline_inv_def by blast
    then show ?thesis using \<open>set (committed s) \<subseteq> set batches\<close> that by (auto simp: batch_rows_def)
  qed
  then have "Inr b \<in> set (map (process_handler lib st env ms decode map_event) cps)"
    unfolding assms(1) by simp
  then obtain cp where "process_handler lib st env ms decode map_event cp = Inr b" by auto
  from process_handler_rows [OF this b(2)] show ?thesis by blast
qed

definition typed_meta :: "EventMeta \<Rightarrow> bool" where
  "typed_meta m \<longleftrightarrow> in_i64 (meta_checkpoint m) \<and> in_i64 (meta_checkpoint_timestamp_ms m)"

lemma typed_meta_checkpoint: "typed_meta (with_index (from_checkpoint_tx lib cp tx) i)"
  by (simp add: typed_meta_def with_index_def from_checkpoint_tx_def)

lemma u8_fits: "- 32768 \<le> u8_as_i16 b" "u8_as_i16 b < 32768"
  using unsigned_less [of b, where 'a = int] order_trans [OF _ uint_ge_0 [of b], of "- 32768"]
  by (simp_all add: u8_as_i16_def)

locale stored_event = event_handler map_event
  for map_event :: "'ev \<Rightarrow> EventMeta \<Rightarrow> 'a event_row_scheme" +
  fixes table :: sql_table and to_sql :: "'a event_row_scheme \<Rightarrow> sql_row"
  assumes row_fits: "typed_meta m \<Longrightarrow> fits table (to_sql (map_event e m))"
begin

lemma stored_row_fits:
  assumes "map (process_handler lib st env ms decode map_event) cps = map Inr batches"
    and "pipeline_reach batches s" and "r \<in> set (stored s)"
  shows "fits table (to_sql r)"
proof -
  obtain e m and cp :: Checkpoint where "r = map_event e m" "meta_checkpoint m = as_i64 (sequence_number cp)"
    "meta_checkpoint_timestamp_ms m = as_i64 (timestamp_ms cp)"
    using pipeline_rows [OF assms] by blast
  then show ?thesis by (simp add: row_fits typed_meta_def)
qed

end

lemma in_i64_0: "in_i64 0"
  by (simp add: in_i64_def i64_min_def i64_max_def)

lemmas fits_simps = in_i64_0 fits_def has_default_def int_fits_def sql_option_def meta_to_sql_def typed_meta_def

section \<open>The generated handlers\<close>

interpretation balance_manager_event_stored: stored_event "BalanceManagerEventHandler_map_event lib" balance_manager_created_table BalanceManagerEvent_to_sql
  by unfold_locales (simp add: BalanceManagerEventHandler_map_event_def BalanceManagerEvent_to_sql_def balance_manager_created_table_def fits_simps u8_fits split: option.split)

interpretation balances_stored: stored_event "BalancesHandler_map_event lib" balances_table Balances_to_sql
  by unfold_locales (simp add: BalancesHandler_map_event_def Balances_to_sql_def balances_table_def fits_simps u8_fits split: option.split)

interpretation book_params_updated_stored: stored_event "BookParamsUpdatedHandler_map_event lib" book_params_updated_table BookParamsUpdated_to_sql
  by unfold_locales (simp add: BookParamsUpdatedHandler_map_event_def BookParamsUpdated_to_sql_def book_params_updated_table_def fits_simps u8_fits split: option.split)

interpretation deep_book_referral_created_event_stored: stored_event "DeepBookReferralCreatedEventHandler_map_event lib" deepbook_referral_created_table DeepBookReferralCreatedEvent_to_sql
  by unfold_locales (simp add: DeepBookReferralCreatedEventHandler_map_event_def DeepBookReferralCreatedEvent_to_sql_def deepbook_referral_created_table_def fits_simps u8_fits split: option.split)

interpretation deep_book_referral_set_event_stored: stored_event "DeepBookReferralSetEventHandler_map_event lib" deepbook_referral_set_table DeepBookReferralSetEvent_to_sql
  by unfold_locales (simp add: DeepBookReferralSetEventHandler_map_event_def DeepBookReferralSetEvent_to_sql_def deepbook_referral_set_table_def fits_simps u8_fits split: option.split)

interpretation ewma_update_stored: stored_event "EwmaUpdateHandler_map_event lib" ewma_updates_table EwmaUpdate_to_sql
  by unfold_locales (simp add: EwmaUpdateHandler_map_event_def EwmaUpdate_to_sql_def ewma_updates_table_def fits_simps u8_fits split: option.split)

interpretation flash_loan_stored: stored_event "FlashLoanHandler_map_event lib" flashloans_table Flashloan_to_sql
  by unfold_locales (simp add: FlashLoanHandler_map_event_def Flashloan_to_sql_def flashloans_table_def fits_simps u8_fits split: option.split)

interpretation order_fill_stored: stored_event "OrderFillHandler_map_event lib" order_fills_table OrderFill_to_sql
  by unfold_locales (simp add: OrderFillHandler_map_event_def OrderFill_to_sql_def order_fills_table_def fits_simps u8_fits split: option.split)

interpretation pool_price_stored: stored_event "PoolPriceHandler_map_event lib" pool_prices_table PoolPrice_to_sql
  by unfold_locales (simp add: PoolPriceHandler_map_event_def PoolPrice_to_sql_def pool_prices_table_def fits_simps u8_fits split: option.split)

interpretation proposals_stored: stored_event "ProposalsHandler_map_event lib" proposals_table Proposals_to_sql
  by unfold_locales (simp add: ProposalsHandler_map_event_def Proposals_to_sql_def proposals_table_def fits_simps u8_fits split: option.split)

interpretation rebates_stored: stored_event "RebatesHandler_map_event lib" rebates_table Rebates_to_sql
  by unfold_locales (simp add: RebatesHandler_map_event_def Rebates_to_sql_def rebates_table_def fits_simps u8_fits split: option.split)

interpretation referral_claimed_stored: stored_event "ReferralClaimedHandler_map_event lib" referral_claimed_table ReferralClaimed_to_sql
  by unfold_locales (simp add: ReferralClaimedHandler_map_event_def ReferralClaimed_to_sql_def referral_claimed_table_def fits_simps u8_fits split: option.split)

interpretation referral_fee_event_stored: stored_event "ReferralFeeEventHandler_map_event lib" referral_fee_events_table ReferralFeeEvent_to_sql
  by unfold_locales (simp add: ReferralFeeEventHandler_map_event_def ReferralFeeEvent_to_sql_def referral_fee_events_table_def fits_simps u8_fits split: option.split)

interpretation stakes_stored: stored_event "StakesHandler_map_event lib" stakes_table Stakes_to_sql
  by unfold_locales (simp add: StakesHandler_map_event_def Stakes_to_sql_def stakes_table_def fits_simps u8_fits split: option.split)

interpretation taker_fee_penalty_stored: stored_event "TakerFeePenaltyHandler_map_event lib" taker_fee_penalty_applied_table TakerFeePenaltyApplied_to_sql
  by unfold_locales (simp add: TakerFeePenaltyHandler_map_event_def TakerFeePenaltyApplied_to_sql_def taker_fee_penalty_applied_table_def fits_simps u8_fits split: option.split)

interpretation votes_stored: stored_event "VotesHandler_map_event lib" votes_table Votes_to_sql
  by unfold_locales (simp add: VotesHandler_map_event_def Votes_to_sql_def votes_table_def fits_simps u8_fits split: option.split)

interpretation asset_supplied_stored: stored_event "AssetSuppliedHandler_map_event lib" asset_supplied_table AssetSupplied_to_sql
  by unfold_locales (simp add: AssetSuppliedHandler_map_event_def AssetSupplied_to_sql_def asset_supplied_table_def fits_simps u8_fits split: option.split)

interpretation asset_withdrawn_stored: stored_event "AssetWithdrawnHandler_map_event lib" asset_withdrawn_table AssetWithdrawn_to_sql
  by unfold_locales (simp add: AssetWithdrawnHandler_map_event_def AssetWithdrawn_to_sql_def asset_withdrawn_table_def fits_simps u8_fits split: option.split)

interpretation conditional_order_added_stored: stored_event "ConditionalOrderAddedHandler_map_event lib" conditional_order_events_table ConditionalOrderEvent_to_sql
  by unfold_locales (simp add: ConditionalOrderAddedHandler_map_event_def ConditionalOrderEvent_to_sql_def conditional_order_events_table_def fits_simps u8_fits split: option.split)

interpretation conditional_order_cancelled_stored: stored_event "ConditionalOrderCancelledHandler_map_event lib" conditional_order_events_table ConditionalOrderEvent_to_sql
  by unfold_locales (simp add: ConditionalOrderCancelledHandler_map_event_def ConditionalOrderEvent_to_sql_def conditional_order_events_table_def fits_simps u8_fits split: option.split)

interpretation conditional_order_executed_stored: stored_event "ConditionalOrderExecutedHandler_map_event lib" conditional_order_events_table ConditionalOrderEvent_to_sql
  by unfold_locales (simp add: ConditionalOrderExecutedHandler_map_event_def ConditionalOrderEvent_to_sql_def conditional_order_events_table_def fits_simps u8_fits split: option.split)

interpretation conditional_order_insufficient_funds_stored: stored_event "ConditionalOrderInsufficientFundsHandler_map_event lib" conditional_order_events_table ConditionalOrderEvent_to_sql
  by unfold_locales (simp add: ConditionalOrderInsufficientFundsHandler_map_event_def ConditionalOrderEvent_to_sql_def conditional_order_events_table_def fits_simps u8_fits split: option.split)

interpretation deepbook_pool_config_updated_stored: stored_event "DeepbookPoolConfigUpdatedHandler_map_event lib to_value" deepbook_pool_config_updated_table DeepbookPoolConfigUpdated_to_sql
  by unfold_locales (simp add: DeepbookPoolConfigUpdatedHandler_map_event_def DeepbookPoolConfigUpdated_to_sql_def deepbook_pool_config_updated_table_def fits_simps u8_fits split: option.split)

interpretation deepbook_pool_registered_stored: stored_event "DeepbookPoolRegisteredHandler_map_event lib to_value" deepbook_pool_registered_table DeepbookPoolRegistered_to_sql
  by unfold_locales (simp add: DeepbookPoolRegisteredHandler_map_event_def DeepbookPoolRegistered_to_sql_def deepbook_pool_registered_table_def fits_simps u8_fits split: option.split)

interpretation deepbook_pool_updated_stored: stored_event "DeepbookPoolUpdatedHandler_map_event lib" deepbook_pool_updated_table DeepbookPoolUpdated_to_sql
  by unfold_locales (simp add: DeepbookPoolUpdatedHandler_map_event_def DeepbookPoolUpdated_to_sql_def deepbook_pool_updated_table_def fits_simps u8_fits split: option.split)

interpretation deepbook_pool_updated_registry_stored: stored_event "DeepbookPoolUpdatedRegistryHandler_map_event lib" deepbook_pool_updated_registry_table DeepbookPoolUpdatedRegistry_to_sql
  by unfold_locales (simp add: DeepbookPoolUpdatedRegistryHandler_map_event_def DeepbookPoolUpdatedRegistry_to_sql_def deepbook_pool_updated_registry_table_def fits_simps u8_fits split: option.split)

interpretation deposit_collateral_stored: stored_event "DepositCollateralHandler_map_event lib" collateral_events_table CollateralEvent_to_sql
  by unfold_locales (simp add: DepositCollateralHandler_map_event_def CollateralEvent_to_sql_def collateral_events_table_def fits_simps u8_fits split: option.split)

interpretation interest_params_updated_stored: stored_event "InterestParamsUpdatedHandler_map_event lib to_value" interest_params_updated_table InterestParamsUpdated_to_sql
  by unfold_locales (simp add: InterestParamsUpdatedHandler_map_event_def InterestParamsUpdated_to_sql_def interest_params_updated_table_def fits_simps u8_fits split: option.split)

interpretation liquidation_stored: stored_event "LiquidationHandler_map_event lib" liquidation_table Liquidation_to_sql
  by unfold_locales (simp add: LiquidationHandler_map_event_def Liquidation_to_sql_def liquidation_table_def fits_simps u8_fits split: option.split)

interpretation loan_borrowed_stored: stored_event "LoanBorrowedHandler_map_event lib" loan_borrowed_table LoanBorrowed_to_sql
  by unfold_locales (simp add: LoanBorrowedHandler_map_event_def LoanBorrowed_to_sql_def loan_borrowed_table_def fits_simps u8_fits split: option.split)

interpretation loan_repaid_stored: stored_event "LoanRepaidHandler_map_event lib" loan_repaid_table LoanRepaid_to_sql
  by unfold_locales (simp add: LoanRepaidHandler_map_event_def LoanRepaid_to_sql_def loan_repaid_table_def fits_simps u8_fits split: option.split)

interpretation maintainer_cap_updated_stored: stored_event "MaintainerCapUpdatedHandler_map_event lib" maintainer_cap_updated_table MaintainerCapUpdated_to_sql
  by unfold_locales (simp add: MaintainerCapUpdatedHandler_map_event_def MaintainerCapUpdated_to_sql_def maintainer_cap_updated_table_def fits_simps u8_fits split: option.split)

interpretation maintainer_fees_withdrawn_stored: stored_event "MaintainerFeesWithdrawnHandler_map_event lib" maintainer_fees_withdrawn_table MaintainerFeesWithdrawn_to_sql
  by unfold_locales (simp add: MaintainerFeesWithdrawnHandler_map_event_def MaintainerFeesWithdrawn_to_sql_def maintainer_fees_withdrawn_table_def fits_simps u8_fits split: option.split)

interpretation margin_manager_created_stored: stored_event "MarginManagerCreatedHandler_map_event lib" margin_manager_created_table MarginManagerCreated_to_sql
  by unfold_locales (simp add: MarginManagerCreatedHandler_map_event_def MarginManagerCreated_to_sql_def margin_manager_created_table_def fits_simps u8_fits split: option.split)

interpretation margin_pool_config_updated_stored: stored_event "MarginPoolConfigUpdatedHandler_map_event lib to_value" margin_pool_config_updated_table MarginPoolConfigUpdated_to_sql
  by unfold_locales (simp add: MarginPoolConfigUpdatedHandler_map_event_def MarginPoolConfigUpdated_to_sql_def margin_pool_config_updated_table_def fits_simps u8_fits split: option.split)

interpretation margin_pool_created_stored: stored_event "MarginPoolCreatedHandler_map_event lib to_value" margin_pool_created_table MarginPoolCreated_to_sql
  by unfold_locales (simp add: MarginPoolCreatedHandler_map_event_def MarginPoolCreated_to_sql_def margin_pool_created_table_def fits_simps u8_fits split: option.split)

interpretation pause_cap_updated_stored: stored_event "PauseCapUpdatedHandler_map_event lib" pause_cap_updated_table PauseCapUpdated_to_sql
  by unfold_locales (simp add: PauseCapUpdatedHandler_map_event_def PauseCapUpdated_to_sql_def pause_cap_updated_table_def fits_simps u8_fits split: option.split)

interpretation protocol_fees_increased_stored: stored_event "ProtocolFeesIncreasedHandler_map_event lib" protocol_fees_increased_table ProtocolFeesIncreasedEvent_to_sql
  by unfold_locales (simp add: ProtocolFeesIncreasedHandler_map_event_def ProtocolFeesIncreasedEvent_to_sql_def protocol_fees_increased_table_def fits_simps u8_fits split: option.split)

interpretation protocol_fees_withdrawn_stored: stored_event "ProtocolFeesWithdrawnHandler_map_event lib" protocol_fees_withdrawn_table ProtocolFeesWithdrawn_to_sql
  by unfold_locales (simp add: ProtocolFeesWithdrawnHandler_map_event_def ProtocolFeesWithdrawn_to_sql_def protocol_fees_withdrawn_table_def fits_simps u8_fits split: option.split)

interpretation referral_fees_claimed_stored: stored_event "ReferralFeesClaimedHandler_map_event lib" referral_fees_claimed_table ReferralFeesClaimedEvent_to_sql
  by unfold_locales (simp add: ReferralFeesClaimedHandler_map_event_def ReferralFeesClaimedEvent_to_sql_def referral_fees_claimed_table_def fits_simps u8_fits split: option.split)

interpretation supplier_cap_minted_stored: stored_event "SupplierCapMintedHandler_map_event lib" supplier_cap_minted_table SupplierCapMinted_to_sql
  by unfold_locales (simp add: SupplierCapMintedHandler_map_event_def SupplierCapMinted_to_sql_def supplier_cap_minted_table_def fits_simps u8_fits split: option.split)

interpretation supply_referral_minted_stored: stored_event "SupplyReferralMintedHandler_map_event lib" supply_referral_minted_table SupplyReferralMinted_to_sql
  by unfold_locales (simp add: SupplyReferralMintedHandler_map_event_def SupplyReferralMinted_to_sql_def supply_referral_minted_table_def fits_simps u8_fits split: option.split)

interpretation withdraw_collateral_stored: stored_event "WithdrawCollateralHandler_map_event lib" collateral_events_table CollateralEvent_to_sql
  by unfold_locales (simp add: WithdrawCollateralHandler_map_event_def CollateralEvent_to_sql_def collateral_events_table_def fits_simps u8_fits split: option.split)

section \<open>The handwritten handlers\<close>

lemma process_order_placed_fits: "fits order_updates_table (OrderUpdate_to_sql (process_order_placed lib e md i))"
  by (simp add: process_order_placed_def OrderUpdate_to_sql_def order_updates_table_def fits_simps)

lemma process_order_modified_fits: "fits order_updates_table (OrderUpdate_to_sql (process_order_modified lib e md i))"
  by (simp add: process_order_modified_def OrderUpdate_to_sql_def order_updates_table_def fits_simps)

lemma process_order_canceled_fits: "fits order_updates_table (OrderUpdate_to_sql (process_order_canceled lib e md i))"
  by (simp add: process_order_canceled_def OrderUpdate_to_sql_def order_updates_table_def fits_simps)

lemma process_order_expired_fits: "fits order_updates_table (OrderUpdate_to_sql (process_order_expired lib e md i))"
  by (simp add: process_order_expired_def OrderUpdate_to_sql_def order_updates_table_def fits_simps)

lemma DeepBurnedHandler_row_fits: "fits deep_burned_table (DeepBurned_to_sql (DeepBurnedHandler_row lib cp tx i e))"
  by (simp add: DeepBurnedHandler_row_def DeepBurned_to_sql_def deep_burned_table_def fits_simps)

lemma PoolCreatedHandler_row_fits: "fits pool_created_table (PoolCreated_to_sql (PoolCreatedHandler_row lib cp tx i e))"
  by (simp add: PoolCreatedHandler_row_def PoolCreated_to_sql_def pool_created_table_def fits_simps)

lemma TradeParamsUpdateHandler_row_fits: "fits trade_params_update_table (TradeParamsUpdate_to_sql (TradeParamsUpdateHandler_row lib pool cp tx i e))"
  by (simp add: TradeParamsUpdateHandler_row_def TradeParamsUpdate_to_sql_def trade_params_update_table_def fits_simps)

lemma snapshot_fits: "fits margin_pool_snapshots_table (NewMarginPoolSnapshot_to_sql (snapshot_of ms))"
  by (simp add: snapshot_of_def NewMarginPoolSnapshot_to_sql_def margin_pool_snapshots_table_def fits_simps Let_def)

section \<open>The stored fills\<close>

text \<open>C37: the stored fills are well typed: in every state of the table, also between the commits, every
  fill fits its table, and its two order ids are texts of 128-bit numbers, so that the trades
  endpoint never fails to compute a trade id of an indexed fill.\<close>

theorem stored_fills_typed:
  assumes "map (OrderFillHandler_process lib st env decode) cps = map Inr batches"
    and "pipeline_reach batches s" and "r \<in> set (stored s)"
  shows "fits order_fills_table (OrderFill_to_sql r) \<and>
    (\<exists>i. calculate_trade_id (order_fills_maker_order_id r) (order_fills_taker_order_id r) = Inr i)"
proof -
  note stored = assms(1) [unfolded OrderFillHandler_process_def] assms(2,3)
  obtain e m where "r = OrderFillHandler_map_event lib e m" using pipeline_rows [OF stored] by blast
  then have "\<exists>i. calculate_trade_id (order_fills_maker_order_id r) (order_fills_taker_order_id r) = Inr i"
    by (simp add: OrderFillHandler_map_event_def calculate_trade_id_def parse_u128_show ok_or_def Let_def)
  with order_fill_stored.stored_row_fits [OF stored] show ?thesis ..
qed

theorem stored_fills_typed_witness:
  "list_all (\<lambda>r. fits order_fills_table (OrderFill_to_sql r)) [fill_row_at ''5'' 5, fill_row_at ''3'' 3]"
proof -
  have "fst (commit [fill_row_at ''3'' 3] (fst (commit [fill_row_at ''5'' 5] []))) =
      [fill_row_at ''5'' 5, fill_row_at ''3'' 3]" by code_simp
  then obtain s where s: "pipeline_reach [[fill_row_at ''3'' 3], [fill_row_at ''5'' 5]] s"
    "stored s = [fill_row_at ''5'' 5, fill_row_at ''3'' 3]" using two_batches by metis
  show ?thesis using stored_fills_typed [OF fill_batches s(1)] by (simp add: s(2))
qed

section \<open>Every row\<close>

text \<open>C36: the database accepts every row the indexer writes: the row of every event, as each of the 47
  handlers builds it from any transaction of any checkpoint, names only columns of its table, with a
  value of the type of the column (integers within its width), and leaves out only columns that have
  a default or may be NULL.\<close>

theorem indexed_rows_fit:
  "let m = with_index (from_checkpoint_tx lib cp tx) i
   in fits balance_manager_created_table (BalanceManagerEvent_to_sql (BalanceManagerEventHandler_map_event lib e_balance_manager_event m)) \<and>
      fits balances_table (Balances_to_sql (BalancesHandler_map_event lib e_balances m)) \<and>
      fits book_params_updated_table (BookParamsUpdated_to_sql (BookParamsUpdatedHandler_map_event lib e_book_params_updated m)) \<and>
      fits deepbook_referral_created_table (DeepBookReferralCreatedEvent_to_sql (DeepBookReferralCreatedEventHandler_map_event lib e_deep_book_referral_created_event m)) \<and>
      fits deepbook_referral_set_table (DeepBookReferralSetEvent_to_sql (DeepBookReferralSetEventHandler_map_event lib e_deep_book_referral_set_event m)) \<and>
      fits ewma_updates_table (EwmaUpdate_to_sql (EwmaUpdateHandler_map_event lib e_ewma_update m)) \<and>
      fits flashloans_table (Flashloan_to_sql (FlashLoanHandler_map_event lib e_flash_loan m)) \<and>
      fits order_fills_table (OrderFill_to_sql (OrderFillHandler_map_event lib e_order_fill m)) \<and>
      fits pool_prices_table (PoolPrice_to_sql (PoolPriceHandler_map_event lib e_pool_price m)) \<and>
      fits proposals_table (Proposals_to_sql (ProposalsHandler_map_event lib e_proposals m)) \<and>
      fits rebates_table (Rebates_to_sql (RebatesHandler_map_event lib e_rebates m)) \<and>
      fits referral_claimed_table (ReferralClaimed_to_sql (ReferralClaimedHandler_map_event lib e_referral_claimed m)) \<and>
      fits referral_fee_events_table (ReferralFeeEvent_to_sql (ReferralFeeEventHandler_map_event lib e_referral_fee_event m)) \<and>
      fits stakes_table (Stakes_to_sql (StakesHandler_map_event lib e_stakes m)) \<and>
      fits taker_fee_penalty_applied_table (TakerFeePenaltyApplied_to_sql (TakerFeePenaltyHandler_map_event lib e_taker_fee_penalty m)) \<and>
      fits votes_table (Votes_to_sql (VotesHandler_map_event lib e_votes m)) \<and>
      fits asset_supplied_table (AssetSupplied_to_sql (AssetSuppliedHandler_map_event lib e_asset_supplied m)) \<and>
      fits asset_withdrawn_table (AssetWithdrawn_to_sql (AssetWithdrawnHandler_map_event lib e_asset_withdrawn m)) \<and>
      fits conditional_order_events_table (ConditionalOrderEvent_to_sql (ConditionalOrderAddedHandler_map_event lib e_conditional_order_added m)) \<and>
      fits conditional_order_events_table (ConditionalOrderEvent_to_sql (ConditionalOrderCancelledHandler_map_event lib e_conditional_order_cancelled m)) \<and>
      fits conditional_order_events_table (ConditionalOrderEvent_to_sql (ConditionalOrderExecutedHandler_map_event lib e_conditional_order_executed m)) \<and>
      fits conditional_order_events_table (ConditionalOrderEvent_to_sql (ConditionalOrderInsufficientFundsHandler_map_event lib e_conditional_order_insufficient_funds m)) \<and>
      fits deepbook_pool_config_updated_table (DeepbookPoolConfigUpdated_to_sql (DeepbookPoolConfigUpdatedHandler_map_event lib v_deepbook_pool_config_updated e_deepbook_pool_config_updated m)) \<and>
      fits deepbook_pool_registered_table (DeepbookPoolRegistered_to_sql (DeepbookPoolRegisteredHandler_map_event lib v_deepbook_pool_registered e_deepbook_pool_registered m)) \<and>
      fits deepbook_pool_updated_table (DeepbookPoolUpdated_to_sql (DeepbookPoolUpdatedHandler_map_event lib e_deepbook_pool_updated m)) \<and>
      fits deepbook_pool_updated_registry_table (DeepbookPoolUpdatedRegistry_to_sql (DeepbookPoolUpdatedRegistryHandler_map_event lib e_deepbook_pool_updated_registry m)) \<and>
      fits collateral_events_table (CollateralEvent_to_sql (DepositCollateralHandler_map_event lib e_deposit_collateral m)) \<and>
      fits interest_params_updated_table (InterestParamsUpdated_to_sql (InterestParamsUpdatedHandler_map_event lib v_interest_params_updated e_interest_params_updated m)) \<and>
      fits liquidation_table (Liquidation_to_sql (LiquidationHandler_map_event lib e_liquidation m)) \<and>
      fits loan_borrowed_table (LoanBorrowed_to_sql (LoanBorrowedHandler_map_event lib e_loan_borrowed m)) \<and>
      fits loan_repaid_table (LoanRepaid_to_sql (LoanRepaidHandler_map_event lib e_loan_repaid m)) \<and>
      fits maintainer_cap_updated_table (MaintainerCapUpdated_to_sql (MaintainerCapUpdatedHandler_map_event lib e_maintainer_cap_updated m)) \<and>
      fits maintainer_fees_withdrawn_table (MaintainerFeesWithdrawn_to_sql (MaintainerFeesWithdrawnHandler_map_event lib e_maintainer_fees_withdrawn m)) \<and>
      fits margin_manager_created_table (MarginManagerCreated_to_sql (MarginManagerCreatedHandler_map_event lib e_margin_manager_created m)) \<and>
      fits margin_pool_config_updated_table (MarginPoolConfigUpdated_to_sql (MarginPoolConfigUpdatedHandler_map_event lib v_margin_pool_config_updated e_margin_pool_config_updated m)) \<and>
      fits margin_pool_created_table (MarginPoolCreated_to_sql (MarginPoolCreatedHandler_map_event lib v_margin_pool_created e_margin_pool_created m)) \<and>
      fits pause_cap_updated_table (PauseCapUpdated_to_sql (PauseCapUpdatedHandler_map_event lib e_pause_cap_updated m)) \<and>
      fits protocol_fees_increased_table (ProtocolFeesIncreasedEvent_to_sql (ProtocolFeesIncreasedHandler_map_event lib e_protocol_fees_increased m)) \<and>
      fits protocol_fees_withdrawn_table (ProtocolFeesWithdrawn_to_sql (ProtocolFeesWithdrawnHandler_map_event lib e_protocol_fees_withdrawn m)) \<and>
      fits referral_fees_claimed_table (ReferralFeesClaimedEvent_to_sql (ReferralFeesClaimedHandler_map_event lib e_referral_fees_claimed m)) \<and>
      fits supplier_cap_minted_table (SupplierCapMinted_to_sql (SupplierCapMintedHandler_map_event lib e_supplier_cap_minted m)) \<and>
      fits supply_referral_minted_table (SupplyReferralMinted_to_sql (SupplyReferralMintedHandler_map_event lib e_supply_referral_minted m)) \<and>
      fits collateral_events_table (CollateralEvent_to_sql (WithdrawCollateralHandler_map_event lib e_withdraw_collateral m)) \<and>
      fits order_updates_table (OrderUpdate_to_sql (process_order_placed lib e_process_order_placed (order_metadata lib cp tx) i)) \<and>
      fits order_updates_table (OrderUpdate_to_sql (process_order_modified lib e_process_order_modified (order_metadata lib cp tx) i)) \<and>
      fits order_updates_table (OrderUpdate_to_sql (process_order_canceled lib e_process_order_canceled (order_metadata lib cp tx) i)) \<and>
      fits order_updates_table (OrderUpdate_to_sql (process_order_expired lib e_process_order_expired (order_metadata lib cp tx) i)) \<and>
      fits deep_burned_table (DeepBurned_to_sql (DeepBurnedHandler_row lib cp tx i e_DeepBurnedHandler_row)) \<and>
      fits pool_created_table (PoolCreated_to_sql (PoolCreatedHandler_row lib cp tx i e_PoolCreatedHandler_row)) \<and>
      fits trade_params_update_table (TradeParamsUpdate_to_sql (TradeParamsUpdateHandler_row lib pool cp tx i e_TradeParamsUpdateHandler_row))"
  unfolding Let_def
  by (intro conjI typed_meta_checkpoint balance_manager_event_stored.row_fits balances_stored.row_fits book_params_updated_stored.row_fits
      deep_book_referral_created_event_stored.row_fits deep_book_referral_set_event_stored.row_fits ewma_update_stored.row_fits
      flash_loan_stored.row_fits order_fill_stored.row_fits pool_price_stored.row_fits
      proposals_stored.row_fits rebates_stored.row_fits referral_claimed_stored.row_fits
      referral_fee_event_stored.row_fits stakes_stored.row_fits taker_fee_penalty_stored.row_fits
      votes_stored.row_fits asset_supplied_stored.row_fits asset_withdrawn_stored.row_fits
      conditional_order_added_stored.row_fits conditional_order_cancelled_stored.row_fits conditional_order_executed_stored.row_fits
      conditional_order_insufficient_funds_stored.row_fits deepbook_pool_config_updated_stored.row_fits deepbook_pool_registered_stored.row_fits
      deepbook_pool_updated_stored.row_fits deepbook_pool_updated_registry_stored.row_fits deposit_collateral_stored.row_fits
      interest_params_updated_stored.row_fits liquidation_stored.row_fits loan_borrowed_stored.row_fits
      loan_repaid_stored.row_fits maintainer_cap_updated_stored.row_fits maintainer_fees_withdrawn_stored.row_fits
      margin_manager_created_stored.row_fits margin_pool_config_updated_stored.row_fits margin_pool_created_stored.row_fits
      pause_cap_updated_stored.row_fits protocol_fees_increased_stored.row_fits protocol_fees_withdrawn_stored.row_fits
      referral_fees_claimed_stored.row_fits supplier_cap_minted_stored.row_fits supply_referral_minted_stored.row_fits
      withdraw_collateral_stored.row_fits process_order_placed_fits process_order_modified_fits
      process_order_canceled_fits process_order_expired_fits DeepBurnedHandler_row_fits
      PoolCreatedHandler_row_fits TradeParamsUpdateHandler_row_fits)

end
