(* ===== verification/Spec2Isabelle.thy ===== *)
theory Spec2Isabelle
  imports Indexer_Start Startup Event_Endpoints Intervals Status Net_Deposits Market Accounts Margin_Poller
    Portfolio Summary End_To_End Stored_Rows
begin

text \<open>
  A model of the off-chain services of DeepBook V3: the indexer (\<^verbatim>\<open>crates/indexer\<close>), which turns
  the events of Sui checkpoints into rows of a PostgreSQL database, the row types they share
  (\<^verbatim>\<open>crates/schema\<close>), and the API server (\<^verbatim>\<open>crates/server\<close>), which answers requests from that database and
  from a Sui node. The services meet only in the database: the indexer appends rows keyed by event,
  the server reads them, and the server's administration maintains the tables of pools and assets.

  \<^bold>\<open>Shared theories.\<close>
  \<^item> \<open>Prelude\<close>: machine integers (unsigned as words, signed as \<open>int\<close> with the wrap-around written out;
    the images are built with the release profile, where overflow wraps), results with early exit.
  \<^item> \<open>Rust_Strings\<close>: printing and parsing of integers, \<open>split\<close>, \<open>trim\<close> and prefixes, with round trips.
  \<^item> \<open>Float64\<close>, \<open>Json\<close>: \<open>f64\<close> as correctly rounded rationals with error bounds, and JSON values;
    \<open>Float_Order\<close>: its order, and that rounding respects it.

  \<^bold>\<open>The indexer.\<close>
  \<^item> \<open>Packages\<close> (\<^verbatim>\<open>lib.rs\<close>, \<^verbatim>\<open>sandbox.rs\<close>): package addresses, module classes, the write-once override.
  \<^item> \<open>Event_Types\<close>, \<open>Events\<close> (\<^verbatim>\<open>traits.rs\<close>, \<^verbatim>\<open>models.rs\<close>): which struct tags an event type accepts, and
    the event structs.
  \<^item> \<open>Rows\<close> (\<^verbatim>\<open>schema/src/models.rs\<close>): one record per table; a row of an event table extends \<open>event_row\<close>.
  \<^item> \<open>Checkpoints\<close> (\<^verbatim>\<open>handlers/mod.rs\<close>): the transaction filter, event metadata, and the \<open>process\<close> and
    \<open>commit\<close> that the macro \<^verbatim>\<open>define_handler!\<close> generates, as the functions \<open>process_handler\<close> and
    \<open>commit\<close>. \<open>Indexing\<close> proves that a handler produces exactly one row per matching event, and that
    batching, order and repetition of checkpoints do not change which keys a table holds, and not its
    rows either unless two different rows share a key.
  \<^item> \<open>Handlers_Core\<close>, \<open>Handlers_Margin\<close>, \<open>Handlers_Orders\<close> (\<^verbatim>\<open>handlers/*.rs\<close>): all event handlers.
  \<^item> \<open>Registration\<close>, \<open>Indexer_Start\<close> (\<^verbatim>\<open>main.rs\<close>): the configuration of a mode, the registered pipelines with
    their handlers, which together take every event of the known types exactly once, and the start of
    the indexer.

  \<^bold>\<open>The server.\<close>
  \<^item> \<open>Api_Errors\<close> (\<^verbatim>\<open>error.rs\<close>), \<open>Params\<close> (\<open>ParameterUtil\<close> of \<^verbatim>\<open>server.rs\<close>), \<open>Sql\<close> (the SQL constructs the
    queries use), \<open>Database\<close> (the tables, connections and their failures, the request counters) and
    \<open>Hash_Map\<close>. A reader operation maps \<open>rpc_state\<close> to a result and the next state; the \<open>n\<close>-th connection
    meets the contents and failures that \<open>db_env\<close> gives for \<open>n\<close>, so other processes may change the
    tables between queries.
  \<^item> \<open>Event_Endpoints\<close>: the endpoints that page through events. \<open>Volume\<close>, \<open>Intervals\<close>: volumes of pools and
    balance managers; the loop over intervals is a \<open>partial_function\<close>, \<open>None\<close> meaning that the request
    never returns. \<open>Status\<close>, \<open>Net_Deposits\<close>, \<open>Orders\<close> (orders and trades), \<open>Chain\<close> (endpoints that ask a
    node), \<open>Market\<close> (ticker, summary, assets, candles; \<open>Summary\<close> proves what
    a summary tells), \<open>Accounts\<close> (deposited assets, points, margin
    managers), \<open>Portfolio\<close> (the portfolio of a wallet with its queries): the remaining endpoints with their queries.
  \<^item> \<open>Admin\<close> (\<^verbatim>\<open>writer.rs\<close>, \<^verbatim>\<open>admin/\<close>): statements, authorization and routes of the administration.
    \<open>Routes\<close>: the public routes with their handlers and extractors. \<open>Server\<close> (\<open>make_router\<close> and
    \<^verbatim>\<open>metrics/middleware.rs\<close>): a whole request, from the middleware that counts it to the answer; runs of
    requests, and steps of the server among the other writers of the database.
  \<^item> \<open>Metrics\<close> (\<^verbatim>\<open>metrics/mod.rs\<close>, \<^verbatim>\<open>margin_metrics/metrics.rs\<close>), \<open>Process\<close>, \<open>Startup\<close> (\<^verbatim>\<open>main.rs\<close>, \<open>AppState::new\<close>,
    \<open>run_server\<close>): the registered metrics and the start of the server.
  \<^item> \<open>Margin_Poller\<close> (\<^verbatim>\<open>margin_metrics/\<close>): the polling loop as a step relation.

  \<^bold>\<open>Composition.\<close> \<open>End_To_End\<close> follows an event from the chain through a handler, the concurrent commits and
  the table to the answer of the server; its lemmas hold for every event table.
  \<open>Tables\<close> (\<^verbatim>\<open>schema/src/schema.rs\<close>) are the declared tables; \<open>Stored_Rows\<close> shows that the database
  accepts every row of every handler.

  \<^bold>\<open>Interfaces.\<close> \<open>keyed_store\<close> in \<open>Indexing\<close> is the contract of a keyed table, interpreted by \<open>commit\<close>;
  \<open>event_handler\<close> that of the rows of an event table, interpreted by the mapping of every event handler,
  and its extension \<open>stored_event\<close> in \<open>Stored_Rows\<close> that of a handler with its table;
  \<open>newest_first\<close> in \<open>Sql\<close> that of a page of events, interpreted by the shape of every event query;
  \<open>finite_map\<close> in \<open>Hash_Map\<close> that of a map, interpreted by association lists; \<open>logged_machine\<close> and
  \<open>growing_machine\<close> in \<open>Server\<close> those of a machine whose runs are determined by a log or respect an order,
  interpreted by the server with its counters and with its tables.

  \<^bold>\<open>Parameters.\<close> What the code takes from other crates is an argument: decoding of BCS and JSON, parsing of
  addresses, ids and types (\<open>sui_lib\<close>, \<open>decoders\<close>, \<open>chain_lib\<close>, \<open>body_lib\<close>), the builder of transactions
  (in \<open>chain_lib\<close>), the node (\<open>chain\<close>), the rate limiter, the
  clock (\<open>now\<close>, which is assumed to stand after 1970, so that the code never meets its
  \<open>System time error\<close> or the panic of \<open>end_time\<close>), the failures of the database (\<open>db_env\<close>, \<open>write_env\<close>), the candles that
  procedures of the database compute and its division of \<open>NUMERIC\<close> values, the metrics registry, and what
  the calls of a start meet (\<open>start_env\<close>, \<open>indexer_env\<close>). No fuel is used: loops over lists are recursive functions.

  \<^bold>\<open>Not modelled.\<close> The Move packages (another language), the SQL migrations except the view of net
  deposits and the defaults of two columns, the parsing of command lines, the JSON that serde derives for
  rows, CORS with the methods \<open>OPTIONS\<close> and \<open>HEAD\<close>, logging, and latency timers. Requests are served
  one after another, and requests that run concurrently inside one handler are run one after the
  other.
\<close>

end
